(* ===== verification/Prelude.thy ===== *)
theory Prelude
  imports Main "HOL-Library.Word"
begin

unbundle bit_operations_syntax

text \<open>
  What every component shares: the machine integers of the ESP32 build (ILP32, so \<open>int\<close>,
  \<open>long\<close> and pointers have 32 bits), the faults a C program can run into, the sequencing
  of fallible steps, and byte buffers whose every access is checked against the size of the
  object.  A C \<open>int\<close> whose value stays far from its limits is an \<open>int\<close> here; a value
  whose wrap-around the code can reach is a word of its width.
\<close>

section \<open>Integers, faults, sequencing\<close>

type_synonym u8 = "8 word"
type_synonym u16 = "16 word"
type_synonym u32 = "32 word"
type_synonym u64 = "64 word"

named_theorems run_simps \<open>evaluation of fallible steps and checked buffer accesses\<close>

text \<open>
  \<open>ReadOOB\<close> and \<open>WriteOOB\<close> are accesses outside an object, \<open>DivZero\<close> a division by zero
  (all three undefined behaviour in C), \<open>Abort\<close> a failed \<open>assert\<close> or \<open>ESP_ERROR_CHECK\<close>,
  \<open>Diverge\<close> a loop that never ends, where a \<open>partial_function\<close> gives \<open>None\<close>.
\<close>

datatype fault = ReadOOB | WriteOOB | DivZero | Abort | Diverge

definition returning :: "'a option \<Rightarrow> fault + 'a" where
  "returning m = (case m of None \<Rightarrow> Inl Diverge | Some x \<Rightarrow> Inr x)"

lemma returning_simps [simp]: "returning None = Inl Diverge" "returning (Some x) = Inr x"
  by (simp_all add: returning_def)

lemma returning_eq_Inr: "returning m = Inr x \<longleftrightarrow> m = Some x"
  by (cases m) auto

definition bindE :: "'e + 'a \<Rightarrow> ('a \<Rightarrow> 'e + 'b) \<Rightarrow> 'e + 'b" where
  "bindE m f = (case m of Inl e \<Rightarrow> Inl e | Inr x \<Rightarrow> f x)"

lemma bindE_Inl [simp, run_simps]: "bindE (Inl e) f = Inl e"
  by (simp add: bindE_def)

lemma bindE_Inr [simp, run_simps]: "bindE (Inr x) f = f x"
  by (simp add: bindE_def)

lemma bindE_eq_Inr: "bindE m f = Inr y \<longleftrightarrow> (\<exists>x. m = Inr x \<and> f x = Inr y)"
  by (cases m) auto

lemma bindE_assoc: "bindE (bindE m f) g = bindE m (\<lambda>x. bindE (f x) g)"
  by (cases m) auto

lemma bindE_cong [fundef_cong]:
  "m = m' \<Longrightarrow> (\<And>x. m' = Inr x \<Longrightarrow> f x = f' x) \<Longrightarrow> bindE m f = bindE m' f'"
  by (cases m') auto

lemma bindE_InrE:
  assumes "bindE m f = Inr y"
  obtains x where "m = Inr x" "f x = Inr y"
  using assms by (cases m) auto

text \<open>C's division and remainder on \<open>int\<close> round towards zero.\<close>

definition cdiv :: "int \<Rightarrow> int \<Rightarrow> int" where
  "cdiv a b = sgn a * sgn b * (\<bar>a\<bar> div \<bar>b\<bar>)"

definition cmod :: "int \<Rightarrow> int \<Rightarrow> int" where
  "cmod a b = a - b * cdiv a b"

lemma cdiv_nonneg [simp]: "0 \<le> a \<Longrightarrow> 0 < b \<Longrightarrow> cdiv a b = a div b"
  by (cases "a = 0") (simp_all add: cdiv_def)

lemma cmod_nonneg [simp]: "0 \<le> a \<Longrightarrow> 0 < b \<Longrightarrow> cmod a b = a mod b"
  by (simp add: cmod_def minus_mult_div_eq_mod)

text \<open>A byte as the value C promotes it to, and the conversion of an \<open>int\<close> to a byte.\<close>

abbreviation i_of :: "u8 \<Rightarrow> int" where
  "i_of b \<equiv> uint b"

abbreviation b_of :: "int \<Rightarrow> u8" where
  "b_of i \<equiv> word_of_int i"

lemma of_nat_byte: "c < 256 \<Longrightarrow> unat (of_nat c :: u8) = c" "c < 256 \<Longrightarrow> uint (of_nat c :: u8) = int c"
  by (simp_all add: unat_of_nat uint_nat)

section \<open>Checked byte buffers\<close>

definition rd :: "u8 list \<Rightarrow> int \<Rightarrow> fault + u8" where
  "rd b i = (if 0 \<le> i \<and> i < int (length b) then Inr (b ! nat i) else Inl ReadOOB)"

definition wr :: "u8 list \<Rightarrow> int \<Rightarrow> u8 \<Rightarrow> fault + u8 list" where
  "wr b i v = (if 0 \<le> i \<and> i < int (length b) then Inr (b[nat i := v]) else Inl WriteOOB)"

text \<open>\<open>rdn b off n\<close> reads \<open>n\<close> bytes at \<open>off\<close>; a negative \<open>n\<close> is the huge \<open>size_t\<close> it converts to.\<close>

definition rdn :: "u8 list \<Rightarrow> int \<Rightarrow> int \<Rightarrow> fault + u8 list" where
  "rdn b off n =
     (if 0 \<le> off \<and> 0 \<le> n \<and> off + n \<le> int (length b)
      then Inr (take (nat n) (drop (nat off) b)) else Inl ReadOOB)"

definition wrn :: "u8 list \<Rightarrow> int \<Rightarrow> u8 list \<Rightarrow> fault + u8 list" where
  "wrn b off bs =
     (if 0 \<le> off \<and> off + int (length bs) \<le> int (length b)
      then Inr (take (nat off) b @ bs @ drop (nat off + length bs) b) else Inl WriteOOB)"

definition memcpy :: "u8 list \<Rightarrow> int \<Rightarrow> u8 list \<Rightarrow> int \<Rightarrow> int \<Rightarrow> fault + u8 list" where
  "memcpy dst doff src soff n = bindE (rdn src soff n) (\<lambda>bs. wrn dst doff bs)"

lemma rd_in [run_simps]: "0 \<le> i \<Longrightarrow> i < int (length b) \<Longrightarrow> rd b i = Inr (b ! nat i)"
  by (simp add: rd_def)

lemma wr_in [run_simps]: "0 \<le> i \<Longrightarrow> i < int (length b) \<Longrightarrow> wr b i v = Inr (b[nat i := v])"
  by (simp add: wr_def)

lemma rdn_in [run_simps]:
  "0 \<le> off \<Longrightarrow> 0 \<le> n \<Longrightarrow> off + n \<le> int (length b) \<Longrightarrow>
   rdn b off n = Inr (take (nat n) (drop (nat off) b))"
  by (simp add: rdn_def)

lemma wrn_in [run_simps]:
  "0 \<le> off \<Longrightarrow> off + int (length bs) \<le> int (length b) \<Longrightarrow>
   wrn b off bs = Inr (take (nat off) b @ bs @ drop (nat off + length bs) b)"
  by (simp add: wrn_def)

lemma rd_eq_Inr: "rd b i = Inr v \<longleftrightarrow> 0 \<le> i \<and> i < int (length b) \<and> v = b ! nat i"
  by (auto simp: rd_def)

lemma wr_eq_Inr: "wr b i v = Inr b' \<longleftrightarrow> 0 \<le> i \<and> i < int (length b) \<and> b' = b[nat i := v]"
  by (auto simp: wr_def)

lemma rdn_eq_Inr:
  "rdn b off n = Inr bs \<longleftrightarrow>
     0 \<le> off \<and> 0 \<le> n \<and> off + n \<le> int (length b) \<and> bs = take (nat n) (drop (nat off) b)"
  by (auto simp: rdn_def)

lemma wrn_eq_Inr:
  "wrn b off bs = Inr b' \<longleftrightarrow>
     0 \<le> off \<and> off + int (length bs) \<le> int (length b) \<and>
     b' = take (nat off) b @ bs @ drop (nat off + length bs) b"
  by (auto simp: wrn_def)

lemma wr_length: "wr b i v = Inr b' \<Longrightarrow> length b' = length b"
  by (auto simp: wr_eq_Inr)

lemma wrn_length: "wrn b off bs = Inr b' \<Longrightarrow> length b' = length b"
  by (auto simp: wrn_eq_Inr)

lemma rdn_length: "rdn b off n = Inr bs \<Longrightarrow> length bs = nat n"
  by (auto simp: rdn_eq_Inr)

lemma memcpy_length: "memcpy d i src j n = Inr b' \<Longrightarrow> length b' = length d"
  by (auto simp: memcpy_def bindE_eq_Inr dest: wrn_length)

text \<open>
  Filling a buffer from the front: \<open>P\<close> is what has been written, \<open>R\<close> the rest.  The third
  and fourth rule overwrite inside what has been written.
\<close>

lemma wr_append:
  "length P = k \<Longrightarrow> R \<noteq> [] \<Longrightarrow> wr (P @ R) (int k) v = Inr ((P @ [v]) @ drop 1 R)"
  by (cases R) (auto simp: wr_def)

lemma wrn_append:
  "length P = k \<Longrightarrow> length bs \<le> length R \<Longrightarrow>
   wrn (P @ R) (int k) bs = Inr ((P @ bs) @ drop (length bs) R)"
  by (auto simp: wrn_def)

lemma wrn_over:
  "P = A @ B @ C \<Longrightarrow> length A = k \<Longrightarrow> length B = length bs \<Longrightarrow>
   wrn (P @ R) (int k) bs = Inr ((A @ bs @ C) @ R)"
  by (auto simp: wrn_def)

lemma wr_over:
  "P = A @ b # C \<Longrightarrow> length A = k \<Longrightarrow> wr (P @ R) (int k) v = Inr ((A @ v # C) @ R)"
  by (auto simp: wr_def)

lemma rdn_prefix: "length P = k \<Longrightarrow> rdn (P @ R) 0 (int k) = Inr P"
  by (auto simp: rdn_def)

lemma rdn_all: "length b = k \<Longrightarrow> rdn b 0 (int k) = Inr b"
  by (auto simp: rdn_def)

lemma memcpy_all: "length src = k \<Longrightarrow> memcpy d i src 0 (int k) = wrn d i src"
  by (simp add: memcpy_def rdn_all)

lemmas access_eq_Inr = bindE_eq_Inr rd_eq_Inr wr_eq_Inr rdn_eq_Inr wrn_eq_Inr

section \<open>Partial correctness of fallible steps\<close>

definition wp :: "fault + 'a \<Rightarrow> ('a \<Rightarrow> bool) \<Rightarrow> bool" where
  "wp m P \<longleftrightarrow> (\<forall>x. m = Inr x \<longrightarrow> P x)"

lemma wpI: "(\<And>x. m = Inr x \<Longrightarrow> P x) \<Longrightarrow> wp m P"
  by (simp add: wp_def)

lemma wpD: "wp m P \<Longrightarrow> m = Inr x \<Longrightarrow> P x"
  by (simp add: wp_def)

lemma wp_mono: "wp m P \<Longrightarrow> (\<And>x. P x \<Longrightarrow> Q x) \<Longrightarrow> wp m Q"
  by (simp add: wp_def)

lemma wp_Inr: "P x \<Longrightarrow> wp (Inr x) P"
  by (simp add: wp_def)

lemma wp_Inl: "wp (Inl e) P"
  by (simp add: wp_def)

lemma wp_bind: "(\<And>x. m = Inr x \<Longrightarrow> wp (f x) P) \<Longrightarrow> wp (bindE m f) P"
  by (cases m) (auto simp: wp_def)

lemma wp_seq: "wp m Q \<Longrightarrow> (\<And>x. Q x \<Longrightarrow> wp (f x) R) \<Longrightarrow> wp (bindE m f) R"
  by (cases m) (auto simp: wp_def)

lemma wp_if: "(c \<Longrightarrow> wp a P) \<Longrightarrow> (\<not> c \<Longrightarrow> wp b P) \<Longrightarrow> wp (if c then a else b) P"
  by simp

lemma bindE_if: "bindE (if c then a else b) k = (if c then bindE a k else bindE b k)"
  by simp

lemmas wp_intros = wp_bind wp_if wp_Inr wp_Inl

section \<open>Machines\<close>

text \<open>
  A component that reacts to events runs a list of them in order and stops at the first fault.
  What a component promises of its step: an invariant that every completed step keeps, and,
  for the events of a benign environment, that the step completes at all.
\<close>

primrec run_all :: "('e \<Rightarrow> 's \<Rightarrow> fault + 's) \<Rightarrow> 'e list \<Rightarrow> 's \<Rightarrow> fault + 's" where
  "run_all step [] s = Inr s"
| "run_all step (e # es) s = bindE (step e s) (\<lambda>s. run_all step es s)"

lemma run_all_append:
  "run_all step (es @ es') s = bindE (run_all step es s) (run_all step es')"
  by (induction es arbitrary: s) (auto simp: bindE_assoc)

locale invariant_machine =
  fixes step :: "'e \<Rightarrow> 's \<Rightarrow> fault + 's" and inv :: "'s \<Rightarrow> bool"
  assumes step_inv: "inv s \<Longrightarrow> step e s = Inr s' \<Longrightarrow> inv s'"
begin

lemma run_inv: "inv s \<Longrightarrow> run_all step es s = Inr s' \<Longrightarrow> inv s'"
  by (induction es arbitrary: s) (auto simp: bindE_eq_Inr dest: step_inv)

end

locale safe_machine = invariant_machine +
  fixes safe :: "'s \<Rightarrow> bool" and ok :: "'e \<Rightarrow> bool"
  assumes safe_inv: "safe s \<Longrightarrow> inv s"
    and step_safe: "safe s \<Longrightarrow> ok e \<Longrightarrow> \<exists>s'. step e s = Inr s' \<and> safe s'"
begin

lemma run_safe:
  "safe s \<Longrightarrow> \<forall>e \<in> set es. ok e \<Longrightarrow> \<exists>s'. run_all step es s = Inr s' \<and> safe s' \<and> inv s'"
proof (induction es arbitrary: s)
  case Nil
  then show ?case by (simp add: safe_inv)
next
  case (Cons e es)
  then obtain s1 where "step e s = Inr s1" "safe s1" using step_safe by fastforce
  then show ?case using Cons by auto
qed

end

end
