(* ===== verification/Platform.thy ===== *)
theory Platform
  imports Prelude
begin

text \<open>
  The platform the firmware runs on: the ESP-IDF calls, FreeRTOS and the chips behind the
  buses.  None of it is under \<open>src/\<close>, so it is a parameter: an environment that answers a
  call from the whole history of earlier calls.  A theorem that needs more of the platform
  than "some answer" says so as a hypothesis on the environment.
\<close>

section \<open>Calls\<close>

text \<open>
  One operation of an ESP-IDF I2C command link (\<open>i2c_master_start\<close>, \<open>_write_byte\<close>,
  \<open>_write\<close>, \<open>_read\<close>, \<open>_read_byte\<close>, \<open>_stop\<close>); the flag is the ack argument.
\<close>

datatype i2c_op =
    I2cStart
  | I2cWrite "u8 list" bool
  | I2cRead int int
  | I2cStop

text \<open>
  The calls of the source.  Those that carry data have their own constructor; the others are
  \<open>Api\<close> with the name of the C function and its integer arguments, or \<open>ApiS\<close> where the
  arguments are strings.
\<close>

datatype call =
    GetTime
  | WifiTx "u8 list"
  | TimerOnce int
  | Spi "u8 list"
  | GpioLevel int int
  | TaskDelay int
  | Notify int int int "u8 list"
  | SppWrite int "u8 list"
  | VhciSend "u8 list"
  | I2cBegin int "i2c_op list"
  | Nvs string string
  | NvsPut string string "u8 list"
  | Print string
  | Api string "int list"
  | ApiS string "string list"

section \<open>The environment\<close>

text \<open>
  \<open>rc E h c\<close> is the integer that call \<open>c\<close> returns (or stores) after history \<open>h\<close>,
  \<open>rb E h c\<close> the bytes it delivers, and \<open>mem E h p\<close> the bytes that memory the firmware
  does not own holds at address \<open>p\<close>.
\<close>

record env =
  rc :: "call list \<Rightarrow> call \<Rightarrow> int"
  rb :: "call list \<Rightarrow> call \<Rightarrow> u8 list"
  mem :: "call list \<Rightarrow> nat \<Rightarrow> u8 list"

definition ESP_OK :: int where "ESP_OK = 0"
definition ESP_FAIL :: int where "ESP_FAIL = -1"
definition ESP_ERR_NO_MEM :: int where "ESP_ERR_NO_MEM = 0x101"
definition ESP_ERR_NOT_FOUND :: int where "ESP_ERR_NOT_FOUND = 0x105"
definition ESP_ERR_TIMEOUT :: int where "ESP_ERR_TIMEOUT = 0x107"
definition ESP_ERR_NVS_TYPE_MISMATCH :: int where "ESP_ERR_NVS_TYPE_MISMATCH = 0x1103"
definition ESP_ERR_NVS_VALUE_TOO_LONG :: int where "ESP_ERR_NVS_VALUE_TOO_LONG = 0x110e"
definition ESP_ERR_NVS_NOT_FOUND :: int where "ESP_ERR_NVS_NOT_FOUND = 0x1102"

lemmas esp_err_defs = ESP_OK_def ESP_FAIL_def ESP_ERR_NO_MEM_def ESP_ERR_NOT_FOUND_def
  ESP_ERR_TIMEOUT_def ESP_ERR_NVS_TYPE_MISMATCH_def ESP_ERR_NVS_VALUE_TOO_LONG_def
  ESP_ERR_NVS_NOT_FOUND_def

end
