(* ===== verification/Globals.thy ===== *)
theory Globals
  imports Platform
begin

text \<open>
  The data types of the headers and the file-scope variables of each translation unit, one
  record per unit, and the device state \<open>dev\<close> that holds them all beside the history of the
  calls made so far.  \<open>unsigned long\<close> and \<open>long\<close> have 32 bits on the ESP32.
\<close>

section \<open>esp-nan-aware/nan.h and nan.c\<close>

text \<open>\<open>data\<close> is a pointer: an address whose bytes the environment's \<open>mem\<close> gives.\<close>

record NanMessage =
  msg_data :: nat
  msg_len :: int

definition OUT_QUEUE_SIZE :: nat where "OUT_QUEUE_SIZE = 5"
definition NAN_MAX_PEERS :: nat where "NAN_MAX_PEERS = 10"

record NanPeer =
  peer_mac :: "u8 list"
  peer_nanNet :: "u8 list"
  peer_instanceId :: u8
  discoveryBeacons :: int
  syncBeacons :: int
  inMessages :: int
  outMessages :: int
  lastSeen :: u32
  lastFoundReceived :: u32
  outQueue :: "NanMessage list"
  outQueueLen :: int

datatype TimerAct = DISC_BEACON | SYNC_BEACON | SEND_WINDOW

record nan_driver =
  mymac :: "u8 list"
  peers :: "NanPeer list"
  nanNet :: "u8 list"
  nanPackets :: int
  nan_running :: bool
  nan_dump :: bool
  pubReceived :: int
  subReceived :: int
  nanSBeaconClose :: int
  nanSBeaconMedium :: int
  nanSBeacon :: int
  masterPref :: u8
  masterRandom :: u8
  anchorMasterRank :: "u8 list"
  hopsToMaster :: u8
  lastMasterTime :: "u8 list"
  timeDiffToMaster :: int
  lastSBeacon :: u32
  lastSentSBeacon :: u32
  currentMaster :: u32
  nanDBeacon :: int
  lastDBeacon :: u32
  lastSentDBeacon :: u32
  nanMessagesIn :: int
  nanPacketsOthers :: int
  nan_interfaceId :: int
  nextAction :: TimerAct
  capPackets :: int
  capturedSinceLast :: int

text \<open>The statics of \<open>nan.c\<close>; \<open>nan_netif\<close> is \<open>sta_netif != NULL\<close>.\<close>

record nan_vars =
  aware :: nan_driver
  sendBuffer :: "u8 list"
  sendBufferOff :: int
  resBuf :: "u8 list"
  nan_init :: bool
  nan_netif :: bool
  startupTime :: u32
  lastStats :: u32
  maxPostSync :: u32

section \<open>l2lora/lora.h, lora.c and lora_drv.c\<close>

text \<open>\<open>pkt_buf\<close> is \<open>buf != NULL\<close>: the only buffer it ever points to is \<open>lorabuf\<close>.\<close>

record lora_packet =
  pkt_buf :: bool
  pkt_len :: int
  pkt_rssi :: int
  pkt_snr :: int
  pkt_band :: int
  pkt_sf :: int
  pkt_cr :: int
  pkt_cnt :: int

record lora_driver =
  pinInterupt :: int
  pinMiso :: int
  pinMosi :: int
  pinClk :: int
  pinCs :: int
  pinRst :: int
  dataReceive :: bool
  lora_band :: int
  lora_sf :: int
  lora_cr :: int
  beaconReceive :: bool
  beaconBand :: int
  loraBeacons :: int
  loraReceived :: int
  lora_onMessage :: bool
  lora_interfaceId :: int
  lora_last :: lora_packet

text \<open>
  \<open>lora_onMessage\<close> is \<open>onMessage != NULL\<close>; the only function of that type under \<open>src/\<close>
  is \<open>onMessage\<close> of \<open>dmesh.c\<close>.
\<close>

record lora_vars =
  lora :: lora_driver
  lora_implicit :: bool
  lora_frequency :: int
  lorabuf :: "u8 list"
  lastLoraLen :: int
  lora_repeat_send :: int

section \<open>l2-ble-bt: ble_spp_server.c, bt_spp_server.c, ble_hci.c\<close>

record ble_vars =
  ble_onMessage :: bool
  ble_interfaceId :: int
  spp_mtu_size :: u16
  spp_conn_id :: u16
  spp_gatts_if :: u8
  enable_data_ntf :: bool
  is_connected :: bool
  spp_remote_bda :: "u8 list"
  spp_handle_table :: "u16 list"

record bt_vars =
  spp_handle :: u32
  cspp_handle :: u32

text \<open>
  \<open>adv_tasks\<close> holds the local \<open>cmd_cnt\<close> of every instance of \<open>bleAdvtTask\<close> that exists, \<open>None\<close> for
  one that has not run yet.
\<close>

record hci_vars =
  hci_cmd_buf :: "u8 list"
  hciRun :: bool
  hciInit :: bool
  adv_tasks :: "int option list"

section \<open>i2c/i2ctools.c, main/ui.c, main/console.c, main/wifi_sta_ap.c, main/main.c\<close>

record i2c_vars =
  i2c_gpio_sda :: int
  i2c_gpio_scl :: int
  i2c_frequency :: u32
  i2c_port :: int

record ui_vars =
  ui_line :: int
  oled_rst :: int

text \<open>\<open>erange\<close> is \<open>errno == ERANGE\<close>, which the conversions of the C library set and never clear.\<close>

record console_vars =
  lock_held :: bool
  current_namespace :: string
  erange :: bool

text \<open>\<open>wifi_group\<close>, \<open>ap_netif\<close> and \<open>sta_netif\<close> are \<open>!= NULL\<close>.\<close>

record wifi_vars =
  wifi_group :: bool
  wifi_initialized :: bool
  ap_netif :: bool
  sta_netif :: bool

record main_vars =
  firstBoot :: u32
  resetTime :: u32

section \<open>The device\<close>

record dev =
  hist :: "call list"
  nan :: nan_vars
  lo :: lora_vars
  ble :: ble_vars
  bt :: bt_vars
  hci :: hci_vars
  i2c :: i2c_vars
  ui :: ui_vars
  con :: console_vars
  wifi :: wifi_vars
  main :: main_vars

text \<open>
  The state at reset: what the initialisers of the source give, zero where there is none.
\<close>

definition boot_peer :: NanPeer where
  "boot_peer = \<lparr>peer_mac = replicate 6 0, peer_nanNet = replicate 2 0, peer_instanceId = 0,
     discoveryBeacons = 0, syncBeacons = 0, inMessages = 0, outMessages = 0, lastSeen = 0,
     lastFoundReceived = 0,
     outQueue = replicate OUT_QUEUE_SIZE \<lparr>msg_data = 0, msg_len = 0\<rparr>, outQueueLen = 0\<rparr>"

definition boot_aware :: nan_driver where
  "boot_aware = \<lparr>mymac = replicate 6 0, peers = replicate NAN_MAX_PEERS boot_peer,
     nanNet = replicate 2 0, nanPackets = 0, nan_running = False, nan_dump = False,
     pubReceived = 0, subReceived = 0, nanSBeaconClose = 0, nanSBeaconMedium = 0, nanSBeacon = 0,
     masterPref = 0, masterRandom = 0, anchorMasterRank = replicate 8 0, hopsToMaster = 0,
     lastMasterTime = replicate 8 0, timeDiffToMaster = 0, lastSBeacon = 0, lastSentSBeacon = 0,
     currentMaster = 0, nanDBeacon = 0, lastDBeacon = 0, lastSentDBeacon = 0, nanMessagesIn = 0,
     nanPacketsOthers = 0, nan_interfaceId = 0, nextAction = DISC_BEACON, capPackets = 0,
     capturedSinceLast = 0\<rparr>"

definition boot_lora :: lora_driver where
  "boot_lora = \<lparr>pinInterupt = 26, pinMiso = 19, pinMosi = 27, pinClk = 5, pinCs = 18, pinRst = 14,
     dataReceive = False, lora_band = 0, lora_sf = 12, lora_cr = 5, beaconReceive = False,
     beaconBand = 0, loraBeacons = 0, loraReceived = 0, lora_onMessage = False, lora_interfaceId = 0,
     lora_last = \<lparr>pkt_buf = False, pkt_len = 0, pkt_rssi = 0, pkt_snr = 0, pkt_band = 0, pkt_sf = 0,
       pkt_cr = 0, pkt_cnt = 0\<rparr>\<rparr>"

definition boot :: dev where
  "boot = \<lparr>hist = [],
     nan = \<lparr>aware = boot_aware, sendBuffer = replicate 512 0, sendBufferOff = 0,
       resBuf = replicate 64 0, nan_init = False, nan_netif = False, startupTime = 0, lastStats = 0,
       maxPostSync = 0\<rparr>,
     lo = \<lparr>lora = boot_lora, lora_implicit = False, lora_frequency = 0, lorabuf = replicate 100 0,
       lastLoraLen = 0, lora_repeat_send = 0\<rparr>,
     ble = \<lparr>ble_onMessage = False, ble_interfaceId = 0, spp_mtu_size = 23, spp_conn_id = 0xffff,
       spp_gatts_if = 0xff, enable_data_ntf = False, is_connected = False,
       spp_remote_bda = replicate 6 0, spp_handle_table = replicate 6 0\<rparr>,
     bt = \<lparr>spp_handle = 0, cspp_handle = 0\<rparr>,
     hci = \<lparr>hci_cmd_buf = replicate 128 0, hciRun = False, hciInit = False, adv_tasks = []\<rparr>,
     i2c = \<lparr>i2c_gpio_sda = 18, i2c_gpio_scl = 19, i2c_frequency = 100000, i2c_port = 0\<rparr>,
     ui = \<lparr>ui_line = 0, oled_rst = -1\<rparr>,
     con = \<lparr>lock_held = False, current_namespace = ''storage'', erange = False\<rparr>,
     wifi = \<lparr>wifi_group = False, wifi_initialized = False, ap_netif = False, sta_netif = False\<rparr>,
     main = \<lparr>firstBoot = 0, resetTime = 0\<rparr>\<rparr>"

text \<open>
  Making a call: \<open>emit\<close> records it, \<open>ret\<close> is what it returns, \<open>check\<close> is
  \<open>ESP_ERROR_CHECK\<close>, which aborts on anything but \<open>ESP_OK\<close>.
\<close>

definition emit :: "call \<Rightarrow> dev \<Rightarrow> dev" where
  "emit c s = s\<lparr>hist := hist s @ [c]\<rparr>"

definition ret :: "env \<Rightarrow> call \<Rightarrow> dev \<Rightarrow> int" where
  "ret E c s = rc E (hist s) c"

definition got :: "env \<Rightarrow> call \<Rightarrow> dev \<Rightarrow> u8 list" where
  "got E c s = rb E (hist s) c"

text \<open>A call that fills a buffer of \<open>n\<close> bytes: the bytes it delivers, brought to that length.\<close>

definition fit :: "nat \<Rightarrow> u8 list \<Rightarrow> u8 list" where
  "fit n bs = take n (bs @ replicate n 0)"

lemma length_fit [simp]: "length (fit n bs) = n"
  by (simp add: fit_def)

definition fill :: "env \<Rightarrow> call \<Rightarrow> nat \<Rightarrow> dev \<Rightarrow> u8 list" where
  "fill E c n s = fit n (got E c s)"

lemma length_fill [simp]: "length (fill E c n s) = n"
  by (simp add: fill_def)

text \<open>Calls whose result the code ignores, in order.\<close>

definition emits :: "call list \<Rightarrow> dev \<Rightarrow> dev" where
  "emits cs s = s\<lparr>hist := hist s @ cs\<rparr>"

definition check :: "env \<Rightarrow> call \<Rightarrow> dev \<Rightarrow> fault + dev" where
  "check E c s = (if ret E c s = ESP_OK then Inr (emit c s) else Inl Abort)"

lemma emit_simps [simp]:
  "hist (emit c s) = hist s @ [c]"
  "nan (emit c s) = nan s"
  "lo (emit c s) = lo s"
  "ble (emit c s) = ble s"
  "bt (emit c s) = bt s"
  "hci (emit c s) = hci s"
  "i2c (emit c s) = i2c s"
  "ui (emit c s) = ui s"
  "con (emit c s) = con s"
  "wifi (emit c s) = wifi s"
  "main (emit c s) = main s"
  by (simp_all add: emit_def)

lemma emits_simps [simp]:
  "hist (emits cs s) = hist s @ cs"
  "nan (emits cs s) = nan s"
  "lo (emits cs s) = lo s"
  "ble (emits cs s) = ble s"
  "bt (emits cs s) = bt s"
  "hci (emits cs s) = hci s"
  "i2c (emits cs s) = i2c s"
  "ui (emits cs s) = ui s"
  "con (emits cs s) = con s"
  "wifi (emits cs s) = wifi s"
  "main (emits cs s) = main s"
  by (simp_all add: emits_def)

lemma emits_Nil [simp]: "emits [] s = s"
  by (simp add: emits_def)

lemma check_eq_Inr: "check E c s = Inr s' \<longleftrightarrow> ret E c s = ESP_OK \<and> s' = emit c s"
  by (auto simp: check_def)

text \<open>A 32-bit integer delivered in four bytes, low byte first.\<close>

definition le32 :: "u8 list \<Rightarrow> u32" where
  "le32 b = ucast (b ! 0) + push_bit 8 (ucast (b ! 1)) + push_bit 16 (ucast (b ! 2)) +
     push_bit 24 (ucast (b ! 3))"

text \<open>Reading an integer from the settings: the variable keeps its value \<open>d\<close> where there is none.\<close>

definition nvs_get_i32 :: "env \<Rightarrow> string \<Rightarrow> int \<Rightarrow> dev \<Rightarrow> int \<times> int \<times> dev" where
  "nvs_get_i32 E key d s =
    (let c = Nvs ''nvs_get_i32'' key; err = ret E c s in
     (err, if err = ESP_OK then sint (le32 (fill E c 4 s)) else d, emit c s))"

text \<open>Calls are only ever added to the history.\<close>

definition grows :: "dev \<Rightarrow> dev \<Rightarrow> bool" where
  "grows s s' \<longleftrightarrow> (\<exists>cs. hist s' = hist s @ cs)"

named_theorems grows_intros \<open>operations that only add to the history\<close>

lemma grows_refl [simp, grows_intros]: "grows s s"
  by (simp add: grows_def)

lemma grows_trans: "grows s t \<Longrightarrow> grows t u \<Longrightarrow> grows s u"
  by (auto simp: grows_def)

lemma grows_emit [grows_intros]: "grows s t \<Longrightarrow> grows s (emit c t)"
  by (auto simp: grows_def)

lemma grows_emits [grows_intros]: "grows s t \<Longrightarrow> grows s (emits cs t)"
  by (auto simp: grows_def)

lemma grows_check: "check E c t = Inr t' \<Longrightarrow> grows s t \<Longrightarrow> grows s t'"
  by (auto simp: grows_def check_eq_Inr)

lemma grows_in: "grows s t \<Longrightarrow> c \<in> set (hist s) \<Longrightarrow> c \<in> set (hist t)"
  by (auto simp: grows_def)

text \<open>An environment in which every call succeeds and no memory is readable, for examples.\<close>

definition quiet :: env where
  "quiet = \<lparr>rc = \<lambda>h c. 0, rb = \<lambda>h c. [], mem = \<lambda>h p. []\<rparr>"

end
