(* ===== verification/BleSpp.thy ===== *)
theory BleSpp
  imports Globals
begin

text \<open>
  The BLE serial service \<open>l2-ble-bt/ble_spp_server.c\<close>: sending with fragmentation, the GAP and
  GATT callbacks, start-up and the console command.  The attribute table handed to the stack
  is in \<open>BleGatt\<close>; the log is left out.
\<close>

section \<open>Sending\<close>

definition SPP_IDX_SVC :: nat where "SPP_IDX_SVC = 0"
definition SPP_IDX_SPP_DATA_NTY_VAL :: nat where "SPP_IDX_SPP_DATA_NTY_VAL = 4"
definition SPP_IDX_NB :: nat where "SPP_IDX_NB = 6"

definition upd_ble :: "(ble_vars \<Rightarrow> ble_vars) \<Rightarrow> dev \<Rightarrow> dev" where
  "upd_ble f s = s\<lparr>ble := f (ble s)\<rparr>"

text \<open>\<open>esp_ble_gatts_send_indicate\<close> on the notify characteristic of the current connection.\<close>

definition indicate :: "u8 list \<Rightarrow> dev \<Rightarrow> dev" where
  "indicate v s = emit (Notify (uint (spp_gatts_if (ble s))) (uint (spp_conn_id (ble s)))
     (uint (spp_handle_table (ble s) ! SPP_IDX_SPP_DATA_NTY_VAL)) v) s"

text \<open>
  The fragment loop.  \<open>total_num\<close> and \<open>current_num\<close> are \<open>uint8_t\<close>; \<open>buf\<close> is the allocated
  block of \<open>mtu - 3\<close> bytes.  With \<open>total_num = 255\<close> the condition always holds: the rounds are
  counted by fuel, and 257 are enough, because in the round after 255 \<open>current_num\<close> is 0 and
  the copy starts before the message.
\<close>

primrec ble_loop ::
    "nat \<Rightarrow> int \<Rightarrow> u8 list \<Rightarrow> int \<Rightarrow> u8 \<Rightarrow> u8 \<Rightarrow> u8 list \<Rightarrow> dev \<Rightarrow> fault + dev" where
  "ble_loop 0 mtu data sz total_num current_num buf s = Inl Diverge"
| "ble_loop (Suc fuel) mtu data sz total_num current_num buf s =
    (if current_num \<le> total_num then
       let off = (i_of current_num - 1) * (mtu - 7);
           n = (if current_num < total_num then mtu - 7 else sz - off) in
       bindE (wrn buf 0 [0x23, 0x23, total_num, current_num]) (\<lambda>buf.
       bindE (memcpy buf 4 data off n) (\<lambda>buf.
       bindE (rdn buf 0 (if current_num < total_num then mtu - 3 else n + 4)) (\<lambda>v.
       ble_loop fuel mtu data sz total_num (current_num + 1) buf
         (emit (TaskDelay (20 div 10)) (indicate v s)))))
     else Inr s)"

definition bleSend :: "env \<Rightarrow> int \<Rightarrow> u8 list \<Rightarrow> int \<Rightarrow> dev \<Rightarrow> fault + dev" where
  "bleSend E conId data sz s =
    (let mtu = uint (spp_mtu_size (ble s)) in
     if \<not> is_connected (ble s) then Inr s
     else if sz \<le> mtu - 3 then bindE (rdn data 0 sz) (\<lambda>v. Inr (indicate v s))
     else if mtu - 7 = 0 then Inl DivZero
     else
     let total_num = b_of (if cmod sz (mtu - 7) = 0 then cdiv sz (mtu - 7) else cdiv sz (mtu - 7) + 1);
         c = Api ''malloc'' [mtu - 3] in
     if ret E c s = 0 then Inr (emit c s)
     else bindE (ble_loop 257 mtu data sz total_num 1 (fill E c (nat (mtu - 3)) s) (emit c s))
       (\<lambda>s. Inr (emit (Api ''free'' []) s)))"

section \<open>Callbacks\<close>

definition ESP_SPP_APP_ID :: int where "ESP_SPP_APP_ID = 0x56"
definition SAMPLE_DEVICE_NAME :: string where "SAMPLE_DEVICE_NAME = ''DM-ESP''"
definition SPP_SVC_INST_ID :: int where "SPP_SVC_INST_ID = 0"

definition spp_adv_data :: "int list" where
  "spp_adv_data = [0x02, 0x01, 0x06, 0x03, 0x03, 0xAA, 0xFE, 0x0F, 0x16, 0x45, 0x53, 0x50, 0x5f,
     0x53, 0x50, 0x50, 0x5f, 0x53, 0x45, 0x52, 0x56, 0x45, 0x52]"

text \<open>
  The advertising parameters: the interval from \<open>0x20\<close> to \<open>0x40\<close>, \<open>ADV_TYPE_IND\<close>,
  \<open>BLE_ADDR_TYPE_PUBLIC\<close>, \<open>ADV_CHNL_ALL\<close> and \<open>ADV_FILTER_ALLOW_SCAN_ANY_CON_ANY\<close>.
\<close>

definition spp_adv_params :: "int list" where
  "spp_adv_params = [0x20, 0x40, 0, 0, 7, 0]"

datatype gap_event =
    GapAdvDataRawSetComplete
  | GapAdvStartComplete int
  | GapOther int

fun gap_event_handler :: "gap_event \<Rightarrow> dev \<Rightarrow> dev" where
  "gap_event_handler GapAdvDataRawSetComplete s =
     emit (Api ''esp_ble_gap_start_advertising'' spp_adv_params) s"
| "gap_event_handler (GapAdvStartComplete status) s = s"
| "gap_event_handler (GapOther e) s = s"

text \<open>
  The GATT server events the handler tells apart; \<open>GattsIdle\<close> stands for the events whose
  branch is empty, with the number of the event.
\<close>

datatype gatts_event =
    GattsReg int
  | GattsWrite "u8 list"
  | GattsMtu u16
  | GattsConnect u16 "u8 list"
  | GattsDisconnect
  | GattsCreatAttrTab int int "u16 list"
  | GattsIdle int

text \<open>
  \<open>cb\<close> is the function behind \<open>ble.driver.onMessage\<close>, which the event calls where the pointer
  is set.
\<close>

fun gatts_event_handler ::
    "(u8 list \<Rightarrow> int \<Rightarrow> int \<Rightarrow> dev \<Rightarrow> fault + dev) \<Rightarrow> gatts_event \<Rightarrow> u8 \<Rightarrow> dev \<Rightarrow> fault + dev" where
  "gatts_event_handler cb (GattsReg status) gatts_if s =
     (if status \<noteq> 0 then Inr s
      else Inr (emits [ApiS ''esp_ble_gap_set_device_name'' [SAMPLE_DEVICE_NAME],
        Api ''esp_ble_gap_config_adv_data_raw'' spp_adv_data,
        Api ''esp_ble_gatts_create_attr_tab'' [uint gatts_if, int SPP_IDX_NB, SPP_SVC_INST_ID]] s))"
| "gatts_event_handler cb (GattsWrite v) gatts_if s =
     (if ble_onMessage (ble s) then cb v (int (length v)) (ble_interfaceId (ble s)) s else Inr s)"
| "gatts_event_handler cb (GattsMtu mtu) gatts_if s =
     Inr (upd_ble (\<lambda>v. v\<lparr>spp_mtu_size := mtu\<rparr>) s)"
| "gatts_event_handler cb (GattsConnect conn bda) gatts_if s =
     Inr (upd_ble (\<lambda>v. v\<lparr>spp_conn_id := conn, spp_gatts_if := gatts_if, is_connected := True,
       spp_remote_bda := fit 6 bda\<rparr>) s)"
| "gatts_event_handler cb GattsDisconnect gatts_if s =
     Inr (emit (Api ''esp_ble_gap_start_advertising'' spp_adv_params)
       (upd_ble (\<lambda>v. v\<lparr>is_connected := False, enable_data_ntf := False\<rparr>) s))"
| "gatts_event_handler cb (GattsCreatAttrTab status num_handle handles) gatts_if s =
     (if status \<noteq> 0 then Inr s
      else if num_handle \<noteq> int SPP_IDX_NB then Inr s
      else if length handles < SPP_IDX_NB then Inl ReadOOB
      else
      let s = upd_ble (\<lambda>v. v\<lparr>spp_handle_table := take SPP_IDX_NB handles\<rparr>) s in
      Inr (emit (Api ''esp_ble_gatts_start_service'' [uint (spp_handle_table (ble s) ! SPP_IDX_SVC)]) s))"
| "gatts_event_handler cb (GattsIdle e) gatts_if s = Inr s"

definition esp_gattc_cb :: "int \<Rightarrow> dev \<Rightarrow> dev" where
  "esp_gattc_cb event s = s"

section \<open>Start and console\<close>

definition init_ble_svc :: "env \<Rightarrow> dev \<Rightarrow> dev" where
  "init_ble_svc E s =
    (let s = emits [ApiS ''esp_ble_gap_register_callback'' [''gap_event_handler''],
               ApiS ''esp_ble_gatts_register_callback'' [''gatts_event_handler''],
               Api ''esp_ble_gatts_app_register'' [ESP_SPP_APP_ID],
               Api ''esp_ble_gattc_app_register'' [ESP_SPP_APP_ID]] s;
         c = ApiS ''esp_ble_gattc_register_callback'' [''esp_gattc_cb''];
         status = ret E c s;
         s = emit c s in
     if status \<noteq> ESP_OK then s else emit (Api ''esp_ble_gatt_set_local_mtu'' [200]) s)"

text \<open>
  The four steps that bring the stack up, each of which ends the function if it fails.  Both
  \<open>start_ble_server\<close> and \<open>init_bt\<close> make them; \<open>3\<close> is \<open>ESP_BT_MODE_BTDM\<close>.
\<close>

definition stack_calls :: "call list" where
  "stack_calls = [Api ''esp_bt_controller_init'' [], Api ''esp_bt_controller_enable'' [3],
     Api ''esp_bluedroid_init'' [], Api ''esp_bluedroid_enable'' []]"

primrec try_calls :: "env \<Rightarrow> call list \<Rightarrow> (dev \<Rightarrow> dev) \<Rightarrow> dev \<Rightarrow> dev" where
  "try_calls E [] k s = k s"
| "try_calls E (c # cs) k s =
    (if ret E c s \<noteq> ESP_OK then emit c s else try_calls E cs k (emit c s))"

definition start_ble_server :: "env \<Rightarrow> dev \<Rightarrow> dev" where
  "start_ble_server E s = try_calls E stack_calls (init_ble_svc E) s"

text \<open>The parsed arguments: the number of errors, and whether \<open>start\<close> and \<open>stop\<close> occur.\<close>

record ble_args =
  ble_nerrors :: int
  ble_start :: bool
  ble_stop :: bool

definition ble_cmd :: "env \<Rightarrow> ble_args \<Rightarrow> dev \<Rightarrow> int \<times> dev" where
  "ble_cmd E a s =
    (if ble_nerrors a \<noteq> 0 then (1, s)
     else if ble_start a then (0, start_ble_server E s)
     else if ble_stop a then
       (0, emits [Api ''esp_bluedroid_disable'' [], Api ''esp_bt_controller_disable'' []] s)
     else (0, s))"

definition register_spp_ble :: "env \<Rightarrow> dev \<Rightarrow> fault + dev" where
  "register_spp_ble E s =
    bindE (check E (ApiS ''esp_console_cmd_register'' [''ble'']) s) (\<lambda>s.
    let (err, wmode, s) = nvs_get_i32 E ''wifi'' 0 s;
        (err, mode, s) = nvs_get_i32 E ''sble'' 0 s in
    Inr (if err = ESP_OK then
           if mode = 1 \<and> wmode = 0 then start_ble_server E s else s
         else s))"

end
