(* ===== verification/Parts.thy ===== *)
theory Parts
  imports Globals
begin

text \<open>
  What a step may change.  The parts of the device are the records of the translation units, those of
  the console and the display split into their variables, and two parts of the history: the messages
  handed to the two serial links, BLE notifications and writes on Bluetooth connections, and the power
  lock of the console.  \<open>only P s s'\<close> says that from \<open>s\<close> to \<open>s'\<close> the history has grown and the parts
  outside \<open>P\<close> have not changed.
\<close>

section \<open>Parts of the history\<close>

fun notified :: "call list \<Rightarrow> u8 list list" where
  "notified [] = []"
| "notified (Notify a b h v # cs) = v # notified cs"
| "notified (c # cs) = notified cs"

fun written :: "call list \<Rightarrow> (int \<times> u8 list) list" where
  "written [] = []"
| "written (SppWrite h v # cs) = (h, v) # written cs"
| "written (c # cs) = written cs"

lemma notified_append [simp]: "notified (xs @ ys) = notified xs @ notified ys"
  by (induction xs rule: notified.induct) auto

lemma written_append [simp]: "written (xs @ ys) = written xs @ written ys"
  by (induction xs rule: written.induct) auto

text \<open>
  The power lock of the console: how often it is held.  A release without an acquisition fails and
  changes nothing.
\<close>

fun pm_step :: "call \<Rightarrow> nat \<Rightarrow> nat" where
  "pm_step (ApiS f as) n =
    (if as \<noteq> [''dmsh''] then n
     else if f = ''esp_pm_lock_create'' then 0
     else if f = ''esp_pm_lock_acquire'' then n + 1
     else if f = ''esp_pm_lock_release'' then n - 1
     else n)"
| "pm_step c n = n"

definition pm_count :: "call list \<Rightarrow> nat" where
  "pm_count h = fold pm_step h 0"

lemma pm_count_append: "pm_count (h @ cs) = fold pm_step cs (pm_count h)"
  by (simp add: pm_count_def)

text \<open>Calls that neither hand over a message nor concern that lock.\<close>

fun plain_call :: "call \<Rightarrow> bool" where
  "plain_call (Notify a b h v) = False"
| "plain_call (SppWrite h v) = False"
| "plain_call (ApiS f as) \<longleftrightarrow> as \<noteq> [''dmsh''] \<or>
     f \<noteq> ''esp_pm_lock_create'' \<and> f \<noteq> ''esp_pm_lock_acquire'' \<and> f \<noteq> ''esp_pm_lock_release''"
| "plain_call c = True"

lemma plain_calls_none:
  "list_all plain_call cs \<Longrightarrow> notified cs = []" "list_all plain_call cs \<Longrightarrow> written cs = []"
  "list_all plain_call cs \<Longrightarrow> fold pm_step cs n = n"
proof -
  show "list_all plain_call cs \<Longrightarrow> notified cs = []" by (induction cs) (auto elim!: plain_call.elims)
  show "list_all plain_call cs \<Longrightarrow> written cs = []" by (induction cs) (auto elim!: plain_call.elims)
  have "plain_call c \<Longrightarrow> pm_step c n = n" for c n by (cases c) auto
  then show "list_all plain_call cs \<Longrightarrow> fold pm_step cs n = n" by (induction cs) auto
qed

section \<open>Parts of the device\<close>

datatype part = P_nan | P_lo | P_ble | P_bt | P_hci | P_i2c | P_line | P_rst | P_lock | P_ns | P_err | P_wifi |
  P_main | P_msgs | P_pm

primrec same :: "part \<Rightarrow> dev \<Rightarrow> dev \<Rightarrow> bool" where
  "same P_nan s s' \<longleftrightarrow> nan s' = nan s"
| "same P_lo s s' \<longleftrightarrow> lo s' = lo s"
| "same P_ble s s' \<longleftrightarrow> ble s' = ble s"
| "same P_bt s s' \<longleftrightarrow> bt s' = bt s"
| "same P_hci s s' \<longleftrightarrow> hci s' = hci s"
| "same P_i2c s s' \<longleftrightarrow> i2c s' = i2c s"
| "same P_line s s' \<longleftrightarrow> ui_line (ui s') = ui_line (ui s)"
| "same P_rst s s' \<longleftrightarrow> oled_rst (ui s') = oled_rst (ui s)"
| "same P_lock s s' \<longleftrightarrow> lock_held (con s') = lock_held (con s)"
| "same P_ns s s' \<longleftrightarrow> current_namespace (con s') = current_namespace (con s)"
| "same P_err s s' \<longleftrightarrow> erange (con s') = erange (con s)"
| "same P_wifi s s' \<longleftrightarrow> wifi s' = wifi s"
| "same P_main s s' \<longleftrightarrow> main s' = main s"
| "same P_msgs s s' \<longleftrightarrow> notified (hist s') = notified (hist s) \<and> written (hist s') = written (hist s)"
| "same P_pm s s' \<longleftrightarrow> pm_count (hist s') = pm_count (hist s)"

definition only :: "part set \<Rightarrow> dev \<Rightarrow> dev \<Rightarrow> bool" where
  "only P s s' \<longleftrightarrow> grows s s' \<and> (\<forall>p. p \<in> P \<or> same p s s')"

named_theorems only_intros \<open>what an operation leaves alone\<close>
named_theorems only_elims \<open>what an operation with a result leaves alone\<close>

lemma onlyD: "only P s s' \<Longrightarrow> p \<notin> P \<Longrightarrow> same p s s'"
  by (auto simp: only_def)

lemma only_grows: "only P s s' \<Longrightarrow> grows s s'"
  by (simp add: only_def)

lemma same_refl: "same p s s"
  by (cases p) simp_all

lemma same_trans: "same p s t \<Longrightarrow> same p t u \<Longrightarrow> same p s u"
  by (cases p) simp_all

lemma only_refl [only_intros]: "only P s s"
  by (simp add: only_def same_refl)

lemma only_trans: "only P s t \<Longrightarrow> only P t u \<Longrightarrow> only P s u"
  unfolding only_def by (blast intro: same_trans grows_trans)

lemma only_mono: "only P s t \<Longrightarrow> P \<subseteq> Q \<Longrightarrow> only Q s t"
  unfolding only_def by blast

lemma same_emits: "list_all plain_call cs \<Longrightarrow> same p t (emits cs t)"
  by (cases p) (simp_all add: plain_calls_none pm_count_append)

lemma emit_emits_one: "emit c t = emits [c] t"
  by (simp add: emit_def emits_def)

lemma only_emit [only_intros]:
  "only P s t \<Longrightarrow> plain_call c \<Longrightarrow> only P s (emit c t)"
  "only P s t \<Longrightarrow> list_all plain_call cs \<Longrightarrow> only P s (emits cs t)"
proof -
  show *: "only P s t \<Longrightarrow> list_all plain_call cs \<Longrightarrow> only P s (emits cs t)" for cs
    unfolding only_def by (blast intro: same_emits same_trans grows_intros)
  show "only P s t \<Longrightarrow> plain_call c \<Longrightarrow> only P s (emit c t)"
    using * [of "[c]"] by (simp add: emit_emits_one)
qed

text \<open>A call of any kind concerns the links and the lock at most.\<close>

lemma only_any_emit:
  assumes "only P s t" "P_msgs \<in> P" "P_pm \<in> P \<or> pm_step c (pm_count (hist t)) = pm_count (hist t)"
  shows "only P s (emit c t)"
proof -
  have "p \<in> P \<or> same p t (emit c t)" for p using assms(2,3) by (cases p) (auto simp: pm_count_append)
  then show ?thesis using assms(1) unfolding only_def by (metis same_trans grows_emit)
qed

lemma only_messages:
  "only P s t \<Longrightarrow> P_msgs \<in> P \<Longrightarrow> only P s (emit (Notify a b h v) t)"
  "only P s t \<Longrightarrow> P_msgs \<in> P \<Longrightarrow> only P s (emit (SppWrite h' v) t)"
  by (simp_all add: only_any_emit)

lemma only_lock_emit:
  assumes "only P s t" "P_pm \<in> P" "f = ApiS g as"
  shows "only P s (emit f t)"
proof -
  have "p \<in> P \<or> same p t (emit f t)" for p using assms(2,3) by (cases p) auto
  then show ?thesis using assms(1) unfolding only_def by (metis same_trans grows_emit)
qed

lemma only_check [only_elims]: "check E c t = Inr t' \<Longrightarrow> only P s t \<Longrightarrow> plain_call c \<Longrightarrow> only P s t'"
  by (auto simp: check_eq_Inr only_emit)

lemma only_nvs [only_elims]: "nvs_get_i32 E key d t = (err, v, t') \<Longrightarrow> only P s t \<Longrightarrow> only P s t'"
  by (auto simp: nvs_get_i32_def Let_def intro!: only_intros)

lemma only_upd:
  assumes "only P s t" "p \<in> P" "hist u = hist t"
    "\<And>q. q \<noteq> p \<Longrightarrow> q \<noteq> P_msgs \<Longrightarrow> q \<noteq> P_pm \<Longrightarrow> same q t u"
  shows "only P s u"
proof -
  have "same q t u" if "q \<noteq> p" for q using assms(3,4) that by (cases "q = P_msgs \<or> q = P_pm") auto
  moreover have "grows t u" using assms(3) by (simp add: grows_def)
  ultimately show ?thesis using assms(1,2) unfolding only_def by (metis same_trans grows_trans)
qed

lemma only_set:
  "only P s t \<Longrightarrow> P_nan \<in> P \<Longrightarrow> only P s (t\<lparr>nan := n\<rparr>)"
  "only P s t \<Longrightarrow> P_lo \<in> P \<Longrightarrow> only P s (t\<lparr>lo := l\<rparr>)"
  "only P s t \<Longrightarrow> P_ble \<in> P \<Longrightarrow> only P s (t\<lparr>ble := b\<rparr>)"
  "only P s t \<Longrightarrow> P_bt \<in> P \<Longrightarrow> only P s (t\<lparr>bt := h\<rparr>)"
  "only P s t \<Longrightarrow> P_hci \<in> P \<Longrightarrow> only P s (t\<lparr>hci := k\<rparr>)"
  "only P s t \<Longrightarrow> P_i2c \<in> P \<Longrightarrow> only P s (t\<lparr>i2c := i\<rparr>)"
  "only P s t \<Longrightarrow> P_wifi \<in> P \<Longrightarrow> only P s (t\<lparr>wifi := w\<rparr>)"
  "only P s t \<Longrightarrow> P_main \<in> P \<Longrightarrow> only P s (t\<lparr>main := m\<rparr>)"
  by (erule (1) only_upd, simp, case_tac q, simp_all)+

text \<open>
  The console's variables are three parts, the power lock, the namespace and the error number, those of
  the display two, the line and the reset pin.
\<close>

lemma only_set_con:
  assumes "only P s t" "P_lock \<in> P \<or> lock_held c = lock_held (con t)"
    "P_ns \<in> P \<or> current_namespace c = current_namespace (con t)" "P_err \<in> P \<or> erange c = erange (con t)"
  shows "only P s (t\<lparr>con := c\<rparr>)"
proof -
  have "q \<in> P \<or> same q t (t\<lparr>con := c\<rparr>)" for q using assms(2-4) by (cases q) auto
  moreover have "grows t (t\<lparr>con := c\<rparr>)" by (simp add: grows_def)
  ultimately show ?thesis using assms(1) unfolding only_def by (metis same_trans grows_trans)
qed

lemma only_set_ui:
  assumes "only P s t" "P_line \<in> P \<or> ui_line v = ui_line (ui t)" "P_rst \<in> P \<or> oled_rst v = oled_rst (ui t)"
  shows "only P s (t\<lparr>ui := v\<rparr>)"
proof -
  have "q \<in> P \<or> same q t (t\<lparr>ui := v\<rparr>)" for q using assms(2,3) by (cases q) auto
  moreover have "grows t (t\<lparr>ui := v\<rparr>)" by (simp add: grows_def)
  ultimately show ?thesis using assms(1) unfolding only_def by (metis same_trans grows_trans)
qed

end
