(* ===== verification/BleFrag.thy ===== *)
theory BleFrag
  imports BleSpp Parts
begin

text \<open>
  What \<open>bleSend\<close> promises: a message of up to 254 fragments arrives in pieces that a peer can
  put together again; with more, the 8-bit fragment counter fails.  Then the connection: what
  connecting and disconnecting do to later messages.
\<close>

section \<open>Fragments\<close>

text \<open>Fragment \<open>i\<close> of \<open>n\<close>, counted from 1, with a payload of \<open>k\<close> bytes, and the calls that send it.\<close>

definition frag :: "u8 list \<Rightarrow> nat \<Rightarrow> nat \<Rightarrow> nat \<Rightarrow> u8 list" where
  "frag data k n i = [0x23, 0x23, of_nat n, of_nat i] @ take k (drop ((i - 1) * k) data)"

definition notify :: "ble_vars \<Rightarrow> u8 list \<Rightarrow> call" where
  "notify v = Notify (uint (spp_gatts_if v)) (uint (spp_conn_id v)) (uint (spp_handle_table v ! 4))"

definition frag_calls :: "ble_vars \<Rightarrow> u8 list \<Rightarrow> nat \<Rightarrow> nat \<Rightarrow> nat \<Rightarrow> nat \<Rightarrow> call list" where
  "frag_calls v data k n a b = concat (map (\<lambda>i. [notify v (frag data k n i), TaskDelay 2]) [a..<b])"

lemma indicate_emit: "indicate x s = emit (notify (ble s) x) s"
  by (simp add: indicate_def notify_def SPP_IDX_SPP_DATA_NTY_VAL_def)

lemma emits_emit: "emits cs (emit c s) = emits (c # cs) s"
  by (simp add: emits_def emit_def)

lemma emit_emits: "emit c (emits cs s) = emits (cs @ [c]) s"
  by (simp add: emits_def emit_def)

lemma emit_is_emits: "emit c s = emits [c] s"
  by (simp add: emits_def emit_def)

text \<open>A round before the last one, whose fragment is full.\<close>

lemma ble_round:
  assumes "1 \<le> c" "c < t" "t < 256" "length buf = k + 4" "c * k \<le> length data" "mtu = int k + 7"
  shows "ble_loop (Suc f) mtu data sz (of_nat t) (of_nat c) buf s =
    ble_loop f mtu data sz (of_nat t) (of_nat (Suc c)) (frag data k t c)
      (emits (frag_calls (ble s) data k t c (Suc c)) s)"
proof -
  define p where "p = (c - 1) * k"
  define H where "H = [0x23, 0x23, of_nat t, of_nat c :: u8]"
  let ?F = "frag data k t c"
  have H: "length H = 4" by (simp add: H_def)
  have F: "?F = H @ take k (drop p data)" by (simp add: frag_def H_def p_def)
  have le: "(of_nat c :: u8) \<le> of_nat t" "(of_nat c :: u8) < of_nat t"
    using assms(2,3) by (simp_all add: word_le_nat_alt word_less_nat_alt of_nat_byte)
  have off: "(i_of (of_nat c) - 1) * int k = int p"
    using assms(1-3) by (simp add: of_nat_byte of_nat_diff p_def)
  have k: "p + k \<le> length data"
    using assms(1,5) unfolding p_def by (cases c) (simp_all add: add.commute)
  have w: "wrn buf 0 H = Inr (H @ drop 4 buf)"
    using assms(4) H by (simp add: wrn_def)
  have r: "rdn data (int p) (int k) = Inr (take k (drop p data))"
    using k by (simp add: rdn_def)
  have m: "memcpy (H @ drop 4 buf) 4 data (int p) (int k) = Inr ?F"
    using wrn_append [of H 4 "take k (drop p data)" "drop 4 buf"] k assms(4) H
    by (simp add: memcpy_def r F)
  have l: "length ?F = k + 4" using k H by (simp add: F)
  have v: "rdn ?F 0 (int (k + 4)) = Inr ?F" by (rule rdn_all [OF l])
  have mtu: "mtu - 7 = int k" "mtu - 3 = int (k + 4)" using assms(6) by simp_all
  show ?thesis
    unfolding ble_loop.simps Let_def off H_def [symmetric] if_P [OF le(1)] if_P [OF le(2)] mtu
      w bindE_Inr m v
    by (simp add: indicate_emit emit_emits emits_emit emit_is_emits [of _ s] frag_calls_def add.commute)
qed

lemma ble_rounds:
  assumes "m < t" "t < 256" "length buf = k + 4" "m * k \<le> length data" "mtu = int k + 7"
  shows "\<exists>buf'. length buf' = k + 4 \<and>
    ble_loop (m + f) mtu data sz (of_nat t) 1 buf s =
      ble_loop f mtu data sz (of_nat t) (of_nat (Suc m)) buf'
        (emits (frag_calls (ble s) data k t 1 (Suc m)) s)"
  using assms
proof (induction m arbitrary: f)
  case 0
  then show ?case by (auto simp: frag_calls_def)
next
  case (Suc m)
  have k: "m * k \<le> length data" using Suc.prems(4) by simp
  obtain buf' where b: "length buf' = k + 4" "ble_loop (m + Suc f) mtu data sz (of_nat t) 1 buf s =
      ble_loop (Suc f) mtu data sz (of_nat t) (of_nat (Suc m)) buf'
        (emits (frag_calls (ble s) data k t 1 (Suc m)) s)"
    using Suc.IH [of "Suc f"] Suc.prems k by auto
  have "ble_loop (Suc f) mtu data sz (of_nat t) (of_nat (Suc m)) buf'
        (emits (frag_calls (ble s) data k t 1 (Suc m)) s) =
      ble_loop f mtu data sz (of_nat t) (of_nat (Suc (Suc m))) (frag data k t (Suc m))
        (emits (frag_calls (ble s) data k t 1 (Suc (Suc m))) s)"
    by (subst ble_round) (use Suc.prems b in \<open>simp_all add: frag_calls_def emits_def\<close>)
  moreover have "length (frag data k t (Suc m)) = k + 4"
    using Suc.prems(4) by (simp add: frag_def)
  ultimately show ?case using b(2) by (intro exI [of _ "frag data k t (Suc m)"]) simp
qed

text \<open>The last round: the rest of the message, if it fits.\<close>

lemma ble_last:
  assumes "1 \<le> t" "t < 256" "length buf = k + 4" "mtu = int k + 7"
    "(t - 1) * k \<le> length data"
  shows "ble_loop (Suc f) mtu data (int (length data)) (of_nat t) (of_nat t) buf s =
    (if length data \<le> t * k
     then ble_loop f mtu data (int (length data)) (of_nat t) (of_nat (Suc t))
       (frag data k t t @ drop (length (frag data k t t)) buf)
       (emits (frag_calls (ble s) data k t t (Suc t)) s)
     else Inl WriteOOB)"
proof -
  define p where "p = (t - 1) * k"
  define H where "H = [0x23, 0x23, of_nat t, of_nat t :: u8]"
  let ?r = "drop p data"
  let ?F = "frag data k t t"
  have H: "length H = 4" by (simp add: H_def)
  have p: "p \<le> length data" using assms(5) by (simp add: p_def)
  have off: "(i_of (of_nat t) - 1) * (mtu - 7) = int p"
    using assms(1,2,4) by (simp add: of_nat_byte of_nat_diff p_def)
  have n: "int (length data) - int p = int (length ?r)" using p by simp
  have w: "wrn buf 0 H = Inr (H @ drop 4 buf)"
    using assms(3) H by (simp add: wrn_def)
  have r: "rdn data (int p) (int (length ?r)) = Inr ?r"
    using p by (simp add: rdn_def)
  have tk: "length data \<le> t * k \<longleftrightarrow> length ?r \<le> k"
    using assms(1) p unfolding p_def by (cases t) auto
  have le: "(of_nat t :: u8) \<le> of_nat t" "\<not> (of_nat t :: u8) < of_nat t" by simp_all
  note unfold = ble_loop.simps Let_def off H_def [symmetric] if_P [OF le(1)] if_not_P [OF le(2)] n w bindE_Inr
  show ?thesis
  proof (cases "length ?r \<le> k")
    case True
    then have F: "?F = H @ ?r" by (simp add: frag_def p_def H_def)
    have m: "memcpy (H @ drop 4 buf) 4 data (int p) (int (length ?r)) = Inr (?F @ drop (length ?F) buf)"
      using wrn_append [of H 4 ?r "drop 4 buf"] True assms(3) H
      unfolding memcpy_def r bindE_Inr F by (simp add: add.commute)
    have v: "rdn (?F @ R) 0 (int (length ?r) + 4) = Inr ?F" for R
      using rdn_prefix [of ?F "length ?r + 4" R] F H by (simp add: add.commute)
    show ?thesis
      unfolding unfold m v tk if_P [OF True]
      by (simp add: indicate_emit emit_emits emits_emit emit_is_emits [of _ s] frag_calls_def add.commute)
  next
    case False
    have "wrn (H @ drop 4 buf) 4 ?r = Inl WriteOOB"
      using False assms(3) H by (simp add: wrn_def)
    then show ?thesis
      unfolding unfold memcpy_def r tk if_not_P [OF False] by simp
  qed
qed

text \<open>The number of fragments of a message of \<open>l\<close> bytes.\<close>

definition fragments :: "nat \<Rightarrow> nat \<Rightarrow> nat" where
  "fragments k l = (l + k - 1) div k"

lemma fragments_le: "0 < k \<Longrightarrow> fragments k l \<le> n \<longleftrightarrow> l \<le> n * k"
proof -
  assume k: "0 < k"
  have "fragments k l \<le> n \<longleftrightarrow> fragments k l < Suc n" by auto
  also have "\<dots> \<longleftrightarrow> l + k - 1 < Suc n * k"
    using k by (simp add: fragments_def less_mult_imp_div_less div_less_iff_less_mult)
  also have "\<dots> \<longleftrightarrow> l \<le> n * k" using k by auto
  finally show ?thesis .
qed

lemma fragments_pos: "0 < k \<Longrightarrow> 0 < l \<Longrightarrow> 0 < fragments k l"
  using fragments_le [of k l 0] by auto

lemma fragments_ceil:
  assumes "0 < k" "l \<noteq> 0"
  shows "(if cmod (int l) (int k) = 0 then cdiv (int l) (int k) else cdiv (int l) (int k) + 1) =
    int (fragments k l)"
proof -
  have "fragments k l = (if l mod k = 0 then l div k else l div k + 1)"
  proof (cases "l mod k = 0")
    case True
    then obtain q where q: "l = k * q" by (auto elim: dvdE)
    have "(k * q + k - 1) div k = q"
      using assms(1) by (intro div_nat_eqI) (auto simp: algebra_simps)
    then show ?thesis using True q assms(1) by (simp add: fragments_def)
  next
    case False
    obtain q m where l: "l = k * q + m" "m < k" "0 < m"
      using False assms(1) by (metis mod_less_divisor mult_div_mod_eq neq0_conv)
    have "(k * q + m + k - 1) div k = q + 1"
      using l(2,3) by (intro div_nat_eqI) (auto simp: algebra_simps)
    moreover have "l div k = q" using l by simp
    ultimately have "(l + k - 1) div k = l div k + 1" using l(1) by simp
    then show ?thesis using False by (simp add: fragments_def)
  qed
  then show ?thesis using assms(1) by (auto simp flip: of_nat_div of_nat_mod)
qed

lemma bleSend_fragments:
  assumes "is_connected (ble s)" "unat (spp_mtu_size (ble s)) = k + 7" "0 < k" "k + 4 < length data"
    "ret E (Api ''malloc'' [int (k + 4)]) s \<noteq> 0"
  defines "n \<equiv> fragments k (length data)"
  shows "bleSend E conId data (int (length data)) s =
    (if n mod 256 = 0 then Inr (emits [Api ''malloc'' [int (k + 4)], Api ''free'' []] s)
     else if n > 255 then Inl WriteOOB
     else if n = 255 then Inl ReadOOB
     else Inr (emits (Api ''malloc'' [int (k + 4)] # frag_calls (ble s) data k n 1 (Suc n) @
            [Api ''free'' []]) s))"
proof -
  define t where "t = n mod 256"
  let ?c = "Api ''malloc'' [int (k + 4)]"
  let ?buf = "fill E ?c (k + 4) s"
  have mtu: "uint (spp_mtu_size (ble s)) = int k + 7" using assms(2) by (simp add: uint_nat)
  have t: "t < 256" by (simp add: t_def)
  have tw: "(of_nat n :: u8) = of_nat t" by (simp add: t_def word_unat_eq_iff unat_of_nat)
  have send: "bleSend E conId data (int (length data)) s =
      bindE (ble_loop 257 (int k + 7) data (int (length data)) (of_nat t) 1 ?buf (emit ?c s))
        (\<lambda>s. Inr (emit (Api ''free'' []) s))"
  proof -
    have e: "b_of (if cmod (int (length data)) (int k) = 0 then cdiv (int (length data)) (int k)
        else cdiv (int (length data)) (int k) + 1) = of_nat t"
      using assms(3,4) by (subst fragments_ceil) (auto simp: tw simp flip: n_def)
    have m: "int k + 7 - 7 = int k" "int k + 7 - 3 = int (k + 4)" "nat (int (k + 4)) = k + 4" by simp_all
    have g: "\<not> int (length data) \<le> int (k + 4)" "int k \<noteq> 0" "\<not> \<not> is_connected (ble s)"
      using assms(1,3,4) by auto
    show ?thesis
      unfolding bleSend_def Let_def mtu m e if_not_P [OF g(1)] if_not_P [OF g(2)] if_not_P [OF g(3)]
        if_not_P [OF assms(5)] ..
  qed
  show ?thesis
  proof (cases "t = 0")
    case True
    have f: "(257::nat) = Suc 256" by simp
    have "ble_loop 257 (int k + 7) data (int (length data)) (of_nat t) 1 ?buf (emit ?c s) = Inr (emit ?c s)"
      unfolding f ble_loop.simps using True by simp
    then show ?thesis
      using True by (simp add: send t_def [symmetric] emit_def emits_def)
  next
    case False
    then obtain m where m: "t = Suc m" by (cases t) auto
    have tn: "t \<le> n" by (simp add: t_def)
    then have mk: "m * k < length data"
      using fragments_le [of k "length data" m] assms(3) m by (auto simp: n_def)
    obtain buf' where b: "length buf' = k + 4"
      "ble_loop (m + Suc (Suc (256 - t))) (int k + 7) data (int (length data)) (of_nat t) 1 ?buf (emit ?c s) =
        ble_loop (Suc (Suc (256 - t))) (int k + 7) data (int (length data)) (of_nat t) (of_nat (Suc m)) buf'
        (emits (frag_calls (ble s) data k t 1 (Suc m)) (emit ?c s))"
      using ble_rounds [of m t ?buf k data "int k + 7" "Suc (Suc (256 - t))" "int (length data)" "emit ?c s"] t m mk
      by auto
    have f: "m + Suc (Suc (256 - t)) = 257" using m t by simp
    have full: "length data \<le> t * k \<longleftrightarrow> n = t"
      using fragments_le [of k "length data" t] tn assms(3) by (auto simp: n_def)
    have last: "ble_loop 257 (int k + 7) data (int (length data)) (of_nat t) 1 ?buf (emit ?c s) =
      (if n = t then ble_loop (Suc (256 - t)) (int k + 7) data (int (length data)) (of_nat t) (of_nat (Suc t))
          (frag data k t t @ drop (length (frag data k t t)) buf')
          (emits (?c # frag_calls (ble s) data k t 1 (Suc t)) s) else Inl WriteOOB)"
      using b mk m t ble_last [of t buf' k "int k + 7" data "Suc (256 - t)"] full
      by (simp add: f frag_calls_def emits_def emit_def)
    have stop: "ble_loop (Suc g) (int k + 7) data z (of_nat t) (of_nat (Suc t)) B s1 = Inr s1" if "t < 255" for g z B s1
    proof -
      have "\<not> (of_nat (Suc t) :: u8) \<le> of_nat t" using that by (simp add: word_le_nat_alt unat_of_nat del: of_nat_Suc)
      then show ?thesis by simp
    qed
    have wrap: "ble_loop (Suc g) (int k + 7) data z (of_nat t) (of_nat (Suc t)) B s1 = Inl ReadOOB"
      if "t = 255" "length B = k + 4" for g z B s1
      using that assms(3) by (simp add: wrn_def memcpy_def rdn_def Let_def)
    have "length (frag data k t t @ drop (length (frag data k t t)) buf') = k + 4" using b(1) by (simp add: frag_def)
    note len = this
    have r: "bleSend E conId data (int (length data)) s =
      (if n = t then if t = 255 then Inl ReadOOB
         else Inr (emits (?c # frag_calls (ble s) data k t 1 (Suc t) @ [Api ''free'' []]) s)
       else Inl WriteOOB)"
    proof (cases "n = t")
      case nt: True
      show ?thesis
      proof (cases "t = 255")
        case True
        show ?thesis unfolding send last if_P [OF nt] wrap [OF True len] using nt True by simp
      next
        case False
        then have "t < 255" using t by simp
        show ?thesis unfolding send last if_P [OF nt] stop [OF \<open>t < 255\<close>] using nt False by (simp add: emit_emits)
      qed
    next
      case nt: False
      show ?thesis unfolding send last if_not_P [OF nt] by simp
    qed
    have "n mod 256 \<noteq> 0" "n = t \<longleftrightarrow> n \<le> 255" using False by (auto simp: t_def)
    then show ?thesis unfolding r by auto
  qed
qed

section \<open>Messages\<close>

text \<open>A connection on link 1 with the default MTU, and an environment whose \<open>malloc\<close> succeeds.\<close>

definition linked0 :: dev where
  "linked0 = upd_ble (\<lambda>v. v\<lparr>is_connected := True, spp_conn_id := 1\<rparr>) boot"

definition heap_env :: env where
  "heap_env = quiet\<lparr>rc := \<lambda>h c. 1\<rparr>"

lemma linked0_simps [simp]: "is_connected (ble linked0)" "spp_mtu_size (ble linked0) = 23"
  "ret heap_env c s = 1"
  by (simp_all add: linked0_def upd_ble_def boot_def heap_env_def ret_def)

lemma notified_frag_calls [simp]: "notified (frag_calls v data k n a b) = map (frag data k n) [a..<b]"
proof -
  have "notified (concat (map (\<lambda>i. [notify v (frag data k n i), TaskDelay 2]) is)) = map (frag data k n) is" for "is"
    by (induction "is") (simp_all add: notify_def)
  then show ?thesis by (simp add: frag_calls_def)
qed

text \<open>
  The peer's view: the fragments of one message carry the mark, their number and their index
  from 1 on, and the message is their payloads in that order.
\<close>

definition reassemble :: "u8 list list \<Rightarrow> u8 list option" where
  "reassemble fs =
    (if \<forall>i < length fs. take 4 (fs ! i) = [0x23, 0x23, of_nat (length fs), of_nat (Suc i)]
     then Some (concat (map (drop 4) fs)) else None)"

lemma chunks_concat: "concat (map (\<lambda>i. take k (drop ((i - 1) * k) data)) [1..<Suc n]) = take (n * k) data"
proof (induction n)
  case (Suc n)
  have "concat (map (\<lambda>i. take k (drop ((i - 1) * k) data)) [1..<Suc (Suc n)]) =
      take (n * k) data @ take k (drop (n * k) data)"
    using Suc.IH by simp
  then show ?case using take_add [of "n * k" k data] by (simp add: add.commute)
qed simp

lemma reassemble_frags:
  assumes "length data \<le> n * k"
  shows "reassemble (map (frag data k n) [1..<Suc n]) = Some data"
proof -
  have h: "take 4 (frag data k n i) = [0x23, 0x23, of_nat n, of_nat i]"
    "drop 4 (frag data k n i) = take k (drop ((i - 1) * k) data)" for i
    by (simp_all add: frag_def)
  show ?thesis
    using assms chunks_concat [of k data n] by (simp add: reassemble_def h o_def del: upt_Suc)
qed

text \<open>
  C20: A message that does not fit the MTU but fits 254 fragments is sent as notifications of at
  most MTU - 3 bytes, and putting their payloads together gives the message back.
\<close>

theorem ble_message_reassembles:
  assumes "is_connected (ble s)" "7 < unat (spp_mtu_size (ble s))"
    and "unat (spp_mtu_size (ble s)) - 3 < length data"
    and "length data \<le> 254 * (unat (spp_mtu_size (ble s)) - 7)"
    and "ret E (Api ''malloc'' [uint (spp_mtu_size (ble s)) - 3]) s \<noteq> 0"
  shows "\<exists>cs. bleSend E conId data (int (length data)) s = Inr (emits cs s) \<and>
    reassemble (notified cs) = Some data \<and>
    (\<forall>v \<in> set (notified cs). length v \<le> unat (spp_mtu_size (ble s)) - 3)"
proof -
  obtain k where k: "unat (spp_mtu_size (ble s)) = k + 7" "0 < k"
    using assms(2) by (metis add.commute less_imp_add_positive)
  let ?n = "fragments k (length data)"
  have pos: "0 < length data" using assms(3) by linarith
  have n: "?n \<le> 254" "length data \<le> ?n * k" "?n \<noteq> 0"
    using fragments_le [OF k(2), of "length data"] fragments_pos [OF k(2) pos] assms(4) k(1)
    by auto
  have m: "uint (spp_mtu_size (ble s)) - 3 = int (k + 4)" using k(1) by (simp add: uint_nat)
  have "bleSend E conId data (int (length data)) s =
      Inr (emits (Api ''malloc'' [int (k + 4)] # frag_calls (ble s) data k ?n 1 (Suc ?n) @ [Api ''free'' []]) s)"
    using n k assms m by (subst bleSend_fragments [of s k]) (simp_all add: mod_less)
  moreover have "length (frag data k ?n i) \<le> 4 + k" for i by (simp add: frag_def)
  ultimately show ?thesis
    using reassemble_frags [OF n(2)] k(1)
    by (intro exI [of _ "Api ''malloc'' [int (k + 4)] # frag_calls (ble s) data k ?n 1 (Suc ?n) @ [Api ''free'' []]"])
       (auto simp del: upt_Suc)
qed

theorem ble_message_reassembles_witness:
  "\<exists>cs. bleSend heap_env 0 (replicate 100 7) 100 linked0 = Inr (emits cs linked0) \<and>
    reassemble (notified cs) = Some (replicate 100 7)"
  using ble_message_reassembles [of linked0 "replicate 100 7" heap_env 0] by auto

text \<open>
  C21: A message of 255 or more fragments is never sent whole: with 255 the counter returns to 0 and the
  next copy starts before the message; with a multiple of 256 nothing is sent and no error is
  reported; with any other number the last copy runs over the end of the buffer.
\<close>

theorem ble_long_messages_fail:
  assumes "is_connected (ble s)" "7 < unat (spp_mtu_size (ble s))"
    and "254 * (unat (spp_mtu_size (ble s)) - 7) < length data"
    and "ret E (Api ''malloc'' [uint (spp_mtu_size (ble s)) - 3]) s \<noteq> 0"
  shows "bleSend E conId data (int (length data)) s =
    (let n = fragments (unat (spp_mtu_size (ble s)) - 7) (length data) in
     if n = 255 then Inl ReadOOB
     else if n mod 256 = 0 then
       Inr (emits [Api ''malloc'' [uint (spp_mtu_size (ble s)) - 3], Api ''free'' []] s)
     else Inl WriteOOB)"
proof -
  obtain k where k: "unat (spp_mtu_size (ble s)) = k + 7" "0 < k"
    using assms(2) by (metis add.commute less_imp_add_positive)
  let ?n = "fragments k (length data)"
  have n: "254 < ?n" using fragments_le [OF k(2), of "length data" 254] assms(3) k(1) by auto
  have m: "uint (spp_mtu_size (ble s)) - 3 = int (k + 4)" using k(1) by (simp add: uint_nat)
  have "k + 4 < length data" using assms(3) k by simp
  then have "bleSend E conId data (int (length data)) s =
     (if ?n mod 256 = 0 then Inr (emits [Api ''malloc'' [int (k + 4)], Api ''free'' []] s)
     else if ?n > 255 then Inl WriteOOB
     else if ?n = 255 then Inl ReadOOB
     else Inr (emits (Api ''malloc'' [int (k + 4)] # frag_calls (ble s) data k ?n 1 (Suc ?n) @
            [Api ''free'' []]) s))"
    using bleSend_fragments [OF assms(1) k, of data E conId] assms(4) m by simp
  then show ?thesis using n k(1) by (auto simp: Let_def m)
qed

theorem ble_long_messages_fail_witness:
  "bleSend heap_env 0 (replicate 4065 7) 4065 linked0 = Inl ReadOOB"
  using ble_long_messages_fail [of linked0 "replicate 4065 7" heap_env 0]
  by (simp add: fragments_def Let_def)

section \<open>Connections\<close>

text \<open>A message that fits the MTU is one notification with exactly its bytes.\<close>

lemma bleSend_short:
  assumes "is_connected (ble s)" "length data + 3 \<le> unat (spp_mtu_size (ble s))"
  shows "bleSend E conId data (int (length data)) s = Inr (emit (notify (ble s) data) s)"
proof -
  have "int (length data) \<le> uint (spp_mtu_size (ble s)) - 3" using assms(2) uint_nat [of "spp_mtu_size (ble s)"] by linarith
  moreover have "\<not> \<not> is_connected (ble s)" using assms(1) by simp
  ultimately show ?thesis
    unfolding bleSend_def Let_def by (simp only: if_P if_not_P if_False rdn_all [OF refl] bindE_Inr indicate_emit)
qed

lemma bleSend_disconnected: "\<not> is_connected (ble s) \<Longrightarrow> bleSend E conId data sz s = Inr s"
  unfolding bleSend_def Let_def by (rule if_P)

text \<open>
  Whether a run of events leaves the service connected, and with which connection: what the last
  connect or disconnect says.
\<close>

fun linked :: "(u16 \<times> u8) option \<Rightarrow> (gatts_event \<times> u8) list \<Rightarrow> (u16 \<times> u8) option" where
  "linked l [] = l"
| "linked l ((GattsConnect c bda, g) # es) = linked (Some (c, g)) es"
| "linked l ((GattsDisconnect, g) # es) = linked None es"
| "linked l (e # es) = linked l es"

fun last_mtu :: "u16 \<Rightarrow> (gatts_event \<times> u8) list \<Rightarrow> u16" where
  "last_mtu m [] = m"
| "last_mtu m ((GattsMtu m', g) # es) = last_mtu m' es"
| "last_mtu m (e # es) = last_mtu m es"

definition link_of :: "ble_vars \<Rightarrow> (u16 \<times> u8) option" where
  "link_of v = (if is_connected v then Some (spp_conn_id v, spp_gatts_if v) else None)"

abbreviation gatts_step :: "(u8 list \<Rightarrow> int \<Rightarrow> int \<Rightarrow> dev \<Rightarrow> fault + dev) \<Rightarrow> gatts_event \<times> u8 \<Rightarrow> dev \<Rightarrow> fault + dev" where
  "gatts_step cb e \<equiv> gatts_event_handler cb (fst e) (snd e)"

lemma gatts_step_link:
  assumes "\<not> ble_onMessage (ble s)" "gatts_event_handler cb e g s = Inr s'"
  shows "link_of (ble s') = linked (link_of (ble s)) [(e, g)] \<and>
    spp_mtu_size (ble s') = last_mtu (spp_mtu_size (ble s)) [(e, g)] \<and> \<not> ble_onMessage (ble s')"
  using assms
  by (cases e) (auto simp: upd_ble_def link_of_def Let_def split: if_split_asm)

lemma linked_Cons: "linked l (e # es) = linked (linked l [e]) es"
  by (cases e; cases "fst e") auto

lemma last_mtu_Cons: "last_mtu m (e # es) = last_mtu (last_mtu m [e]) es"
  by (cases e; cases "fst e") auto

lemma gatts_run_link:
  assumes "\<not> ble_onMessage (ble s)" "run_all (gatts_step cb) es s = Inr s'"
  shows "link_of (ble s') = linked (link_of (ble s)) es \<and>
    spp_mtu_size (ble s') = last_mtu (spp_mtu_size (ble s)) es"
  using assms
proof (induction es arbitrary: s)
  case (Cons e es)
  then obtain s1 where s1: "gatts_step cb e s = Inr s1" "run_all (gatts_step cb) es s1 = Inr s'"
    by (auto simp: bindE_eq_Inr)
  show ?case
    using Cons.IH [OF _ s1(2)] gatts_step_link [OF Cons.prems(1) s1(1)]
    by (simp add: linked_Cons [of _ e es] last_mtu_Cons [of _ e es])
qed simp

text \<open>
  C22: After any run of GATT events from reset, a message of at most \<open>m - 3\<close> bytes, \<open>m\<close> the MTU of
  the last MTU event or 23, is sent in one notification on the last connection, or not at all if
  the last connection ended: a new connection starts with the MTU of an earlier one.
\<close>

theorem ble_sends_on_last_connection:
  assumes "run_all (gatts_step cb) es boot = Inr s" "length data + 3 \<le> unat (last_mtu 23 es)"
  shows "\<exists>cs. bleSend E conId data (int (length data)) s = Inr (emits cs s) \<and>
    cs = (case linked None es of None \<Rightarrow> []
      | Some (conn, g) \<Rightarrow> [Notify (uint g) (uint conn) (uint (spp_handle_table (ble s) ! 4)) data])"
proof -
  have b: "\<not> ble_onMessage (ble boot)" "link_of (ble boot) = None" "spp_mtu_size (ble boot) = 23"
    by (simp_all add: boot_def link_of_def)
  have r: "link_of (ble s) = linked None es" "spp_mtu_size (ble s) = last_mtu 23 es"
    using gatts_run_link [OF b(1) assms(1)] b(2,3) by simp_all
  show ?thesis
  proof (cases "is_connected (ble s)")
    case True
    then have l: "linked None es = Some (spp_conn_id (ble s), spp_gatts_if (ble s))"
      using r(1) by (simp add: link_of_def)
    show ?thesis
      using bleSend_short [OF True] assms(2) r(2) by (simp add: l notify_def emit_is_emits)
  next
    case False
    then have l: "linked None es = None" using r(1) by (simp add: link_of_def)
    show ?thesis using bleSend_disconnected [OF False] by (simp add: l)
  qed
qed

theorem ble_sends_on_last_connection_witness:
  "\<exists>s. run_all (gatts_step (\<lambda>c l f s. Inr s)) [(GattsMtu 200, 3), (GattsConnect 1 [], 3), (GattsDisconnect, 3),
     (GattsConnect 2 [], 4)] boot = Inr s \<and>
   bleSend quiet 0 (replicate 100 7) 100 s = Inr (emits [Notify 4 2 0 (replicate 100 7)] s)"
proof -
  let ?es = "[(GattsMtu 200, 3), (GattsConnect 1 [], 3), (GattsDisconnect, 3), (GattsConnect 2 [], 4)]"
  let ?cb = "\<lambda>c l f s. Inr s :: fault + dev"
  obtain s where s: "run_all (gatts_step ?cb) ?es boot = Inr s" "spp_handle_table (ble s) = replicate 6 0"
    by (auto simp: upd_ble_def boot_def)
  show ?thesis
    using ble_sends_on_last_connection [OF s(1), of "replicate 100 7" quiet 0] s by auto
qed

end
