(* ===== verification/BleGatt.thy ===== *)
theory BleGatt
  imports BleFrag
begin

text \<open>
  The attribute table of the BLE serial service, as a client that discovers it reads it: the messages
  of the device go out on the one characteristic that can notify.
\<close>

section \<open>The table\<close>

text \<open>
  The numbers of the Bluetooth specification behind the constants of the stack: declarations of a
  service and of a characteristic, the configuration of a client, and the bits of the properties.
\<close>

definition ESP_GATT_UUID_PRI_SERVICE :: u16 where "ESP_GATT_UUID_PRI_SERVICE = 0x2800"
definition ESP_GATT_UUID_CHAR_DECLARE :: u16 where "ESP_GATT_UUID_CHAR_DECLARE = 0x2803"
definition ESP_GATT_UUID_CHAR_CLIENT_CONFIG :: u16 where "ESP_GATT_UUID_CHAR_CLIENT_CONFIG = 0x2902"
definition ESP_GATT_CHAR_PROP_BIT_WRITE_NR :: u8 where "ESP_GATT_CHAR_PROP_BIT_WRITE_NR = 0x04"
definition ESP_GATT_CHAR_PROP_BIT_NOTIFY :: u8 where "ESP_GATT_CHAR_PROP_BIT_NOTIFY = 0x10"

definition SPP_IDX_SPP_DATA_RECV_CHAR :: nat where "SPP_IDX_SPP_DATA_RECV_CHAR = 1"
definition SPP_IDX_SPP_DATA_RECV_VAL :: nat where "SPP_IDX_SPP_DATA_RECV_VAL = 2"
definition SPP_IDX_SPP_DATA_NOTIFY_CHAR :: nat where "SPP_IDX_SPP_DATA_NOTIFY_CHAR = 3"
definition SPP_IDX_SPP_DATA_NTF_CFG :: nat where "SPP_IDX_SPP_DATA_NTF_CFG = 5"
definition SPP_DATA_MAX_LEN :: nat where "SPP_DATA_MAX_LEN = 512"
definition CHAR_DECLARATION_SIZE :: nat where "CHAR_DECLARATION_SIZE = 1"

definition spp_service_uuid :: u16 where "spp_service_uuid = 0xFEAA"
definition spp_data_receive_uuid :: u16 where "spp_data_receive_uuid = 0x2ADD"
definition spp_data_notify_uuid :: u16 where "spp_data_notify_uuid = 0x2ADE"
definition char_prop_notify :: u8 where "char_prop_notify = ESP_GATT_CHAR_PROP_BIT_NOTIFY"
definition char_prop_write :: u8 where "char_prop_write = ESP_GATT_CHAR_PROP_BIT_WRITE_NR"
definition spp_data_receive_val :: "u8 list" where "spp_data_receive_val = replicate 20 0"
definition spp_data_notify_val :: "u8 list" where "spp_data_notify_val = replicate 20 0"
definition spp_data_notify_ccc :: "u8 list" where "spp_data_notify_ccc = [0, 0]"

datatype gatt_perm = ESP_GATT_PERM_READ | ESP_GATT_PERM_WRITE

text \<open>An entry; the stack answers reads and writes itself (\<open>ESP_GATT_AUTO_RSP\<close>) for all of them.\<close>

record gatt_attr =
  at_uuid :: u16
  at_perm :: "gatt_perm list"
  at_max :: nat
  at_len :: nat
  at_value :: "u8 list"

definition no_attr :: gatt_attr where
  "no_attr = \<lparr>at_uuid = 0, at_perm = [], at_max = 0, at_len = 0, at_value = []\<rparr>"

definition bytes16 :: "u16 \<Rightarrow> u8 list" where
  "bytes16 w = [ucast w, ucast (drop_bit 8 w)]"

definition spp_gatt_db :: "gatt_attr list" where
  "spp_gatt_db = (replicate SPP_IDX_NB no_attr)
    [SPP_IDX_SVC := \<lparr>at_uuid = ESP_GATT_UUID_PRI_SERVICE, at_perm = [ESP_GATT_PERM_READ],
       at_max = 2, at_len = 2, at_value = bytes16 spp_service_uuid\<rparr>,
     SPP_IDX_SPP_DATA_RECV_CHAR := \<lparr>at_uuid = ESP_GATT_UUID_CHAR_DECLARE, at_perm = [ESP_GATT_PERM_READ],
       at_max = CHAR_DECLARATION_SIZE, at_len = CHAR_DECLARATION_SIZE, at_value = [char_prop_write]\<rparr>,
     SPP_IDX_SPP_DATA_RECV_VAL := \<lparr>at_uuid = spp_data_receive_uuid, at_perm = [ESP_GATT_PERM_WRITE],
       at_max = SPP_DATA_MAX_LEN, at_len = length spp_data_receive_val, at_value = spp_data_receive_val\<rparr>,
     SPP_IDX_SPP_DATA_NOTIFY_CHAR := \<lparr>at_uuid = ESP_GATT_UUID_CHAR_DECLARE, at_perm = [ESP_GATT_PERM_READ],
       at_max = CHAR_DECLARATION_SIZE, at_len = CHAR_DECLARATION_SIZE, at_value = [char_prop_notify]\<rparr>,
     SPP_IDX_SPP_DATA_NTY_VAL := \<lparr>at_uuid = spp_data_notify_uuid,
       at_perm = [ESP_GATT_PERM_WRITE, ESP_GATT_PERM_READ],
       at_max = SPP_DATA_MAX_LEN, at_len = length spp_data_notify_val, at_value = spp_data_notify_val\<rparr>,
     SPP_IDX_SPP_DATA_NTF_CFG := \<lparr>at_uuid = ESP_GATT_UUID_CHAR_CLIENT_CONFIG,
       at_perm = [ESP_GATT_PERM_READ, ESP_GATT_PERM_WRITE],
       at_max = 2, at_len = length spp_data_notify_ccc, at_value = spp_data_notify_ccc\<rparr>]"

lemmas gatt_defs = bytes16_def SPP_IDX_NB_def SPP_IDX_SVC_def
  SPP_IDX_SPP_DATA_RECV_CHAR_def SPP_IDX_SPP_DATA_RECV_VAL_def SPP_IDX_SPP_DATA_NOTIFY_CHAR_def
  SPP_IDX_SPP_DATA_NTY_VAL_def SPP_IDX_SPP_DATA_NTF_CFG_def SPP_DATA_MAX_LEN_def CHAR_DECLARATION_SIZE_def
  ESP_GATT_UUID_PRI_SERVICE_def ESP_GATT_UUID_CHAR_DECLARE_def ESP_GATT_UUID_CHAR_CLIENT_CONFIG_def
  ESP_GATT_CHAR_PROP_BIT_WRITE_NR_def ESP_GATT_CHAR_PROP_BIT_NOTIFY_def spp_service_uuid_def
  spp_data_receive_uuid_def spp_data_notify_uuid_def char_prop_notify_def char_prop_write_def
  spp_data_receive_val_def spp_data_notify_val_def spp_data_notify_ccc_def

section \<open>What a client discovers\<close>

text \<open>
  A characteristic is a declaration, whose value are its properties, the value that follows it, with
  the identifier, and the descriptors up to the next declaration.
\<close>

record gatt_char =
  ch_prop :: u8
  ch_uuid :: u16
  ch_value :: nat
  ch_descriptors :: "u16 list"

fun gatt_chars :: "nat \<Rightarrow> gatt_attr list \<Rightarrow> gatt_char list" where
  "gatt_chars i (d # v # as) =
    (if at_uuid d = ESP_GATT_UUID_CHAR_DECLARE then
       \<lparr>ch_prop = hd (at_value d), ch_uuid = at_uuid v, ch_value = i + 1,
        ch_descriptors = takeWhile (\<lambda>u. u \<noteq> ESP_GATT_UUID_CHAR_DECLARE) (map at_uuid as)\<rparr> # gatt_chars (i + 2) as
     else gatt_chars (i + 1) (v # as))"
| "gatt_chars i as = []"

definition notifying :: "gatt_char list" where
  "notifying = filter (\<lambda>c. ch_prop c AND ESP_GATT_CHAR_PROP_BIT_NOTIFY \<noteq> 0) (gatt_chars 0 spp_gatt_db)"

lemma spp_gatt_db_eq:
  "spp_gatt_db =
    [\<lparr>at_uuid = ESP_GATT_UUID_PRI_SERVICE, at_perm = [ESP_GATT_PERM_READ], at_max = 2, at_len = 2,
       at_value = bytes16 spp_service_uuid\<rparr>,
     \<lparr>at_uuid = ESP_GATT_UUID_CHAR_DECLARE, at_perm = [ESP_GATT_PERM_READ],
       at_max = CHAR_DECLARATION_SIZE, at_len = CHAR_DECLARATION_SIZE, at_value = [char_prop_write]\<rparr>,
     \<lparr>at_uuid = spp_data_receive_uuid, at_perm = [ESP_GATT_PERM_WRITE],
       at_max = SPP_DATA_MAX_LEN, at_len = length spp_data_receive_val, at_value = spp_data_receive_val\<rparr>,
     \<lparr>at_uuid = ESP_GATT_UUID_CHAR_DECLARE, at_perm = [ESP_GATT_PERM_READ],
       at_max = CHAR_DECLARATION_SIZE, at_len = CHAR_DECLARATION_SIZE, at_value = [char_prop_notify]\<rparr>,
     \<lparr>at_uuid = spp_data_notify_uuid, at_perm = [ESP_GATT_PERM_WRITE, ESP_GATT_PERM_READ],
       at_max = SPP_DATA_MAX_LEN, at_len = length spp_data_notify_val, at_value = spp_data_notify_val\<rparr>,
     \<lparr>at_uuid = ESP_GATT_UUID_CHAR_CLIENT_CONFIG, at_perm = [ESP_GATT_PERM_READ, ESP_GATT_PERM_WRITE],
       at_max = 2, at_len = length spp_data_notify_ccc, at_value = spp_data_notify_ccc\<rparr>]"
  by (simp add: spp_gatt_db_def SPP_IDX_NB_def SPP_IDX_SVC_def SPP_IDX_SPP_DATA_RECV_CHAR_def
      SPP_IDX_SPP_DATA_RECV_VAL_def SPP_IDX_SPP_DATA_NOTIFY_CHAR_def SPP_IDX_SPP_DATA_NTY_VAL_def
      SPP_IDX_SPP_DATA_NTF_CFG_def numeral_eq_Suc)

lemma spp_gatt_chars:
  "gatt_chars 0 spp_gatt_db =
    [\<lparr>ch_prop = char_prop_write, ch_uuid = spp_data_receive_uuid, ch_value = SPP_IDX_SPP_DATA_RECV_VAL,
       ch_descriptors = []\<rparr>,
     \<lparr>ch_prop = char_prop_notify, ch_uuid = spp_data_notify_uuid, ch_value = SPP_IDX_SPP_DATA_NTY_VAL,
       ch_descriptors = [ESP_GATT_UUID_CHAR_CLIENT_CONFIG]\<rparr>]"
  by (simp add: spp_gatt_db_eq gatt_defs)

lemma notifying_eq:
  "notifying = [\<lparr>ch_prop = char_prop_notify, ch_uuid = spp_data_notify_uuid,
     ch_value = SPP_IDX_SPP_DATA_NTY_VAL, ch_descriptors = [ESP_GATT_UUID_CHAR_CLIENT_CONFIG]\<rparr>]"
  by (simp add: notifying_def spp_gatt_chars) (simp add: gatt_defs)

text \<open>Every value fits its attribute.\<close>

lemma spp_gatt_db_fits:
  "length spp_gatt_db = SPP_IDX_NB \<and> (\<forall>a \<in> set spp_gatt_db. at_len a = length (at_value a) \<and> at_len a \<le> at_max a)"
  by (simp add: spp_gatt_db_eq gatt_defs)

section \<open>Where messages go\<close>

text \<open>A call that is no notification, or one of at most \<open>m\<close> bytes on the attribute with the handle \<open>h\<close>.\<close>

fun sent_on :: "u16 \<Rightarrow> nat \<Rightarrow> call \<Rightarrow> bool" where
  "sent_on h m (Notify g c h' v) \<longleftrightarrow> h' = uint h \<and> length v \<le> m"
| "sent_on h m c \<longleftrightarrow> True"

definition sends_on :: "nat \<Rightarrow> dev \<Rightarrow> dev \<Rightarrow> bool" where
  "sends_on m s s' \<longleftrightarrow> ble s' = ble s \<and>
    (\<exists>cs. hist s' = hist s @ cs \<and> list_all (sent_on (spp_handle_table (ble s) ! SPP_IDX_SPP_DATA_NTY_VAL) m) cs)"

lemma sends_on_refl: "sends_on m s s"
  by (auto simp: sends_on_def)

lemma sends_on_trans: "sends_on m s t \<Longrightarrow> sends_on m t u \<Longrightarrow> sends_on m s u"
  by (force simp: sends_on_def)

lemma sends_on_indicate: "length v \<le> m \<Longrightarrow> sends_on m s (indicate v s)"
  by (simp add: sends_on_def indicate_def emit_def)

lemma sends_on_emit: "(\<And>h. sent_on h m c) \<Longrightarrow> sends_on m s (emit c s)"
  by (simp add: sends_on_def emit_def)

lemma ble_loop_sends:
  "ble_loop f mtu data sz n c buf s = Inr s' \<Longrightarrow> length buf \<le> m \<Longrightarrow> sends_on m s s'"
proof (induction f arbitrary: c buf s)
  case (Suc f)
  show ?case
  proof (cases "c \<le> n")
    case True
    obtain b off n' b' k v where
      b: "wrn buf 0 [0x23, 0x23, n, c] = Inr b" "memcpy b 4 data off n' = Inr b'" "rdn b' 0 k = Inr v"
        "ble_loop f mtu data sz n (c + 1) b' (emit (TaskDelay 2) (indicate v s)) = Inr s'"
      using Suc.prems(1) by (simp add: Let_def True) (elim bindE_InrE, rule that, assumption+)
    have l: "length b' = length buf" "length v \<le> length buf"
      using wrn_length [OF b(1)] memcpy_length [OF b(2)] b(3) by (auto simp: rdn_eq_Inr)
    have "sends_on m s (emit (TaskDelay 2) (indicate v s))"
      by (rule sends_on_trans [OF sends_on_indicate sends_on_emit]) (use l Suc.prems(2) in simp_all)
    then show ?thesis using Suc.IH [OF b(4)] l Suc.prems(2) by (auto intro: sends_on_trans)
  qed (use Suc.prems(1) sends_on_refl in auto)
qed simp

lemma bleSend_sends:
  assumes "bleSend E k data sz s = Inr s'"
  shows "sends_on (unat (spp_mtu_size (ble s)) - 3) s s'"
proof -
  let ?m = "unat (spp_mtu_size (ble s)) - 3"
  have m: "nat (uint (spp_mtu_size (ble s)) - 3) = ?m" by (subst uint_nat) linarith
  have short: "sends_on ?m s (indicate v s)" if "rdn data 0 sz = Inr v" "sz \<le> uint (spp_mtu_size (ble s)) - 3" for v
    using rdn_length [OF that(1)] nat_mono [OF that(2)] by (simp add: m sends_on_indicate)
  have long: "sends_on ?m s (emit (Api ''free'' []) t)"
    if "ble_loop f mtu data sz n c (fill E a (nat (uint (spp_mtu_size (ble s)) - 3)) s) (emit b s) = Inr t"
      "\<And>h. sent_on h ?m b" for f mtu n c a b t
  proof -
    have t: "sends_on ?m (emit b s) t" using ble_loop_sends [OF that(1), of ?m] by (simp add: m)
    show ?thesis
      by (rule sends_on_trans [OF sends_on_emit sends_on_trans [OF t sends_on_emit]]) (simp_all add: that(2))
  qed
  show ?thesis
    using assms short long unfolding bleSend_def Let_def
    by (auto simp: bindE_eq_Inr sends_on_refl sends_on_emit simp del: ble_loop.simps split: if_split_asm)
qed

text \<open>The handles after a run of events: those of the last table that was created with all its entries.\<close>

fun last_table :: "u16 list \<Rightarrow> (gatts_event \<times> u8) list \<Rightarrow> u16 list" where
  "last_table t [] = t"
| "last_table t ((GattsCreatAttrTab st n hs, g) # es) =
     last_table (if st = 0 \<and> n = int SPP_IDX_NB then take SPP_IDX_NB hs else t) es"
| "last_table t (e # es) = last_table t es"

lemma last_table_Cons: "last_table t (e # es) = last_table (last_table t [e]) es"
  by (cases e; cases "fst e") auto

lemma gatts_run_table:
  assumes "\<not> ble_onMessage (ble s)" "run_all (gatts_step cb) es s = Inr s'"
  shows "spp_handle_table (ble s') = last_table (spp_handle_table (ble s)) es"
  using assms
proof (induction es arbitrary: s)
  case (Cons e es)
  then obtain t where t: "gatts_step cb e s = Inr t" "run_all (gatts_step cb) es t = Inr s'"
    by (auto simp: bindE_eq_Inr)
  have "spp_handle_table (ble t) = last_table (spp_handle_table (ble s)) [e]"
    using t(1) Cons.prems(1)
    by (cases e; cases "fst e") (auto simp: upd_ble_def Let_def split: if_split_asm)
  then show ?case
    using Cons.IH [OF _ t(2)] gatts_step_link [OF Cons.prems(1) t(1)] by (simp add: last_table_Cons [of _ e es])
qed simp

text \<open>
  C23: After any run of GATT events from reset, all a message sends are notifications on the handle of
  the one characteristic that a client finds able to notify, of no more bytes than its value holds as
  long as the MTU is at most 515.
\<close>

theorem messages_go_to_the_characteristic:
  assumes "run_all (gatts_step cb) es boot = Inr s" "bleSend E k data sz s = Inr s'" "unat (last_mtu 23 es) \<le> 515"
  shows "\<exists>ch calls. notifying = [ch] \<and> ESP_GATT_UUID_CHAR_CLIENT_CONFIG \<in> set (ch_descriptors ch) \<and>
    hist s' = hist s @ calls \<and>
    list_all (sent_on (last_table (replicate 6 0) es ! ch_value ch) (at_max (spp_gatt_db ! ch_value ch))) calls"
proof -
  have b: "\<not> ble_onMessage (ble boot)" "spp_mtu_size (ble boot) = 23" "spp_handle_table (ble boot) = replicate 6 0"
    by (simp_all add: boot_def)
  have r: "spp_mtu_size (ble s) = last_mtu 23 es" "spp_handle_table (ble s) = last_table (replicate 6 0) es"
    using gatts_run_link [OF b(1) assms(1)] gatts_run_table [OF b(1) assms(1)] b(2,3) by simp_all
  have m: "at_max (spp_gatt_db ! SPP_IDX_SPP_DATA_NTY_VAL) = 512" by (simp add: spp_gatt_db_eq gatt_defs)
  obtain calls where c: "hist s' = hist s @ calls"
    "list_all (sent_on (last_table (replicate 6 0) es ! SPP_IDX_SPP_DATA_NTY_VAL) (unat (last_mtu 23 es) - 3)) calls"
    using bleSend_sends [OF assms(2)] by (auto simp: sends_on_def r)
  have "sent_on h (unat (last_mtu 23 es) - 3) c \<Longrightarrow> sent_on h 512 c" for h c
    using assms(3) by (cases c) auto
  then have "list_all (sent_on (last_table (replicate 6 0) es ! SPP_IDX_SPP_DATA_NTY_VAL) 512) calls"
    using c(2) by (auto simp: list_all_iff)
  then show ?thesis using c(1) by (simp add: notifying_eq m)
qed

theorem messages_go_to_the_characteristic_witness:
  "\<exists>s s' calls. run_all (gatts_step (\<lambda>c l f s. Inr s)) [(GattsCreatAttrTab 0 6 [40, 41, 42, 43, 44, 45], 3),
     (GattsMtu 100, 3), (GattsConnect 1 [], 3)] boot = Inr s \<and> bleSend quiet 0 [1, 2] 2 s = Inr s' \<and>
   hist s' = hist s @ calls \<and> list_all (sent_on 44 512) calls \<and> calls \<noteq> []"
proof -
  let ?es = "[(GattsCreatAttrTab 0 6 [40, 41, 42, 43, 44, 45], 3), (GattsMtu 100, 3), (GattsConnect 1 [], 3)]
    :: (gatts_event \<times> u8) list"
  let ?cb = "\<lambda>c l f s. Inr s :: fault + dev"
  obtain s where s: "run_all (gatts_step ?cb) ?es boot = Inr s" "is_connected (ble s)" "spp_mtu_size (ble s) = 100"
    by (auto simp: upd_ble_def boot_def SPP_IDX_NB_def)
  define s' where "s' = emit (notify (ble s) [1, 2]) s"
  have b: "bleSend quiet 0 [1, 2] 2 s = Inr s'" using bleSend_short [OF s(2), of "[1, 2]"] s(3) by (simp add: s'_def)
  obtain ch calls where c: "notifying = [ch]" "hist s' = hist s @ calls"
    "list_all (sent_on (last_table (replicate 6 0) ?es ! ch_value ch) (at_max (spp_gatt_db ! ch_value ch))) calls"
    using messages_go_to_the_characteristic [OF s(1) b] by fastforce
  have "ch_value ch = 4" using c(1) by (simp add: notifying_eq SPP_IDX_SPP_DATA_NTY_VAL_def) auto
  moreover have "at_max (spp_gatt_db ! 4) = 512" by (simp add: spp_gatt_db_eq gatt_defs)
  ultimately have "list_all (sent_on 44 512) calls" using c(3) by (simp add: SPP_IDX_NB_def)
  moreover have "calls \<noteq> []" using c(2) by (auto simp: s'_def emit_def)
  ultimately show ?thesis using s(1) b c(2) by blast
qed

end
