(* ===== verification/BtSpp.thy ===== *)
theory BtSpp
  imports BleSpp
begin

text \<open>
  The Bluetooth classic serial transport \<open>l2-ble-bt/bt_spp_server.c\<close>: sending, the SPP and GAP
  callbacks and the start of the stack.
\<close>

definition upd_bt :: "(bt_vars \<Rightarrow> bt_vars) \<Rightarrow> dev \<Rightarrow> dev" where
  "upd_bt f s = s\<lparr>bt := f (bt s)\<rparr>"

section \<open>Sending\<close>

definition btSend :: "int \<Rightarrow> u8 list \<Rightarrow> int \<Rightarrow> dev \<Rightarrow> fault + dev" where
  "btSend conId data len s =
    (if spp_handle (bt s) \<noteq> 0 then
       bindE (rdn data 0 len) (\<lambda>v. Inr (emit (SppWrite (uint (spp_handle (bt s))) v) s))
     else if cspp_handle (bt s) \<noteq> 0 then
       bindE (rdn data 0 len) (\<lambda>v. Inr (emit (SppWrite (uint (cspp_handle (bt s))) v) s))
     else Inr s)"

section \<open>Callbacks\<close>

definition DEVICE_NAME :: string where "DEVICE_NAME = ''DM-BT''"
definition SPP_SERVER_NAME :: string where "SPP_SERVER_NAME = ''SPP_SERVER''"

text \<open>
  The SPP events; \<open>SppDataInd handle data from\<close> also carries the word the handler reads as
  \<open>srv_open.handle\<close>, another member of the same union.
\<close>

datatype spp_event =
    SppInit
  | SppClose
  | SppDataInd u32 "u8 list" u32
  | SppSrvOpen u32
  | SppIdle int

text \<open>\<open>cb\<close> is \<open>onMessage\<close> of \<open>dmesh.c\<close>, which itself calls the transports.\<close>

fun esp_spp_cb ::
    "(u8 list \<Rightarrow> int \<Rightarrow> int \<Rightarrow> dev \<Rightarrow> fault + dev) \<Rightarrow> spp_event \<Rightarrow> dev \<Rightarrow> fault + dev" where
  "esp_spp_cb cb SppInit s =
     Inr (emits [ApiS ''esp_bt_dev_set_device_name'' [DEVICE_NAME],
       ApiS ''esp_bt_gap_set_scan_mode'' [''ESP_BT_CONNECTABLE'', ''ESP_BT_GENERAL_DISCOVERABLE''],
       ApiS ''esp_spp_start_srv'' [''ESP_SPP_SEC_AUTHENTICATE'', ''ESP_SPP_ROLE_SLAVE'', ''0'',
         SPP_SERVER_NAME]] s)"
| "esp_spp_cb cb SppClose s = Inr (upd_bt (\<lambda>v. v\<lparr>spp_handle := 0, cspp_handle := 0\<rparr>) s)"
| "esp_spp_cb cb (SppDataInd h v from) s = cb v (int (length v)) (sint from) s"
| "esp_spp_cb cb (SppSrvOpen h) s = Inr (upd_bt (\<lambda>v. v\<lparr>spp_handle := h\<rparr>) s)"
| "esp_spp_cb cb (SppIdle e) s = Inr s"

datatype bt_gap_event =
    BtAuthCmpl int
  | BtPinReq bool "u8 list"
  | BtCfmReq "u8 list" u32
  | BtGapOther int

text \<open>
  A pin code is an array of 16 bytes; the reply passes the array with the number of bytes that
  count, so only those are recorded here.
\<close>

fun esp_bt_gap_cb :: "bt_gap_event \<Rightarrow> dev \<Rightarrow> dev" where
  "esp_bt_gap_cb (BtAuthCmpl stat) s = s"
| "esp_bt_gap_cb (BtPinReq min_16_digit bda) s =
     (if min_16_digit
      then emit (Api ''esp_bt_gap_pin_reply'' (map uint bda @ [1, 16] @ replicate 16 0)) s
      else emit (Api ''esp_bt_gap_pin_reply'' (map uint bda @ [1, 4, 0x31, 0x32, 0x33, 0x34])) s)"
| "esp_bt_gap_cb (BtCfmReq bda num) s =
     emit (Api ''esp_bt_gap_ssp_confirm_reply'' (map uint bda @ [1])) s"
| "esp_bt_gap_cb (BtGapOther e) s = s"

section \<open>Start\<close>

text \<open>The capability is \<open>ESP_BT_IO_CAP_NONE\<close>, the fixed pin \<open>0000\<close>.\<close>

definition init_bt :: "env \<Rightarrow> dev \<Rightarrow> dev" where
  "init_bt E = try_calls E stack_calls (\<lambda>s.
    try_calls E [ApiS ''esp_bt_gap_register_callback'' [''esp_bt_gap_cb''],
        ApiS ''esp_spp_register_callback'' [''esp_spp_cb''], ApiS ''esp_spp_init'' [''ESP_SPP_MODE_CB'']]
      (emits [ApiS ''esp_bt_gap_set_security_param'' [''ESP_BT_SP_IOCAP_MODE'', ''ESP_BT_IO_CAP_NONE''],
        ApiS ''esp_bt_gap_set_pin'' [''ESP_BT_PIN_TYPE_FIXED'', ''0000'']])
      (init_ble_svc E s))"

end
