(* ===== verification/Text.thy ===== *)
theory Text
  imports Globals
begin

text \<open>
  What the source uses of the C library's text functions: the conversions \<open>%d\<close>, \<open>%u\<close> and
  \<open>%02x\<close> (\<open>%02X\<close>) of \<open>printf\<close>, and \<open>strtol\<close> and its relatives with base 0.
\<close>

section \<open>Printing\<close>

definition hexd :: "nat \<Rightarrow> char" where
  "hexd n = char_of (let d = n mod 16 in if d < 10 then 48 + d else 87 + d)"

definition hex2 :: "u8 \<Rightarrow> string" where
  "hex2 b = [hexd (unat b div 16), hexd (unat b)]"

definition hexD :: "nat \<Rightarrow> char" where
  "hexD n = char_of (let d = n mod 16 in if d < 10 then 48 + d else 55 + d)"

definition HEX2 :: "u8 \<Rightarrow> string" where
  "HEX2 b = [hexD (unat b div 16), hexD (unat b)]"

definition decd :: "nat \<Rightarrow> char" where
  "decd n = char_of (48 + n mod 10)"

fun dec_nat :: "nat \<Rightarrow> string" where
  "dec_nat n = (if n < 10 then [decd n] else dec_nat (n div 10) @ [decd n])"

declare dec_nat.simps [simp del]

definition dec :: "int \<Rightarrow> string" where
  "dec i = (if i < 0 then ''-'' @ dec_nat (nat (- i)) else dec_nat (nat i))"

text \<open>A \<open>char\<close> as a byte, and back.\<close>

definition byte_of :: "char \<Rightarrow> u8" where
  "byte_of c = of_nat (of_char c)"

definition char_of_byte :: "u8 \<Rightarrow> char" where
  "char_of_byte b = char_of (unat b)"

lemma unat_byte_of [simp]: "unat (byte_of c) = (of_char c :: nat)"
proof -
  have "(of_char c :: nat) < 256" by (rule nat_of_char_less_256)
  then show ?thesis by (simp add: byte_of_def of_nat_byte)
qed

lemma char_of_byte_of [simp]: "char_of_byte (byte_of c) = c"
  by (simp add: char_of_byte_def)

definition printf :: "string \<Rightarrow> dev \<Rightarrow> dev" where
  "printf x s = emit (Print x) s"

text \<open>All that has been printed.\<close>

fun printed :: "call list \<Rightarrow> string" where
  "printed [] = []"
| "printed (Print x # cs) = x @ printed cs"
| "printed (c # cs) = printed cs"

lemma printed_append [simp]: "printed (xs @ ys) = printed xs @ printed ys"
  by (induction xs rule: printed.induct) auto

lemma printf_simps [simp]:
  "hist (printf x s) = hist s @ [Print x]" "con (printf x s) = con s" "i2c (printf x s) = i2c s"
  by (simp_all add: printf_def)

section \<open>Reading numbers\<close>

text \<open>The value of a digit in any base up to 36, \<open>None\<close> for other characters.\<close>

definition digit :: "char \<Rightarrow> nat option" where
  "digit c = (let n = of_char c :: nat in
     if 48 \<le> n \<and> n \<le> 57 then Some (n - 48)
     else if 65 \<le> n \<and> n \<le> 90 then Some (n - 55)
     else if 97 \<le> n \<and> n \<le> 122 then Some (n - 87)
     else None)"

text \<open>The number that the longest run of digits in the base gives, from \<open>acc\<close> on.\<close>

fun digits :: "nat \<Rightarrow> nat \<Rightarrow> string \<Rightarrow> nat" where
  "digits b acc [] = acc"
| "digits b acc (c # cs) =
    (case digit c of None \<Rightarrow> acc | Some d \<Rightarrow> if d < b then digits b (acc * b + d) cs else acc)"

definition is_digit :: "nat \<Rightarrow> string \<Rightarrow> bool" where
  "is_digit b cs = (case cs of [] \<Rightarrow> False
     | c # _ \<Rightarrow> (case digit c of None \<Rightarrow> False | Some d \<Rightarrow> d < b))"

text \<open>
  Base 0: a prefix \<open>0x\<close> or \<open>0X\<close> followed by a digit gives base 16, another leading \<open>0\<close> base 8.
\<close>

definition magnitude :: "string \<Rightarrow> nat" where
  "magnitude cs =
    (case cs of
       [] \<Rightarrow> 0
     | c # r \<Rightarrow>
         if c = CHR ''0'' then
           if r \<noteq> [] \<and> (hd r = CHR ''x'' \<or> hd r = CHR ''X'') \<and> is_digit 16 (tl r) then digits 16 0 (tl r)
           else digits 8 0 r
         else digits 10 0 cs)"

definition is_space :: "char \<Rightarrow> bool" where
  "is_space c \<longleftrightarrow> (let n = of_char c :: nat in n = 32 \<or> 9 \<le> n \<and> n \<le> 13)"

text \<open>The sign, and the number behind it, of any size.\<close>

definition number :: "string \<Rightarrow> bool \<times> nat" where
  "number cs =
    (case dropWhile is_space cs of
       [] \<Rightarrow> (False, 0)
     | c # r \<Rightarrow>
         if c = CHR ''-'' then (True, magnitude r)
         else if c = CHR ''+'' then (False, magnitude r)
         else (False, magnitude (c # r)))"

text \<open>
  \<open>strtol\<close> (\<open>w = 32\<close>) and \<open>strtoll\<close> (\<open>w = 64\<close>): the value, brought to the limits of the type, and
  whether it was out of range.  \<open>strtoul\<close> and \<open>strtoull\<close> negate in the unsigned type.
\<close>

definition strtol :: "nat \<Rightarrow> string \<Rightarrow> int \<times> bool" where
  "strtol w cs =
    (let (neg, n) = number cs; v = (if neg then - int n else int n) in
     if v < - (2 ^ (w - 1)) then (- (2 ^ (w - 1)), True)
     else if v \<ge> 2 ^ (w - 1) then (2 ^ (w - 1) - 1, True)
     else (v, False))"

definition strtoul :: "nat \<Rightarrow> string \<Rightarrow> int \<times> bool" where
  "strtoul w cs =
    (let (neg, n) = number cs in
     if int n \<ge> 2 ^ w then (2 ^ w - 1, True)
     else ((if neg then - int n else int n) mod 2 ^ w, False))"

section \<open>Printing and reading\<close>

lemma digit_decd: "digit (decd n) = Some (n mod 10)"
  by (simp add: digit_def decd_def Let_def)

lemma digit_zero: "digit CHR ''0'' = Some 0"
  by (simp add: digit_def Let_def)

definition digits_only :: "string \<Rightarrow> bool" where
  "digits_only cs \<longleftrightarrow> (\<forall>c \<in> set cs. \<exists>d < 10. digit c = Some d)"

lemma digits_append:
  "digits_only xs \<Longrightarrow> digits 10 acc (xs @ ys) = digits 10 (digits 10 acc xs) ys"
  by (induction xs arbitrary: acc) (auto simp: digits_only_def)

lemma dec_nat_digits: "digits_only (dec_nat n)"
proof (induction n rule: dec_nat.induct)
  case (1 n)
  then show ?case
    by (subst dec_nat.simps) (auto simp: digits_only_def digit_decd)
qed

lemma digits_dec_nat: "digits 10 0 (dec_nat n) = n"
proof (induction n rule: dec_nat.induct)
  case (1 n)
  show ?case
  proof (cases "n < 10")
    case True
    then show ?thesis by (simp add: dec_nat.simps [of n] digit_decd)
  next
    case False
    then show ?thesis
      using 1 by (simp add: dec_nat.simps [of n] digits_append dec_nat_digits digit_decd)
  qed
qed

lemma dec_nat_head:
  obtains c cs where "dec_nat n = c # cs" "\<exists>d < 10. digit c = Some d" "n \<noteq> 0 \<Longrightarrow> c \<noteq> CHR ''0''"
proof -
  have "\<exists>c cs. dec_nat n = c # cs \<and> (n \<noteq> 0 \<longrightarrow> c \<noteq> CHR ''0'')"
  proof (induction n rule: dec_nat.induct)
    case (1 n)
    show ?case
    proof (cases "n < 10")
      case True
      then have "digit (decd n) = Some n" by (simp add: digit_decd)
      then show ?thesis using True digit_zero by (auto simp: dec_nat.simps [of n])
    next
      case False
      then show ?thesis using 1 by (auto simp: dec_nat.simps [of n])
    qed
  qed
  then obtain c cs where "dec_nat n = c # cs" "n \<noteq> 0 \<Longrightarrow> c \<noteq> CHR ''0''" by blast
  moreover then have "\<exists>d < 10. digit c = Some d"
    using dec_nat_digits [of n] by (simp add: digits_only_def)
  ultimately show ?thesis using that by blast
qed

lemma magnitude_dec_nat: "magnitude (dec_nat n) = n"
proof (cases "n = 0")
  case True
  then show ?thesis
    using digit_decd [of 0] by (simp add: dec_nat.simps magnitude_def)
next
  case False
  obtain c cs where h: "dec_nat n = c # cs" "c \<noteq> CHR ''0''"
    using dec_nat_head [of n] False by metis
  have "magnitude (c # cs) = digits 10 0 (c # cs)"
    using h(2) by (simp add: magnitude_def)
  then show ?thesis using h digits_dec_nat [of n] by simp
qed

lemma digit_char:
  assumes "digit c = Some d" "d < 10"
  shows "\<not> is_space c" "c \<noteq> CHR ''-''" "c \<noteq> CHR ''+''"
  using assms by (auto simp: digit_def is_space_def Let_def split: if_splits)

lemma number_dec: "number (dec i) = (i < 0, nat \<bar>i\<bar>)"
proof (cases "i < 0")
  case True
  then show ?thesis by (simp add: number_def dec_def is_space_def magnitude_dec_nat)
next
  case False
  obtain c cs where h: "dec_nat (nat i) = c # cs" "\<exists>d < 10. digit c = Some d"
    using dec_nat_head [of "nat i"] by metis
  then have n: "\<not> is_space c" "c \<noteq> CHR ''-''" "c \<noteq> CHR ''+''" using digit_char by blast+
  have "number (c # cs) = (False, magnitude (c # cs))"
    using n by (simp add: number_def)
  then show ?thesis using False h magnitude_dec_nat [of "nat i"] by (simp add: dec_def)
qed

lemma strtol_dec:
  "- (2 ^ (w - 1)) \<le> v \<Longrightarrow> v < 2 ^ (w - 1) \<Longrightarrow> strtol w (dec v) = (v, False)"
  by (auto simp: strtol_def number_dec)

lemma strtol_dec_out:
  "\<not> (- (2 ^ (w - 1)) \<le> v \<and> v < 2 ^ (w - 1)) \<Longrightarrow> snd (strtol w (dec v))"
  by (auto simp: strtol_def number_dec)

lemma strtoul_dec: "0 \<le> v \<Longrightarrow> v < 2 ^ w \<Longrightarrow> strtoul w (dec v) = (v, False)"
  by (auto simp: strtoul_def number_dec)

lemma strtoul_dec_out: "\<not> (- (2 ^ w) < v \<and> v < 2 ^ w) \<Longrightarrow> snd (strtoul w (dec v))"
  by (auto simp: strtoul_def number_dec)

text \<open>Two hexadecimal digits give a byte back.\<close>

lemma digit_hexd: "digit (hexd n) = Some (n mod 16)"
proof -
  have "n mod 16 \<le> 35" using mod_less_divisor [of 16 n] by linarith
  then show ?thesis by (simp add: digit_def hexd_def Let_def)
qed

end
