(* ===== verification/LoraDrv.thy ===== *)
theory LoraDrv
  imports Text
begin

text \<open>
  The SX127x driver \<open>l2lora/lora_drv.c\<close>: registers over SPI, the radio settings, sending and
  receiving a packet, and the beacon and upstream receive modes.  A register access is three
  calls: chip select low, the SPI transfer, chip select high.
\<close>

section \<open>Registers\<close>

definition REG_FIFO :: int where "REG_FIFO = 0x00"
definition REG_OP_MODE :: int where "REG_OP_MODE = 0x01"
definition REG_FRF_MSB :: int where "REG_FRF_MSB = 0x06"
definition REG_FRF_MID :: int where "REG_FRF_MID = 0x07"
definition REG_FRF_LSB :: int where "REG_FRF_LSB = 0x08"
definition REG_PA_CONFIG :: int where "REG_PA_CONFIG = 0x09"
definition REG_LNA :: int where "REG_LNA = 0x0c"
definition REG_FIFO_ADDR_PTR :: int where "REG_FIFO_ADDR_PTR = 0x0d"
definition REG_FIFO_TX_BASE_ADDR :: int where "REG_FIFO_TX_BASE_ADDR = 0x0e"
definition REG_FIFO_RX_BASE_ADDR :: int where "REG_FIFO_RX_BASE_ADDR = 0x0f"
definition REG_FIFO_RX_CURRENT_ADDR :: int where "REG_FIFO_RX_CURRENT_ADDR = 0x10"
definition REG_IRQ_FLAGS :: int where "REG_IRQ_FLAGS = 0x12"
definition REG_RX_NB_BYTES :: int where "REG_RX_NB_BYTES = 0x13"
definition REG_PKT_SNR_VALUE :: int where "REG_PKT_SNR_VALUE = 0x19"
definition REG_PKT_RSSI_VALUE :: int where "REG_PKT_RSSI_VALUE = 0x1a"
definition REG_MODEM_CONFIG_1 :: int where "REG_MODEM_CONFIG_1 = 0x1d"
definition REG_MODEM_CONFIG_2 :: int where "REG_MODEM_CONFIG_2 = 0x1e"
definition REG_PREAMBLE_MSB :: int where "REG_PREAMBLE_MSB = 0x20"
definition REG_PREAMBLE_LSB :: int where "REG_PREAMBLE_LSB = 0x21"
definition REG_PAYLOAD_LENGTH :: int where "REG_PAYLOAD_LENGTH = 0x22"
definition REG_MODEM_CONFIG_3 :: int where "REG_MODEM_CONFIG_3 = 0x26"
definition REG_DETECTION_OPTIMIZE :: int where "REG_DETECTION_OPTIMIZE = 0x31"
definition REG_INVERTIQ :: int where "REG_INVERTIQ = 0x33"
definition REG_DETECTION_THRESHOLD :: int where "REG_DETECTION_THRESHOLD = 0x37"
definition REG_SYNC_WORD :: int where "REG_SYNC_WORD = 0x39"
definition REG_INVERTIQ2 :: int where "REG_INVERTIQ2 = 0x3b"
definition REG_DIO_MAPPING_1 :: int where "REG_DIO_MAPPING_1 = 0x40"
definition REG_VERSION :: int where "REG_VERSION = 0x42"

lemmas reg_defs = REG_FIFO_def REG_OP_MODE_def REG_FRF_MSB_def REG_FRF_MID_def REG_FRF_LSB_def
  REG_PA_CONFIG_def REG_LNA_def REG_FIFO_ADDR_PTR_def REG_FIFO_TX_BASE_ADDR_def
  REG_FIFO_RX_BASE_ADDR_def REG_FIFO_RX_CURRENT_ADDR_def REG_IRQ_FLAGS_def REG_RX_NB_BYTES_def
  REG_PKT_SNR_VALUE_def REG_PKT_RSSI_VALUE_def REG_MODEM_CONFIG_1_def REG_MODEM_CONFIG_2_def
  REG_PREAMBLE_MSB_def REG_PREAMBLE_LSB_def REG_PAYLOAD_LENGTH_def REG_MODEM_CONFIG_3_def
  REG_DETECTION_OPTIMIZE_def REG_INVERTIQ_def REG_DETECTION_THRESHOLD_def REG_SYNC_WORD_def
  REG_INVERTIQ2_def REG_DIO_MAPPING_1_def REG_VERSION_def

definition MODE_LONG_RANGE_MODE :: int where "MODE_LONG_RANGE_MODE = 0x80"
definition MODE_SLEEP :: int where "MODE_SLEEP = 0x00"
definition MODE_STDBY :: int where "MODE_STDBY = 0x01"
definition MODE_TX :: int where "MODE_TX = 0x03"
definition MODE_RX_CONTINUOUS :: int where "MODE_RX_CONTINUOUS = 0x05"
definition PA_BOOST :: int where "PA_BOOST = 0x80"
definition IRQ_TX_DONE_MASK :: int where "IRQ_TX_DONE_MASK = 0x08"
definition IRQ_PAYLOAD_CRC_ERROR_MASK :: int where "IRQ_PAYLOAD_CRC_ERROR_MASK = 0x20"
definition IRQ_RX_DONE_MASK :: int where "IRQ_RX_DONE_MASK = 0x40"
definition TIMEOUT_RESET :: int where "TIMEOUT_RESET = 100"
definition CONFIG_CS_GPIO :: int where "CONFIG_CS_GPIO = 18"
definition CONFIG_RST_GPIO :: int where "CONFIG_RST_GPIO = 14"
definition CONFIG_SCK_DIO0 :: int where "CONFIG_SCK_DIO0 = 26"
definition GPIO_INPUT_IO_0 :: int where "GPIO_INPUT_IO_0 = 4"

lemmas mode_defs = MODE_LONG_RANGE_MODE_def MODE_SLEEP_def MODE_STDBY_def MODE_TX_def
  MODE_RX_CONTINUOUS_def PA_BOOST_def IRQ_TX_DONE_MASK_def IRQ_PAYLOAD_CRC_ERROR_MASK_def
  IRQ_RX_DONE_MASK_def

definition upd_lo :: "(lora_vars \<Rightarrow> lora_vars) \<Rightarrow> dev \<Rightarrow> dev" where
  "upd_lo f s = s\<lparr>lo := f (lo s)\<rparr>"

definition upd_lora :: "(lora_driver \<Rightarrow> lora_driver) \<Rightarrow> dev \<Rightarrow> dev" where
  "upd_lora f s = upd_lo (\<lambda>v. v\<lparr>lora := f (lora v)\<rparr>) s"

definition lora_write_reg :: "int \<Rightarrow> int \<Rightarrow> dev \<Rightarrow> dev" where
  "lora_write_reg reg val s =
     emits [GpioLevel CONFIG_CS_GPIO 0, Spi [b_of (0x80 OR reg), b_of val], GpioLevel CONFIG_CS_GPIO 1] s"

definition lora_read_reg :: "env \<Rightarrow> int \<Rightarrow> dev \<Rightarrow> int \<times> dev" where
  "lora_read_reg E reg s =
    (let s = emit (GpioLevel CONFIG_CS_GPIO 0) s;
         t = Spi [b_of reg, 0xff];
         inb = fill E t 2 s in
     (i_of (inb ! 1), emits [t, GpioLevel CONFIG_CS_GPIO 1] s))"

definition lora_dump_registers :: "env \<Rightarrow> dev \<Rightarrow> dev" where
  "lora_dump_registers E s =
    (let nl = [char_of (10::nat)];
         s = printf (''00 01 02 03 04 05 06 07 08 09 0A 0B 0C 0D 0E 0F'' @ nl) s;
         s = fold (\<lambda>i s.
               let (v, s) = lora_read_reg E (int i) s;
                   s = printf (HEX2 (b_of v) @ '' '') s in
               if int i AND 0x0f = 0x0f then printf nl s else s) [0..<0x50] s in
     printf nl s)"

text \<open>\<open>pdMS_TO_TICKS\<close> at 100 ticks per second.\<close>

definition pdMS_TO_TICKS :: "int \<Rightarrow> int" where
  "pdMS_TO_TICKS ms = ms * 100 div 1000"

definition lora_reset :: "dev \<Rightarrow> dev" where
  "lora_reset s = emits [GpioLevel CONFIG_RST_GPIO 0, TaskDelay (pdMS_TO_TICKS 1),
     GpioLevel CONFIG_RST_GPIO 1, TaskDelay (pdMS_TO_TICKS 20)] s"

section \<open>Settings\<close>

definition lora_explicit_header_mode :: "env \<Rightarrow> dev \<Rightarrow> dev" where
  "lora_explicit_header_mode E s =
    (let s = upd_lo (\<lambda>v. v\<lparr>lora_implicit := False\<rparr>) s;
         (r, s) = lora_read_reg E REG_MODEM_CONFIG_1 s in
     lora_write_reg REG_MODEM_CONFIG_1 (r AND 0xfe) s)"

definition lora_implicit_header_mode :: "env \<Rightarrow> int \<Rightarrow> dev \<Rightarrow> dev" where
  "lora_implicit_header_mode E sz s =
    (let s = upd_lo (\<lambda>v. v\<lparr>lora_implicit := True\<rparr>) s;
         (r, s) = lora_read_reg E REG_MODEM_CONFIG_1 s;
         s = lora_write_reg REG_MODEM_CONFIG_1 (r OR 0x01) s in
     lora_write_reg REG_PAYLOAD_LENGTH sz s)"

definition lora_idle :: "dev \<Rightarrow> dev" where
  "lora_idle s = lora_write_reg REG_OP_MODE (MODE_LONG_RANGE_MODE OR MODE_STDBY) s"

definition lora_sleep :: "dev \<Rightarrow> dev" where
  "lora_sleep s = lora_write_reg REG_OP_MODE (MODE_LONG_RANGE_MODE OR MODE_SLEEP) s"

definition lora_receive :: "dev \<Rightarrow> dev" where
  "lora_receive s = lora_write_reg REG_OP_MODE (MODE_LONG_RANGE_MODE OR MODE_RX_CONTINUOUS) s"

definition lora_set_tx_power :: "int \<Rightarrow> dev \<Rightarrow> dev" where
  "lora_set_tx_power level s =
    (let level = (if level < 2 then 2 else if level > 17 then 17 else level) in
     lora_write_reg REG_PA_CONFIG (PA_BOOST OR (level - 2)) s)"

definition lora_set_frequency :: "int \<Rightarrow> dev \<Rightarrow> dev" where
  "lora_set_frequency frequency s =
    (let s = upd_lo (\<lambda>v. v\<lparr>lora_frequency := frequency\<rparr>) s;
         frf = push_bit 19 (word_of_int frequency :: u64) div 32000000;
         s = lora_write_reg REG_FRF_MSB (i_of (ucast (drop_bit 16 frf))) s;
         s = lora_write_reg REG_FRF_MID (i_of (ucast (drop_bit 8 frf))) s in
     lora_write_reg REG_FRF_LSB (i_of (ucast frf)) s)"

definition lora_set_spreading_factor :: "env \<Rightarrow> int \<Rightarrow> dev \<Rightarrow> dev" where
  "lora_set_spreading_factor E sf s =
    (let sf = (if sf < 6 then 6 else if sf > 12 then 12 else sf);
         s = (if sf = 6
              then lora_write_reg REG_DETECTION_THRESHOLD 0x0c
                     (lora_write_reg REG_DETECTION_OPTIMIZE 0xc5 s)
              else lora_write_reg REG_DETECTION_THRESHOLD 0x0a
                     (lora_write_reg REG_DETECTION_OPTIMIZE 0xc3 s));
         (r, s) = lora_read_reg E REG_MODEM_CONFIG_2 s in
     lora_write_reg REG_MODEM_CONFIG_2 ((r AND 0x0f) OR (push_bit 4 sf AND 0xf0)) s)"

text \<open>The bounds in the source are the doubles \<open>7.8E3\<close> to \<open>250E3\<close>, all of them integers.\<close>

definition bw_code :: "int \<Rightarrow> int" where
  "bw_code sbw =
    (if sbw \<le> 7800 then 0 else if sbw \<le> 10400 then 1 else if sbw \<le> 15600 then 2
     else if sbw \<le> 20800 then 3 else if sbw \<le> 31250 then 4 else if sbw \<le> 41700 then 5
     else if sbw \<le> 62500 then 6 else if sbw \<le> 125000 then 7 else if sbw \<le> 250000 then 8 else 9)"

definition lora_set_bandwidth :: "env \<Rightarrow> int \<Rightarrow> dev \<Rightarrow> dev" where
  "lora_set_bandwidth E sbw s =
    (let (r, s) = lora_read_reg E REG_MODEM_CONFIG_1 s in
     lora_write_reg REG_MODEM_CONFIG_1 ((r AND 0x0f) OR push_bit 4 (bw_code sbw)) s)"

definition lora_set_coding_rate :: "env \<Rightarrow> int \<Rightarrow> dev \<Rightarrow> dev" where
  "lora_set_coding_rate E denominator s =
    (let denominator = (if denominator < 5 then 5 else if denominator > 8 then 8 else denominator);
         cr = denominator - 4;
         (r, s) = lora_read_reg E REG_MODEM_CONFIG_1 s in
     lora_write_reg REG_MODEM_CONFIG_1 ((r AND 0xf1) OR push_bit 1 cr) s)"

definition lora_set_preamble_length :: "int \<Rightarrow> dev \<Rightarrow> dev" where
  "lora_set_preamble_length len s =
     lora_write_reg REG_PREAMBLE_LSB (i_of (b_of len))
       (lora_write_reg REG_PREAMBLE_MSB (i_of (b_of (drop_bit 8 len))) s)"

definition lora_set_sync_word :: "int \<Rightarrow> dev \<Rightarrow> dev" where
  "lora_set_sync_word sw s = lora_write_reg REG_SYNC_WORD sw s"

definition lora_enable_crc :: "env \<Rightarrow> dev \<Rightarrow> dev" where
  "lora_enable_crc E s =
    (let (r, s) = lora_read_reg E REG_MODEM_CONFIG_2 s in
     lora_write_reg REG_MODEM_CONFIG_2 (r OR 0x04) s)"

definition lora_disable_crc :: "env \<Rightarrow> dev \<Rightarrow> dev" where
  "lora_disable_crc E s =
    (let (r, s) = lora_read_reg E REG_MODEM_CONFIG_2 s in
     lora_write_reg REG_MODEM_CONFIG_2 (r AND 0xfb) s)"

definition lora_invert_iq :: "bool \<Rightarrow> dev \<Rightarrow> dev" where
  "lora_invert_iq invert s =
    (if invert then lora_write_reg REG_INVERTIQ2 0x19 (lora_write_reg REG_INVERTIQ 0x66 s)
     else lora_write_reg REG_INVERTIQ2 0x1d (lora_write_reg REG_INVERTIQ 0x27 s))"

section \<open>Interrupt and initialisation\<close>

definition lora_isr_handler :: "int \<Rightarrow> dev \<Rightarrow> dev" where
  "lora_isr_handler gpio_num s = emit (Api ''xQueueSendFromISR'' [gpio_num]) s"

text \<open>
  The version poll \<open>while (i++ < TIMEOUT_RESET)\<close>; it returns \<open>i\<close> as the check behind the
  loop sees it.
\<close>

function version_loop :: "env \<Rightarrow> int \<Rightarrow> dev \<Rightarrow> int \<times> dev" where
  "version_loop E i s =
    (if i < TIMEOUT_RESET then
       let i = i + 1; (version, s) = lora_read_reg E REG_VERSION s in
       if version = 0x12 then (i, s)
       else if version \<noteq> 0 then (i, s)
       else version_loop E i (emit (TaskDelay 2) s)
     else (i + 1, s))"
  by pat_completeness auto
termination
  by (relation "measure (\<lambda>(E, i, s). nat (TIMEOUT_RESET - i))") (auto simp: TIMEOUT_RESET_def)

declare version_loop.simps [simp del]

definition VSPI_HOST :: int where "VSPI_HOST = 2"
definition GPIO_MODE_INPUT :: int where "GPIO_MODE_INPUT = 1"
definition GPIO_MODE_OUTPUT :: int where "GPIO_MODE_OUTPUT = 2"
definition GPIO_PIN_INTR_POSEDGE :: int where "GPIO_PIN_INTR_POSEDGE = 1"

definition lora_init :: "env \<Rightarrow> dev \<Rightarrow> fault + int \<times> dev" where
  "lora_init E s =
    (let s = emits [Api ''gpio_pad_select_gpio'' [CONFIG_RST_GPIO],
                    Api ''gpio_set_direction'' [CONFIG_RST_GPIO, GPIO_MODE_OUTPUT],
                    Api ''gpio_pad_select_gpio'' [CONFIG_CS_GPIO],
                    Api ''gpio_set_direction'' [CONFIG_CS_GPIO, GPIO_MODE_OUTPUT]] s in
     bindE (check E (Api ''spi_bus_initialize'' [VSPI_HOST, 19, 27, 5, -1, -1, 0, 0]) s) (\<lambda>s.
     bindE (check E (Api ''spi_bus_add_device'' [VSPI_HOST, 9000000, 0, -1, 1, 0]) s) (\<lambda>s.
     let s = lora_idle (lora_reset s);
         (i, s) = version_loop E 0 s in
     if i \<ge> TIMEOUT_RESET then Inr (ESP_ERR_NOT_FOUND, s)
     else
     let s = emits [Api ''gpio_pad_select_gpio'' [CONFIG_SCK_DIO0],
                    Api ''gpio_set_direction'' [CONFIG_SCK_DIO0, GPIO_MODE_INPUT],
                    Api ''gpio_config'' [GPIO_PIN_INTR_POSEDGE, push_bit 26 1, GPIO_MODE_INPUT, 1],
                    Api ''gpio_install_isr_service'' [0],
                    Api ''gpio_isr_handler_add'' [CONFIG_SCK_DIO0, GPIO_INPUT_IO_0]] s;
         s = lora_sleep (lora_write_reg REG_DIO_MAPPING_1 0x00 s);
         s = lora_write_reg REG_FIFO_TX_BASE_ADDR 0 (lora_write_reg REG_FIFO_RX_BASE_ADDR 0 s);
         (lna, s) = lora_read_reg E REG_LNA s;
         s = lora_write_reg REG_LNA (lna OR 0x03) s;
         s = lora_set_tx_power 17 (lora_write_reg REG_MODEM_CONFIG_3 0x04 s) in
     Inr (ESP_OK, lora_idle s))))"

section \<open>Packets\<close>

text \<open>\<open>for (int i = 0; i < size; i++) lora_write_reg(REG_FIFO, *buf++)\<close>: a negative size writes nothing.\<close>

definition write_fifo :: "u8 list \<Rightarrow> dev \<Rightarrow> dev" where
  "write_fifo bs s = fold (\<lambda>b s. lora_write_reg REG_FIFO (i_of b) s) bs s"

text \<open>
  The loop that waits for the end of the transmission has no bound in the source: the result
  is \<open>None\<close> where it never ends.
\<close>

partial_function (option) wait_tx_done :: "env \<Rightarrow> dev \<Rightarrow> dev option" where
  "wait_tx_done E s =
    (let (r, s) = lora_read_reg E REG_IRQ_FLAGS s in
     if r AND IRQ_TX_DONE_MASK = 0 then wait_tx_done E (emit (TaskDelay 2) s) else Some s)"

definition lora_send_packet :: "env \<Rightarrow> u8 list \<Rightarrow> int \<Rightarrow> dev \<Rightarrow> fault + dev" where
  "lora_send_packet E buf sz s =
    (let s = lora_write_reg REG_FIFO_ADDR_PTR 0 (lora_idle s) in
     bindE (rdn buf 0 (max 0 sz)) (\<lambda>bs.
     let s = lora_write_reg REG_PAYLOAD_LENGTH sz (write_fifo bs s);
         s = lora_write_reg REG_OP_MODE (MODE_LONG_RANGE_MODE OR MODE_TX) s in
     bindE (returning (wait_tx_done E s)) (\<lambda>s.
     Inr (lora_write_reg REG_IRQ_FLAGS IRQ_TX_DONE_MASK s))))"

text \<open>\<open>for (int i = 0; i < len; i++) *buf++ = lora_read_reg(REG_FIFO)\<close>, from index \<open>i\<close> on.\<close>

function read_fifo :: "env \<Rightarrow> int \<Rightarrow> int \<Rightarrow> u8 list \<Rightarrow> dev \<Rightarrow> fault + u8 list \<times> dev" where
  "read_fifo E i len buf s =
    (if i < len then
       let (b, s) = lora_read_reg E REG_FIFO s in
       bindE (wr buf i (b_of b)) (\<lambda>buf. read_fifo E (i + 1) len buf s)
     else Inr (buf, s))"
  by pat_completeness auto
termination
  by (relation "measure (\<lambda>(E, i, len, buf, s). nat (len - i))") auto

declare read_fifo.simps [simp del]

definition lora_receive_packet :: "env \<Rightarrow> u8 list \<Rightarrow> int \<Rightarrow> dev \<Rightarrow> fault + int \<times> u8 list \<times> dev" where
  "lora_receive_packet E buf sz s =
    (let (irq, s) = lora_read_reg E REG_IRQ_FLAGS s;
         s = lora_write_reg REG_IRQ_FLAGS irq s in
     if irq AND IRQ_RX_DONE_MASK = 0 then Inr (0, buf, s)
     else if irq AND IRQ_PAYLOAD_CRC_ERROR_MASK \<noteq> 0 then Inr (0, buf, s)
     else
     let (len, s) = lora_read_reg E
           (if lora_implicit (lo s) then REG_PAYLOAD_LENGTH else REG_RX_NB_BYTES) s;
         s = lora_idle s;
         (cur, s) = lora_read_reg E REG_FIFO_RX_CURRENT_ADDR s;
         s = lora_write_reg REG_FIFO_ADDR_PTR cur s;
         len = (if len > sz then sz else len) in
     bindE (read_fifo E 0 len buf s) (\<lambda>(buf, s). Inr (len, buf, s)))"

definition lora_received :: "env \<Rightarrow> dev \<Rightarrow> int \<times> dev" where
  "lora_received E s =
    (let (r, s) = lora_read_reg E REG_IRQ_FLAGS s in
     (if r AND IRQ_RX_DONE_MASK \<noteq> 0 then 1 else 0, s))"

definition lora_packet_rssi :: "env \<Rightarrow> dev \<Rightarrow> int \<times> dev" where
  "lora_packet_rssi E s =
    (let (r, s) = lora_read_reg E REG_PKT_RSSI_VALUE s in
     (r - (if lora_frequency (lo s) < 868000000 then 164 else 157), s))"

text \<open>
  The C function returns a \<open>float\<close>, the signed register times 0.25; its only caller converts
  it to \<open>int\<close>.  Here it is the number of quarters.
\<close>

definition lora_packet_snr :: "env \<Rightarrow> dev \<Rightarrow> int \<times> dev" where
  "lora_packet_snr E s =
    (let (r, s) = lora_read_reg E REG_PKT_SNR_VALUE s in (sint (b_of r), s))"

section \<open>Receive modes\<close>

definition downstream :: "int list" where
  "downstream = [923300000, 923900000, 924500000, 925100000, 925700000, 926300000, 926900000, 927500000]"

definition lora_receive_beacon :: "env \<Rightarrow> int \<Rightarrow> dev \<Rightarrow> fault + dev" where
  "lora_receive_beacon E sz s =
    (let s = upd_lora (\<lambda>l. l\<lparr>beaconReceive := True\<rparr>) s;
         band = beaconBand (lora (lo s)) in
     if 0 \<le> band \<and> band < int (length downstream) then
       let s = lora_set_frequency (downstream ! nat band) s;
           s = lora_implicit_header_mode E sz (lora_invert_iq False s);
           s = lora_set_coding_rate E 5 (lora_set_spreading_factor E 12 s) in
       Inr (lora_receive s)
     else Inl ReadOOB)"

definition lora_receive_upstream :: "env \<Rightarrow> dev \<Rightarrow> dev" where
  "lora_receive_upstream E s =
    (let s = upd_lora (\<lambda>l. l\<lparr>beaconReceive := False, dataReceive := True\<rparr>) s;
         s = lora_set_frequency (downstream ! 0) s;
         s = lora_explicit_header_mode E (lora_invert_iq True s);
         s = lora_set_spreading_factor E (lora_sf (lora (lo s))) s;
         s = lora_set_coding_rate E (lora_cr (lora (lo s))) s in
     lora_receive s)"

end
