(* ===== verification/LoraTask.thy ===== *)
theory LoraTask
  imports LoraDrv
begin

text \<open>
  The LoRa tasks of \<open>l2lora/lora.c\<close>: the send function of the interface, the periodic ping,
  one round of the receive task, the beacon handler and the registration.
\<close>

definition BEACON_SIZE :: int where "BEACON_SIZE = 23"

definition loraSend :: "env \<Rightarrow> int \<Rightarrow> u8 list \<Rightarrow> int \<Rightarrow> dev \<Rightarrow> fault + dev" where
  "loraSend E conId c len s =
    (let s = lora_explicit_header_mode E (lora_invert_iq True s);
         s = lora_set_spreading_factor E (lora_sf (lora (lo s))) s;
         s = lora_set_coding_rate E (lora_cr (lora (lo s))) s in
     lora_send_packet E c len s)"

text \<open>A string constant with the terminating 0 that C stores behind it.\<close>

definition ping_text :: "u8 list" where
  "ping_text = [0x70, 0x69, 0x6E, 0x67, 0]"

text \<open>One round of the endless loop of \<open>lora_task\<close>; a tick is 10 ms.\<close>

definition lora_task :: "env \<Rightarrow> dev \<Rightarrow> fault + dev" where
  "lora_task E s =
    bindE (loraSend E 0 ping_text 4 (emit (TaskDelay (10000 div 10)) s)) (\<lambda>s.
    if beaconReceive (lora (lo s)) then lora_receive_beacon E BEACON_SIZE s
    else if dataReceive (lora (lo s)) then Inr (lora_receive_upstream E s)
    else Inr s)"

definition lora_handle_beacon :: "env \<Rightarrow> dev \<Rightarrow> fault + dev" where
  "lora_handle_beacon E s =
    (let s = upd_lora (\<lambda>l. l\<lparr>loraBeacons := loraBeacons l + 1\<rparr>) s;
         s = upd_lora (\<lambda>l. l\<lparr>beaconBand := beaconBand l + 1\<rparr>) s;
         s = (if beaconBand (lora (lo s)) > 7 then upd_lora (\<lambda>l. l\<lparr>beaconBand := 0\<rparr>) s else s) in
     bindE (rd (lorabuf (lo s)) 0) (\<lambda>b0.
     bindE (if b0 = 0 then bindE (rd (lorabuf (lo s)) 1) (\<lambda>b1. Inr (b1 = 0)) else Inr False) (\<lambda>z.
     bindE (if z then
              bindE (rd (lorabuf (lo s)) 8) (\<lambda>b8.
              bindE (rd (lorabuf (lo s)) 7) (\<lambda>b7.
              bindE (rd (lorabuf (lo s)) 6) (\<lambda>b6.
              bindE (rd (lorabuf (lo s)) 5) (\<lambda>b5.
              let ts = (ucast b8 :: u32);
                  ts = push_bit 8 ts + ucast b7;
                  ts = push_bit 8 ts + ucast b6;
                  ts = push_bit 8 ts + ucast b5;
                  ts = ts + 316008000 in
              Inr (emits [Api ''time'' [], Api ''settimeofday'' [sint ts]] s)))))
            else Inr s) (\<lambda>s.
     lora_receive_beacon E BEACON_SIZE s))))"

text \<open>
  A packet is pending: its quality, its bytes, the callback, and the next receive mode.  The
  callback is the parameter \<open>cb\<close>; the signal-to-noise ratio in quarters is converted to
  \<open>int\<close> by truncation.
\<close>

definition lora_read_packet ::
    "env \<Rightarrow> (u8 list \<Rightarrow> int \<Rightarrow> int \<Rightarrow> dev \<Rightarrow> fault + dev) \<Rightarrow> dev \<Rightarrow> fault + dev" where
  "lora_read_packet E cb s =
    (let (rssi, s) = lora_packet_rssi E s;
         (q, s) = lora_packet_snr E s;
         snr = cdiv q 4;
         s = upd_lora (\<lambda>l. l\<lparr>lora_last := (lora_last l)\<lparr>pkt_rssi := rssi, pkt_snr := snr,
               pkt_buf := True\<rparr>\<rparr>) s in
     bindE (lora_receive_packet E (lorabuf (lo s)) 100 s) (\<lambda>(len, buf, s).
     let s = upd_lo (\<lambda>v. v\<lparr>lorabuf := buf, lastLoraLen := len\<rparr>) s;
         s = upd_lora (\<lambda>l. l\<lparr>lora_last := (lora_last l)\<lparr>pkt_len := len\<rparr>\<rparr>) s in
     bindE (if lora_onMessage (lora (lo s))
            then cb (lorabuf (lo s)) len (lora_interfaceId (lora (lo s))) s
            else Inr s) (\<lambda>s.
     if beaconReceive (lora (lo s)) then lora_handle_beacon E s
     else if dataReceive (lora (lo s)) then
       Inr (lora_receive_upstream E (upd_lora (\<lambda>l. l\<lparr>loraReceived := loraReceived l + 1\<rparr>) s))
     else Inr s)))"

text \<open>One round of \<open>task_lora_read\<close> after the queue delivered an event.\<close>

definition lora_read_event ::
    "env \<Rightarrow> (u8 list \<Rightarrow> int \<Rightarrow> int \<Rightarrow> dev \<Rightarrow> fault + dev) \<Rightarrow> int \<Rightarrow> dev \<Rightarrow> fault + dev" where
  "lora_read_event E cb loraEvent s =
    (let s = emit (Api ''printf LORA'' [loraEvent]) s;
         (r, s) = lora_received E s in
     bindE (if r \<noteq> 0 then lora_read_packet E cb s else Inr s) (\<lambda>s.
     if lora_repeat_send (lo s) > 0 then
       loraSend E 0 ping_text 4 (upd_lo (\<lambda>v. v\<lparr>lora_repeat_send := lora_repeat_send v - 1\<rparr>) s)
     else Inr s))"

section \<open>Registration\<close>

definition register_lora :: "env \<Rightarrow> dev \<Rightarrow> fault + dev" where
  "register_lora E s =
    (let s = emit (Api ''xQueueCreate'' [10, 4]) (lora_reset s) in
     bindE (lora_init E s) (\<lambda>(err, s).
     if err \<noteq> ESP_OK then Inr s
     else
     let s = emit (ApiS ''xTaskCreate'' [''task_lora_read'']) s;
         s = lora_set_preamble_length 8 (lora_set_sync_word 0x34 s);
         s = lora_disable_crc E (lora_set_bandwidth E 500000 s);
         (err, loraMode, s) = nvs_get_i32 E ''lora'' 0 s in
     if err = ESP_OK then
       let s = (if loraMode > 2 then emit (ApiS ''xTaskCreate'' [''lora_task'']) s else s) in
       bindE (if loraMode = 1 then lora_receive_beacon E BEACON_SIZE s else Inr s) (\<lambda>s.
       Inr (if loraMode = 2 then lora_receive_upstream E s else s))
     else Inr s))"

end
