(* ===== verification/Dmesh.thy ===== *)
theory Dmesh
  imports BtSpp LoraTask
begin

text \<open>
  Routing, \<open>l3dmesh/dmesh.c\<close>: every received message is forwarded to all transports, and the
  periodic timer whose callback has no code.
\<close>

definition onMessage :: "env \<Rightarrow> u8 list \<Rightarrow> int \<Rightarrow> int \<Rightarrow> dev \<Rightarrow> fault + dev" where
  "onMessage E c len from s =
    bindE (rd c 0) (\<lambda>b.
    bindE (if b = 0x6C then loraSend E 0 c len s else Inr s) (\<lambda>s.
    bindE (bleSend E 0 c len s) (\<lambda>s.
    btSend 0 c len s)))"

definition dmesh_timerCB :: "dev \<Rightarrow> dev" where
  "dmesh_timerCB s = s"

definition register_dmesh :: "env \<Rightarrow> dev \<Rightarrow> fault + dev" where
  "register_dmesh E s =
    bindE (check E (ApiS ''esp_timer_create'' [''dmesh_t'']) (emit (Api ''esp_timer_init'' []) s)) (\<lambda>s.
    Inr (emits [Api ''esp_timer_stop'' [], Api ''esp_timer_start_periodic'' [5 * 1000000],
      Api ''esp_timer_dump'' []] s))"

end
