(* ===== verification/LoraChip.thy ===== *)
theory LoraChip
  imports LoraTask
begin

text \<open>
  The radio as the driver's transfers leave it: the registers, the transmit buffer and the
  packets put on air, a function of the history of SPI transfers.  Each setting is a bit field
  of a register; that different settings do not disturb each other is the contract
  \<open>two_fields\<close>, shown for every pair that shares a register.
\<close>

section \<open>Bit fields of a register\<close>

locale bit_field =
  fixes mask :: u8 and put :: "'v \<Rightarrow> u8 \<Rightarrow> u8" and get :: "u8 \<Rightarrow> 'r" and norm :: "'v \<Rightarrow> 'r"
  assumes get_put: "get (put v x) = norm v"
    and put_outside: "put v x AND NOT mask = x AND NOT mask"
    and get_inside: "get (x AND mask) = get x"
begin

lemma get_cong: "x AND mask = y AND mask \<Longrightarrow> get x = get y"
  by (metis get_inside)

end

locale two_fields =
  a: bit_field mask put get norm + b: bit_field mask' put' get' norm'
  for mask and put :: "'v \<Rightarrow> u8 \<Rightarrow> u8" and get :: "u8 \<Rightarrow> 'r" and norm
    and mask' and put' :: "'w \<Rightarrow> u8 \<Rightarrow> u8" and get' :: "u8 \<Rightarrow> 'q" and norm' +
  assumes disjoint: "mask AND mask' = 0"
begin

lemma inside_other: "y AND mask = (y AND NOT mask') AND mask"
proof (rule bit_word_eqI)
  fix n
  have "\<not> (bit mask n \<and> bit mask' n)"
    using disjoint by (metis bit_0_eq bit_and_iff bot_apply bot_bool_def)
  then show "n < LENGTH(8) \<Longrightarrow> bit (y AND mask) n = bit ((y AND NOT mask') AND mask) n"
    by (auto simp: bit_and_iff bit_not_iff)
qed

lemma get_put_other: "get (put' w x) = get x"
proof (rule a.get_cong)
  show "put' w x AND mask = x AND mask"
    using inside_other [of "put' w x"] inside_other [of x] by (simp only: b.put_outside)
qed

lemma get_put_put_other: "get (put' w (put v x)) = norm v"
  by (simp add: get_put_other a.get_put)

end

lemma u8_masks:
  "(0x0f :: u8) = mask 4" "(0xf0 :: u8) = push_bit 4 (mask 4)" "(0xf1 :: u8) = NOT (push_bit 1 (mask 3))"
  "(0x0e :: u8) = push_bit 1 (mask 3)" "(0xfe :: u8) = NOT (mask 1)" "(0x01 :: u8) = mask 1"
  "(0x04 :: u8) = push_bit 2 (mask 1)" "(0xfb :: u8) = NOT (push_bit 2 (mask 1))"
  by (simp_all add: mask_eq_exp_minus_1)

lemmas word_bits = bit_and_iff bit_or_iff bit_not_iff bit_push_bit_iff bit_drop_bit_eq o_apply
  bit_mask_iff

definition clamp :: "int \<Rightarrow> int \<Rightarrow> int \<Rightarrow> int" where
  "clamp a b v = (if v < a then a else if v > b then b else v)"

text \<open>The fields of \<open>MODEM_CONFIG_1\<close> (bandwidth, coding rate, header mode) and \<open>MODEM_CONFIG_2\<close>.\<close>

definition bw_put :: "int \<Rightarrow> u8 \<Rightarrow> u8" where
  "bw_put v x = (x AND 0x0f) OR push_bit 4 (b_of (bw_code v))"

definition cr_put :: "int \<Rightarrow> u8 \<Rightarrow> u8" where
  "cr_put v x = (x AND 0xf1) OR push_bit 1 (b_of (clamp 5 8 v - 4))"

definition hdr_put :: "bool \<Rightarrow> u8 \<Rightarrow> u8" where
  "hdr_put v x = (if v then x OR 0x01 else x AND 0xfe)"

definition sf_put :: "int \<Rightarrow> u8 \<Rightarrow> u8" where
  "sf_put v x = (x AND 0x0f) OR push_bit 4 (b_of (clamp 6 12 v))"

definition crc_put :: "bool \<Rightarrow> u8 \<Rightarrow> u8" where
  "crc_put v x = (if v then x OR 0x04 else x AND 0xfb)"

definition hi4 :: "u8 \<Rightarrow> u8" where "hi4 x = drop_bit 4 x"
definition cr_get :: "u8 \<Rightarrow> u8" where "cr_get x = drop_bit 1 (x AND 0x0e)"
definition hdr_get :: "u8 \<Rightarrow> bool" where "hdr_get x = (x AND 0x01 \<noteq> 0)"
definition crc_get :: "u8 \<Rightarrow> bool" where "crc_get x = (x AND 0x04 \<noteq> 0)"

lemma hi_nibble: "drop_bit 4 ((x AND 0x0f) OR push_bit 4 c) = (c AND 0x0f :: u8)"
  unfolding u8_masks by (rule bit_word_eqI, unfold word_bits) auto

lemma hi_outside: "((x AND 0x0f) OR push_bit 4 c) AND NOT 0xf0 = (x AND NOT 0xf0 :: u8)"
  unfolding u8_masks by (rule bit_word_eqI, unfold word_bits) auto

lemma hi_inside: "hi4 (x AND 0xf0) = hi4 x"
  unfolding u8_masks hi4_def by (rule bit_word_eqI, unfold word_bits) (auto dest: bit_imp_le_length)

lemma cr_mid: "drop_bit 1 (((x AND 0xf1) OR push_bit 1 c) AND 0x0e) = (c AND mask 3 :: u8)"
  unfolding u8_masks by (rule bit_word_eqI, unfold word_bits) auto

lemma cr_outside: "((x AND 0xf1) OR push_bit 1 (c AND mask 3)) AND NOT 0x0e = (x AND NOT 0x0e :: u8)"
  unfolding u8_masks by (rule bit_word_eqI, unfold word_bits) auto

lemma bw_code_cases: "bw_code v \<in> {0, 1, 2, 3, 4, 5, 6, 7, 8, 9}"
  by (simp add: bw_code_def)

lemma cr_mask: "b_of (clamp 5 8 v - 4) AND mask 3 = b_of (clamp 5 8 v - 4)"
proof -
  have "clamp 5 8 v \<in> {5, 6, 7, 8}" by (auto simp: clamp_def)
  then show ?thesis by (auto simp: mask_eq_exp_minus_1)
qed

lemma sf_mask: "b_of (clamp 6 12 v) AND 0x0f = b_of (clamp 6 12 v)"
proof -
  have "clamp 6 12 v \<in> {6, 7, 8, 9, 10, 11, 12}" by (auto simp: clamp_def)
  then show ?thesis by auto
qed

interpretation bw: bit_field "0xf0" bw_put hi4 "\<lambda>v. b_of (bw_code v)"
proof
  show "hi4 (bw_put v x) = b_of (bw_code v)" for v x
    using bw_code_cases [of v] by (auto simp: hi4_def bw_put_def hi_nibble)
qed (simp_all only: bw_put_def hi_outside hi_inside)

interpretation sf: bit_field "0xf0" sf_put hi4 "\<lambda>v. b_of (clamp 6 12 v)"
  by unfold_locales (simp_all only: hi4_def sf_put_def hi_nibble hi_outside sf_mask hi_inside [unfolded hi4_def])

interpretation cr: bit_field "0x0e" cr_put cr_get "\<lambda>v. b_of (clamp 5 8 v - 4)"
proof
  show "cr_get (cr_put v x) = b_of (clamp 5 8 v - 4)" for v x
    by (simp only: cr_get_def cr_put_def cr_mid cr_mask)
  show "cr_put v x AND NOT 0x0e = x AND NOT 0x0e" for v x
    using cr_outside [of x "b_of (clamp 5 8 v - 4)"] by (simp only: cr_put_def cr_mask)
  show "cr_get (x AND 0x0e) = cr_get x" for x
    by (simp add: cr_get_def and.assoc)
qed

interpretation hdr: bit_field "0x01" hdr_put hdr_get "\<lambda>v. v"
proof
  show "hdr_get (hdr_put v x) = v" for v x
  proof (cases v)
    case True
    have "bit ((x OR 0x01) AND 0x01) 0" by (simp add: bit_simps)
    then show ?thesis using True by (auto simp: hdr_get_def hdr_put_def)
  next
    case False
    have "(x AND 0xfe) AND 0x01 = 0" by (simp add: and.assoc)
    then show ?thesis using False by (simp add: hdr_get_def hdr_put_def)
  qed
  show "hdr_put v x AND NOT 0x01 = x AND NOT 0x01" for v x
    unfolding hdr_put_def u8_masks
    by (cases v; simp only: if_True if_False; rule bit_word_eqI; unfold word_bits; auto)
  show "hdr_get (x AND 0x01) = hdr_get x" for x
    by (simp add: hdr_get_def and.assoc)
qed

interpretation crc: bit_field "0x04" crc_put crc_get "\<lambda>v. v"
proof
  show "crc_get (crc_put v x) = v" for v x
  proof (cases v)
    case True
    have "bit ((x OR 0x04) AND 0x04) 2" by (simp add: bit_simps)
    then show ?thesis using True by (auto simp: crc_get_def crc_put_def)
  next
    case False
    have "(x AND 0xfb) AND 0x04 = 0" by (simp add: and.assoc)
    then show ?thesis using False by (simp add: crc_get_def crc_put_def)
  qed
  show "crc_put v x AND NOT 0x04 = x AND NOT 0x04" for v x
    unfolding crc_put_def u8_masks
    by (cases v; simp only: if_True if_False; rule bit_word_eqI; unfold word_bits; auto)
  show "crc_get (x AND 0x04) = crc_get x" for x
    by (simp add: crc_get_def and.assoc)
qed

interpretation bw_cr: two_fields "0xf0" bw_put hi4 "\<lambda>v. b_of (bw_code v)"
    "0x0e" cr_put cr_get "\<lambda>v. b_of (clamp 5 8 v - 4)"
  by unfold_locales simp

interpretation bw_hdr: two_fields "0xf0" bw_put hi4 "\<lambda>v. b_of (bw_code v)" "0x01" hdr_put hdr_get "\<lambda>v. v"
  by unfold_locales simp

interpretation cr_bw: two_fields "0x0e" cr_put cr_get "\<lambda>v. b_of (clamp 5 8 v - 4)"
    "0xf0" bw_put hi4 "\<lambda>v. b_of (bw_code v)"
  by unfold_locales simp

interpretation cr_hdr: two_fields "0x0e" cr_put cr_get "\<lambda>v. b_of (clamp 5 8 v - 4)"
    "0x01" hdr_put hdr_get "\<lambda>v. v"
  by unfold_locales simp

interpretation hdr_bw: two_fields "0x01" hdr_put hdr_get "\<lambda>v. v"
    "0xf0" bw_put hi4 "\<lambda>v. b_of (bw_code v)"
  by unfold_locales simp

interpretation hdr_cr: two_fields "0x01" hdr_put hdr_get "\<lambda>v. v"
    "0x0e" cr_put cr_get "\<lambda>v. b_of (clamp 5 8 v - 4)"
  by unfold_locales simp

interpretation sf_crc: two_fields "0xf0" sf_put hi4 "\<lambda>v. b_of (clamp 6 12 v)" "0x04" crc_put crc_get "\<lambda>v. v"
  by unfold_locales simp

interpretation crc_sf: two_fields "0x04" crc_put crc_get "\<lambda>v. v" "0xf0" sf_put hi4 "\<lambda>v. b_of (clamp 6 12 v)"
  by unfold_locales simp

lemmas field_simps_lora =
  bw.get_put sf.get_put cr.get_put hdr.get_put crc.get_put
  bw_cr.get_put_other bw_hdr.get_put_other cr_bw.get_put_other cr_hdr.get_put_other
  hdr_bw.get_put_other hdr_cr.get_put_other sf_crc.get_put_other crc_sf.get_put_other

section \<open>The radio\<close>

text \<open>
  A transfer whose first byte has the top bit set writes a register; a write to \<open>REG_FIFO\<close>
  appends to the buffer, the address pointer sets the place, and the transmit mode puts as many
  bytes of the buffer on air as \<open>REG_PAYLOAD_LENGTH\<close> says.  All other calls leave the radio as
  it is.
\<close>

record radio =
  rregs :: "u8 \<Rightarrow> u8"
  rbuf :: "u8 list"
  air :: "u8 list list"

definition rset :: "u8 \<Rightarrow> u8 \<Rightarrow> radio \<Rightarrow> radio" where
  "rset r v R = R\<lparr>rregs := (rregs R)(r := v)\<rparr>"

definition radio_write :: "u8 \<Rightarrow> u8 \<Rightarrow> radio \<Rightarrow> radio" where
  "radio_write r v R =
    (if r = 0x00 then R\<lparr>rbuf := rbuf R @ [v]\<rparr>
     else if r = 0x0d then rset r v (R\<lparr>rbuf := take (unat v) (rbuf R)\<rparr>)
     else if r = 0x01 \<and> v = 0x83
     then rset r v (R\<lparr>air := air R @ [take (unat (rregs R 0x22)) (rbuf R)]\<rparr>)
     else rset r v R)"

fun radio_call :: "call \<Rightarrow> radio \<Rightarrow> radio" where
  "radio_call (Spi [a, v]) R = (if 0x80 \<le> a then radio_write (a AND 0x7f) v R else R)"
| "radio_call _ R = R"

definition radio_of :: "radio \<Rightarrow> call list \<Rightarrow> radio" where
  "radio_of R0 h = fold radio_call h R0"

abbreviation radio_at :: "radio \<Rightarrow> dev \<Rightarrow> radio" where
  "radio_at R0 s \<equiv> radio_of R0 (hist s)"

text \<open>
  The configuration registers of the chip read back what was last written to them: what the
  data sheet promises, and all the driver relies on.
\<close>

definition kept :: "u8 set" where
  "kept = {0x06, 0x07, 0x08, 0x1d, 0x1e, 0x20, 0x21, 0x22, 0x26, 0x31, 0x33, 0x37, 0x39, 0x3b}"

definition chip :: "env \<Rightarrow> radio \<Rightarrow> bool" where
  "chip E R0 \<longleftrightarrow> (\<forall>h. \<forall>r \<in> kept. fit 2 (rb E h (Spi [r, 0xff])) ! 1 = rregs (radio_of R0 h) r)"

lemma radio_of_emit [simp]:
  "radio_of R0 (h @ [c]) = radio_call c (radio_of R0 h)"
  "radio_of R0 (h @ [c, d]) = radio_call d (radio_call c (radio_of R0 h))"
  "radio_of R0 (h @ [c, d, e]) = radio_call e (radio_call d (radio_call c (radio_of R0 h)))"
  by (simp_all add: radio_of_def)

lemma lo_upd [simp]:
  "lo (upd_lo f s) = f (lo s)" "hist (upd_lo f s) = hist s"
  "lo (upd_lora g s) = (lo s)\<lparr>lora := g (lora (lo s))\<rparr>" "hist (upd_lora g s) = hist s"
  by (simp_all add: upd_lo_def upd_lora_def)

lemma write_reg_lo [simp]: "lo (lora_write_reg r v s) = lo s"
  by (simp add: lora_write_reg_def)

lemma b_of_bits:
  "b_of (a AND b) = b_of a AND b_of b" "b_of (a OR b) = b_of a OR b_of b"
  "b_of (push_bit n a) = push_bit n (b_of a)"
  by (auto intro!: bit_word_eqI simp: bit_simps)

lemma write_reg_radio [simp]:
  "radio_at R0 (lora_write_reg r v s) = radio_call (Spi [b_of (0x80 OR r), b_of v]) (radio_at R0 s)"
  by (simp add: lora_write_reg_def)

lemma read_reg_radio:
  "radio_at R0 (snd (lora_read_reg E r s)) = radio_call (Spi [b_of r, 0xff]) (radio_at R0 s)"
  "lo (snd (lora_read_reg E r s)) = lo s"
  by (simp_all add: lora_read_reg_def Let_def)

lemma read_reg_chip:
  assumes "chip E R0" "b_of r \<in> kept"
  shows "fst (lora_read_reg E r s) = i_of (rregs (radio_at R0 s) (b_of r))"
    "radio_at R0 (snd (lora_read_reg E r s)) = radio_at R0 s"
proof -
  have "fit 2 (rb E (hist s @ [GpioLevel CONFIG_CS_GPIO 0]) (Spi [b_of r, 0xff])) ! 1 =
      rregs (radio_of R0 (hist s @ [GpioLevel CONFIG_CS_GPIO 0])) (b_of r)"
    using assms by (auto simp: chip_def)
  then show "fst (lora_read_reg E r s) = i_of (rregs (radio_at R0 s) (b_of r))"
    by (simp add: lora_read_reg_def Let_def fill_def got_def)
  show "radio_at R0 (snd (lora_read_reg E r s)) = radio_at R0 s"
    using assms(2) unfolding read_reg_radio(1) by (auto simp: kept_def)
qed

lemma read_reg_kept:
  assumes "chip E R0" "b_of r \<in> kept"
  obtains s' where "lora_read_reg E r s = (i_of (rregs (radio_at R0 s) (b_of r)), s')"
    "radio_at R0 s' = radio_at R0 s" "lo s' = lo s"
  using read_reg_chip [OF assms, of s] read_reg_radio(2) [of E r s]
  by (metis prod.collapse)

text \<open>Each setting, as what it does to the radio.\<close>

lemma radio_explicit:
  assumes "chip E R0"
  shows "radio_at R0 (lora_explicit_header_mode E s) =
      rset 0x1d (hdr_put False (rregs (radio_at R0 s) 0x1d)) (radio_at R0 s)"
    "lo (lora_explicit_header_mode E s) = (lo s)\<lparr>lora_implicit := False\<rparr>"
proof -
  obtain s' where r: "lora_read_reg E 0x1d (upd_lo (\<lambda>v. v\<lparr>lora_implicit := False\<rparr>) s) =
      (i_of (rregs (radio_at R0 s) 0x1d), s')" "radio_at R0 s' = radio_at R0 s"
      "lo s' = (lo s)\<lparr>lora_implicit := False\<rparr>"
    by (rule read_reg_kept [OF assms, of "0x1d" "upd_lo (\<lambda>v. v\<lparr>lora_implicit := False\<rparr>) s"])
      (simp_all add: kept_def)
  show "radio_at R0 (lora_explicit_header_mode E s) =
      rset 0x1d (hdr_put False (rregs (radio_at R0 s) 0x1d)) (radio_at R0 s)"
    "lo (lora_explicit_header_mode E s) = (lo s)\<lparr>lora_implicit := False\<rparr>"
    using r by (simp_all add: lora_explicit_header_mode_def Let_def reg_defs radio_write_def hdr_put_def
        b_of_bits)
qed

lemma radio_set_sf:
  assumes "chip E R0"
  shows "radio_at R0 (lora_set_spreading_factor E v s) =
      rset 0x1e (sf_put v (rregs (radio_at R0 s) 0x1e))
        (rset 0x37 (if v \<le> 6 then 0x0c else 0x0a)
          (rset 0x31 (if v \<le> 6 then 0xc5 else 0xc3) (radio_at R0 s)))"
    "lo (lora_set_spreading_factor E v s) = lo s"
proof -
  define s1 where "s1 = lora_write_reg 0x37 (if v \<le> 6 then 0x0c else 0x0a)
    (lora_write_reg 0x31 (if v \<le> 6 then 0xc5 else 0xc3) s)"
  have s1: "radio_at R0 s1 = rset 0x37 (if v \<le> 6 then 0x0c else 0x0a)
      (rset 0x31 (if v \<le> 6 then 0xc5 else 0xc3) (radio_at R0 s))" "lo s1 = lo s"
    by (simp_all add: s1_def radio_write_def)
  obtain s' where r: "lora_read_reg E 0x1e s1 = (i_of (rregs (radio_at R0 s1) 0x1e), s')"
      "radio_at R0 s' = radio_at R0 s1" "lo s' = lo s1"
    by (rule read_reg_kept [OF assms, of "0x1e" s1]) (simp_all add: kept_def)
  have c: "b_of (push_bit 4 (clamp 6 12 v) AND 0xf0) = push_bit 4 (b_of (clamp 6 12 v))"
  proof -
    have "clamp 6 12 v \<in> {6, 7, 8, 9, 10, 11, 12}" by (auto simp: clamp_def)
    then show ?thesis by auto
  qed
  have e: "lora_set_spreading_factor E v s =
      lora_write_reg 0x1e ((i_of (rregs (radio_at R0 s1) 0x1e) AND 0x0f) OR
        (push_bit 4 (clamp 6 12 v) AND 0xf0)) s'"
    using r(1) by (auto simp: lora_set_spreading_factor_def Let_def reg_defs clamp_def s1_def split: if_splits)
  show "radio_at R0 (lora_set_spreading_factor E v s) =
      rset 0x1e (sf_put v (rregs (radio_at R0 s) 0x1e))
        (rset 0x37 (if v \<le> 6 then 0x0c else 0x0a)
          (rset 0x31 (if v \<le> 6 then 0xc5 else 0xc3) (radio_at R0 s)))"
    unfolding e write_reg_radio b_of_bits(2) c
    by (simp add: r(2) s1(1) radio_write_def sf_put_def b_of_bits(1) rset_def)
  show "lo (lora_set_spreading_factor E v s) = lo s"
    unfolding e by (simp add: r(3) s1(2))
qed

lemma radio_set_cr:
  assumes "chip E R0"
  shows "radio_at R0 (lora_set_coding_rate E v s) =
      rset 0x1d (cr_put v (rregs (radio_at R0 s) 0x1d)) (radio_at R0 s)"
    "lo (lora_set_coding_rate E v s) = lo s"
proof -
  obtain s' where r: "lora_read_reg E 0x1d s = (i_of (rregs (radio_at R0 s) 0x1d), s')"
      "radio_at R0 s' = radio_at R0 s" "lo s' = lo s"
    by (rule read_reg_kept [OF assms, of "0x1d" s]) (simp_all add: kept_def)
  show "radio_at R0 (lora_set_coding_rate E v s) =
      rset 0x1d (cr_put v (rregs (radio_at R0 s) 0x1d)) (radio_at R0 s)"
    "lo (lora_set_coding_rate E v s) = lo s"
    using r by (simp_all add: lora_set_coding_rate_def Let_def reg_defs radio_write_def cr_put_def
        clamp_def b_of_bits)
qed

lemma radio_set_bw:
  assumes "chip E R0"
  shows "radio_at R0 (lora_set_bandwidth E v s) =
      rset 0x1d (bw_put v (rregs (radio_at R0 s) 0x1d)) (radio_at R0 s)"
    "lo (lora_set_bandwidth E v s) = lo s"
proof -
  obtain s' where r: "lora_read_reg E 0x1d s = (i_of (rregs (radio_at R0 s) 0x1d), s')"
      "radio_at R0 s' = radio_at R0 s" "lo s' = lo s"
    by (rule read_reg_kept [OF assms, of "0x1d" s]) (simp_all add: kept_def)
  show "radio_at R0 (lora_set_bandwidth E v s) =
      rset 0x1d (bw_put v (rregs (radio_at R0 s) 0x1d)) (radio_at R0 s)"
    "lo (lora_set_bandwidth E v s) = lo s"
    using r by (simp_all add: lora_set_bandwidth_def Let_def reg_defs radio_write_def bw_put_def b_of_bits)
qed

lemma radio_implicit:
  assumes "chip E R0"
  shows "radio_at R0 (lora_implicit_header_mode E n s) =
      rset 0x22 (b_of n) (rset 0x1d (hdr_put True (rregs (radio_at R0 s) 0x1d)) (radio_at R0 s))"
    "lo (lora_implicit_header_mode E n s) = (lo s)\<lparr>lora_implicit := True\<rparr>"
proof -
  obtain s' where r: "lora_read_reg E 0x1d (upd_lo (\<lambda>v. v\<lparr>lora_implicit := True\<rparr>) s) =
      (i_of (rregs (radio_at R0 s) 0x1d), s')" "radio_at R0 s' = radio_at R0 s"
      "lo s' = (lo s)\<lparr>lora_implicit := True\<rparr>"
    by (rule read_reg_kept [OF assms, of "0x1d" "upd_lo (\<lambda>v. v\<lparr>lora_implicit := True\<rparr>) s"])
      (simp_all add: kept_def)
  show "radio_at R0 (lora_implicit_header_mode E n s) =
      rset 0x22 (b_of n) (rset 0x1d (hdr_put True (rregs (radio_at R0 s) 0x1d)) (radio_at R0 s))"
    "lo (lora_implicit_header_mode E n s) = (lo s)\<lparr>lora_implicit := True\<rparr>"
    using r by (simp_all add: lora_implicit_header_mode_def Let_def reg_defs radio_write_def hdr_put_def
        b_of_bits)
qed

lemma radio_crc:
  assumes "chip E R0"
  shows "radio_at R0 (lora_enable_crc E s) =
      rset 0x1e (crc_put True (rregs (radio_at R0 s) 0x1e)) (radio_at R0 s)"
    "radio_at R0 (lora_disable_crc E s) =
      rset 0x1e (crc_put False (rregs (radio_at R0 s) 0x1e)) (radio_at R0 s)"
proof -
  obtain s' where r: "lora_read_reg E 0x1e s = (i_of (rregs (radio_at R0 s) 0x1e), s')"
      "radio_at R0 s' = radio_at R0 s" "lo s' = lo s"
    by (rule read_reg_kept [OF assms, of "0x1e" s]) (simp_all add: kept_def)
  show "radio_at R0 (lora_enable_crc E s) =
      rset 0x1e (crc_put True (rregs (radio_at R0 s) 0x1e)) (radio_at R0 s)"
    "radio_at R0 (lora_disable_crc E s) =
      rset 0x1e (crc_put False (rregs (radio_at R0 s) 0x1e)) (radio_at R0 s)"
    using r by (simp_all add: lora_enable_crc_def lora_disable_crc_def Let_def reg_defs radio_write_def
        crc_put_def b_of_bits)
qed

lemma radio_simple:
  "radio_at R0 (lora_invert_iq b s) =
     rset 0x3b (if b then 0x19 else 0x1d) (rset 0x33 (if b then 0x66 else 0x27) (radio_at R0 s))"
  "lo (lora_invert_iq b s) = lo s"
  "radio_at R0 (lora_idle s) = rset 0x01 0x81 (radio_at R0 s)" "lo (lora_idle s) = lo s"
  "radio_at R0 (lora_sleep s) = rset 0x01 0x80 (radio_at R0 s)" "lo (lora_sleep s) = lo s"
  "radio_at R0 (lora_receive s) = rset 0x01 0x85 (radio_at R0 s)" "lo (lora_receive s) = lo s"
  by (simp_all add: lora_invert_iq_def lora_idle_def lora_sleep_def lora_receive_def reg_defs mode_defs
      radio_write_def)

text \<open>The frequency registers: the 24-bit number they form.\<close>

definition frf_of :: "radio \<Rightarrow> int" where
  "frf_of R = 65536 * i_of (rregs R 0x06) + 256 * i_of (rregs R 0x07) + i_of (rregs R 0x08)"

lemma radio_frequency:
  assumes "0 \<le> f" "f < 1024000000"
  shows "frf_of (radio_at R0 (lora_set_frequency f s)) = f * 2 ^ 19 div 32000000"
    "rregs (radio_at R0 (lora_set_frequency f s)) r =
      (if r \<in> {0x06, 0x07, 0x08} then rregs (radio_at R0 (lora_set_frequency f s)) r
       else rregs (radio_at R0 s) r)"
    "lo (lora_set_frequency f s) = (lo s)\<lparr>lora_frequency := f\<rparr>"
    "air (radio_at R0 (lora_set_frequency f s)) = air (radio_at R0 s)"
proof -
  define w :: u64 where "w = push_bit 19 (word_of_int f) div 32000000"
  let ?R = "radio_at R0 (lora_set_frequency f s)"
  have "uint (push_bit 19 (word_of_int f :: u64)) = f * 2 ^ 19"
    using assms by (simp add: push_bit_eq_mult uint_word_ariths uint_word_of_int mod_mult_left_eq)
  then have w: "uint w = f * 2 ^ 19 div 32000000" by (simp add: w_def uint_div)
  then have b: "0 \<le> uint w" "uint w < 2 ^ 24" using assms by simp_all
  have d: "uint (ucast (drop_bit n w) :: u8) = uint w div 2 ^ n mod 256" for n
  proof -
    have "uint (drop_bit n w) = drop_bit n (uint w)"
      using uint_bounded [of w] by (simp add: unsigned_drop_bit_eq take_bit_eq_mod)
    then show ?thesis by (simp add: unsigned_ucast_eq take_bit_eq_mod flip: drop_bit_eq_div)
  qed
  have g: "rregs ?R 0x06 = ucast (drop_bit 16 w)" "rregs ?R 0x07 = ucast (drop_bit 8 w)"
    "rregs ?R 0x08 = ucast w"
    by (simp_all add: lora_set_frequency_def Let_def reg_defs radio_write_def rset_def w_def [symmetric] del: drop_bit_of_0 drop_bit_eq_div)
  have h: "frf_of ?R = 65536 * (uint w div 65536 mod 256) + 256 * (uint w div 256 mod 256) + uint w mod 256"
    using d [of 16] d [of 8] d [of 0] unfolding frf_of_def g by (simp only: drop_bit_0 id_apply) simp
  have k: "65536 * (x div 65536 mod 256) + 256 * (x div 256 mod 256) + x mod 256 = x"
    if "0 \<le> x" "x < 2 ^ 24" for x :: int
  proof -
    have "x mod 65536 = 256 * (x div 256 mod 256) + x mod 256"
      using zmod_zmult2_eq [of 256 x 256] by simp
    moreover have "x div 65536 mod 256 = x div 65536" using that by simp
    moreover have "65536 * (x div 65536) + x mod 65536 = x" by simp
    ultimately show ?thesis by linarith
  qed
  show "frf_of ?R = f * 2 ^ 19 div 32000000"
    unfolding h w [symmetric] by (rule k [OF b])
  show "rregs (radio_at R0 (lora_set_frequency f s)) r =
      (if r \<in> {0x06, 0x07, 0x08} then rregs (radio_at R0 (lora_set_frequency f s)) r
       else rregs (radio_at R0 s) r)"
    "lo (lora_set_frequency f s) = (lo s)\<lparr>lora_frequency := f\<rparr>"
    "air (radio_at R0 (lora_set_frequency f s)) = air (radio_at R0 s)"
    by (auto simp: lora_set_frequency_def Let_def reg_defs radio_write_def rset_def)
qed

lemma rset_simps [simp]:
  "rregs (rset r v R) = (rregs R)(r := v)" "rbuf (rset r v R) = rbuf R" "air (rset r v R) = air R"
  by (simp_all add: rset_def)

lemma write_fifo_radio:
  "radio_at R0 (write_fifo bs s) = (radio_at R0 s)\<lparr>rbuf := rbuf (radio_at R0 s) @ bs\<rparr>"
  "lo (write_fifo bs s) = lo s"
  by (induction bs arbitrary: s) (simp_all add: write_fifo_def reg_defs radio_write_def)

text \<open>Waiting for the end of the transmission: whether it ends, and that it changes nothing.\<close>

definition tx_done :: "env \<Rightarrow> dev \<Rightarrow> bool" where
  "tx_done E s \<longleftrightarrow> fst (lora_read_reg E REG_IRQ_FLAGS s) AND IRQ_TX_DONE_MASK \<noteq> 0"

definition tx_poll :: "env \<Rightarrow> dev \<Rightarrow> dev" where
  "tx_poll E s = emit (TaskDelay 2) (snd (lora_read_reg E REG_IRQ_FLAGS s))"

text \<open>A chip that ends every transmission.\<close>

definition sends_end :: "env \<Rightarrow> bool" where
  "sends_end E \<longleftrightarrow> (\<forall>s. \<exists>k. tx_done E ((tx_poll E ^^ k) s))"

lemma wait_tx_done_unfold:
  "wait_tx_done E s =
     (if tx_done E s then Some (snd (lora_read_reg E REG_IRQ_FLAGS s)) else wait_tx_done E (tx_poll E s))"
  by (subst wait_tx_done.simps) (simp add: tx_done_def tx_poll_def Let_def split: prod.splits)

lemma wait_tx_done_returns:
  "tx_done E ((tx_poll E ^^ k) s) \<Longrightarrow> wait_tx_done E s \<noteq> None"
proof (induction k arbitrary: s)
  case 0
  then show ?case by (subst wait_tx_done_unfold) simp
next
  case (Suc k)
  then have "wait_tx_done E (tx_poll E s) \<noteq> None" by (simp add: funpow_swap1)
  then show ?case by (subst wait_tx_done_unfold) simp
qed

lemma wait_tx_done_Some:
  "wait_tx_done E s = Some s' \<Longrightarrow>
   (\<exists>k. tx_done E ((tx_poll E ^^ k) s)) \<and> radio_at R0 s' = radio_at R0 s \<and> lo s' = lo s"
proof (induction rule: wait_tx_done.raw_induct [rotated, consumes 1, case_names step])
  case (step wait E s s')
  have q: "radio_at R0 (snd (lora_read_reg E REG_IRQ_FLAGS s)) = radio_at R0 s"
    "lo (snd (lora_read_reg E REG_IRQ_FLAGS s)) = lo s"
    by (simp_all add: read_reg_radio reg_defs)
  show ?case
  proof (cases "tx_done E s")
    case True
    then have "s' = snd (lora_read_reg E REG_IRQ_FLAGS s)"
      using step(2) by (auto simp: tx_done_def Let_def split: prod.splits)
    then show ?thesis using True q by (auto intro: exI [of _ 0])
  next
    case False
    then have "wait E (tx_poll E s) = Some s'"
      using step(2) by (simp add: tx_done_def tx_poll_def Let_def split: prod.splits)
    from step(1) [OF this] obtain k where "tx_done E ((tx_poll E ^^ k) (tx_poll E s))"
      "radio_at R0 s' = radio_at R0 (tx_poll E s)" "lo s' = lo (tx_poll E s)" by blast
    then have "tx_done E ((tx_poll E ^^ Suc k) s)" "radio_at R0 s' = radio_at R0 s" "lo s' = lo s"
      using q by (simp_all add: funpow_swap1) (simp_all add: tx_poll_def)
    then show ?thesis by blast
  qed
qed

section \<open>History\<close>

lemma grows_lora_upd [grows_intros]:
  "grows s t \<Longrightarrow> grows s (upd_lo f t)" "grows s t \<Longrightarrow> grows s (upd_lora g t)"
  "grows s t \<Longrightarrow> grows s (lora_write_reg r v t)"
  by (auto simp: grows_def lora_write_reg_def)

lemma grows_read: "lora_read_reg E r t = (v, t') \<Longrightarrow> grows s t \<Longrightarrow> grows s t'"
  by (auto simp: grows_def lora_read_reg_def Let_def)

lemma grows_lora_ops [grows_intros]:
  "grows s t \<Longrightarrow> grows s (lora_explicit_header_mode E t)"
  "grows s t \<Longrightarrow> grows s (lora_implicit_header_mode E n t)"
  "grows s t \<Longrightarrow> grows s (lora_set_spreading_factor E v t)"
  "grows s t \<Longrightarrow> grows s (lora_set_coding_rate E v t)"
  "grows s t \<Longrightarrow> grows s (lora_set_frequency f t)"
  "grows s t \<Longrightarrow> grows s (lora_invert_iq b t)"
  "grows s t \<Longrightarrow> grows s (lora_receive t)"
  "grows s t \<Longrightarrow> grows s (lora_idle t)"
  by (auto simp: lora_explicit_header_mode_def lora_implicit_header_mode_def
      lora_set_spreading_factor_def lora_set_coding_rate_def lora_set_frequency_def
      lora_invert_iq_def lora_receive_def lora_idle_def Let_def
      split: prod.splits intro!: grows_intros elim!: grows_read)

lemma grows_beacon: "lora_receive_beacon E n t = Inr t' \<Longrightarrow> grows s t \<Longrightarrow> grows s t'"
  by (auto simp: lora_receive_beacon_def Let_def split: if_splits intro!: grows_intros)

end
