(* ===== verification/LoraRadio.thy ===== *)
theory LoraRadio
  imports LoraChip
begin

text \<open>
  What the LoRa driver promises: a sent packet is on air with the configured modulation, the
  settings are independent, the frequency registers are as close as they can be, received
  packets stay in their buffer, and beacons walk through the eight channels.
\<close>

text \<open>A chip for examples: it keeps its registers and reports every transmission done at once.\<close>

definition radio0 :: radio where
  "radio0 = \<lparr>rregs = \<lambda>_. 0, rbuf = [], air = []\<rparr>"

fun chip_answer :: "radio \<Rightarrow> call list \<Rightarrow> call \<Rightarrow> u8 list" where
  "chip_answer R0 h (Spi [r, v]) = [0, if r = 0x12 then 0x08 else rregs (radio_of R0 h) r]"
| "chip_answer R0 h _ = []"

definition chip_env :: "radio \<Rightarrow> env" where
  "chip_env R0 = quiet\<lparr>rb := chip_answer R0\<rparr>"

lemma chip_env_chip: "chip (chip_env R0) R0"
  by (auto simp: chip_def chip_env_def fit_def kept_def)

lemma chip_env_sends_end: "sends_end (chip_env R0)"
  unfolding sends_end_def
  by (intro allI exI [of _ 0])
    (simp add: tx_done_def lora_read_reg_def chip_env_def Let_def fill_def got_def fit_def reg_defs mode_defs)

lemma boot_hist: "hist boot = []"
  by (simp add: boot_def)

lemma boot_lorabuf: "lorabuf (lo boot) = replicate 100 0"
  by (simp add: boot_def)

lemma lora_boot [simp]: "lora_sf (lora (lo boot)) = 12" "lora_cr (lora (lo boot)) = 5"
  by (simp_all add: boot_def boot_lora_def)

section \<open>Sending\<close>

lemma lora_send_packet_radio:
  assumes "0 \<le> len" "len \<le> 255" "len \<le> int (length c)" "lora_send_packet E c len s = Inr s'"
  shows "lo s' = lo s"
    "air (radio_at R0 s') = air (radio_at R0 s) @ [take (nat len) c]"
    "\<forall>r. r \<notin> {0x01, 0x0d, 0x12, 0x22} \<longrightarrow> rregs (radio_at R0 s') r = rregs (radio_at R0 s) r"
    "rregs (radio_at R0 s') 0x01 = 0x83"
proof -
  let ?bs = "take (nat len) c"
  define s1 where "s1 = lora_write_reg REG_PAYLOAD_LENGTH len
    (write_fifo ?bs (lora_write_reg REG_FIFO_ADDR_PTR 0 (lora_idle s)))"
  define s2 where "s2 = lora_write_reg REG_OP_MODE (MODE_LONG_RANGE_MODE OR MODE_TX) s1"
  have r: "rdn c 0 (max 0 len) = Inr ?bs" using assms(1,3) by (simp add: rdn_def)
  have s1: "radio_at R0 s1 = rset 0x22 (b_of len) (rset 0x0d 0 (rset 0x01 0x81 (radio_at R0 s)))
      \<lparr>rbuf := ?bs\<rparr>" "lo s1 = lo s"
    by (simp_all add: s1_def reg_defs radio_write_def write_fifo_radio radio_simple rset_def)
  have n: "unat (b_of len) = nat len"
    using assms(1,2) by (simp add: unat_eq_nat_uint uint_word_of_int)
  have s2: "radio_at R0 s2 = rset 0x01 0x83 ((radio_at R0 s1)\<lparr>air := air (radio_at R0 s) @ [?bs]\<rparr>)"
    "lo s2 = lo s"
    by (simp_all add: s2_def reg_defs mode_defs radio_write_def s1 n)
  from assms(4) r obtain s3 where w: "wait_tx_done E s2 = Some s3"
    and m: "s' = lora_write_reg REG_IRQ_FLAGS IRQ_TX_DONE_MASK s3"
    by (auto simp: lora_send_packet_def Let_def s2_def s1_def bindE_eq_Inr returning_eq_Inr)
  from wait_tx_done_Some [OF w, of R0] have s3: "radio_at R0 s3 = radio_at R0 s2" "lo s3 = lo s2"
    by simp_all
  show "lo s' = lo s" "air (radio_at R0 s') = air (radio_at R0 s) @ [take (nat len) c]"
    "\<forall>r. r \<notin> {0x01, 0x0d, 0x12, 0x22} \<longrightarrow> rregs (radio_at R0 s') r = rregs (radio_at R0 s) r"
    "rregs (radio_at R0 s') 0x01 = 0x83"
    by (simp_all add: m reg_defs mode_defs radio_write_def s3 s2 s1 n)
qed

lemma lora_send_packet_returns:
  assumes "sends_end E" "0 \<le> len" "len \<le> int (length c)"
  shows "\<exists>s'. lora_send_packet E c len s = Inr s'"
proof -
  have "\<exists>s'. wait_tx_done E s = Some s'" for s
    using assms(1) wait_tx_done_returns unfolding sends_end_def by blast
  moreover have "rdn c 0 (max 0 len) = Inr (take (nat len) c)"
    using assms(2,3) by (simp add: rdn_def)
  ultimately show ?thesis
    by (simp add: lora_send_packet_def Let_def bindE_eq_Inr returning_eq_Inr)
qed

text \<open>The settings of a transmission, made before its packet is handed over.\<close>

lemma loraSend_setup:
  assumes "chip E R0"
  defines "sf s \<equiv> lora_sf (lora (lo s))" and "cr s \<equiv> lora_cr (lora (lo s))" and "R s \<equiv> radio_at R0 s"
  obtains s1 where "loraSend E k c len s = lora_send_packet E c len s1"
    "radio_at R0 s1 = rset 0x1d (cr_put (cr s) (hdr_put False (rregs (R s) 0x1d)))
      (rset 0x1e (sf_put (sf s) (rregs (R s) 0x1e)) (rset 0x37 (if sf s \<le> 6 then 0x0c else 0x0a)
        (rset 0x31 (if sf s \<le> 6 then 0xc5 else 0xc3) (rset 0x1d (hdr_put False (rregs (R s) 0x1d))
          (rset 0x3b 0x19 (rset 0x33 0x66 (R s)))))))"
proof -
  define s1 where "s1 = lora_explicit_header_mode E (lora_invert_iq True s)"
  define s2 where "s2 = lora_set_spreading_factor E (sf s) s1"
  define s3 where "s3 = lora_set_coding_rate E (cr s) s2"
  have l: "lora (lo s1) = lora (lo s)" "lora (lo s2) = lora (lo s)"
    by (simp_all add: s1_def s2_def radio_explicit [OF assms(1)] radio_simple radio_set_sf [OF assms(1)])
  have "loraSend E k c len s = lora_send_packet E c len s3"
    using l by (simp add: loraSend_def Let_def s1_def s2_def s3_def sf_def cr_def)
  then show ?thesis
    by (rule that) (simp add: s3_def s2_def s1_def R_def radio_explicit [OF assms(1)] radio_simple
        radio_set_sf [OF assms(1)] radio_set_cr [OF assms(1)])
qed

lemma loraSend_radio:
  fixes s :: dev
  assumes "chip E R0" "sends_end E"
    "0 \<le> len" "len \<le> 255" "len \<le> int (length c)"
  defines "R \<equiv> radio_at R0 s"
  shows "\<exists>s' R'. loraSend E conId c len s = Inr s' \<and> R' = radio_at R0 s' \<and>
    air R' = air R @ [take (nat len) c] \<and>
    hi4 (rregs R' 0x1e) = b_of (clamp 6 12 (lora_sf (lora (lo s)))) \<and>
    cr_get (rregs R' 0x1d) = b_of (clamp 5 8 (lora_cr (lora (lo s))) - 4) \<and>
    \<not> hdr_get (rregs R' 0x1d) \<and> rregs R' 0x33 = 0x66 \<and> rregs R' 0x3b = 0x19 \<and>
    hi4 (rregs R' 0x1d) = hi4 (rregs R 0x1d) \<and> crc_get (rregs R' 0x1e) = crc_get (rregs R 0x1e)"
proof -
  obtain s1 where s1: "loraSend E conId c len s = lora_send_packet E c len s1"
    "radio_at R0 s1 = rset 0x1d (cr_put (lora_cr (lora (lo s))) (hdr_put False (rregs R 0x1d)))
      (rset 0x1e (sf_put (lora_sf (lora (lo s))) (rregs R 0x1e)) (rset 0x37 (if lora_sf (lora (lo s)) \<le> 6 then 0x0c else 0x0a)
        (rset 0x31 (if lora_sf (lora (lo s)) \<le> 6 then 0xc5 else 0xc3) (rset 0x1d (hdr_put False (rregs R 0x1d))
          (rset 0x3b 0x19 (rset 0x33 0x66 R))))))"
    unfolding R_def by (rule loraSend_setup [OF assms(1), of conId c len s])
  obtain s' where m: "lora_send_packet E c len s1 = Inr s'"
    using lora_send_packet_returns [OF assms(2,3,5)] by blast
  note s' = lora_send_packet_radio(2,3) [OF assms(3-5) m, of R0]
  show ?thesis
    by (rule exI [of _ s'], rule exI [of _ "radio_at R0 s'"])
      (simp add: s1 m s' field_simps_lora)
qed

text \<open>
  C13: Sending up to 255 bytes with a chip that keeps its registers and finishes every
  transmission: exactly these bytes go on air, with the configured spreading factor and coding
  rate (brought into their ranges), explicit headers and inverted I/Q, and bandwidth and CRC
  setting are what they were.
\<close>

theorem lora_send_transmits:
  fixes s :: dev
  assumes "chip E R0" "sends_end E"
    "0 \<le> len" "len \<le> 255" "len \<le> int (length c)"
  defines "R \<equiv> radio_at R0 s"
  shows "\<exists>s' R'. loraSend E conId c len s = Inr s' \<and> R' = radio_at R0 s' \<and>
    air R' = air R @ [take (nat len) c] \<and>
    hi4 (rregs R' 0x1e) = b_of (clamp 6 12 (lora_sf (lora (lo s)))) \<and>
    cr_get (rregs R' 0x1d) = b_of (clamp 5 8 (lora_cr (lora (lo s))) - 4) \<and>
    \<not> hdr_get (rregs R' 0x1d) \<and> rregs R' 0x33 = 0x66 \<and> rregs R' 0x3b = 0x19 \<and>
    hi4 (rregs R' 0x1d) = hi4 (rregs R 0x1d) \<and> crc_get (rregs R' 0x1e) = crc_get (rregs R 0x1e)"
  unfolding R_def by (rule loraSend_radio [OF assms(1-5)])

theorem lora_send_transmits_witness:
  "\<exists>s'. loraSend (chip_env radio0) 0 ping_text 4 boot = Inr s' \<and>
     air (radio_at radio0 s') = [[0x70, 0x69, 0x6E, 0x67]] \<and>
     hi4 (rregs (radio_at radio0 s') 0x1e) = 12 \<and> cr_get (rregs (radio_at radio0 s') 0x1d) = 1"
  using lora_send_transmits [OF chip_env_chip chip_env_sends_end, of 4 ping_text radio0 0 boot]
  by (auto simp: ping_text_def boot_hist radio_of_def radio0_def clamp_def)

section \<open>Waiting for the end of a transmission\<close>

text \<open>
  The bus traffic of a transmission by the register map of the chip: a write has bit 7 of the
  address set; 0x01 is the operation mode (0x81 standby, 0x83 transmit), 0x0d the buffer pointer,
  0x00 the buffer, 0x22 the length, 0x12 the interrupt flags with TxDone in bit 3.
\<close>

definition reg_read :: "u8 \<Rightarrow> call list" where
  "reg_read r = [GpioLevel 18 0, Spi [r, 0xff], GpioLevel 18 1]"

definition reg_write :: "u8 \<Rightarrow> u8 \<Rightarrow> call list" where
  "reg_write r v = [GpioLevel 18 0, Spi [r + 0x80, v], GpioLevel 18 1]"

definition tx_start :: "u8 list \<Rightarrow> call list" where
  "tx_start c = reg_write 0x01 0x81 @ reg_write 0x0d 0 @ concat (map (reg_write 0x00) c) @
     reg_write 0x22 (of_nat (length c)) @ reg_write 0x01 0x83"

definition idle_polls :: "nat \<Rightarrow> call list" where
  "idle_polls k = concat (replicate k (reg_read 0x12 @ [TaskDelay 2]))"

text \<open>After the calls \<open>h\<close> and \<open>k\<close> polls the chip answers the next poll with TxDone.\<close>

definition reports_done :: "env \<Rightarrow> call list \<Rightarrow> nat \<Rightarrow> bool" where
  "reports_done E h k \<longleftrightarrow>
     bit (fit 2 (rb E (h @ idle_polls k @ [GpioLevel 18 0]) (Spi [0x12, 0xff])) ! 1) 3"

lemma idle_polls_simps [simp]:
  "idle_polls 0 = []" "idle_polls (Suc k) = reg_read 0x12 @ TaskDelay 2 # idle_polls k"
  by (simp_all add: idle_polls_def)

lemma mask_bit: "(i_of b AND 8 \<noteq> 0) = bit b 3"
proof -
  have "(uint b AND 2 ^ 3 \<noteq> 0) = bit (uint b) 3" by (simp only: and_exp_eq_0_iff_not_bit not_not)
  then show ?thesis by (simp add: bit_uint_iff)
qed

lemma poll_calls:
  "snd (lora_read_reg E REG_IRQ_FLAGS s) = emits (reg_read 0x12) s"
  "tx_poll E s = emits (reg_read 0x12 @ [TaskDelay 2]) s"
  by (simp_all add: tx_poll_def lora_read_reg_def Let_def reg_read_def reg_defs CONFIG_CS_GPIO_def emit_def emits_def)

lemma tx_done_reports: "tx_done E s = reports_done E (hist s) 0"
  by (simp add: tx_done_def lora_read_reg_def Let_def reports_done_def reg_defs mode_defs CONFIG_CS_GPIO_def
      fill_def got_def mask_bit)

lemma reports_later: "reports_done E (hist (tx_poll E s)) k = reports_done E (hist s) (Suc k)"
  by (simp add: reports_done_def poll_calls)

lemma wait_tx_done_calls:
  "reports_done E (hist s) k \<Longrightarrow> (\<And>j. j < k \<Longrightarrow> \<not> reports_done E (hist s) j) \<Longrightarrow>
   wait_tx_done E s = Some (emits (idle_polls k @ reg_read 0x12) s)"
proof (induction k arbitrary: s)
  case 0
  then show ?case by (subst wait_tx_done_unfold) (simp add: tx_done_reports poll_calls)
next
  case (Suc k)
  have "\<not> tx_done E s" using Suc.prems(2) [of 0] by (simp add: tx_done_reports)
  moreover have "wait_tx_done E (tx_poll E s) = Some (emits (idle_polls k @ reg_read 0x12) (tx_poll E s))"
    using Suc.prems by (intro Suc.IH) (auto simp: reports_later)
  ultimately show ?case
    by (subst wait_tx_done_unfold) (simp add: poll_calls emits_def)
qed

lemma wait_tx_done_never:
  assumes "\<And>k. \<not> reports_done E (hist s) k"
  shows "wait_tx_done E s = None"
proof -
  have "tx_done E ((tx_poll E ^^ k) s) = reports_done E (hist s) k" for k
  proof (induction k arbitrary: s)
    case (Suc k)
    then show ?case by (simp only: funpow_Suc_right o_apply reports_later)
  qed (simp add: tx_done_reports)
  then show ?thesis using wait_tx_done_Some [of E s] assms by (metis not_None_eq)
qed

lemma tx_start_calls:
  "lora_write_reg REG_OP_MODE (MODE_LONG_RANGE_MODE OR MODE_TX) (lora_write_reg REG_PAYLOAD_LENGTH (int (length c))
     (write_fifo c (lora_write_reg REG_FIFO_ADDR_PTR 0 (lora_idle s)))) = emits (tx_start c) s"
proof -
  have "write_fifo c t = emits (concat (map (reg_write 0x00) c)) t" for t
    by (induction c arbitrary: t)
      (simp_all add: write_fifo_def lora_write_reg_def reg_write_def reg_defs CONFIG_CS_GPIO_def emits_def)
  then show ?thesis
    by (simp add: tx_start_def lora_idle_def lora_write_reg_def reg_write_def reg_defs mode_defs CONFIG_CS_GPIO_def
        emits_def)
qed

text \<open>
  C16: What \<open>lora_send_packet\<close> does on the bus, by the chip's register map: standby, the bytes, the
  length, transmit; then it reads the interrupt flags, 2 ticks apart, until the first answer in
  which bit 3 (TxDone) is set, and clears that bit.  If the chip never answers so, it never returns.
\<close>

theorem transmission_waits_for_tx_done:
  "lora_send_packet E c (int (length c)) s =
     (if \<exists>k. reports_done E (hist s @ tx_start c) k
      then Inr (emits (tx_start c @ idle_polls (LEAST k. reports_done E (hist s @ tx_start c) k) @
             reg_read 0x12 @ reg_write 0x12 0x08) s)
      else Inl Diverge)"
proof -
  let ?r = "reports_done E (hist s @ tx_start c)"
  have b: "rdn c 0 (max 0 (int (length c))) = Inr c" by (simp add: rdn_def)
  have p: "lora_send_packet E c (int (length c)) s =
    bindE (returning (wait_tx_done E (emits (tx_start c) s))) (\<lambda>s. Inr (emits (reg_write 0x12 0x08) s))"
    unfolding lora_send_packet_def Let_def b bindE_Inr tx_start_calls
    by (simp add: lora_write_reg_def reg_write_def reg_defs mode_defs CONFIG_CS_GPIO_def)
  show ?thesis
  proof (cases "\<exists>k. ?r k")
    case True
    then have "?r (LEAST k. ?r k)" by (rule LeastI_ex)
    then have "wait_tx_done E (emits (tx_start c) s) =
        Some (emits (idle_polls (LEAST k. ?r k) @ reg_read 0x12) (emits (tx_start c) s))"
      by (intro wait_tx_done_calls) (auto dest: not_less_Least)
    then show ?thesis unfolding p using True by (simp add: returning_def emits_def)
  next
    case False
    then have "wait_tx_done E (emits (tx_start c) s) = None" by (intro wait_tx_done_never) auto
    then show ?thesis unfolding p using False by (simp add: returning_def)
  qed
qed

text \<open>A chip that needs two polls, and one that never answers.\<close>

definition slow_chip :: env where
  "slow_chip = quiet\<lparr>rb := \<lambda>h c. if TaskDelay 2 \<in> set h then [0, 0x08] else []\<rparr>"

theorem transmission_waits_for_tx_done_witness:
  "lora_send_packet slow_chip [7] 1 boot =
     Inr (emits (tx_start [7] @ reg_read 0x12 @ [TaskDelay 2] @ reg_read 0x12 @ reg_write 0x12 0x08) boot) \<and>
   lora_send_packet quiet [7] 1 boot = Inl Diverge"
proof -
  let ?r = "reports_done slow_chip (hist boot @ tx_start [7])"
  have "\<not> ?r 0" "?r (Suc 0)"
    by (simp_all add: reports_done_def slow_chip_def quiet_def boot_hist tx_start_def reg_write_def reg_read_def
        fit_def)
  then have l: "(LEAST k. ?r k) = Suc 0" "\<exists>k. ?r k"
    by (auto intro!: Least_equality simp: not_less_eq_eq [symmetric] intro: ccontr)
  have n: "\<not> reports_done quiet h k" for h k by (simp add: reports_done_def quiet_def fit_def)
  show ?thesis
    using transmission_waits_for_tx_done [of slow_chip "[7]" boot]
      transmission_waits_for_tx_done [of quiet "[7]" boot] l n by simp
qed

section \<open>Settings\<close>

text \<open>The two configuration registers of the modem.\<close>

definition cfg1 :: "radio \<Rightarrow> dev \<Rightarrow> u8" where "cfg1 R0 s = rregs (radio_at R0 s) 0x1d"
definition cfg2 :: "radio \<Rightarrow> dev \<Rightarrow> u8" where "cfg2 R0 s = rregs (radio_at R0 s) 0x1e"

text \<open>The five fields of the modem: bandwidth, coding rate, implicit header, spreading factor, checksum.\<close>

definition modem :: "radio \<Rightarrow> dev \<Rightarrow> u8 \<times> u8 \<times> bool \<times> u8 \<times> bool" where
  "modem R0 s = (hi4 (cfg1 R0 s), cr_get (cfg1 R0 s), hdr_get (cfg1 R0 s), hi4 (cfg2 R0 s), crc_get (cfg2 R0 s))"

text \<open>The code of a bandwidth by the data sheet: the place of the narrowest one not below it, 500 kHz at most.\<close>

definition bw_place :: "int \<Rightarrow> u8" where
  "bw_place v = of_nat (length (filter (\<lambda>w. w < v) [7800, 10400, 15600, 20800, 31250, 41700, 62500, 125000, 250000]))"

lemma bw_code_place: "b_of (bw_code v) = bw_place v"
  by (auto simp: bw_code_def bw_place_def)

text \<open>
  C35: The five modulation settings are independent: setting one gives its bit field the value asked
  for, brought into range (the next of the ten bandwidths, 6 to 12 for the spreading factor, 5 to 8 for the denominator of the coding
  rate), and leaves the fields of the others alone, although three of them share one register and two
  another.
\<close>

theorem settings_are_independent:
  assumes "chip E R0" "modem R0 s = (bw, cr, hdr, sf, crc)"
  shows "modem R0 (lora_set_bandwidth E v s) = (bw_place v, cr, hdr, sf, crc) \<and>
    modem R0 (lora_set_coding_rate E v s) = (bw, b_of (clamp 5 8 v - 4), hdr, sf, crc) \<and>
    modem R0 (lora_explicit_header_mode E s) = (bw, cr, False, sf, crc) \<and>
    modem R0 (lora_implicit_header_mode E v s) = (bw, cr, True, sf, crc) \<and>
    modem R0 (lora_set_spreading_factor E v s) = (bw, cr, hdr, b_of (clamp 6 12 v), crc) \<and>
    modem R0 (lora_enable_crc E s) = (bw, cr, hdr, sf, True) \<and>
    modem R0 (lora_disable_crc E s) = (bw, cr, hdr, sf, False)"
  using assms(2)
  by (simp add: modem_def cfg1_def cfg2_def radio_set_bw [OF assms(1)] radio_set_cr [OF assms(1)]
      radio_explicit [OF assms(1)] radio_implicit [OF assms(1)] radio_set_sf [OF assms(1)]
      radio_crc [OF assms(1)] field_simps_lora bw_code_place)

text \<open>A chip with bandwidth 7, coding rate 4/5, explicit header, spreading factor 7 and checksum.\<close>

theorem settings_are_independent_witness:
  "let R0 = radio0\<lparr>rregs := (\<lambda>_. 0)(0x1d := 0x72, 0x1e := 0x74)\<rparr>; E = chip_env R0 in
    modem R0 (lora_set_bandwidth E 500000 boot) = (9, 1, False, 7, True) \<and>
    modem R0 (lora_set_coding_rate E 9 boot) = (7, 4, False, 7, True) \<and>
    modem R0 (lora_set_spreading_factor E 13 boot) = (7, 1, False, 12, True)"
proof -
  let ?R = "radio0\<lparr>rregs := (\<lambda>_. 0)(0x1d := 0x72, 0x1e := 0x74)\<rparr>"
  have m: "modem ?R boot = (7, 1, False, 7, True)"
    by (simp add: modem_def cfg1_def cfg2_def boot_hist radio_of_def hi4_def cr_get_def hdr_get_def crc_get_def)
  show ?thesis
    using settings_are_independent [OF chip_env_chip m] by (simp add: Let_def clamp_def bw_place_def)
qed

text \<open>
  C17: The frequency registers hold the largest multiple of the chip's step of 32 MHz / 2^19
  that is not above the frequency asked for, for every frequency below 1024 MHz.
\<close>

theorem frequency_is_programmed:
  fixes R0 :: radio and s :: dev
  assumes "0 \<le> f" "f < 1024000000"
  defines "F \<equiv> frf_of (radio_at R0 (lora_set_frequency f s))"
  shows "F * 32000000 \<le> f * 2 ^ 19 \<and> f * 2 ^ 19 < (F + 1) * 32000000"
proof -
  have F: "F = f * 2 ^ 19 div 32000000"
    unfolding F_def by (rule radio_frequency(1) [OF assms(1,2)])
  have "x div d * d \<le> x \<and> x < (x div d + 1) * d" if "0 < d" for x d :: int
  proof -
    have "x = x div d * d + x mod d" "0 \<le> x mod d" "x mod d < d" using that by simp_all
    then show ?thesis
      by (metis add.commute add_strict_left_mono distrib_right le_add_same_cancel1 mult_1)
  qed
  from this [of 32000000 "f * 2 ^ 19"] show ?thesis
    unfolding F by (simp only: zero_less_numeral)
qed

theorem frequency_is_programmed_witness:
  "frf_of (radio_at radio0 (lora_set_frequency 923300000 boot)) * 32000000 \<le> 923300000 * 2 ^ 19 \<and>
   923300000 * 2 ^ 19 < (frf_of (radio_at radio0 (lora_set_frequency 923300000 boot)) + 1) * 32000000"
  by (rule frequency_is_programmed) simp_all

section \<open>Initialisation\<close>

text \<open>The state at the start of the version poll, and the version read at poll \<open>k\<close>.\<close>

definition version_poll :: "env \<Rightarrow> dev \<Rightarrow> dev" where
  "version_poll E s = emit (TaskDelay 2) (snd (lora_read_reg E REG_VERSION s))"

definition version_at :: "env \<Rightarrow> nat \<Rightarrow> dev \<Rightarrow> int" where
  "version_at E k s = fst (lora_read_reg E REG_VERSION ((version_poll E ^^ k) s))"

definition poll_start :: "dev \<Rightarrow> dev" where
  "poll_start s = lora_idle (lora_reset (emits
     [Api ''spi_bus_initialize'' [VSPI_HOST, 19, 27, 5, -1, -1, 0, 0],
      Api ''spi_bus_add_device'' [VSPI_HOST, 9000000, 0, -1, 1, 0]]
     (emits [Api ''gpio_pad_select_gpio'' [CONFIG_RST_GPIO],
             Api ''gpio_set_direction'' [CONFIG_RST_GPIO, GPIO_MODE_OUTPUT],
             Api ''gpio_pad_select_gpio'' [CONFIG_CS_GPIO],
             Api ''gpio_set_direction'' [CONFIG_CS_GPIO, GPIO_MODE_OUTPUT]] s)))"

lemma version_at_Suc: "version_at E (Suc k) s = version_at E k (version_poll E s)"
  by (simp add: version_at_def funpow_swap1)

lemma version_loop_found:
  assumes "0 \<le> i" "i \<le> 100"
  shows "fst (version_loop E i s) < 100 \<longleftrightarrow> (\<exists>k. int k < 99 - i \<and> version_at E k s \<noteq> 0)"
  using assms
proof (induction E i s rule: version_loop.induct)
  case (1 E i s)
  obtain v t where r: "lora_read_reg E REG_VERSION s = (v, t)" by fastforce
  have v0: "version_at E 0 s = v" using r by (simp add: version_at_def)
  have p: "version_poll E s = emit (TaskDelay 2) t" using r by (simp add: version_poll_def)
  have split: "(\<exists>k. int k < 99 - i \<and> version_at E k s \<noteq> 0) \<longleftrightarrow>
      (i < 99 \<and> v \<noteq> 0) \<or> (\<exists>k. int k < 99 - (i + 1) \<and> version_at E k (version_poll E s) \<noteq> 0)"
  proof
    assume "\<exists>k. int k < 99 - i \<and> version_at E k s \<noteq> 0"
    then obtain k where k: "int k < 99 - i" "version_at E k s \<noteq> 0" by blast
    show "(i < 99 \<and> v \<noteq> 0) \<or> (\<exists>k. int k < 99 - (i + 1) \<and> version_at E k (version_poll E s) \<noteq> 0)"
      using k v0 by (cases k) (auto simp: version_at_Suc intro!: exI [of _ "k - 1"])
  next
    assume "(i < 99 \<and> v \<noteq> 0) \<or> (\<exists>k. int k < 99 - (i + 1) \<and> version_at E k (version_poll E s) \<noteq> 0)"
    then show "\<exists>k. int k < 99 - i \<and> version_at E k s \<noteq> 0"
    proof
      assume "i < 99 \<and> v \<noteq> 0"
      then show ?thesis using v0 by (intro exI [of _ 0]) simp
    next
      assume "\<exists>k. int k < 99 - (i + 1) \<and> version_at E k (version_poll E s) \<noteq> 0"
      then obtain k where "int k < 99 - (i + 1)" "version_at E k (version_poll E s) \<noteq> 0" by blast
      then show ?thesis by (intro exI [of _ "Suc k"]) (simp add: version_at_Suc)
    qed
  qed
  show ?case
  proof (cases "i < TIMEOUT_RESET \<and> v = 0")
    case True
    then have "fst (version_loop E i s) = fst (version_loop E (i + 1) (version_poll E s))"
      using r p by (subst version_loop.simps) simp
    then show ?thesis
      using 1(1) [of "i + 1" "(v, t)" v t] True 1(2,3) r p split by (simp add: TIMEOUT_RESET_def)
  next
    case False
    show ?thesis
    proof (cases "i < TIMEOUT_RESET")
      case True
      then have "v \<noteq> 0" using False by simp
      then have "fst (version_loop E i s) = i + 1"
        using True r by (subst version_loop.simps) (simp add: Let_def)
      moreover have "(\<exists>k. int k < 99 - i \<and> version_at E k s \<noteq> 0) \<longleftrightarrow> i < 99"
        using split \<open>v \<noteq> 0\<close> by auto
      ultimately show ?thesis by simp
    next
      case False
      then show ?thesis using 1(2,3) by (subst version_loop.simps) (auto simp: TIMEOUT_RESET_def)
    qed
  qed
qed

text \<open>
  With the bus calls succeeding, \<open>lora_init\<close> reports success exactly if one of the first 99
  polls reads a version other than 0: the value 0x12 it looks for is not required, and an
  answer at the hundredth poll is reported as not found.
\<close>

lemma init_succeeds_iff_some_version:
  assumes "lora_init E s = Inr (r, s')"
  shows "(r = ESP_OK \<longleftrightarrow> (\<exists>k < 99. version_at E k (poll_start s) \<noteq> 0)) \<and>
    (r \<noteq> ESP_OK \<longrightarrow> r = ESP_ERR_NOT_FOUND)"
proof -
  obtain i t where v: "version_loop E 0 (poll_start s) = (i, t)" by fastforce
  have "r = (if i \<ge> TIMEOUT_RESET then ESP_ERR_NOT_FOUND else ESP_OK)"
    using assms v
    by (auto simp: lora_init_def Let_def bindE_eq_Inr check_eq_Inr poll_start_def emits_def emit_def
        split: prod.splits if_splits)
  moreover have "i < 100 \<longleftrightarrow> (\<exists>k < 99. version_at E k (poll_start s) \<noteq> 0)"
    using version_loop_found [of 0 E "poll_start s"] v by auto
  ultimately show ?thesis by (auto simp: TIMEOUT_RESET_def esp_err_defs)
qed

section \<open>Receiving\<close>

text \<open>The bytes that \<open>k\<close> reads of the FIFO deliver, and the state behind them.\<close>

primrec fifo_reads :: "env \<Rightarrow> nat \<Rightarrow> dev \<Rightarrow> u8 list" where
  "fifo_reads E 0 s = []"
| "fifo_reads E (Suc k) s =
     b_of (fst (lora_read_reg E REG_FIFO s)) # fifo_reads E k (snd (lora_read_reg E REG_FIFO s))"

lemma length_fifo_reads [simp]: "length (fifo_reads E k s) = k"
  by (induction k arbitrary: s) simp_all

lemma read_fifo_eq:
  assumes "n \<le> length buf" "i \<le> n"
  shows "\<exists>s'. read_fifo E (int i) (int n) buf s =
    Inr (take i buf @ fifo_reads E (n - i) s @ drop n buf, s') \<and> lo s' = lo s"
  using assms
proof (induction "n - i" arbitrary: i buf s)
  case 0
  then show ?case by (subst read_fifo.simps) simp
next
  case (Suc k)
  obtain v t where r: "lora_read_reg E REG_FIFO s = (v, t)" by fastforce
  have l: "lo t = lo s" using read_reg_radio(2) [of E REG_FIFO s] r by simp
  let ?buf = "buf[i := b_of v]"
  have i: "i < n" "k = n - Suc i" "n - i = Suc (n - Suc i)" using Suc(2) by simp_all
  have e: "read_fifo E (int i) (int n) buf s = read_fifo E (int (Suc i)) (int n) ?buf t"
    using r i(1) Suc(3) by (subst read_fifo.simps) (simp add: wr_def add.commute)
  obtain s' where s': "read_fifo E (int (Suc i)) (int n) ?buf t =
      Inr (take (Suc i) ?buf @ fifo_reads E (n - Suc i) t @ drop n ?buf, s')" "lo s' = lo t"
    using Suc(1) [of "Suc i" ?buf t] i Suc(3) by auto
  have "take (Suc i) ?buf = take i buf @ [b_of v]" "drop n ?buf = drop n buf"
    using i(1) Suc(3) by (simp_all add: take_Suc_conv_app_nth)
  then show ?case using e s' l r i(3) by (intro exI [of _ s']) simp
qed

lemma lo_read [simp]: "lo (snd (lora_read_reg E r s)) = lo s"
  by (rule read_reg_radio(2))

lemma lo_read' : "lora_read_reg E r s = (v, s') \<Longrightarrow> lo s' = lo s"
  using lo_read [of E r s] by simp

lemma lora_receive_packet_eq:
  assumes "0 \<le> sz" "sz \<le> int (length buf)"
  shows "\<exists>n t s'. lora_receive_packet E buf sz s =
      Inr (int n, fifo_reads E n t @ drop n buf, s') \<and> int n \<le> sz \<and> lo s' = lo s"
proof -
  obtain irq s1 where r1: "lora_read_reg E REG_IRQ_FLAGS s = (irq, s1)" by fastforce
  let ?s1 = "lora_write_reg REG_IRQ_FLAGS irq s1"
  have l1: "lo ?s1 = lo s" using lo_read' [OF r1] by simp
  show ?thesis
  proof (cases "irq AND IRQ_RX_DONE_MASK = 0 \<or> irq AND IRQ_PAYLOAD_CRC_ERROR_MASK \<noteq> 0")
    case True
    then have "lora_receive_packet E buf sz s = Inr (0, buf, ?s1)"
      using r1 by (auto simp: lora_receive_packet_def Let_def)
    then show ?thesis using l1 assms by (intro exI [of _ 0] exI [of _ s] exI [of _ ?s1]) simp
  next
    case False
    let ?r = "if lora_implicit (lo ?s1) then REG_PAYLOAD_LENGTH else REG_RX_NB_BYTES"
    obtain len s2 where r2: "lora_read_reg E ?r ?s1 = (len, s2)" by fastforce
    obtain cur s3 where r3: "lora_read_reg E REG_FIFO_RX_CURRENT_ADDR (lora_idle s2) = (cur, s3)" by fastforce
    let ?s3 = "lora_write_reg REG_FIFO_ADDR_PTR cur s3"
    have len: "0 \<le> len" using r2 by (auto simp: lora_read_reg_def Let_def)
    define n where "n = nat (if len > sz then sz else len)"
    have n: "int n = (if len > sz then sz else len)" "n \<le> length buf" "int n \<le> sz"
      using len assms by (auto simp: n_def)
    obtain s4 where s4: "read_fifo E 0 (int n) buf ?s3 = Inr (fifo_reads E n ?s3 @ drop n buf, s4)"
      "lo s4 = lo ?s3"
      using read_fifo_eq [OF n(2), of 0 E ?s3] by auto
    have "lora_receive_packet E buf sz s = Inr (int n, fifo_reads E n ?s3 @ drop n buf, s4)"
      using False r1 r2 r3 s4(1) by (simp add: lora_receive_packet_def Let_def flip: n(1))
    moreover have "lo s4 = lo s"
      using s4(2) lo_read' [OF r3] lo_read' [OF r2] l1 by (simp add: radio_simple)
    ultimately show ?thesis using n(3) by blast
  qed
qed

text \<open>
  Receiving into a buffer that has at least the size given never leaves it: the result is
  at most the size, exactly so many bytes at the front are replaced by what the FIFO delivers,
  and the rest of the buffer is unchanged.
\<close>

lemma received_packet_stays_in_buffer:
  assumes "0 \<le> sz" "sz \<le> int (length buf)"
  shows "\<exists>n t s'. lora_receive_packet E buf sz s =
      Inr (int n, fifo_reads E n t @ drop n buf, s') \<and> int n \<le> sz \<and> lo s' = lo s"
  by (rule lora_receive_packet_eq [OF assms])

section \<open>Beacons\<close>

lemma lo_ops [simp]:
  "lo (lora_explicit_header_mode E s) = (lo s)\<lparr>lora_implicit := False\<rparr>"
  "lo (lora_implicit_header_mode E n s) = (lo s)\<lparr>lora_implicit := True\<rparr>"
  "lo (lora_set_spreading_factor E v s) = lo s"
  "lo (lora_set_coding_rate E v s) = lo s"
  "lo (lora_set_bandwidth E v s) = lo s"
  "lo (lora_enable_crc E s) = lo s" "lo (lora_disable_crc E s) = lo s"
  "lo (lora_set_frequency f s) = (lo s)\<lparr>lora_frequency := f\<rparr>"
  "lo (lora_set_preamble_length n s) = lo s" "lo (lora_set_sync_word n s) = lo s"
  "lo (lora_set_tx_power n s) = lo s" "lo (lora_reset s) = lo s"
  by (auto simp: lora_explicit_header_mode_def lora_implicit_header_mode_def
      lora_set_spreading_factor_def lora_set_coding_rate_def lora_set_bandwidth_def
      lora_enable_crc_def lora_disable_crc_def lora_set_frequency_def lora_set_preamble_length_def
      lora_set_sync_word_def lora_set_tx_power_def lora_reset_def Let_def
      split: prod.splits dest!: lo_read')

lemmas lo_simps = lo_ops radio_simple(2,4,6,8) write_fifo_radio(2) write_reg_lo lo_upd

lemma lora_receive_beacon_eq:
  assumes "0 \<le> beaconBand (lora (lo s))" "beaconBand (lora (lo s)) \<le> 7"
  obtains s' where "lora_receive_beacon E n s = Inr s'"
    "lo s' = (lo s)\<lparr>lora := (lora (lo s))\<lparr>beaconReceive := True\<rparr>, lora_implicit := True,
       lora_frequency := downstream ! nat (beaconBand (lora (lo s)))\<rparr>"
  using assms by (simp add: lora_receive_beacon_def Let_def downstream_def lo_simps)

definition lora_wf :: "dev \<Rightarrow> bool" where
  "lora_wf s \<longleftrightarrow> length (lorabuf (lo s)) = 100 \<and> 0 \<le> beaconBand (lora (lo s)) \<and>
     beaconBand (lora (lo s)) \<le> 7 \<and> \<not> lora_onMessage (lora (lo s))"

lemma lora_wf_boot: "lora_wf boot"
  by (simp add: boot_def boot_lora_def lora_wf_def)

lemma lora_handle_beacon_eq:
  assumes "lora_wf s"
  defines "band \<equiv> (beaconBand (lora (lo s)) + 1) mod 8"
  obtains s' where "lora_handle_beacon E s = Inr s'" "lora_wf s'"
    "beaconBand (lora (lo s')) = band" "lora_frequency (lo s') = downstream ! nat band"
    "loraBeacons (lora (lo s')) = loraBeacons (lora (lo s)) + 1"
    "lora_repeat_send (lo s') = lora_repeat_send (lo s)"
proof -
  let ?s1 = "upd_lora (\<lambda>l. l\<lparr>beaconBand := beaconBand l + 1\<rparr>)
    (upd_lora (\<lambda>l. l\<lparr>loraBeacons := loraBeacons l + 1\<rparr>) s)"
  define s2 where "s2 = (if beaconBand (lora (lo ?s1)) > 7
    then upd_lora (\<lambda>l. l\<lparr>beaconBand := 0\<rparr>) ?s1 else ?s1)"
  have b: "0 \<le> beaconBand (lora (lo s))" "beaconBand (lora (lo s)) \<le> 7"
    and lb: "length (lorabuf (lo s)) = 100"
    using assms(1) by (simp_all add: lora_wf_def)
  have s2: "beaconBand (lora (lo s2)) = band" "loraBeacons (lora (lo s2)) = loraBeacons (lora (lo s)) + 1"
    "lora_repeat_send (lo s2) = lora_repeat_send (lo s)" "lorabuf (lo s2) = lorabuf (lo s)" "lora_wf s2"
    using assms(1) b by (auto simp: s2_def band_def lora_wf_def)
  obtain cs where e: "lora_handle_beacon E s = lora_receive_beacon E BEACON_SIZE (emits cs s2)"
  proof -
    have "\<exists>cs. lora_handle_beacon E s = lora_receive_beacon E BEACON_SIZE (emits cs s2)"
    proof (cases "lorabuf (lo s) ! 0 = 0 \<and> lorabuf (lo s) ! 1 = 0")
      case True
      then show ?thesis
        using lb s2(4) by (auto simp: lora_handle_beacon_def Let_def rd_def s2_def intro!: exI)
    next
      case False
      show ?thesis
        using False lb s2(4) by (intro exI [of _ "[]"]) (auto simp: lora_handle_beacon_def Let_def rd_def s2_def)
    qed
    then show ?thesis using that by blast
  qed
  have b2: "0 \<le> beaconBand (lora (lo (emits cs s2)))" "beaconBand (lora (lo (emits cs s2))) \<le> 7"
    using s2(1) by (simp_all add: band_def)
  show ?thesis
    by (rule lora_receive_beacon_eq [OF b2, of E BEACON_SIZE])
      (use s2 e that in \<open>auto simp: lora_wf_def\<close>)
qed

lemma beacon_run:
  "lora_wf s \<Longrightarrow> \<exists>s'. run_all (\<lambda>_. lora_handle_beacon E) (replicate k ()) s = Inr s' \<and> lora_wf s' \<and>
    beaconBand (lora (lo s')) = (beaconBand (lora (lo s)) + int k) mod 8 \<and>
    (0 < k \<longrightarrow> lora_frequency (lo s') = downstream ! nat (beaconBand (lora (lo s'))))"
proof (induction k arbitrary: s)
  case 0
  then show ?case by (simp add: lora_wf_def)
next
  case (Suc k)
  obtain s1 where s1: "lora_handle_beacon E s = Inr s1" "lora_wf s1"
    "beaconBand (lora (lo s1)) = (beaconBand (lora (lo s)) + 1) mod 8"
    "lora_frequency (lo s1) = downstream ! nat ((beaconBand (lora (lo s)) + 1) mod 8)"
    by (rule lora_handle_beacon_eq [OF Suc.prems, of E])
  from Suc.IH [OF s1(2)] obtain s' where
    s': "run_all (\<lambda>_. lora_handle_beacon E) (replicate k ()) s1 = Inr s'" "lora_wf s'"
    "beaconBand (lora (lo s')) = (beaconBand (lora (lo s1)) + int k) mod 8"
    "0 < k \<longrightarrow> lora_frequency (lo s') = downstream ! nat (beaconBand (lora (lo s')))" by blast
  have b: "beaconBand (lora (lo s')) = (beaconBand (lora (lo s)) + int (Suc k)) mod 8"
    unfolding s'(3) s1(3) by (simp add: mod_simps algebra_simps)
  show ?case
  proof (cases k)
    case 0
    then show ?thesis using s1 by (intro exI [of _ s1]) simp
  next
    case (Suc m)
    then show ?thesis using s1(1) s' b by (intro exI [of _ s']) simp
  qed
qed

text \<open>
  C18: Beacons walk through the eight downstream channels: after \<open>k\<close> of them, whatever they
  held, the driver listens on channel \<open>(b + k) mod 8\<close> with that channel's frequency set, and no
  channel index ever leaves the table.
\<close>

theorem beacons_walk_through_channels:
  assumes "lora_wf s"
  shows "\<exists>s'. run_all (\<lambda>_. lora_handle_beacon E) (replicate k ()) s = Inr s' \<and> lora_wf s' \<and>
    beaconBand (lora (lo s')) = (beaconBand (lora (lo s)) + int k) mod 8 \<and>
    (0 < k \<longrightarrow> lora_frequency (lo s') = downstream ! nat (beaconBand (lora (lo s'))))"
  by (rule beacon_run [OF assms])

theorem beacons_walk_through_channels_witness:
  "\<exists>s'. run_all (\<lambda>_. lora_handle_beacon quiet) (replicate 3 ()) boot = Inr s' \<and>
     beaconBand (lora (lo s')) = 3 \<and> lora_frequency (lo s') = 925100000"
  using beacons_walk_through_channels [of boot quiet 3]
  by (auto simp: boot_def boot_lora_def downstream_def lora_wf_def)

text \<open>The start of January 6, 1980, in seconds of Unix time.\<close>

definition gps_epoch :: u32 where "gps_epoch = 315964800"

text \<open>
  A beacon whose first two bytes are 0 sets the clock to its time stamp (bytes 5 to 8, low
  byte first) plus 316008000, twelve hours more than the 315964800 seconds between the epochs of
  Unix and GPS that the comment names.
\<close>

lemma beacon_sets_clock_twelve_hours_late:
  assumes "lora_wf s" "lorabuf (lo s) ! 0 = 0" "lorabuf (lo s) ! 1 = 0"
  defines "b \<equiv> lorabuf (lo s)"
  shows "\<exists>s'. lora_handle_beacon E s = Inr s' \<and>
    Api ''settimeofday'' [sint (le32 (drop 5 b) + gps_epoch + 12 * 3600)] \<in> set (hist s')"
proof -
  have lb: "length b = 100" and w: "0 \<le> beaconBand (lora (lo s))" "beaconBand (lora (lo s)) \<le> 7"
    using assms(1) by (simp_all add: lora_wf_def b_def)
  let ?ts = "push_bit 8 (push_bit 8 (push_bit 8 (ucast (b ! 8)) + ucast (b ! 7)) + ucast (b ! 6)) +
      ucast (b ! 5) + 316008000 :: u32"
  have ts: "?ts = le32 (drop 5 b) + gps_epoch + 12 * 3600"
    using lb by (simp add: le32_def gps_epoch_def push_bit_eq_mult algebra_simps)
  let ?s1 = "upd_lora (\<lambda>l. l\<lparr>beaconBand := beaconBand l + 1\<rparr>)
    (upd_lora (\<lambda>l. l\<lparr>loraBeacons := loraBeacons l + 1\<rparr>) s)"
  define s2 where "s2 = (if beaconBand (lora (lo ?s1)) > 7
    then upd_lora (\<lambda>l. l\<lparr>beaconBand := 0\<rparr>) ?s1 else ?s1)"
  define s3 where "s3 = emits [Api ''time'' [], Api ''settimeofday'' [sint ?ts]] s2"
  have l2: "lorabuf (lo s2) = b" "0 \<le> beaconBand (lora (lo s3))" "beaconBand (lora (lo s3)) \<le> 7"
    using w by (auto simp: s2_def s3_def b_def)
  obtain s' where s': "lora_receive_beacon E BEACON_SIZE s3 = Inr s'"
    by (rule lora_receive_beacon_eq [OF l2(2,3)])
  have "lora_handle_beacon E s = Inr s'"
    using s' lb l2(1) assms(2,3)
    by (auto simp: lora_handle_beacon_def Let_def rd_def b_def s3_def s2_def split: if_splits)
  moreover have "Api ''settimeofday'' [sint ?ts] \<in> set (hist s')"
    by (rule grows_in [OF grows_beacon [OF s' grows_refl]]) (simp add: s3_def)
  ultimately show ?thesis unfolding ts by blast
qed

section \<open>The tasks\<close>

datatype lora_event = ReadEvent int | PingTick

text \<open>
  \<open>cb\<close> is the callback \<open>lora.onMessage\<close>, which nothing under \<open>src/\<close> ever sets: the
  invariant says it is not.
\<close>

fun lora_step ::
    "env \<Rightarrow> (u8 list \<Rightarrow> int \<Rightarrow> int \<Rightarrow> dev \<Rightarrow> fault + dev) \<Rightarrow> lora_event \<Rightarrow> dev \<Rightarrow> fault + dev" where
  "lora_step E cb (ReadEvent n) s = lora_read_event E cb n s"
| "lora_step E cb PingTick s = lora_task E s"

lemma loraSend_lo: "loraSend E c d n s = Inr s' \<Longrightarrow> lo s' = (lo s)\<lparr>lora_implicit := False\<rparr>"
proof -
  assume a: "loraSend E c d n s = Inr s'"
  have k: "lo s' = lo t" if "lora_send_packet E d n t = Inr s'" for t
    using that wait_tx_done_Some
    by (fastforce simp: lora_send_packet_def Let_def bindE_eq_Inr returning_eq_Inr lo_simps)
  show ?thesis using a k by (fastforce simp: loraSend_def Let_def lo_simps)
qed

lemma lora_receive_upstream_lo:
  "lo (lora_receive_upstream E s) = (lo s)\<lparr>lora := (lora (lo s))\<lparr>beaconReceive := False, dataReceive := True\<rparr>,
     lora_frequency := downstream ! 0, lora_implicit := False\<rparr>"
  by (simp add: lora_receive_upstream_def Let_def lo_simps)

lemma lora_wf_lo:
  "lora_wf s \<Longrightarrow> length (lorabuf (lo s')) = length (lorabuf (lo s)) \<Longrightarrow>
   beaconBand (lora (lo s')) = beaconBand (lora (lo s)) \<Longrightarrow>
   lora_onMessage (lora (lo s')) = lora_onMessage (lora (lo s)) \<Longrightarrow> lora_wf s'"
  by (simp add: lora_wf_def)

lemma lora_receive_upstream_wf: "lora_wf (lora_receive_upstream E s) = lora_wf s"
  by (simp add: lora_wf_def lora_receive_upstream_lo)

lemma loraSend_ends:
  assumes "sends_end E" "0 \<le> n" "n \<le> int (length d)" "lora_wf s"
  obtains s' where "loraSend E c d n s = Inr s'" "lora_wf s'"
    "lo s' = (lo s)\<lparr>lora_implicit := False\<rparr>"
proof -
  obtain s' where s': "loraSend E c d n s = Inr s'"
    using lora_send_packet_returns [OF assms(1-3)]
    by (auto simp: loraSend_def Let_def)
  show ?thesis
    using that [OF s'] loraSend_lo [OF s'] assms(4) by (simp add: lora_wf_def)
qed

lemma lora_receive_beacon_wf:
  assumes "lora_wf s"
  obtains s' where "lora_receive_beacon E n s = Inr s'" "lora_wf s'"
    "lora_repeat_send (lo s') = lora_repeat_send (lo s)"
proof -
  have "0 \<le> beaconBand (lora (lo s))" "beaconBand (lora (lo s)) \<le> 7"
    using assms by (simp_all add: lora_wf_def)
  then show ?thesis
    by (rule lora_receive_beacon_eq [of s E n]) (use assms that in \<open>auto simp: lora_wf_def\<close>)
qed

lemma lora_task_runs:
  assumes "sends_end E" "lora_wf s"
  shows "\<exists>s'. lora_task E s = Inr s' \<and> lora_wf s'"
proof -
  have w: "lora_wf (emit (TaskDelay (10000 div 10)) s)" using assms(2) by (simp add: lora_wf_def)
  obtain s1 where s1: "loraSend E 0 ping_text 4 (emit (TaskDelay (10000 div 10)) s) = Inr s1" "lora_wf s1"
    by (rule loraSend_ends [OF assms(1) _ _ w, of 4 ping_text 0]) (simp_all add: ping_text_def)
  obtain s2 where s2: "lora_receive_beacon E BEACON_SIZE s1 = Inr s2" "lora_wf s2"
    by (rule lora_receive_beacon_wf [OF s1(2)])
  show ?thesis
    using s1 s2 by (simp add: lora_task_def lora_receive_upstream_wf)
qed

text \<open>The receiving half of a round: it always completes.\<close>

lemma lora_read_received:
  assumes "lora_wf s" "lora_received E (emit (Api ''printf LORA'' [n]) s) = (r, t)"
  obtains s1 where "lora_wf s1"
    "lora_read_event E cb n s = (if lora_repeat_send (lo s1) > 0
       then loraSend E 0 ping_text 4 (upd_lo (\<lambda>v. v\<lparr>lora_repeat_send := lora_repeat_send v - 1\<rparr>) s1)
       else Inr s1)"
proof (cases "r = 0")
  case True
  have "lo t = lo s"
    using assms(2) by (auto simp: lora_received_def Let_def dest!: lo_read' split: prod.splits)
  then have "lora_wf t" using assms(1) by (simp add: lora_wf_def)
  then show ?thesis
    using that [of t] assms(2) True by (simp add: lora_read_event_def Let_def)
next
  case False
  obtain rssi t1 where r1: "lora_packet_rssi E t = (rssi, t1)" by fastforce
  obtain q t2 where r2: "lora_packet_snr E t1 = (q, t2)" by fastforce
  define t3 where "t3 = upd_lora (\<lambda>l. l\<lparr>lora_last := (lora_last l)\<lparr>pkt_rssi := rssi, pkt_snr := cdiv q 4,
                        pkt_buf := True\<rparr>\<rparr>) t2"
  have l: "lo t = lo s" "lo t1 = lo t" "lo t2 = lo t1"
    using assms(2) r1 r2
    by (auto simp: lora_received_def lora_packet_rssi_def lora_packet_snr_def Let_def
        dest!: lo_read' split: prod.splits)
  have w3: "lora_wf t3" using assms(1) l by (simp add: lora_wf_def t3_def)
  have z: "(0::int) \<le> 100" "(100::int) \<le> int (length (lorabuf (lo t3)))"
    using w3 by (simp_all add: lora_wf_def)
  obtain m u t4 where r4: "lora_receive_packet E (lorabuf (lo t3)) 100 t3 =
      Inr (int m, fifo_reads E m u @ drop m (lorabuf (lo t3)), t4)" "int m \<le> 100" "lo t4 = lo t3"
    using lora_receive_packet_eq [OF z, of E t3] by blast
  define t5 where "t5 = upd_lora (\<lambda>l. l\<lparr>lora_last := (lora_last l)\<lparr>pkt_len := int m\<rparr>\<rparr>)
    (upd_lo (\<lambda>v. v\<lparr>lorabuf := fifo_reads E m u @ drop m (lorabuf (lo t3)), lastLoraLen := int m\<rparr>) t4)"
  have w5: "lora_wf t5"
    using w3 r4(2,3) by (simp add: lora_wf_def t5_def)
  have "lora_read_packet E cb t =
      (if beaconReceive (lora (lo t5)) then lora_handle_beacon E t5
       else if dataReceive (lora (lo t5)) then
         Inr (lora_receive_upstream E (upd_lora (\<lambda>l. l\<lparr>loraReceived := loraReceived l + 1\<rparr>) t5))
       else Inr t5)"
    using r1 r2 r4(1) w5 unfolding lora_read_packet_def Let_def t3_def t5_def
    by (simp add: lora_wf_def)
  then have e: "lora_read_event E cb n s = bindE
      (if beaconReceive (lora (lo t5)) then lora_handle_beacon E t5
       else if dataReceive (lora (lo t5)) then
         Inr (lora_receive_upstream E (upd_lora (\<lambda>l. l\<lparr>loraReceived := loraReceived l + 1\<rparr>) t5))
       else Inr t5) (\<lambda>s. if lora_repeat_send (lo s) > 0
       then loraSend E 0 ping_text 4 (upd_lo (\<lambda>v. v\<lparr>lora_repeat_send := lora_repeat_send v - 1\<rparr>) s)
       else Inr s)"
    using assms(2) False by (simp add: lora_read_event_def Let_def)
  obtain s1 where h: "lora_handle_beacon E t5 = Inr s1" "lora_wf s1"
    by (rule lora_handle_beacon_eq [OF w5, of E])
  let ?u = "if beaconReceive (lora (lo t5)) then s1
    else if dataReceive (lora (lo t5))
    then lora_receive_upstream E (upd_lora (\<lambda>l. l\<lparr>loraReceived := loraReceived l + 1\<rparr>) t5) else t5"
  have "lora_wf (upd_lora (\<lambda>l. l\<lparr>loraReceived := loraReceived l + 1\<rparr>) t5)"
    using w5 by (simp add: lora_wf_def)
  then have "lora_wf ?u" using h w5 by (simp add: lora_receive_upstream_wf)
  then show ?thesis by (rule that) (simp add: e h(1))
qed

lemma lora_read_event_runs:
  assumes "sends_end E" "lora_wf s"
  shows "\<exists>s'. lora_read_event E cb n s = Inr s' \<and> lora_wf s'"
proof -
  obtain r t where r: "lora_received E (emit (Api ''printf LORA'' [n]) s) = (r, t)" by fastforce
  obtain s1 where s1: "lora_wf s1" "lora_read_event E cb n s = (if lora_repeat_send (lo s1) > 0
       then loraSend E 0 ping_text 4 (upd_lo (\<lambda>v. v\<lparr>lora_repeat_send := lora_repeat_send v - 1\<rparr>) s1)
       else Inr s1)"
    by (rule lora_read_received [OF assms(2) r])
  let ?s = "upd_lo (\<lambda>v. v\<lparr>lora_repeat_send := lora_repeat_send v - 1\<rparr>) s1"
  have w: "lora_wf ?s" using s1(1) by (simp add: lora_wf_def)
  obtain s2 where "loraSend E 0 ping_text 4 ?s = Inr s2" "lora_wf s2"
    by (rule loraSend_ends [OF assms(1) _ _ w, of 4 ping_text 0]) (simp_all add: ping_text_def)
  then show ?thesis using s1 by simp
qed

lemma loraSend_wf: "loraSend E c d n s = Inr s' \<Longrightarrow> lora_wf s \<Longrightarrow> lora_wf s'"
  using loraSend_lo by (simp add: lora_wf_def)

lemma lora_step_wf: "lora_wf s \<Longrightarrow> lora_step E cb e s = Inr s' \<Longrightarrow> lora_wf s'"
proof (cases e)
  case (ReadEvent n)
  assume a: "lora_wf s" "lora_step E cb e s = Inr s'"
  obtain r t where r: "lora_received E (emit (Api ''printf LORA'' [n]) s) = (r, t)" by fastforce
  show ?thesis
    by (rule lora_read_received [OF a(1) r, of cb])
      (use a(2) ReadEvent in \<open>auto simp: lora_wf_def dest!: loraSend_lo split: if_splits\<close>)
next
  case PingTick
  assume a: "lora_wf s" "lora_step E cb e s = Inr s'"
  then obtain s1 where s1: "loraSend E 0 ping_text 4 (emit (TaskDelay (10000 div 10)) s) = Inr s1"
    by (auto simp: PingTick lora_task_def bindE_eq_Inr)
  have w: "lora_wf s1" using loraSend_wf [OF s1] a(1) by (simp add: lora_wf_def)
  show ?thesis
    by (rule lora_receive_beacon_wf [OF w, of E BEACON_SIZE])
      (use a(2) PingTick s1 w in \<open>auto simp: lora_task_def lora_receive_upstream_wf split: if_splits\<close>)
qed

interpretation lora: safe_machine "lora_step E cb" lora_wf lora_wf "\<lambda>_. sends_end E" for E cb
proof
  show "\<exists>s'. lora_step E cb e s = Inr s' \<and> lora_wf s'" if "lora_wf s" "sends_end E" for e s
    using that lora_read_event_runs lora_task_runs by (cases e) simp_all
qed (simp_all add: lora_step_wf)

text \<open>
  C19: With a chip that ends its transmissions, the two LoRa tasks never fault, whatever the chip
  delivers: in any interleaving of received packets and ping ticks the receive buffer keeps its
  size, the beacon channel stays in its table and every round completes.
\<close>

theorem lora_tasks_never_fault:
  assumes "lora_wf s" "sends_end E"
  shows "\<exists>s'. run_all (lora_step E cb) es s = Inr s' \<and> lora_wf s'"
  using lora.run_safe [OF assms(1), of es E cb] assms(2) by blast

theorem lora_tasks_never_fault_witness:
  "\<exists>s'. run_all (lora_step (chip_env radio0) (\<lambda>_ _ _ s. Inr s)) [PingTick, ReadEvent 4] boot = Inr s' \<and>
     lora_wf s'"
  by (rule lora_tasks_never_fault [OF lora_wf_boot chip_env_sends_end])

end
