(* ===== verification/LoraFrames.thy ===== *)
theory LoraFrames
  imports LoraRadio Parts
begin

text \<open>
  What the LoRa driver leaves alone: its operations change the driver's variables only, put nothing on
  a serial link, and keep the variables well formed.
\<close>

section \<open>Operations\<close>

definition lora_keeps :: "part set \<Rightarrow> dev \<Rightarrow> dev \<Rightarrow> bool" where
  "lora_keeps P s t \<longleftrightarrow> only P s t \<and> length (lorabuf (lo t)) = length (lorabuf (lo s)) \<and>
     beaconBand (lora (lo t)) = beaconBand (lora (lo s)) \<and>
     lora_onMessage (lora (lo t)) = lora_onMessage (lora (lo s))"

lemma lk_wf: "lora_keeps P s t \<Longrightarrow> lora_wf t = lora_wf s"
  by (simp add: lora_keeps_def lora_wf_def)

named_theorems lk_intros \<open>operations that keep the LoRa variables well formed\<close>
named_theorems lk_elims \<open>operations with a result that keep the LoRa variables well formed\<close>

lemma lk_refl [lk_intros]: "lora_keeps P s s"
  by (simp add: lora_keeps_def only_refl)

lemma lk_trans: "lora_keeps P s t \<Longrightarrow> lora_keeps P t u \<Longrightarrow> lora_keeps P s u"
  by (auto simp: lora_keeps_def intro: only_trans)

lemma lk_emit [lk_intros]:
  "lora_keeps P s t \<Longrightarrow> plain_call c \<Longrightarrow> lora_keeps P s (emit c t)"
  "lora_keeps P s t \<Longrightarrow> list_all plain_call cs \<Longrightarrow> lora_keeps P s (emits cs t)"
  by (simp_all add: lora_keeps_def only_emit)

lemma lk_check [lk_elims]: "check E c t = Inr t' \<Longrightarrow> lora_keeps P s t \<Longrightarrow> plain_call c \<Longrightarrow> lora_keeps P s t'"
  by (auto simp: check_eq_Inr lk_emit)

lemma lk_nvs [lk_elims]: "nvs_get_i32 E key d t = (err, v, t') \<Longrightarrow> lora_keeps P s t \<Longrightarrow> lora_keeps P s t'"
  by (auto simp: nvs_get_i32_def Let_def intro!: lk_intros)

lemma only_upd_lo [only_intros]:
  "only P s t \<Longrightarrow> P_lo \<in> P \<Longrightarrow> only P s (upd_lo f t)" "only P s t \<Longrightarrow> P_lo \<in> P \<Longrightarrow> only P s (upd_lora g t)"
  by (simp_all add: upd_lora_def upd_lo_def only_set)

lemma lk_upd:
  assumes "lora_keeps P s t" "P_lo \<in> P"
  shows "(\<And>v. length (lorabuf (f v)) = length (lorabuf v)) \<Longrightarrow> (\<And>v. lora (f v) = lora v) \<Longrightarrow>
      lora_keeps P s (upd_lo f t)"
    and "(\<And>l. beaconBand (g l) = beaconBand l) \<Longrightarrow> (\<And>l. lora_onMessage (g l) = lora_onMessage l) \<Longrightarrow>
      lora_keeps P s (upd_lora g t)"
  using assms by (simp_all add: lora_keeps_def only_upd_lo)

lemma lk_write [lk_intros]: "lora_keeps P s t \<Longrightarrow> lora_keeps P s (lora_write_reg r v t)"
  by (simp add: lora_write_reg_def lk_intros)

lemma lk_read [lk_elims]: "lora_read_reg E r t = (v, t') \<Longrightarrow> lora_keeps P s t \<Longrightarrow> lora_keeps P s t'"
  by (auto simp: lora_read_reg_def Let_def intro!: lk_intros)

lemma lk_ops [lk_intros]:
  "lora_keeps P s t \<Longrightarrow> P_lo \<in> P \<Longrightarrow> lora_keeps P s (lora_explicit_header_mode E t)"
  "lora_keeps P s t \<Longrightarrow> P_lo \<in> P \<Longrightarrow> lora_keeps P s (lora_implicit_header_mode E n t)"
  "lora_keeps P s t \<Longrightarrow> P_lo \<in> P \<Longrightarrow> lora_keeps P s (lora_set_frequency n t)"
  "lora_keeps P s t \<Longrightarrow> lora_keeps P s (lora_set_spreading_factor E n t)"
  "lora_keeps P s t \<Longrightarrow> lora_keeps P s (lora_set_coding_rate E n t)"
  "lora_keeps P s t \<Longrightarrow> lora_keeps P s (lora_invert_iq b t)"
  "lora_keeps P s t \<Longrightarrow> lora_keeps P s (lora_receive t)"
  "lora_keeps P s t \<Longrightarrow> lora_keeps P s (lora_idle t)"
  "lora_keeps P s t \<Longrightarrow> lora_keeps P s (lora_sleep t)"
  "lora_keeps P s t \<Longrightarrow> lora_keeps P s (lora_reset t)"
  "lora_keeps P s t \<Longrightarrow> lora_keeps P s (lora_set_tx_power n t)"
  "lora_keeps P s t \<Longrightarrow> lora_keeps P s (lora_set_preamble_length n t)"
  "lora_keeps P s t \<Longrightarrow> lora_keeps P s (lora_set_sync_word n t)"
  "lora_keeps P s t \<Longrightarrow> lora_keeps P s (lora_disable_crc E t)"
  "lora_keeps P s t \<Longrightarrow> lora_keeps P s (lora_set_bandwidth E n t)"
  "lora_keeps P s t \<Longrightarrow> lora_keeps P s (lora_isr_handler n t)"
  unfolding lora_explicit_header_mode_def lora_implicit_header_mode_def lora_set_spreading_factor_def
    lora_set_coding_rate_def lora_set_frequency_def lora_invert_iq_def lora_receive_def lora_idle_def
    lora_sleep_def lora_reset_def lora_set_tx_power_def lora_set_preamble_length_def
    lora_set_sync_word_def lora_disable_crc_def lora_set_bandwidth_def lora_isr_handler_def Let_def
  by (auto split: prod.splits intro!: lk_intros lk_upd elim!: lk_elims)

lemma lk_fold: "(\<And>x t. lora_keeps P s t \<Longrightarrow> lora_keeps P s (f x t)) \<Longrightarrow> lora_keeps P s t \<Longrightarrow> lora_keeps P s (fold f xs t)"
  by (induction xs arbitrary: t) auto

lemma lk_dump [lk_intros]:
  assumes "lora_keeps P s t"
  shows "lora_keeps P s (lora_dump_registers E t)" "lora_keeps P s (write_fifo bs t)"
proof -
  have "lora_keeps P s (snd (lora_read_reg E (int i) u))" if "lora_keeps P s u" for i u
    using lk_read [OF _ that] by (metis prod.collapse)
  then show "lora_keeps P s (lora_dump_registers E t)" "lora_keeps P s (write_fifo bs t)"
    using assms by (auto simp: lora_dump_registers_def Let_def split_def printf_def write_fifo_def
        intro!: lk_fold lk_intros)
qed

lemma lk_upstream [lk_intros]:
  "lora_keeps P s t \<Longrightarrow> P_lo \<in> P \<Longrightarrow> lora_keeps P s (lora_receive_upstream E t)"
  unfolding lora_receive_upstream_def Let_def by (auto intro!: lk_intros lk_upd)

lemma lk_beacon [lk_elims]:
  "lora_receive_beacon E n t = Inr t' \<Longrightarrow> lora_keeps P s t \<Longrightarrow> P_lo \<in> P \<Longrightarrow> lora_keeps P s t'"
  unfolding lora_receive_beacon_def Let_def by (auto intro!: lk_intros lk_upd split: if_splits)

section \<open>Loops\<close>

lemma lk_version_loop [lk_elims]:
  "version_loop E i t = (j, t') \<Longrightarrow> lora_keeps P s t \<Longrightarrow> lora_keeps P s t'"
proof (induction E i t arbitrary: j t' rule: version_loop.induct)
  case (1 E i t)
  obtain v u where r: "lora_read_reg E REG_VERSION t = (v, u)" by fastforce
  have u: "lora_keeps P s u" by (rule lk_read [OF r "1.prems"(2)])
  then have "lora_keeps P s (emit (TaskDelay 2) u)" by (simp add: lk_intros)
  then show ?case
    using "1.prems" u "1.IH" [OF _ refl r [symmetric]]
    by (subst (asm) (1) version_loop.simps) (auto simp: Let_def r split: if_splits)
qed

lemma lk_wait [lk_elims]: "wait_tx_done E t = Some t' \<Longrightarrow> lora_keeps P s t \<Longrightarrow> lora_keeps P s t'"
proof (induction rule: wait_tx_done.raw_induct [rotated, consumes 1, case_names step])
  case (step wait E t t')
  obtain r u where u: "lora_read_reg E REG_IRQ_FLAGS t = (r, u)" by (cases "lora_read_reg E REG_IRQ_FLAGS t")
  have k: "lora_keeps P s u" "lora_keeps P s (emit (TaskDelay 2) u)"
    using lk_read [OF u step.prems] by (simp_all add: lk_intros)
  show ?case
    using step k by (auto simp: Let_def u split: if_splits)
qed

lemma lk_send [lk_elims]:
  "loraSend E k c n t = Inr t' \<Longrightarrow> lora_keeps P s t \<Longrightarrow> P_lo \<in> P \<Longrightarrow> lora_keeps P s t'"
  unfolding loraSend_def lora_send_packet_def Let_def
  by (auto simp: bindE_eq_Inr returning_eq_Inr intro!: lk_intros elim!: lk_elims)

lemma lk_lora_init [lk_elims]:
  assumes "lora_init E t = Inr (err, t')" "lora_keeps P s t"
  shows "lora_keeps P s t'"
proof -
  have "wp (lora_init E t) (\<lambda>(err, t'). lora_keeps P s t')"
    unfolding lora_init_def Let_def
    by (intro wp_intros) (use assms(2) in \<open>auto split: prod.split intro!: wp_intros lk_intros elim!: lk_elims\<close>)
  then show ?thesis using assms(1) by (auto simp: wp_def)
qed

lemma lk_register_lora:
  assumes "lora_keeps P s t" "P_lo \<in> P"
  shows "wp (register_lora E t) (lora_keeps P s)"
  unfolding register_lora_def Let_def
  by (intro wp_intros)
    (use assms in \<open>auto simp: bindE_eq_Inr split: prod.split if_splits intro!: wp_intros wpI lk_intros elim!: lk_elims\<close>)

section \<open>Receiving\<close>

lemma lk_read_fifo [lk_elims]:
  "read_fifo E i n buf t = Inr (buf', t') \<Longrightarrow> lora_keeps P s t \<Longrightarrow> lora_keeps P s t'"
proof (induction E i n buf t rule: read_fifo.induct)
  case (1 E i n buf t)
  obtain b u where r: "lora_read_reg E REG_FIFO t = (b, u)" by fastforce
  have u: "lora_keeps P s u" by (rule lk_read [OF r "1.prems"(2)])
  show ?case
    using "1.prems" u "1.IH" [OF _ r [symmetric]]
    by (subst (asm) (1) read_fifo.simps) (auto simp: r bindE_eq_Inr split: if_splits)
qed

text \<open>Reading registers changes no variable at all.\<close>

lemma lk_inputs [lk_elims]:
  "lora_received E t = (r, t') \<Longrightarrow> lora_keeps P s t \<Longrightarrow> lora_keeps P s t'"
  "lora_packet_rssi E t = (r, t') \<Longrightarrow> lora_keeps P s t \<Longrightarrow> lora_keeps P s t'"
  "lora_packet_snr E t = (r, t') \<Longrightarrow> lora_keeps P s t \<Longrightarrow> lora_keeps P s t'"
  "lora_receive_packet E buf n t = Inr (m, buf', t') \<Longrightarrow> lora_keeps P s t \<Longrightarrow> lora_keeps P s t'"
  by (auto simp: lora_received_def lora_packet_rssi_def lora_packet_snr_def lora_receive_packet_def Let_def
      bindE_eq_Inr split: prod.splits if_splits intro!: lk_intros elim!: lk_elims)

lemma lk_nothing: "lora_keeps {} s t \<Longrightarrow> only P s t \<and> lo t = lo s"
  unfolding lora_keeps_def using only_mono onlyD [of "{}" s t P_lo] by auto

lemma only_lk: "only P s t \<Longrightarrow> lora_keeps P t u \<Longrightarrow> only P s u"
  unfolding lora_keeps_def by (blast intro: only_trans)

section \<open>The tasks\<close>

lemma only_beacon:
  "lora_receive_beacon E n t = Inr t' \<Longrightarrow> only P s t \<Longrightarrow> P_lo \<in> P \<Longrightarrow> only P s t'"
  using only_lk lk_beacon [OF _ lk_refl] by blast

lemma only_handle_beacon:
  "lora_handle_beacon E t = Inr t' \<Longrightarrow> only P s t \<Longrightarrow> P_lo \<in> P \<Longrightarrow> only P s t'"
  unfolding lora_handle_beacon_def Let_def
  by (auto simp: bindE_eq_Inr split: if_splits intro!: only_intros elim!: only_beacon)

lemma lk_task: "lora_task E t = Inr t' \<Longrightarrow> lora_keeps P s t \<Longrightarrow> P_lo \<in> P \<Longrightarrow> lora_keeps P s t'"
  unfolding lora_task_def
  by (auto simp: bindE_eq_Inr intro!: lk_intros elim!: lk_elims split: if_splits)

text \<open>Nothing sets the callback, so a packet ends in the driver.\<close>

lemma only_read_packet:
  assumes "lora_read_packet E cb t = Inr t'" "\<not> lora_onMessage (lora (lo t))" "only P s t" "P_lo \<in> P"
  shows "only P s t'"
proof -
  obtain rssi t1 where r1: "lora_packet_rssi E t = (rssi, t1)" by fastforce
  obtain q t2 where r2: "lora_packet_snr E t1 = (q, t2)" by fastforce
  define t3 where "t3 = upd_lora (\<lambda>l. l\<lparr>lora_last := (lora_last l)\<lparr>pkt_rssi := rssi, pkt_snr := cdiv q 4,
                        pkt_buf := True\<rparr>\<rparr>) t2"
  obtain m buf t4 where r4: "lora_receive_packet E (lorabuf (lo t3)) 100 t3 = Inr (m, buf, t4)"
    using assms(1) unfolding lora_read_packet_def Let_def r1 r2 prod.case t3_def [symmetric]
    by (auto elim!: bindE_InrE)
  define t5 where "t5 = upd_lora (\<lambda>l. l\<lparr>lora_last := (lora_last l)\<lparr>pkt_len := m\<rparr>\<rparr>)
    (upd_lo (\<lambda>v. v\<lparr>lorabuf := buf, lastLoraLen := m\<rparr>) t4)"
  have k: "lo t1 = lo t" "only P t t1" "lo t2 = lo t1" "only P t1 t2" "lo t4 = lo t3" "only P t3 t4"
    using lk_nothing [OF lk_inputs(2) [OF r1 lk_refl]] lk_nothing [OF lk_inputs(3) [OF r2 lk_refl]]
      lk_nothing [OF lk_inputs(4) [OF r4 lk_refl]] by blast+
  have "only P s t2" using assms(3) k only_trans by blast
  then have "only P s t3" using assms(4) by (simp add: t3_def only_upd_lo)
  then have o5: "only P s t5" using k(6) only_trans assms(4) by (auto simp: t5_def intro!: only_upd_lo)
  have c: "\<not> lora_onMessage (lora (lo t5))" using assms(2) k by (simp add: t5_def t3_def)
  have e: "lora_read_packet E cb t =
      (if beaconReceive (lora (lo t5)) then lora_handle_beacon E t5
       else if dataReceive (lora (lo t5)) then
         Inr (lora_receive_upstream E (upd_lora (\<lambda>l. l\<lparr>loraReceived := loraReceived l + 1\<rparr>) t5))
       else Inr t5)"
    using r1 r2 r4 c unfolding lora_read_packet_def Let_def t3_def t5_def by simp
  have "only P s (upd_lora (\<lambda>l. l\<lparr>loraReceived := loraReceived l + 1\<rparr>) t5)"
    using o5 assms(4) by (simp add: only_upd_lo)
  then have "only P s (lora_receive_upstream E (upd_lora (\<lambda>l. l\<lparr>loraReceived := loraReceived l + 1\<rparr>) t5))"
    using only_lk lk_upstream [OF lk_refl assms(4)] by blast
  then show ?thesis using assms(1,4) o5 only_handle_beacon by (auto simp: e split: if_splits)
qed

lemma only_read_event:
  assumes "lora_read_event E cb n t = Inr t'" "\<not> lora_onMessage (lora (lo t))" "only P s t" "P_lo \<in> P"
  shows "only P s t'"
proof -
  let ?u = "emit (Api ''printf LORA'' [n]) t"
  obtain r u where r: "lora_received E ?u = (r, u)" by fastforce
  have k: "lo u = lo t" "only P ?u u"
    using lk_nothing [OF lk_inputs(1) [OF r lk_refl]] by auto
  have u: "only P s u" by (rule only_trans [OF only_emit(1) [OF assms(3)] k(2)]) simp
  obtain v where v: "(if r \<noteq> 0 then lora_read_packet E cb u else Inr u) = Inr v"
    "(if lora_repeat_send (lo v) > 0 then
       loraSend E 0 ping_text 4 (upd_lo (\<lambda>v. v\<lparr>lora_repeat_send := lora_repeat_send v - 1\<rparr>) v)
     else Inr v) = Inr t'"
    using assms(1) by (auto simp: lora_read_event_def Let_def r bindE_eq_Inr)
  have "only P s v"
    using v(1) u k(1) assms(2,4) only_read_packet by (auto split: if_splits)
  then have "only P s (upd_lo (\<lambda>v. v\<lparr>lora_repeat_send := lora_repeat_send v - 1\<rparr>) v)"
    using assms(4) by (rule only_upd_lo)
  then show ?thesis
    using v(2) \<open>only P s v\<close> assms(4) by (auto dest: only_lk lk_send [OF _ lk_refl] split: if_splits)
qed

text \<open>A step of the tasks concerns the LoRa variables only, and does not depend on the callback.\<close>

lemma lora_step_only:
  assumes "lora_step E cb e s = Inr s'" "lora_wf s"
  shows "only {P_lo} s s'"
proof (cases e)
  case (ReadEvent n)
  then show ?thesis
    using assms only_read_event [OF _ _ only_refl, of E cb n s s' "{P_lo}"] by (simp add: lora_wf_def)
next
  case PingTick
  then show ?thesis
    using assms(1) lk_task [OF _ lk_refl, of E s s' "{P_lo}"] by (simp add: lora_keeps_def)
qed

end
