(* ===== verification/Transports.thy ===== *)
theory Transports
  imports BleFrag Dmesh LoraFrames
begin

text \<open>
  The transports behind the router.  A transport promises that a message it is ready for goes
  out as it is; two transports that do not disturb each other, one after the other, are a
  transport again.  LoRa, BLE and Bluetooth classic are such transports, and \<open>onMessage\<close> is
  their composition.
\<close>

section \<open>The interface\<close>

locale l2_send =
  fixes send :: "u8 list \<Rightarrow> dev \<Rightarrow> fault + dev"
    and ready :: "u8 list \<Rightarrow> dev \<Rightarrow> bool"
    and out :: "dev \<Rightarrow> 'o"
    and put :: "u8 list \<Rightarrow> dev \<Rightarrow> 'o \<Rightarrow> 'o"
  assumes send_out: "ready c s \<Longrightarrow> \<exists>s'. send c s = Inr s' \<and> out s' = put c s (out s)"

locale l2_pair = one: l2_send send1 ready1 out1 put1 + two: l2_send send2 ready2 out2 put2
  for send1 ready1 and out1 :: "dev \<Rightarrow> 'a" and put1
    and send2 ready2 and out2 :: "dev \<Rightarrow> 'b" and put2 +
  assumes first_keeps: "send1 c s = Inr s' \<Longrightarrow> ready1 c s \<Longrightarrow> ready2 c s \<Longrightarrow>
      ready2 c s' \<and> out2 s' = out2 s \<and> put2 c s' = put2 c s"
    and second_keeps: "send2 c s = Inr s' \<Longrightarrow> ready2 c s \<Longrightarrow> out1 s' = out1 s"
begin

definition send_both :: "u8 list \<Rightarrow> dev \<Rightarrow> fault + dev" where
  "send_both c s = bindE (send1 c s) (send2 c)"

lemma both_out:
  assumes "ready1 c s" "ready2 c s"
  shows "\<exists>s'. send_both c s = Inr s' \<and> out1 s' = put1 c s (out1 s) \<and> out2 s' = put2 c s (out2 s)"
proof -
  obtain s1 where s1: "send1 c s = Inr s1" "out1 s1 = put1 c s (out1 s)"
    using one.send_out [OF assms(1)] by blast
  have r: "ready2 c s1" "out2 s1 = out2 s" "put2 c s1 = put2 c s"
    using first_keeps [OF s1(1) assms] by simp_all
  obtain s2 where s2: "send2 c s1 = Inr s2" "out2 s2 = put2 c s1 (out2 s1)"
    using two.send_out [OF r(1)] by blast
  show ?thesis
    using s1 s2 r second_keeps [OF s2(1) r(1)] by (simp add: send_both_def)
qed

end

sublocale l2_pair \<subseteq> both: l2_send send_both "\<lambda>c s. ready1 c s \<and> ready2 c s"
    "\<lambda>s. (out1 s, out2 s)" "\<lambda>c s (a, b). (put1 c s a, put2 c s b)"
  by unfold_locales (use both_out in auto)

section \<open>The three transports\<close>

definition lora_tx :: "env \<Rightarrow> u8 list \<Rightarrow> dev \<Rightarrow> fault + dev" where
  "lora_tx E c s = loraSend E 0 c (int (length c)) s"

definition ble_tx :: "env \<Rightarrow> u8 list \<Rightarrow> dev \<Rightarrow> fault + dev" where
  "ble_tx E c s = bleSend E 0 c (int (length c)) s"

definition bt_tx :: "u8 list \<Rightarrow> dev \<Rightarrow> fault + dev" where
  "bt_tx c s = btSend 0 c (int (length c)) s"

text \<open>
  LoRa carries up to 255 bytes; BLE, where it is connected, a message that fits the MTU;
  Bluetooth classic anything, on the connection of its server or else of its client.
\<close>

definition lora_ready :: "env \<Rightarrow> radio \<Rightarrow> u8 list \<Rightarrow> dev \<Rightarrow> bool" where
  "lora_ready E R0 c s \<longleftrightarrow> chip E R0 \<and> sends_end E \<and> length c \<le> 255"

definition ble_ready :: "u8 list \<Rightarrow> dev \<Rightarrow> bool" where
  "ble_ready c s \<longleftrightarrow> (is_connected (ble s) \<longrightarrow> length c + 3 \<le> unat (spp_mtu_size (ble s)))"

definition bt_target :: "dev \<Rightarrow> u32" where
  "bt_target s = (if spp_handle (bt s) \<noteq> 0 then spp_handle (bt s) else cspp_handle (bt s))"

abbreviation lora_out :: "radio \<Rightarrow> dev \<Rightarrow> u8 list list" where "lora_out R0 s \<equiv> air (radio_at R0 s)"
abbreviation ble_out :: "dev \<Rightarrow> u8 list list" where "ble_out s \<equiv> notified (hist s)"
abbreviation bt_out :: "dev \<Rightarrow> (int \<times> u8 list) list" where "bt_out s \<equiv> written (hist s)"

abbreviation lora_put :: "u8 list \<Rightarrow> dev \<Rightarrow> u8 list list \<Rightarrow> u8 list list" where
  "lora_put c s out \<equiv> out @ [c]"
abbreviation ble_put :: "u8 list \<Rightarrow> dev \<Rightarrow> u8 list list \<Rightarrow> u8 list list" where
  "ble_put c s out \<equiv> out @ (if is_connected (ble s) then [c] else [])"
abbreviation bt_put :: "u8 list \<Rightarrow> dev \<Rightarrow> (int \<times> u8 list) list \<Rightarrow> (int \<times> u8 list) list" where
  "bt_put c s out \<equiv> out @ (if bt_target s \<noteq> 0 then [(uint (bt_target s), c)] else [])"

lemma btSend_eq:
  "btSend k c (int (length c)) s =
     Inr (if bt_target s \<noteq> 0 then emit (SppWrite (uint (bt_target s)) c) s else s)"
  by (simp add: btSend_def bt_target_def rdn_all)

lemma bleSend_eq:
  assumes "ble_ready c s"
  shows "bleSend E k c (int (length c)) s =
    Inr (if is_connected (ble s) then emit (notify (ble s) c) s else s)"
  using assms bleSend_short [of s c E k] bleSend_disconnected [of s E k c] by (auto simp: ble_ready_def)

lemma lora_air:
  assumes "lora_ready E R0 c s"
  shows "\<exists>s'. lora_tx E c s = Inr s' \<and> lora_out R0 s' = lora_out R0 s @ [c]"
  using assms loraSend_radio [of E R0 "int (length c)" c 0 s] by (auto simp: lora_ready_def lora_tx_def)

interpretation lora_if: l2_send "lora_tx E" "lora_ready E R0" "lora_out R0" lora_put for E R0
  by unfold_locales (rule lora_air)

interpretation ble_if: l2_send "ble_tx E" ble_ready ble_out ble_put for E
  by unfold_locales (simp add: ble_tx_def bleSend_eq notify_def)

interpretation bt_if: l2_send bt_tx "\<lambda>c s. True" bt_out bt_put
  by unfold_locales (simp add: bt_tx_def btSend_eq)

interpretation serial: l2_pair "ble_tx E" ble_ready ble_out ble_put bt_tx "\<lambda>c s. True" bt_out bt_put for E
  by unfold_locales (auto simp: ble_tx_def bleSend_eq notify_def bt_tx_def btSend_eq bt_target_def split: if_splits)

lemma serial_radio:
  assumes "ble_ready c s" "serial.send_both E c s = Inr s'"
  shows "radio_at R0 s' = radio_at R0 s"
  using assms by (auto simp: serial.send_both_def ble_tx_def bleSend_eq notify_def bt_tx_def btSend_eq
      radio_of_def split: if_splits)

text \<open>Sending on air leaves the serial links alone.\<close>

lemma loraSend_only: "loraSend E k c n s = Inr s' \<Longrightarrow> only {P_lo} s s'"
  using lk_send [OF _ lk_refl] by (auto simp: lora_keeps_def)

lemma loraSend_serial:
  assumes "loraSend E k c n s = Inr s'"
  shows "ble s' = ble s" "bt s' = bt s" "ble_out s' = ble_out s" "bt_out s' = bt_out s"
  using onlyD [OF loraSend_only [OF assms], of P_ble] onlyD [OF loraSend_only [OF assms], of P_bt]
    onlyD [OF loraSend_only [OF assms], of P_msgs] by simp_all

interpretation mesh: l2_pair "lora_tx E" "lora_ready E R0" "lora_out R0" lora_put "serial.send_both E"
    "\<lambda>c s. ble_ready c s \<and> True" "\<lambda>s. (ble_out s, bt_out s)"
    "\<lambda>c s (a, b). (ble_put c s a, bt_put c s b)" for E R0
proof unfold_locales
  fix c s s' assume t: "lora_tx E c s = Inr s'" and r: "ble_ready c s \<and> True"
  note k = loraSend_serial [OF t [unfolded lora_tx_def]]
  show "(ble_ready c s' \<and> True) \<and> (ble_out s', bt_out s') = (ble_out s, bt_out s) \<and>
    (\<lambda>(a, b). (ble_put c s' a, bt_put c s' b)) = (\<lambda>(a, b). (ble_put c s a, bt_put c s b))"
    using r k by (simp add: ble_ready_def bt_target_def)
next
  fix c s s' assume "serial.send_both E c s = Inr s'" "ble_ready c s \<and> True"
  then show "lora_out R0 s' = lora_out R0 s" by (simp add: serial_radio)
qed

section \<open>Forwarding\<close>

text \<open>A device with a BLE connection and serial connection 5, for examples.\<close>

definition linked1 :: dev where
  "linked1 = upd_bt (\<lambda>v. v\<lparr>spp_handle := 5\<rparr>) linked0"

lemma linked1_simps [simp]: "is_connected (ble linked1)" "spp_mtu_size (ble linked1) = 23"
  "spp_handle (bt linked1) = 5" "bt_target linked1 = 5" "hist linked1 = []"
  by (simp_all add: linked1_def upd_bt_def bt_target_def)
    (simp_all add: linked0_def upd_ble_def boot_def)

lemma onMessage_send:
  assumes "c \<noteq> []"
  shows "onMessage E c (int (length c)) from s =
    (if hd c = 0x6C then mesh.send_both E c s else serial.send_both E c s)"
proof -
  have bt: "bt_tx c = btSend 0 c (int (length c))" by (rule ext) (simp add: bt_tx_def)
  have "serial.send_both E c = (\<lambda>s. bindE (bleSend E 0 c (int (length c)) s) (btSend 0 c (int (length c))))"
    by (rule ext) (simp add: serial.send_both_def ble_tx_def bt)
  then show ?thesis
    using assms by (simp add: onMessage_def rd_def hd_conv_nth mesh.send_both_def lora_tx_def)
qed

text \<open>
  C24: A message that fits the links is forwarded to every link that is up: once as a notification,
  once on the serial connection, and on air exactly if its first byte is \<open>l\<close>.
\<close>

theorem message_is_forwarded:
  assumes "chip E R0" "sends_end E" "c \<noteq> []" "length c \<le> 255"
    and "is_connected (ble s) \<longrightarrow> length c + 3 \<le> unat (spp_mtu_size (ble s))"
  shows "\<exists>s'. onMessage E c (int (length c)) from s = Inr s' \<and>
    lora_out R0 s' = lora_out R0 s @ (if hd c = 0x6C then [c] else []) \<and>
    ble_out s' = ble_out s @ (if is_connected (ble s) then [c] else []) \<and>
    bt_out s' = bt_out s @ (if bt_target s \<noteq> 0 then [(uint (bt_target s), c)] else [])"
proof -
  have r: "lora_ready E R0 c s" "ble_ready c s" using assms by (simp_all add: lora_ready_def ble_ready_def)
  show ?thesis
    using mesh.both_out [OF r(1), of] serial.both_out [OF r(2), of E] r serial_radio [OF r(2), of E]
    by (auto simp: onMessage_send [OF assms(3)] split: if_splits)
qed

theorem message_is_forwarded_witness:
  "\<exists>s'. onMessage (chip_env radio0) [0x6C, 1] 2 0 linked1 = Inr s' \<and>
    lora_out radio0 s' = [[0x6C, 1]] \<and> ble_out s' = [[0x6C, 1]] \<and> bt_out s' = [(5, [0x6C, 1])]"
  using message_is_forwarded [OF chip_env_chip chip_env_sends_end, of "[0x6C, 1]" linked1 radio0 0]
  by (simp add: radio_of_def radio0_def)

text \<open>
  What the device writes in a run of SPP events, with connection \<open>h\<close> open at first: each message, from
  whichever connection it came, to the connection opened last, and nothing while none is open.
\<close>

fun serial_out :: "u32 \<Rightarrow> spp_event list \<Rightarrow> (int \<times> u8 list) list" where
  "serial_out h [] = []"
| "serial_out h (SppSrvOpen h' # es) = serial_out h' es"
| "serial_out h (SppClose # es) = serial_out 0 es"
| "serial_out h (SppDataInd from c w # es) = (if h = 0 then [] else [(uint h, c)]) @ serial_out h es"
| "serial_out h (e # es) = serial_out h es"

text \<open>A message that the router can handle with the links as they are.\<close>

definition routable :: "env \<Rightarrow> u8 list \<Rightarrow> dev \<Rightarrow> bool" where
  "routable E c s \<longleftrightarrow> c \<noteq> [] \<and> (is_connected (ble s) \<longrightarrow> length c + 3 \<le> unat (spp_mtu_size (ble s))) \<and>
     (hd c = 0x6C \<longrightarrow> (\<exists>R0. chip E R0) \<and> sends_end E \<and> length c \<le> 255)"

lemma onMessage_serial:
  assumes "routable E c s"
  shows "\<exists>s'. onMessage E c (int (length c)) k s = Inr s' \<and> bt_out s' = bt_put c s (bt_out s) \<and>
    bt s' = bt s \<and> ble s' = ble s"
proof -
  have r: "ble_ready c s" using assms by (simp add: routable_def ble_ready_def)
  have send: "\<exists>t'. serial.send_both E c t = Inr t' \<and> bt_out t' = bt_put c t (bt_out t) \<and> bt t' = bt t \<and> ble t' = ble t"
    if "ble_ready c t" for t
    using that by (auto simp: serial.send_both_def ble_tx_def bleSend_eq notify_def bt_tx_def btSend_eq bt_target_def)
  show ?thesis
  proof (cases "hd c = 0x6C")
    case True
    then obtain R0 where "lora_ready E R0 c s" using assms by (auto simp: routable_def lora_ready_def)
    from lora_air [OF this] obtain t where t: "lora_tx E c s = Inr t" by blast
    note k = loraSend_serial [OF t [unfolded lora_tx_def]]
    have "ble_ready c t" using r k(1) by (simp add: ble_ready_def)
    from send [OF this] show ?thesis
      using True assms k t by (auto simp: routable_def onMessage_send mesh.send_both_def bt_target_def)
  next
    case False
    then show ?thesis using send [OF r] assms by (auto simp: routable_def onMessage_send)
  qed
qed

lemma spp_run_out:
  assumes "\<forall>from c w. SppDataInd from c w \<in> set es \<longrightarrow> routable E c s" "cspp_handle (bt s) = 0"
  shows "\<exists>s'. run_all (esp_spp_cb (onMessage E)) es s = Inr s' \<and>
    bt_out s' = bt_out s @ serial_out (spp_handle (bt s)) es"
  using assms
proof (induction es arbitrary: s)
  case (Cons e es)
  have "\<exists>s1. esp_spp_cb (onMessage E) e s = Inr s1 \<and> ble s1 = ble s \<and> cspp_handle (bt s1) = 0 \<and>
      bt_out s1 @ serial_out (spp_handle (bt s1)) es = bt_out s @ serial_out (spp_handle (bt s)) (e # es)"
  proof (cases e)
    case (SppDataInd g c w)
    then have "routable E c s" using Cons.prems(1) by simp
    from onMessage_serial [OF this, of "sint w"] show ?thesis
      using SppDataInd Cons.prems(2) by (auto simp: bt_target_def)
  qed (use Cons.prems(2) in \<open>simp_all add: upd_bt_def\<close>)
  then obtain s1 where s1: "esp_spp_cb (onMessage E) e s = Inr s1" "ble s1 = ble s" "cspp_handle (bt s1) = 0"
    "bt_out s1 @ serial_out (spp_handle (bt s1)) es = bt_out s @ serial_out (spp_handle (bt s)) (e # es)" by blast
  have "\<forall>from c w. SppDataInd from c w \<in> set es \<longrightarrow> routable E c s1"
    using Cons.prems(1) s1(2) unfolding routable_def by auto
  from Cons.IH [OF this s1(3)] show ?case using s1(1,4) by auto
qed simp

text \<open>
  C25: In any run of SPP events, messages that the router can handle (not empty, within the BLE MTU while
  BLE is connected, and beginning with \<open>l\<close> only with a LoRa chip that ends its transmissions) come back
  on the serial side: each is written, whole and once, to the connection opened last, and dropped while
  none is open, whichever connection it came from.  So the sender gets its message back if it is the last
  to have connected, and otherwise another client gets it.  An empty message is read beyond its end.
\<close>

theorem serial_messages_come_back:
  assumes "\<forall>from c w. SppDataInd from c w \<in> set es \<longrightarrow> routable E c s" "cspp_handle (bt s) = 0"
  shows "\<exists>s'. run_all (esp_spp_cb (onMessage E)) es s = Inr s' \<and>
    bt_out s' = bt_out s @ serial_out (spp_handle (bt s)) es \<and>
    esp_spp_cb (onMessage E) (SppDataInd h [] w) s' = Inl ReadOOB"
  using spp_run_out [OF assms] by (auto simp: onMessage_def rd_def)

text \<open>Two clients: what the first sends after the second has connected goes to the second.\<close>

theorem serial_messages_come_back_witness:
  "\<exists>s'. run_all (esp_spp_cb (onMessage quiet))
      [SppSrvOpen 5, SppDataInd 5 [1] 0, SppSrvOpen 6, SppDataInd 5 [2, 2] 0, SppClose, SppDataInd 5 [3] 0] boot =
      Inr s' \<and> bt_out s' = [(5, [1]), (6, [2, 2])]"
  using serial_messages_come_back [of
      "[SppSrvOpen 5, SppDataInd 5 [1] 0, SppSrvOpen 6, SppDataInd 5 [2, 2] 0, SppClose, SppDataInd 5 [3] 0]"
      quiet boot 5 0]
  by (auto simp: routable_def boot_def)

end
