(* ===== verification/LoraLink.thy ===== *)
theory LoraLink
  imports Transports
begin

text \<open>
  Two devices on the LoRa data channel: what one sends the other can hear and stores, and what
  forwarding a message does to the receiver of the device that forwards it.
\<close>

section \<open>Modulation\<close>

text \<open>
  All a transmitter and a receiver have to agree on: carrier, bandwidth, coding rate, kind of header,
  spreading factor, checksum, direction of I/Q, preamble and sync word.
\<close>

record modulation =
  md_frf :: int
  md_bw :: u8
  md_cr :: u8
  md_implicit :: bool
  md_sf :: u8
  md_crc :: bool
  md_iq :: "u8 \<times> u8"
  md_preamble :: "u8 \<times> u8"
  md_sync :: u8

definition modulation_of :: "radio \<Rightarrow> modulation" where
  "modulation_of R = \<lparr>md_frf = frf_of R, md_bw = hi4 (rregs R 0x1d), md_cr = cr_get (rregs R 0x1d),
     md_implicit = hdr_get (rregs R 0x1d), md_sf = hi4 (rregs R 0x1e), md_crc = crc_get (rregs R 0x1e),
     md_iq = (rregs R 0x33, rregs R 0x3b), md_preamble = (rregs R 0x20, rregs R 0x21), md_sync = rregs R 0x39\<rparr>"

text \<open>What the data mode makes of the settings of the driver.\<close>

definition data_modulation :: "radio \<Rightarrow> lora_driver \<Rightarrow> modulation" where
  "data_modulation R l = (modulation_of R)\<lparr>md_frf := 923300000 * 2 ^ 19 div 32000000,
     md_cr := b_of (clamp 5 8 (lora_cr l) - 4), md_implicit := False, md_sf := b_of (clamp 6 12 (lora_sf l)),
     md_iq := (0x66, 0x19)\<rparr>"

lemma frf_rset: "r \<notin> {0x06, 0x07, 0x08} \<Longrightarrow> frf_of (rset r v R) = frf_of R"
  by (simp add: frf_of_def)

lemma upstream_radio:
  assumes "chip E R0"
  shows "modulation_of (radio_at R0 (lora_receive_upstream E s)) = data_modulation (radio_at R0 s) (lora (lo s))"
    "rregs (radio_at R0 (lora_receive_upstream E s)) 0x01 = 0x85"
    "air (radio_at R0 (lora_receive_upstream E s)) = air (radio_at R0 s)"
proof -
  define t where "t = lora_set_frequency (downstream ! 0) (upd_lora (\<lambda>l. l\<lparr>beaconReceive := False, dataReceive := True\<rparr>) s)"
  have f: "frf_of (radio_at R0 t) = 923300000 * 2 ^ 19 div 32000000" "air (radio_at R0 t) = air (radio_at R0 s)"
    "lo t = (lo s)\<lparr>lora := (lora (lo s))\<lparr>beaconReceive := False, dataReceive := True\<rparr>, lora_frequency := 923300000\<rparr>"
    unfolding t_def downstream_def by (subst radio_frequency, simp, simp, simp)+
  have k: "rregs (radio_at R0 t) r = rregs (radio_at R0 s) r" if "r \<notin> {0x06, 0x07, 0x08}" for r
    using that radio_frequency(2) [of 923300000 R0 _ r] unfolding t_def downstream_def by (simp split: if_split_asm)
  let ?R = "radio_at R0 t"
  have u: "radio_at R0 (lora_receive_upstream E s) =
      rset 0x01 0x85 (rset 0x1d (cr_put (lora_cr (lora (lo s))) (hdr_put False (rregs ?R 0x1d)))
        (rset 0x1e (sf_put (lora_sf (lora (lo s))) (rregs ?R 0x1e))
          (rset 0x37 (if lora_sf (lora (lo s)) \<le> 6 then 0x0c else 0x0a)
            (rset 0x31 (if lora_sf (lora (lo s)) \<le> 6 then 0xc5 else 0xc3) (rset 0x1d (hdr_put False (rregs ?R 0x1d))
              (rset 0x3b 0x19 (rset 0x33 0x66 ?R)))))))"
    unfolding lora_receive_upstream_def Let_def t_def [symmetric]
    by (simp add: f(3) radio_simple radio_explicit [OF assms] radio_set_sf [OF assms] radio_set_cr [OF assms])
  show "modulation_of (radio_at R0 (lora_receive_upstream E s)) = data_modulation (radio_at R0 s) (lora (lo s))"
    by (simp add: u modulation_of_def data_modulation_def frf_rset f(1) k field_simps_lora)
  show "rregs (radio_at R0 (lora_receive_upstream E s)) 0x01 = 0x85"
    "air (radio_at R0 (lora_receive_upstream E s)) = air (radio_at R0 s)"
    by (simp_all add: u f(2))
qed

text \<open>A transmission leaves carrier, bandwidth, checksum, preamble and sync word, and the driver's mode.\<close>

lemma loraSend_modulation:
  fixes s :: dev
  assumes "chip E R0" "sends_end E" "0 \<le> len" "len \<le> 255" "len \<le> int (length c)"
  obtains s' where "loraSend E k c len s = Inr s'"
    "air (radio_at R0 s') = air (radio_at R0 s) @ [take (nat len) c]"
    "rregs (radio_at R0 s') 0x01 = 0x83"
    "modulation_of (radio_at R0 s') = (modulation_of (radio_at R0 s))
       \<lparr>md_cr := b_of (clamp 5 8 (lora_cr (lora (lo s))) - 4), md_implicit := False,
        md_sf := b_of (clamp 6 12 (lora_sf (lora (lo s)))), md_iq := (0x66, 0x19)\<rparr>"
proof -
  obtain s1 where s1: "loraSend E k c len s = lora_send_packet E c len s1"
    "radio_at R0 s1 = rset 0x1d (cr_put (lora_cr (lora (lo s))) (hdr_put False (rregs (radio_at R0 s) 0x1d)))
      (rset 0x1e (sf_put (lora_sf (lora (lo s))) (rregs (radio_at R0 s) 0x1e))
        (rset 0x37 (if lora_sf (lora (lo s)) \<le> 6 then 0x0c else 0x0a)
          (rset 0x31 (if lora_sf (lora (lo s)) \<le> 6 then 0xc5 else 0xc3)
            (rset 0x1d (hdr_put False (rregs (radio_at R0 s) 0x1d)) (rset 0x3b 0x19 (rset 0x33 0x66 (radio_at R0 s)))))))"
    by (rule loraSend_setup [OF assms(1), of k c len s])
  obtain s' where m: "lora_send_packet E c len s1 = Inr s'"
    using lora_send_packet_returns [OF assms(2,3,5)] by blast
  note s' = lora_send_packet_radio(2-4) [OF assms(3-5) m, of R0]
  have "modulation_of (radio_at R0 s') = modulation_of (radio_at R0 s1)"
    by (simp add: modulation_of_def frf_of_def s'(2))
  then show ?thesis
    by (intro that [of s'])
      (simp_all add: s1 m s' modulation_of_def frf_rset field_simps_lora)
qed

section \<open>A packet in the receiver\<close>

text \<open>
  A chip that got a packet holds interrupt flags, which a write clears bit by bit, and the place in its
  buffer, which starts again when the address pointer is written and moves on with each byte read.
\<close>

record inbox =
  in_irq :: u8
  in_pos :: nat

fun inbox_call :: "call \<Rightarrow> inbox \<Rightarrow> inbox" where
  "inbox_call (Spi [a, v]) X =
    (if a = 0x92 then X\<lparr>in_irq := in_irq X AND NOT v\<rparr>
     else if a = 0x8d then X\<lparr>in_pos := 0\<rparr>
     else if a = 0 then X\<lparr>in_pos := in_pos X + 1\<rparr> else X)"
| "inbox_call _ X = X"

definition inbox0 :: inbox where
  "inbox0 = \<lparr>in_irq = 0x50, in_pos = 0\<rparr>"

text \<open>
  From the history \<open>h0\<close> on the chip holds the packet \<open>p\<close>, received without an error: the flags say that a
  packet with a valid header is there, its length can be read, and the buffer delivers its bytes.
\<close>

definition arrived :: "env \<Rightarrow> u8 list \<Rightarrow> call list \<Rightarrow> bool" where
  "arrived E p h0 \<longleftrightarrow> (\<forall>cs. let X = fold inbox_call cs inbox0; reg = \<lambda>r. fit 2 (rb E (h0 @ cs) (Spi [r, 0xff])) ! 1 in
     reg 0x12 = in_irq X \<and> reg 0x13 = word_of_nat (length p) \<and> (in_pos X < length p \<longrightarrow> reg 0 = p ! in_pos X))"

definition inbox_at :: "call list \<Rightarrow> inbox \<Rightarrow> dev \<Rightarrow> bool" where
  "inbox_at h0 X s \<longleftrightarrow> (\<exists>cs. hist s = h0 @ cs \<and> fold inbox_call cs inbox0 = X)"

lemma inbox_emit: "inbox_at h0 X s \<Longrightarrow> inbox_at h0 (inbox_call c X) (emit c s)"
  by (force simp: inbox_at_def)

lemma inbox_upd [simp]: "inbox_at h0 X (upd_lo f s) = inbox_at h0 X s" "inbox_at h0 X (upd_lora g s) = inbox_at h0 X s"
  by (simp_all add: inbox_at_def)

lemma inbox_spi:
  assumes "inbox_at h0 X s" "hist s' = hist s @ [GpioLevel a b, Spi bs, GpioLevel c d]"
  shows "inbox_at h0 (inbox_call (Spi bs) X) s'"
proof -
  obtain cs where "hist s = h0 @ cs" "fold inbox_call cs inbox0 = X" using assms(1) by (auto simp: inbox_at_def)
  then show ?thesis
    using assms(2) by (auto simp: inbox_at_def intro!: exI [of _ "cs @ [GpioLevel a b, Spi bs, GpioLevel c d]"])
qed

lemma inbox_write: "inbox_at h0 X s \<Longrightarrow> inbox_at h0 (inbox_call (Spi [b_of (0x80 OR r), b_of v]) X) (lora_write_reg r v s)"
  by (rule inbox_spi) (simp_all add: lora_write_reg_def)

lemma inbox_read:
  assumes "inbox_at h0 X s" "lora_read_reg E r s = (v, s')"
  shows "inbox_at h0 (inbox_call (Spi [b_of r, 0xff]) X) s'"
  by (rule inbox_spi [OF assms(1)]) (use assms(2) in \<open>auto simp: lora_read_reg_def Let_def\<close>)

lemma inbox_answer:
  assumes "arrived E p h0" "inbox_at h0 X s" "lora_read_reg E r s = (v, s')"
  shows "b_of r = 0x12 \<Longrightarrow> v = i_of (in_irq X)" "b_of r = 0x13 \<Longrightarrow> v = i_of (word_of_nat (length p) :: u8)"
    "b_of r = 0 \<Longrightarrow> in_pos X < length p \<Longrightarrow> v = i_of (p ! in_pos X)"
proof -
  obtain cs where cs: "hist s = h0 @ cs" "fold inbox_call cs inbox0 = X" using assms(2) by (auto simp: inbox_at_def)
  have v: "v = i_of (fit 2 (rb E (h0 @ (cs @ [GpioLevel CONFIG_CS_GPIO 0])) (Spi [b_of r, 0xff])) ! 1)"
    using assms(3) cs(1) by (auto simp: lora_read_reg_def Let_def fill_def got_def)
  have f: "fold inbox_call (cs @ [GpioLevel CONFIG_CS_GPIO 0]) inbox0 = X" using cs(2) by simp
  note a = assms(1) [unfolded arrived_def Let_def, rule_format, of "cs @ [GpioLevel CONFIG_CS_GPIO 0]", unfolded f]
  show "b_of r = 0x12 \<Longrightarrow> v = i_of (in_irq X)" "b_of r = 0x13 \<Longrightarrow> v = i_of (word_of_nat (length p) :: u8)"
    "b_of r = 0 \<Longrightarrow> in_pos X < length p \<Longrightarrow> v = i_of (p ! in_pos X)"
    using a unfolding v by simp_all
qed

lemma fifo_reads_arrived:
  assumes "arrived E p h0" "inbox_at h0 X s" "in_pos X + k \<le> length p"
  shows "fifo_reads E k s = take k (drop (in_pos X) p)"
  using assms(2,3)
proof (induction k arbitrary: X s)
  case (Suc k)
  obtain v t where r: "lora_read_reg E REG_FIFO s = (v, t)" by fastforce
  have v: "v = i_of (p ! in_pos X)"
    using inbox_answer(3) [OF assms(1) Suc.prems(1) r] Suc.prems(2) by (simp add: reg_defs)
  have "inbox_at h0 (X\<lparr>in_pos := in_pos X + 1\<rparr>) t"
    using inbox_read [OF Suc.prems(1) r] by (simp add: reg_defs)
  from Suc.IH [OF this] have "fifo_reads E k t = take k (drop (Suc (in_pos X)) p)" using Suc.prems(2) by simp
  then show ?case using r v Suc.prems(2) by (simp add: take_Suc_conv_app_nth Cons_nth_drop_Suc flip: take_Suc_Cons)
qed simp

text \<open>Reading registers changes neither the settings of the radio nor what is on air.\<close>

definition tuned :: "radio \<Rightarrow> dev \<Rightarrow> dev \<Rightarrow> bool" where
  "tuned R0 s s' \<longleftrightarrow> modulation_of (radio_at R0 s') = modulation_of (radio_at R0 s) \<and>
     air (radio_at R0 s') = air (radio_at R0 s)"

lemma tuned_trans: "tuned R0 s t \<Longrightarrow> tuned R0 t u \<Longrightarrow> tuned R0 s u"
  by (simp add: tuned_def)

lemma tuned_emit: "(\<And>bs. c \<noteq> Spi bs) \<Longrightarrow> tuned R0 s (emit c s)"
  by (cases c) (auto simp: tuned_def)

lemma tuned_upd: "tuned R0 s (upd_lo f t) = tuned R0 s t" "tuned R0 s (upd_lora g t) = tuned R0 s t"
  by (simp_all add: tuned_def)

lemma tuned_read: "b_of r < 0x80 \<Longrightarrow> lora_read_reg E r s = (v, s') \<Longrightarrow> tuned R0 s s'"
  using read_reg_radio(1) [of R0 E r s] by (auto simp: tuned_def)

lemma tuned_write:
  "b_of r \<in> {0x0d, 0x12} \<Longrightarrow> tuned R0 s (lora_write_reg r v s)"
  by (auto simp: tuned_def modulation_of_def radio_write_def frf_of_def b_of_bits)

lemma tuned_idle: "tuned R0 s (lora_idle s)"
  by (simp add: tuned_def radio_simple modulation_of_def frf_of_def)

lemma tuned_fifo: "read_fifo E i n buf s = Inr (b, s') \<Longrightarrow> tuned R0 s s'"
proof (induction E i n buf s rule: read_fifo.induct)
  case (1 E i n buf s)
  obtain v t where r: "lora_read_reg E REG_FIFO s = (v, t)" by fastforce
  have t: "tuned R0 s t" by (rule tuned_read [OF _ r]) (simp add: reg_defs)
  show ?case
  proof (cases "i < n")
    case True
    then obtain buf' where "wr buf i (b_of v) = Inr buf'" "read_fifo E (i + 1) n buf' t = Inr (b, s')"
      using 1(2) r by (subst (asm) read_fifo.simps) (auto simp: bindE_eq_Inr)
    then show ?thesis using 1(1) [OF True r [symmetric] refl] t tuned_trans by blast
  qed (use 1(2) in \<open>subst (asm) read_fifo.simps; simp add: tuned_def\<close>)
qed

lemma lora_receive_packet_arrived:
  assumes "arrived E p h0" "inbox_at h0 inbox0 s" "\<not> lora_implicit (lo s)"
    "int (length p) \<le> sz" "sz \<le> int (length buf)" "sz \<le> 255"
  shows "\<exists>s'. lora_receive_packet E buf sz s = Inr (int (length p), p @ drop (length p) buf, s') \<and>
    lo s' = lo s \<and> tuned R0 s s'"
proof -
  obtain irq s1 where r1: "lora_read_reg E REG_IRQ_FLAGS s = (irq, s1)" by fastforce
  let ?s1 = "lora_write_reg REG_IRQ_FLAGS irq s1"
  obtain len s2 where r2: "lora_read_reg E REG_RX_NB_BYTES ?s1 = (len, s2)" by fastforce
  obtain cur s3 where r3: "lora_read_reg E REG_FIFO_RX_CURRENT_ADDR (lora_idle s2) = (cur, s3)" by fastforce
  let ?s3 = "lora_write_reg REG_FIFO_ADDR_PTR cur s3" and ?n = "int (length p)"
  have i1: "inbox_at h0 inbox0 s1" and irq: "irq = 0x50"
    using inbox_read [OF assms(2) r1] inbox_answer(1) [OF assms(1,2) r1] by (simp_all add: reg_defs inbox0_def)
  have i2: "inbox_at h0 \<lparr>in_irq = 0, in_pos = 0\<rparr> ?s1"
    using inbox_write [OF i1, of REG_IRQ_FLAGS irq] by (simp add: reg_defs irq inbox0_def b_of_bits)
  have "len = i_of (word_of_nat (length p) :: u8)"
    using inbox_answer(2) [OF assms(1) i2 r2] by (simp add: reg_defs)
  then have len: "len = ?n" using assms(4,6) by (simp add: unsigned_of_nat take_bit_nat_eq_self)
  have i3: "inbox_at h0 \<lparr>in_irq = 0, in_pos = 0\<rparr> (lora_idle s2)"
    using inbox_write [OF inbox_read [OF i2 r2], of 1 "0x81"] by (simp add: reg_defs mode_defs lora_idle_def b_of_bits)
  have i4: "inbox_at h0 \<lparr>in_irq = 0, in_pos = 0\<rparr> ?s3"
    using inbox_write [OF inbox_read [OF i3 r3], of REG_FIFO_ADDR_PTR cur] by (simp add: reg_defs b_of_bits)
  have f: "fifo_reads E (length p) ?s3 = p" using fifo_reads_arrived [OF assms(1) i4, of "length p"] by simp
  obtain s4 where s4: "read_fifo E 0 ?n buf ?s3 = Inr (p @ drop (length p) buf, s4)" "lo s4 = lo ?s3"
    using read_fifo_eq [of "length p" buf 0 E ?s3] assms(4,5) f by auto
  have "lora_receive_packet E buf sz s = Inr (?n, p @ drop (length p) buf, s4)"
    using r1 r2 r3 s4(1) assms(3,4) lo_read' [OF r1]
    by (simp add: lora_receive_packet_def Let_def irq len reg_defs mode_defs)
  moreover have "lo s4 = lo s"
    using s4(2) lo_read' [OF r1] lo_read' [OF r2] lo_read' [OF r3] by (simp add: radio_simple)
  moreover have "tuned R0 s s4"
  proof -
    have "tuned R0 s ?s1" by (rule tuned_trans [OF tuned_read [OF _ r1] tuned_write]) (simp_all add: reg_defs)
    moreover have "tuned R0 ?s1 s3"
      by (rule tuned_trans [OF tuned_read [OF _ r2] tuned_trans [OF tuned_idle tuned_read [OF _ r3]]])
        (simp_all add: reg_defs)
    moreover have "tuned R0 s3 s4"
      by (rule tuned_trans [OF tuned_write tuned_fifo [OF s4(1)]]) (simp add: reg_defs)
    ultimately show ?thesis using tuned_trans by blast
  qed
  ultimately show ?thesis by blast
qed

text \<open>A round of the receive task on a device in data mode, with a packet in the chip.\<close>

lemma lora_event_arrived:
  assumes "chip E R0" "lora_wf s" "dataReceive (lora (lo s))" "\<not> beaconReceive (lora (lo s))"
    "\<not> lora_implicit (lo s)" "lora_repeat_send (lo s) = 0" "arrived E p (hist s)" "length p \<le> 100"
  shows "\<exists>s'. lora_read_event E cb n s = Inr s' \<and> lorabuf (lo s') = p @ drop (length p) (lorabuf (lo s)) \<and>
    lastLoraLen (lo s') = int (length p) \<and> loraReceived (lora (lo s')) = loraReceived (lora (lo s)) + 1 \<and>
    modulation_of (radio_at R0 s') = data_modulation (radio_at R0 s) (lora (lo s)) \<and>
    rregs (radio_at R0 s') 0x01 = 0x85"
proof -
  define s0 where "s0 = emit (Api ''printf LORA'' [n]) s"
  obtain irq t where r0: "lora_read_reg E REG_IRQ_FLAGS s0 = (irq, t)" by fastforce
  obtain v1 t1 where r1: "lora_read_reg E REG_PKT_RSSI_VALUE t = (v1, t1)" by fastforce
  obtain v2 t2 where r2: "lora_read_reg E REG_PKT_SNR_VALUE t1 = (v2, t2)" by fastforce
  define g where "g = (\<lambda>l :: lora_driver. l\<lparr>lora_last := (lora_last l)\<lparr>pkt_rssi := v1 - (if lora_frequency (lo t1) < 868000000 then 164 else 157),
    pkt_snr := cdiv (sint (b_of v2)) 4, pkt_buf := True\<rparr>\<rparr>)"
  define t3 where "t3 = upd_lora g t2"
  have "inbox_at (hist s) inbox0 s" by (auto simp: inbox_at_def)
  then have i0: "inbox_at (hist s) inbox0 s0" using inbox_emit [of _ _ s "Api ''printf LORA'' [n]"] by (simp add: s0_def)
  have irq: "irq = 0x50" using inbox_answer(1) [OF assms(7) i0 r0] by (simp add: reg_defs inbox0_def)
  have i3: "inbox_at (hist s) inbox0 t3"
    using inbox_read [OF inbox_read [OF inbox_read [OF i0 r0] r1] r2] by (simp add: t3_def reg_defs inbox0_def)
  have l: "lo t = lo s" "lo t1 = lo s" "lo t2 = lo s"
    using lo_read' [OF r0] lo_read' [OF r1] lo_read' [OF r2] by (simp_all add: s0_def)
  have l3: "lo t3 = (lo s)\<lparr>lora := g (lora (lo s))\<rparr>" by (simp add: t3_def l)
  have b: "length (lorabuf (lo s)) = 100" "\<not> lora_onMessage (lora (lo s))" using assms(2) by (simp_all add: lora_wf_def)
  obtain t4 where t4: "lora_receive_packet E (lorabuf (lo s)) 100 t3 = Inr (int (length p), p @ drop (length p) (lorabuf (lo s)), t4)"
    "lo t4 = lo t3" "tuned R0 t3 t4"
    using lora_receive_packet_arrived [OF assms(7) i3, of 100 "lorabuf (lo s)" R0] assms(5,8) b(1) by (auto simp: l3)
  define t5 where "t5 = upd_lora (\<lambda>l. l\<lparr>loraReceived := loraReceived l + 1\<rparr>)
    (upd_lora (\<lambda>l. l\<lparr>lora_last := (lora_last l)\<lparr>pkt_len := int (length p)\<rparr>\<rparr>)
      (upd_lo (\<lambda>v. v\<lparr>lorabuf := p @ drop (length p) (lorabuf (lo s)), lastLoraLen := int (length p)\<rparr>) t4))"
  have q: "lora_packet_rssi E t = (v1 - (if lora_frequency (lo t1) < 868000000 then 164 else 157), t1)"
    "lora_packet_snr E t1 = (sint (b_of v2), t2)"
    using r1 r2 by (simp_all add: lora_packet_rssi_def lora_packet_snr_def)
  have d: "lora_read_packet E cb t = Inr (lora_receive_upstream E t5)"
    unfolding lora_read_packet_def Let_def q prod.case g_def [symmetric] t3_def [symmetric]
    using t4(1,2) assms(3,4) b(2) by (simp add: l3 t5_def) (simp add: g_def)
  have "lora_read_event E cb n s = Inr (lora_receive_upstream E t5)"
    using r0 d assms(6)
    by (simp add: lora_read_event_def lora_received_def Let_def irq mode_defs lora_receive_upstream_lo t5_def t4(2) l3
        flip: s0_def)
  moreover have "tuned R0 s t5"
  proof -
    have "tuned R0 s t2" unfolding s0_def [symmetric]
      by (rule tuned_trans [OF tuned_emit tuned_trans [OF tuned_read [OF _ r0 [unfolded s0_def]]
            tuned_trans [OF tuned_read [OF _ r1] tuned_read [OF _ r2]]]]) (simp_all add: reg_defs)
    then show ?thesis using t4(3) tuned_trans by (simp add: t5_def tuned_upd t3_def) (auto simp: tuned_def)
  qed
  moreover have "lorabuf (lo t5) = p @ drop (length p) (lorabuf (lo s))" "lastLoraLen (lo t5) = int (length p)"
    "loraReceived (lora (lo t5)) = loraReceived (lora (lo s)) + 1" "lora_sf (lora (lo t5)) = lora_sf (lora (lo s))"
    "lora_cr (lora (lo t5)) = lora_cr (lora (lo s))"
    by (simp_all add: t5_def t4(2) l3 g_def)
  ultimately show ?thesis
    using upstream_radio [OF assms(1), of t5]
    by (auto simp: lora_receive_upstream_lo data_modulation_def tuned_def)
qed

section \<open>From one device to another\<close>

text \<open>
  C14: Two devices in data mode with the same settings: a message of up to 100 bytes that one sends is
  on air once and whole, in just the modulation the other listens with; when the chip of the other
  holds it, the receive task puts its bytes at the front of the buffer, notes its length, counts it,
  and listens again as before.
\<close>

theorem lora_message_is_received:
  fixes a b :: dev and RA RB :: radio and EA EB :: env
  defines "a1 \<equiv> lora_receive_upstream EA a" and "b1 \<equiv> lora_receive_upstream EB b"
  assumes "chip EA RA" "sends_end EA" "chip EB RB" "arrived EB c (hist b1)" "length c \<le> 100"
    and "data_modulation (radio_at RA a) (lora (lo a)) = data_modulation (radio_at RB b) (lora (lo b))"
    and "lora_wf b" "lora_repeat_send (lo b) = 0"
  shows "\<exists>a2 b2. loraSend EA k c (int (length c)) a1 = Inr a2 \<and>
    air (radio_at RA a2) = air (radio_at RA a) @ [c] \<and>
    modulation_of (radio_at RA a2) = modulation_of (radio_at RB b1) \<and>
    lora_read_event EB cb n b1 = Inr b2 \<and> lorabuf (lo b2) = c @ drop (length c) (lorabuf (lo b)) \<and>
    lastLoraLen (lo b2) = int (length c) \<and> loraReceived (lora (lo b2)) = loraReceived (lora (lo b)) + 1 \<and>
    rregs (radio_at RB b2) 0x01 = 0x85 \<and> modulation_of (radio_at RB b2) = modulation_of (radio_at RB b1)"
proof -
  note ua = upstream_radio [OF assms(3), of a] and ub = upstream_radio [OF assms(5), of b]
  have l: "lo b1 = (lo b)\<lparr>lora := (lora (lo b))\<lparr>beaconReceive := False, dataReceive := True\<rparr>,
     lora_frequency := downstream ! 0, lora_implicit := False\<rparr>"
    "lora (lo a1) = (lora (lo a))\<lparr>beaconReceive := False, dataReceive := True\<rparr>"
    unfolding a1_def b1_def lora_receive_upstream_lo by simp_all
  have w: "lora_wf b1" using assms(9) by (simp add: b1_def lora_receive_upstream_wf)
  obtain a2 where a2: "loraSend EA k c (int (length c)) a1 = Inr a2"
    "air (radio_at RA a2) = air (radio_at RA a1) @ [c]"
    "modulation_of (radio_at RA a2) = (modulation_of (radio_at RA a1))
       \<lparr>md_cr := b_of (clamp 5 8 (lora_cr (lora (lo a1))) - 4), md_implicit := False,
        md_sf := b_of (clamp 6 12 (lora_sf (lora (lo a1)))), md_iq := (0x66, 0x19)\<rparr>"
    by (rule loraSend_modulation [OF assms(3,4), of "int (length c)" c k a1]) (use assms(7) in simp_all)
  have ma: "modulation_of (radio_at RA a2) = modulation_of (radio_at RA a1)"
    unfolding a2(3) by (simp add: a1_def ua(1) l(2) [unfolded a1_def] data_modulation_def)
  obtain b2 where b2: "lora_read_event EB cb n b1 = Inr b2" "lorabuf (lo b2) = c @ drop (length c) (lorabuf (lo b1))"
    "lastLoraLen (lo b2) = int (length c)" "loraReceived (lora (lo b2)) = loraReceived (lora (lo b1)) + 1"
    "modulation_of (radio_at RB b2) = data_modulation (radio_at RB b1) (lora (lo b1))"
    "rregs (radio_at RB b2) 0x01 = 0x85"
    using lora_event_arrived [OF assms(5) w, of c cb n] assms(6,7,10) by (auto simp: l)
  have mb: "modulation_of (radio_at RB b2) = modulation_of (radio_at RB b1)"
    unfolding b2(5) by (simp add: b1_def ub(1) l(1) [unfolded b1_def] data_modulation_def)
  show ?thesis
    using a2(1,2) b2(1-4,6) ma mb ua ub(1) assms(8) by (auto simp: a1_def b1_def l(1) [unfolded b1_def])
qed

text \<open>A chip for examples that holds a packet from call \<open>n\<close> on.\<close>

fun rx_answer :: "radio \<Rightarrow> nat \<Rightarrow> u8 list \<Rightarrow> call list \<Rightarrow> call \<Rightarrow> u8 list" where
  "rx_answer R0 n p h (Spi [r, v]) =
    [0, if r = 0x12 then in_irq (fold inbox_call (drop n h) inbox0)
        else if r = 0x13 then word_of_nat (length p)
        else if r = 0 then p ! in_pos (fold inbox_call (drop n h) inbox0)
        else rregs (radio_of R0 h) r]"
| "rx_answer R0 n p h _ = []"

lemma upstream_calls: "length (hist (lora_receive_upstream E s)) = length (hist s) + 42"
  by (simp add: lora_receive_upstream_def lora_receive_def lora_set_frequency_def lora_invert_iq_def
      lora_explicit_header_mode_def lora_set_spreading_factor_def lora_set_coding_rate_def lora_write_reg_def
      lora_read_reg_def Let_def)

theorem lora_message_is_received_witness:
  "\<exists>EB a2 b2. loraSend (chip_env radio0) 0 [0x68, 0x69] 2 (lora_receive_upstream (chip_env radio0) boot) = Inr a2 \<and>
    air (radio_at radio0 a2) = [[0x68, 0x69]] \<and>
    lora_read_event EB (\<lambda>c l f s. Inr s) 26 (lora_receive_upstream EB boot) = Inr b2 \<and>
    take 2 (lorabuf (lo b2)) = [0x68, 0x69]"
proof -
  let ?E = "quiet\<lparr>rb := rx_answer radio0 42 [0x68, 0x69]\<rparr>" and ?p = "[0x68, 0x69] :: u8 list"
  have c: "chip ?E radio0" by (auto simp: chip_def fit_def kept_def)
  have "length (hist (lora_receive_upstream ?E boot)) = 42" by (simp add: upstream_calls boot_hist)
  then have h: "arrived ?E ?p (hist (lora_receive_upstream ?E boot))"
    by (simp add: arrived_def fit_def Let_def)
  have "lora_repeat_send (lo boot) = 0" by (simp add: boot_def)
  from lora_message_is_received [OF chip_env_chip chip_env_sends_end c h _ refl lora_wf_boot this, of 0]
  show ?thesis by (fastforce simp: radio_of_def radio0_def boot_hist)
qed

section \<open>Forwarding\<close>

lemma serial_lo:
  assumes "ble_ready c s" "serial.send_both E c s = Inr s'"
  shows "lo s' = lo s"
  using assms by (auto simp: serial.send_both_def ble_tx_def bleSend_eq bt_tx_def btSend_eq split: if_splits)

text \<open>
  C15: Forwarding a message by radio leaves the receiver off: although the driver still is in its receive
  mode, the last mode it gives the chip is to transmit, from which the chip goes to standby; the
  message itself goes on air.
\<close>

theorem forwarding_leaves_receiver_off:
  assumes "chip E R0" "sends_end E" "c \<noteq> []" "hd c = 0x6C" "length c \<le> 255"
    and "is_connected (ble s) \<longrightarrow> length c + 3 \<le> unat (spp_mtu_size (ble s))"
  shows "\<exists>t. onMessage E c (int (length c)) from s = Inr t \<and> lora (lo t) = lora (lo s) \<and>
    air (radio_at R0 t) = air (radio_at R0 s) @ [c] \<and> rregs (radio_at R0 t) 0x01 = 0x83"
proof -
  obtain u where u: "loraSend E 0 c (int (length c)) s = Inr u" "air (radio_at R0 u) = air (radio_at R0 s) @ [c]"
    "rregs (radio_at R0 u) 0x01 = 0x83"
    by (rule loraSend_modulation [OF assms(1,2), of "int (length c)" c 0 s]) (use assms(5) in simp_all)
  have r: "ble_ready c u" using assms(6) loraSend_serial(1) [OF u(1)] by (simp add: ble_ready_def)
  obtain t where t: "serial.send_both E c u = Inr t" using serial.both_out [of c u E] r by auto
  have "onMessage E c (int (length c)) from s = Inr t"
    using u(1) t by (simp add: onMessage_send assms(3,4) mesh.send_both_def lora_tx_def)
  then show ?thesis
    using serial_radio [OF r t] serial_lo [OF r t] loraSend_lo [OF u(1)] u(2,3) by auto
qed

theorem forwarding_leaves_receiver_off_witness:
  "\<exists>t. onMessage (chip_env radio0) [0x6C, 1] 2 0 (lora_receive_upstream (chip_env radio0) boot) = Inr t \<and>
    rregs (radio_at radio0 (lora_receive_upstream (chip_env radio0) boot)) 0x01 = 0x85 \<and>
    dataReceive (lora (lo t)) \<and> rregs (radio_at radio0 t) 0x01 = 0x83"
proof -
  let ?s = "lora_receive_upstream (chip_env radio0) boot"
  have "only {P_lo} boot ?s" using lk_upstream [OF lk_refl, of "{P_lo}" boot "chip_env radio0"] by (simp add: lora_keeps_def)
  then have "\<not> is_connected (ble ?s)" using onlyD [of "{P_lo}" boot ?s P_ble] by (simp add: boot_def)
  then show ?thesis
    using forwarding_leaves_receiver_off [OF chip_env_chip chip_env_sends_end, of "[0x6C, 1]" ?s radio0 0]
      upstream_radio(2) [OF chip_env_chip, of radio0 boot]
    by (auto simp: lora_receive_upstream_lo)
qed

end
