(* ===== verification/I2cTools.thy ===== *)
theory I2cTools
  imports Text
begin

text \<open>
  The console's bus tools, \<open>i2c/i2ctools.c\<close>: configuring the bus, scanning it, reading and
  writing registers, and the dump of a chip.  A transaction is one call with the operations of
  its command link; what the console shows is what the calls print.
\<close>

section \<open>The bus\<close>

definition upd_i2c :: "(i2c_vars \<Rightarrow> i2c_vars) \<Rightarrow> dev \<Rightarrow> dev" where
  "upd_i2c f s = s\<lparr>i2c := f (i2c s)\<rparr>"

text \<open>\<open>I2C_NUM_MAX\<close> is 2 on this chip; \<open>crlf\<close> ends a line.\<close>

definition I2C_NUM_MAX :: int where "I2C_NUM_MAX = 2"
definition WRITE_BIT :: int where "WRITE_BIT = 0"
definition READ_BIT :: int where "READ_BIT = 1"
definition ACK_VAL :: int where "ACK_VAL = 0x0"
definition NACK_VAL :: int where "NACK_VAL = 0x1"
definition crlf :: string where "crlf = [char_of (13::nat), char_of (10::nat)]"

definition i2c_master_init :: "env \<Rightarrow> dev \<Rightarrow> int \<times> dev" where
  "i2c_master_init E s =
    (let (err, sda, s) = nvs_get_i32 E ''sda'' 0 s in
     if err \<noteq> ESP_OK \<and> err \<noteq> ESP_ERR_NVS_NOT_FOUND then (err, s)
     else
     let (err, scl, s) = nvs_get_i32 E ''scl'' 0 s in
     if err \<noteq> ESP_OK \<and> err \<noteq> ESP_ERR_NVS_NOT_FOUND then (err, s)
     else if sda = 0 \<or> scl = 0 then (ESP_FAIL, s)
     else (ESP_OK, emits [Api ''i2c_param_config'' [0, sda, scl, 1000000],
       Api ''i2c_driver_install'' [0]] s))"

text \<open>The error, and the port where it is 0.\<close>

definition i2c_get_port :: "int \<Rightarrow> int \<Rightarrow> int \<times> int" where
  "i2c_get_port port old =
    (if port \<ge> I2C_NUM_MAX then (ESP_FAIL, old)
     else if port = 0 then (ESP_OK, 0)
     else if port = 1 then (ESP_OK, 1)
     else (ESP_OK, 0))"

definition i2c_master_driver_initialize :: "dev \<Rightarrow> dev" where
  "i2c_master_driver_initialize s = emit (Api ''i2c_param_config''
     [i2c_port (i2c s), i2c_gpio_sda (i2c s), i2c_gpio_scl (i2c s), uint (i2c_frequency (i2c s))]) s"

definition i2c_open :: "dev \<Rightarrow> dev" where
  "i2c_open s = i2c_master_driver_initialize (emit (Api ''i2c_driver_install'' [i2c_port (i2c s)]) s)"

definition i2c_close :: "dev \<Rightarrow> dev" where
  "i2c_close s = emit (Api ''i2c_driver_delete'' [i2c_port (i2c s)]) s"

text \<open>A byte put into a command link, converted from the \<open>int\<close> the code computes.\<close>

definition wbyte :: "int \<Rightarrow> i2c_op" where
  "wbyte v = I2cWrite [b_of v] True"

definition begin_link :: "i2c_op list \<Rightarrow> dev \<Rightarrow> call" where
  "begin_link ops s = I2cBegin (i2c_port (i2c s)) ops"

section \<open>Configuration\<close>

text \<open>Parsed options: the number of errors, and the value of each option that occurs.\<close>

record i2cconfig_args =
  cfg_nerrors :: int
  cfg_port :: "int option"
  cfg_freq :: "int option"
  cfg_sda :: int
  cfg_scl :: int

definition do_i2cconfig_cmd :: "i2cconfig_args \<Rightarrow> dev \<Rightarrow> int \<times> dev" where
  "do_i2cconfig_cmd a s =
    (if cfg_nerrors a \<noteq> 0 then (0, s)
     else
     let (err, port) = (case cfg_port a of None \<Rightarrow> (ESP_OK, i2c_port (i2c s))
                          | Some p \<Rightarrow> i2c_get_port p (i2c_port (i2c s))) in
     if err \<noteq> ESP_OK then (1, s)
     else
     let s = upd_i2c (\<lambda>v. v\<lparr>i2c_port := port\<rparr>) s;
         s = (case cfg_freq a of None \<Rightarrow> s
               | Some f \<Rightarrow> upd_i2c (\<lambda>v. v\<lparr>i2c_frequency := word_of_int f\<rparr>) s) in
     (0, upd_i2c (\<lambda>v. v\<lparr>i2c_gpio_sda := cfg_sda a, i2c_gpio_scl := cfg_scl a\<rparr>) s))"

section \<open>Scanning\<close>

definition detect_link :: "nat \<Rightarrow> dev \<Rightarrow> call" where
  "detect_link address = begin_link [I2cStart, wbyte (push_bit 1 (int address) OR WRITE_BIT), I2cStop]"

definition detect_cell :: "env \<Rightarrow> nat \<Rightarrow> dev \<Rightarrow> dev" where
  "detect_cell E address s =
    (let c = detect_link address s; r = ret E c s; s = emit c s in
     if r = ESP_OK then printf (hex2 (of_nat address) @ '' '') s
     else if r = ESP_ERR_TIMEOUT then printf ''UU '' s
     else printf ''-- '' s)"

definition detect_row :: "env \<Rightarrow> nat \<Rightarrow> dev \<Rightarrow> dev" where
  "detect_row E i s =
     printf crlf (fold (\<lambda>j. detect_cell E (i + j)) [0..<16] (printf (hex2 (of_nat i) @ '': '') s))"

definition detect_head :: string where
  "detect_head = ''     0  1  2  3  4  5  6  7  8  9  a  b  c  d  e  f'' @ crlf"

definition do_i2cdetect_cmd :: "env \<Rightarrow> dev \<Rightarrow> int \<times> dev" where
  "do_i2cdetect_cmd E s =
    (let s = printf detect_head (i2c_open s);
         s = fold (\<lambda>k. detect_row E (16 * k)) [0..<8] s in
     (0, i2c_close s))"

section \<open>Reading and writing\<close>

record i2cget_args =
  get_nerrors :: int
  get_chip :: int
  get_register :: "int option"
  get_length :: "int option"

definition read_ops :: "int \<Rightarrow> i2c_op list" where
  "read_ops len = (if len > 1 then [I2cRead (len - 1) ACK_VAL] else []) @ [I2cRead 1 NACK_VAL, I2cStop]"

definition get_link :: "int \<Rightarrow> int option \<Rightarrow> int \<Rightarrow> dev \<Rightarrow> call" where
  "get_link chip_addr reg len = begin_link
    ([I2cStart] @
     (let data_addr = (case reg of None \<Rightarrow> -1 | Some r \<Rightarrow> r) in
      if data_addr \<noteq> -1 then [wbyte (push_bit 1 chip_addr OR WRITE_BIT), wbyte data_addr, I2cStart] else []) @
     [wbyte (push_bit 1 chip_addr OR READ_BIT)] @ read_ops len)"

definition get_text :: "u8 list \<Rightarrow> string" where
  "get_text bs =
    concat (map (\<lambda>i. ''0x'' @ hex2 (bs ! i) @ '' '' @ (if (i + 1) mod 16 = 0 then crlf else [])) [0..<length bs])
    @ (if length bs mod 16 \<noteq> 0 then crlf else [])"

text \<open>
  The result of \<open>malloc\<close> is not checked; the last byte goes to \<open>data + len - 1\<close>, which is before
  the block for a length of 0 or less.
\<close>

definition do_i2cget_cmd :: "env \<Rightarrow> i2cget_args \<Rightarrow> dev \<Rightarrow> fault + int \<times> dev" where
  "do_i2cget_cmd E a s =
    (if get_nerrors a \<noteq> 0 then Inr (0, s)
     else
     let len = (case get_length a of None \<Rightarrow> 1 | Some l \<Rightarrow> l);
         m = Api ''malloc'' [len];
         null = (ret E m s = 0);
         s = i2c_open (emit m s);
         c = get_link (get_chip a) (get_register a) len s;
         r = ret E c s;
         data = fill E c (nat len) s;
         s = emit c s in
     if r = ESP_OK then
       if null \<or> len < 1 then Inl WriteOOB
       else Inr (0, i2c_close (emit (Api ''free'' []) (printf (get_text data) s)))
     else Inr (0, i2c_close (emit (Api ''free'' []) s)))"

record i2cset_args =
  set_nerrors :: int
  set_chip :: int
  set_register :: "int option"
  set_data :: "int list"

definition set_link :: "int \<Rightarrow> int option \<Rightarrow> int list \<Rightarrow> dev \<Rightarrow> call" where
  "set_link chip_addr reg vs = begin_link
    ([I2cStart, wbyte (push_bit 1 chip_addr OR WRITE_BIT)] @
     (case reg of None \<Rightarrow> [] | Some r \<Rightarrow> [wbyte r]) @ map wbyte vs @ [I2cStop])"

definition do_i2cset_cmd :: "i2cset_args \<Rightarrow> dev \<Rightarrow> int \<times> dev" where
  "do_i2cset_cmd a s =
    (if set_nerrors a \<noteq> 0 then (0, s)
     else
     let s = i2c_open s;
         s = emit (set_link (set_chip a) (set_register a) (set_data a) s) s in
     (0, i2c_close s))"

section \<open>The dump\<close>

record i2cdump_args =
  dump_nerrors :: int
  dump_chip :: int
  dump_size :: "int option"

definition dump_link :: "int \<Rightarrow> nat \<Rightarrow> nat \<Rightarrow> dev \<Rightarrow> call" where
  "dump_link chip_addr sz data_addr = begin_link
    ([I2cStart, wbyte (push_bit 1 chip_addr OR WRITE_BIT), wbyte (int data_addr), I2cStart,
      wbyte (push_bit 1 chip_addr OR READ_BIT)] @ read_ops (int sz))"

text \<open>The value of a cell of \<open>block\<close> is a byte, or -1 where the read failed.\<close>

definition dump_read :: "env \<Rightarrow> int \<Rightarrow> nat \<Rightarrow> nat \<Rightarrow> int list \<times> dev \<Rightarrow> int list \<times> dev" where
  "dump_read E chip_addr sz data_addr bs =
    (let (block, s) = bs;
         c = dump_link chip_addr sz data_addr s;
         r = ret E c s;
         data = fill E c sz s;
         s = emit c s in
     if r = ESP_OK then (block @ map i_of data, fold (\<lambda>b. printf (hex2 b @ '' '')) data s)
     else (block @ replicate sz (-1), fold (\<lambda>_. printf ''XX '') [0..<sz] s))"

definition dump_char :: "int \<Rightarrow> string" where
  "dump_char v =
    (if v < 0 then ''X'' else []) @
    (let b = v AND 0xff in
     if b = 0x00 \<or> b = 0xff then ''.''
     else if b < 32 \<or> b \<ge> 127 then ''?''
     else [char_of (nat b)])"

definition dump_row :: "env \<Rightarrow> int \<Rightarrow> nat \<Rightarrow> nat \<Rightarrow> dev \<Rightarrow> dev" where
  "dump_row E chip_addr sz i s =
    (let s = printf (hex2 (of_nat i) @ '': '') s;
         (block, s) = fold (\<lambda>j. dump_read E chip_addr sz (i + sz * j)) [0..<16 div sz] ([], s);
         s = printf ''   '' s in
     printf crlf (fold (\<lambda>v. printf (dump_char v)) block s))"

definition dump_head :: string where
  "dump_head = ''     0  1  2  3  4  5  6  7  8  9  a  b  c  d  e  f'' @ ''    0123456789abcdef'' @ crlf"

definition do_i2cdump_cmd :: "env \<Rightarrow> i2cdump_args \<Rightarrow> dev \<Rightarrow> int \<times> dev" where
  "do_i2cdump_cmd E a s =
    (if dump_nerrors a \<noteq> 0 then (0, s)
     else
     let sz = (case dump_size a of None \<Rightarrow> 1 | Some n \<Rightarrow> n) in
     if sz \<noteq> 1 \<and> sz \<noteq> 2 \<and> sz \<noteq> 4 then (1, s)
     else
     let s = printf dump_head (i2c_open s);
         s = fold (\<lambda>k. dump_row E (dump_chip a) (nat sz) (16 * k)) [0..<8] s in
     (0, i2c_close s))"

section \<open>Registration\<close>

definition register_cmds :: "env \<Rightarrow> string list \<Rightarrow> dev \<Rightarrow> fault + dev" where
  "register_cmds E names s =
    fold (\<lambda>n m. bindE m (check E (ApiS ''esp_console_cmd_register'' [n]))) names (Inr s)"

definition register_i2ctools :: "env \<Rightarrow> dev \<Rightarrow> fault + dev" where
  "register_i2ctools E = register_cmds E [''i2cconfig'', ''i2cdetect'', ''i2cget'', ''i2cset'', ''i2cdump'']"

end
