(* ===== verification/Nvs.thy ===== *)
theory Nvs
  imports I2cTools
begin

text \<open>
  The settings commands of the console, \<open>main/console.c\<close>: \<open>nvs_set\<close>, \<open>nvs_get\<close>,
  \<open>nvs_namespace\<close> and \<open>nvs_list\<close>.  The store itself is the platform's: a call opens a namespace,
  puts or gets the bytes of a value under a key, commits, closes.
\<close>

section \<open>Types\<close>

text \<open>The codes of the platform's value types.\<close>

definition NVS_TYPE_U8 :: int where "NVS_TYPE_U8 = 0x01"
definition NVS_TYPE_I8 :: int where "NVS_TYPE_I8 = 0x11"
definition NVS_TYPE_U16 :: int where "NVS_TYPE_U16 = 0x02"
definition NVS_TYPE_I16 :: int where "NVS_TYPE_I16 = 0x12"
definition NVS_TYPE_U32 :: int where "NVS_TYPE_U32 = 0x04"
definition NVS_TYPE_I32 :: int where "NVS_TYPE_I32 = 0x14"
definition NVS_TYPE_U64 :: int where "NVS_TYPE_U64 = 0x08"
definition NVS_TYPE_I64 :: int where "NVS_TYPE_I64 = 0x18"
definition NVS_TYPE_STR :: int where "NVS_TYPE_STR = 0x21"
definition NVS_TYPE_BLOB :: int where "NVS_TYPE_BLOB = 0x42"
definition NVS_TYPE_ANY :: int where "NVS_TYPE_ANY = 0xff"

lemmas nvs_type_defs = NVS_TYPE_U8_def NVS_TYPE_I8_def NVS_TYPE_U16_def NVS_TYPE_I16_def
  NVS_TYPE_U32_def NVS_TYPE_I32_def NVS_TYPE_U64_def NVS_TYPE_I64_def NVS_TYPE_STR_def
  NVS_TYPE_BLOB_def NVS_TYPE_ANY_def

definition type_str_pair :: "(int \<times> string) list" where
  "type_str_pair = [(NVS_TYPE_I8, ''i8''), (NVS_TYPE_U8, ''u8''), (NVS_TYPE_U16, ''u16''),
     (NVS_TYPE_I16, ''i16''), (NVS_TYPE_U32, ''u32''), (NVS_TYPE_I32, ''i32''), (NVS_TYPE_U64, ''u64''),
     (NVS_TYPE_I64, ''i64''), (NVS_TYPE_STR, ''str''), (NVS_TYPE_BLOB, ''blob''), (NVS_TYPE_ANY, ''any'')]"

definition str_to_type :: "string \<Rightarrow> int" where
  "str_to_type type = (case find (\<lambda>p. snd p = type) type_str_pair of None \<Rightarrow> NVS_TYPE_ANY | Some p \<Rightarrow> fst p)"

definition type_to_str :: "int \<Rightarrow> string" where
  "type_to_str type = (case find (\<lambda>p. fst p = type) type_str_pair of None \<Rightarrow> ''Unknown'' | Some p \<Rightarrow> snd p)"

section \<open>The store\<close>

text \<open>An integer as \<open>n\<close> bytes, low byte first, and the unsigned and signed value of bytes.\<close>

definition le_bytes :: "nat \<Rightarrow> int \<Rightarrow> u8 list" where
  "le_bytes n v = map (\<lambda>i. b_of (drop_bit (8 * i) v)) [0..<n]"

fun le_uint :: "u8 list \<Rightarrow> int" where
  "le_uint [] = 0"
| "le_uint (b # bs) = i_of b + 256 * le_uint bs"

definition le_sint :: "u8 list \<Rightarrow> int" where
  "le_sint bs = (let v = le_uint bs in if 2 * v < 256 ^ length bs then v else v - 256 ^ length bs)"

definition upd_con :: "(console_vars \<Rightarrow> console_vars) \<Rightarrow> dev \<Rightarrow> dev" where
  "upd_con f s = s\<lparr>con := f (con s)\<rparr>"

text \<open>A conversion of the C library: its value, and the error number it may set.\<close>

definition converted :: "int \<times> bool \<Rightarrow> dev \<Rightarrow> int \<times> dev" where
  "converted r s = (fst r, if snd r then upd_con (\<lambda>v. v\<lparr>erange := True\<rparr>) s else s)"

definition nvs_put :: "env \<Rightarrow> string \<Rightarrow> string \<Rightarrow> u8 list \<Rightarrow> dev \<Rightarrow> int \<times> dev" where
  "nvs_put E fn key bs s = (let c = NvsPut fn key bs in (ret E c s, emit c s))"

definition nvs_commit :: "env \<Rightarrow> dev \<Rightarrow> int \<times> dev" where
  "nvs_commit E s = (let c = Api ''nvs_commit'' [] in (ret E c s, emit c s))"

definition nvs_close :: "dev \<Rightarrow> dev" where
  "nvs_close s = emit (Api ''nvs_close'' []) s"

definition nvs_open :: "env \<Rightarrow> string \<Rightarrow> dev \<Rightarrow> int \<times> dev" where
  "nvs_open E mode s = (let c = ApiS ''nvs_open'' [current_namespace (con s), mode] in (ret E c s, emit c s))"

section \<open>Setting\<close>

definition hex_value :: "char \<Rightarrow> u8 option" where
  "hex_value ch = (let n = of_char ch :: nat in
     if 48 \<le> n \<and> n \<le> 57 then Some (of_nat (n - 48))
     else if 65 \<le> n \<and> n \<le> 70 then Some (of_nat (n - 65 + 10))
     else if 97 \<le> n \<and> n \<le> 102 then Some (of_nat (n - 97 + 10))
     else None)"

text \<open>Two characters of the text make a byte of the blob; \<open>None\<close> where one is no digit.\<close>

fun blob_bytes :: "string \<Rightarrow> u8 list option" where
  "blob_bytes (c # d # r) =
    (case hex_value c of None \<Rightarrow> None | Some a \<Rightarrow>
     case hex_value d of None \<Rightarrow> None | Some b \<Rightarrow>
       map_option (\<lambda>bs. (push_bit 4 a + b) # bs) (blob_bytes r))"
| "blob_bytes _ = Some []"

definition store_blob :: "env \<Rightarrow> string \<Rightarrow> string \<Rightarrow> dev \<Rightarrow> int \<times> dev" where
  "store_blob E key str_values s =
    (let str_len = length str_values; blob_len = str_len div 2 in
     if str_len mod 2 \<noteq> 0 then (ESP_ERR_NVS_TYPE_MISMATCH, s)
     else
     let c = Api ''malloc'' [int blob_len]; null = (ret E c s = 0); s = emit c s in
     if null then (ESP_ERR_NO_MEM, s)
     else
     case blob_bytes str_values of
       None \<Rightarrow> (ESP_ERR_NVS_TYPE_MISMATCH, emit (Api ''free'' []) s)
     | Some blob \<Rightarrow>
         let (err, s) = nvs_put E ''nvs_set_blob'' key blob s;
             s = emit (Api ''free'' []) s in
         if err = ESP_OK then nvs_commit E s else (err, s))"

definition print_blob :: "u8 list \<Rightarrow> dev \<Rightarrow> dev" where
  "print_blob blob s = printf [char_of (10::nat)] (fold (\<lambda>b. printf (hex2 b)) blob s)"

text \<open>The branch of the type: the error, whether the value is out of the type's range, the state.\<close>

definition store_value :: "env \<Rightarrow> int \<Rightarrow> string \<Rightarrow> string \<Rightarrow> dev \<Rightarrow> int \<times> bool \<times> dev" where
  "store_value E type key str_value s =
    (if type = NVS_TYPE_I8 then
       let (value, s) = converted (strtol 32 str_value) s in
       if value < -128 \<or> value > 127 \<or> erange (con s) then (ESP_OK, True, s)
       else let (err, s) = nvs_put E ''nvs_set_i8'' key (le_bytes 1 value) s in (err, False, s)
     else if type = NVS_TYPE_U8 then
       let (value, s) = converted (strtoul 32 str_value) s in
       if value > 255 \<or> erange (con s) then (ESP_OK, True, s)
       else let (err, s) = nvs_put E ''nvs_set_u8'' key (le_bytes 1 value) s in (err, False, s)
     else if type = NVS_TYPE_I16 then
       let (value, s) = converted (strtol 32 str_value) s in
       if value < -32768 \<or> value > 32767 \<or> erange (con s) then (ESP_OK, True, s)
       else let (err, s) = nvs_put E ''nvs_set_i16'' key (le_bytes 2 value) s in (err, False, s)
     else if type = NVS_TYPE_U16 then
       let (value, s) = converted (strtoul 32 str_value) s in
       if value > 65535 \<or> erange (con s) then (ESP_OK, True, s)
       else let (err, s) = nvs_put E ''nvs_set_u16'' key (le_bytes 2 value) s in (err, False, s)
     else if type = NVS_TYPE_I32 then
       let (value, s) = converted (strtol 32 str_value) s in
       if erange (con s) then (ESP_OK, False, s)
       else let (err, s) = nvs_put E ''nvs_set_i32'' key (le_bytes 4 value) s in (err, False, s)
     else if type = NVS_TYPE_U32 then
       let (value, s) = converted (strtoul 32 str_value) s in
       if erange (con s) then (ESP_OK, False, s)
       else let (err, s) = nvs_put E ''nvs_set_u32'' key (le_bytes 4 value) s in (err, False, s)
     else if type = NVS_TYPE_I64 then
       let (value, s) = converted (strtol 64 str_value) s in
       if erange (con s) then (ESP_OK, False, s)
       else let (err, s) = nvs_put E ''nvs_set_i64'' key (le_bytes 8 value) s in (err, False, s)
     else if type = NVS_TYPE_U64 then
       let (value, s) = converted (strtoul 64 str_value) s in
       if erange (con s) then (ESP_OK, False, s)
       else let (err, s) = nvs_put E ''nvs_set_u64'' key (le_bytes 8 value) s in (err, False, s)
     else if type = NVS_TYPE_STR then
       let (err, s) = nvs_put E ''nvs_set_str'' key (map byte_of str_value @ [0]) s in (err, False, s)
     else if type = NVS_TYPE_BLOB then
       let (err, s) = store_blob E key str_value s in (err, False, s)
     else (ESP_OK, False, s))"

definition set_value_in_nvs :: "env \<Rightarrow> string \<Rightarrow> string \<Rightarrow> string \<Rightarrow> dev \<Rightarrow> int \<times> dev" where
  "set_value_in_nvs E key str_type str_value s =
    (let type = str_to_type str_type in
     if type = NVS_TYPE_ANY then (ESP_ERR_NVS_TYPE_MISMATCH, s)
     else
     let (err, s) = nvs_open E ''NVS_READWRITE'' s in
     if err \<noteq> ESP_OK then (err, s)
     else
     let (err, range_error, s) = store_value E type key str_value s in
     if range_error \<or> erange (con s) then (ESP_ERR_NVS_VALUE_TOO_LONG, nvs_close s)
     else
     let (err, s) = (if err = ESP_OK then nvs_commit E s else (err, s)) in
     (err, nvs_close s))"

section \<open>Getting\<close>

text \<open>
  A value of \<open>n\<close> bytes: printed where it could be read.  \<open>%u\<close> prints a negative \<open>int\<close> as the unsigned
  number it converts to.
\<close>

definition get_number :: "env \<Rightarrow> string \<Rightarrow> string \<Rightarrow> nat \<Rightarrow> (u8 list \<Rightarrow> string) \<Rightarrow> dev \<Rightarrow> int \<times> dev" where
  "get_number E fn key n txt s =
    (let c = Nvs fn key; err = ret E c s; bs = fill E c n s; s = emit c s in
     (err, if err = ESP_OK then printf (txt bs @ [char_of (10::nat)]) s else s))"

definition pct_u :: "int \<Rightarrow> string" where
  "pct_u v = dec (v mod 2 ^ 32)"

text \<open>
  A value of any length: a first call asks for the length, a second one delivers the bytes into
  memory that \<open>malloc\<close> gave, or not: its result is not checked, and a null pointer makes the second
  call another question for the length.
\<close>

definition get_bytes :: "env \<Rightarrow> string \<Rightarrow> string \<Rightarrow> (bool \<Rightarrow> u8 list \<Rightarrow> dev \<Rightarrow> fault + dev) \<Rightarrow> dev \<Rightarrow> fault + int \<times> dev" where
  "get_bytes E fn key k s =
    (let c = Nvs fn key; err = ret E c s; len = length (got E c s); s = emit c s in
     if err \<noteq> ESP_OK then Inr (err, s)
     else
     let m = Api ''malloc'' [int len]; null = (ret E m s = 0); s = emit m s;
         err = ret E c s; bs = fill E c len s; s = emit c s in
     bindE (if err = ESP_OK then k null bs s else Inr s) (\<lambda>s.
     Inr (err, emit (Api ''free'' []) s)))"

definition print_str :: "bool \<Rightarrow> u8 list \<Rightarrow> dev \<Rightarrow> fault + dev" where
  "print_str null bs s =
    (if null \<or> 0 \<notin> set bs then Inl ReadOOB
     else Inr (printf (map char_of_byte (takeWhile (\<lambda>b. b \<noteq> 0) bs) @ [char_of (10::nat)]) s))"

definition print_blob_at :: "bool \<Rightarrow> u8 list \<Rightarrow> dev \<Rightarrow> fault + dev" where
  "print_blob_at null bs s = (if null \<and> bs \<noteq> [] then Inl ReadOOB else Inr (print_blob bs s))"

definition load_value :: "env \<Rightarrow> int \<Rightarrow> string \<Rightarrow> dev \<Rightarrow> fault + int \<times> dev" where
  "load_value E type key s =
    (if type = NVS_TYPE_I8 then Inr (get_number E ''nvs_get_i8'' key 1 (\<lambda>bs. dec (le_sint bs)) s)
     else if type = NVS_TYPE_U8 then Inr (get_number E ''nvs_get_u8'' key 1 (\<lambda>bs. pct_u (le_uint bs)) s)
     else if type = NVS_TYPE_I16 then Inr (get_number E ''nvs_get_i16'' key 2 (\<lambda>bs. pct_u (le_sint bs)) s)
     else if type = NVS_TYPE_U16 then Inr (get_number E ''nvs_get_u16'' key 2 (\<lambda>bs. pct_u (le_uint bs)) s)
     else if type = NVS_TYPE_I32 then Inr (get_number E ''nvs_get_i32'' key 4 (\<lambda>bs. dec (le_sint bs)) s)
     else if type = NVS_TYPE_U32 then Inr (get_number E ''nvs_get_u32'' key 4 (\<lambda>bs. pct_u (le_uint bs)) s)
     else if type = NVS_TYPE_I64 then Inr (get_number E ''nvs_get_i64'' key 8 (\<lambda>bs. dec (le_sint bs)) s)
     else if type = NVS_TYPE_U64 then Inr (get_number E ''nvs_get_u64'' key 8 (\<lambda>bs. dec (le_uint bs)) s)
     else if type = NVS_TYPE_STR then get_bytes E ''nvs_get_str'' key print_str s
     else if type = NVS_TYPE_BLOB then get_bytes E ''nvs_get_blob'' key print_blob_at s
     else Inr (ESP_OK, s))"

definition get_value_from_nvs :: "env \<Rightarrow> string \<Rightarrow> string \<Rightarrow> dev \<Rightarrow> fault + int \<times> dev" where
  "get_value_from_nvs E key str_type s =
    (let type = str_to_type str_type in
     if type = NVS_TYPE_ANY then Inr (ESP_ERR_NVS_TYPE_MISMATCH, s)
     else
     let (err, s) = nvs_open E ''NVS_READONLY'' s in
     if err \<noteq> ESP_OK then Inr (err, s)
     else bindE (load_value E type key s) (\<lambda>(err, s). Inr (err, nvs_close s)))"

section \<open>Listing\<close>

text \<open>A character array as text.\<close>

definition cstr :: "u8 list \<Rightarrow> string" where
  "cstr bs = map char_of_byte (takeWhile (\<lambda>b. b \<noteq> 0) bs)"

text \<open>
  An entry is a structure of two arrays of 16 characters and a type.  The list ends where the
  platform gives no further entry.
\<close>

partial_function (option) list_loop :: "env \<Rightarrow> int \<Rightarrow> dev \<Rightarrow> dev option" where
  "list_loop E it s =
    (let ci = Api ''nvs_entry_info'' [it]; info = fill E ci 36 s; s = emit ci s;
         cn = Api ''nvs_entry_next'' [it]; it = ret E cn s; s = emit cn s;
         s = printf (''namespace '' @ [CHR 0x27] @ cstr (take 16 info) @ [CHR 0x27] @ '', key '' @ [CHR 0x27] @
               cstr (take 16 (drop 16 info)) @ [CHR 0x27] @ '', type '' @ [CHR 0x27] @
               type_to_str (le_uint (drop 32 info)) @ [CHR 0x27] @ '' '' @ [char_of (10::nat)]) s in
     if it \<noteq> 0 then list_loop E it s else Some s)"

text \<open>The namespace \<open>name\<close> is not used.\<close>

definition list_nvs :: "env \<Rightarrow> string \<Rightarrow> string \<Rightarrow> string \<Rightarrow> dev \<Rightarrow> fault + int \<times> dev" where
  "list_nvs E part name str_type s =
    (let type = str_to_type str_type;
         c = ApiS ''nvs_entry_find'' [part, [], dec type];
         it = ret E c s;
         s = emit c s in
     if it = 0 then Inr (1, s)
     else bindE (returning (list_loop E it s)) (\<lambda>s. Inr (0, s)))"

section \<open>Commands\<close>

text \<open>
  Parsed arguments: the number of errors, and the texts.  An option that does not occur keeps the
  text the command gives it before parsing.
\<close>

record set_args =
  set_value_nerrors :: int
  set_key :: string
  set_type :: string
  set_value_text :: string

record get_args =
  get_value_nerrors :: int
  get_key :: string
  get_type :: string

record namespace_args =
  ns_nerrors :: int
  ns_name :: string

record list_args =
  list_nerrors :: int
  list_partition :: string
  list_namespace :: "string option"
  list_type :: "string option"

definition set_value :: "env \<Rightarrow> set_args \<Rightarrow> dev \<Rightarrow> int \<times> dev" where
  "set_value E a s =
    (if set_value_nerrors a \<noteq> 0 then (1, s)
     else let (err, s) = set_value_in_nvs E (set_key a) (set_type a) (set_value_text a) s in
     if err \<noteq> ESP_OK then (1, s) else (0, s))"

definition get_value :: "env \<Rightarrow> get_args \<Rightarrow> dev \<Rightarrow> fault + int \<times> dev" where
  "get_value E a s =
    (if get_value_nerrors a \<noteq> 0 then Inr (1, s)
     else bindE (get_value_from_nvs E (get_key a) (get_type a) s) (\<lambda>(err, s).
     if err \<noteq> ESP_OK then Inr (1, s) else Inr (0, s)))"

text \<open>\<open>strlcpy\<close> into 16 bytes keeps 15 characters.\<close>

definition set_namespace :: "namespace_args \<Rightarrow> dev \<Rightarrow> int \<times> dev" where
  "set_namespace a s =
    (if ns_nerrors a \<noteq> 0 then (1, s)
     else (0, upd_con (\<lambda>v. v\<lparr>current_namespace := take 15 (ns_name a)\<rparr>) s))"

definition list_entries :: "env \<Rightarrow> list_args \<Rightarrow> dev \<Rightarrow> fault + int \<times> dev" where
  "list_entries E a s =
    (if list_nerrors a \<noteq> 0 then Inr (1, s)
     else list_nvs E (list_partition a) (case list_namespace a of None \<Rightarrow> [] | Some n \<Rightarrow> n)
       (case list_type a of None \<Rightarrow> [] | Some t \<Rightarrow> t) s)"

definition register_dmesh_nvs :: "env \<Rightarrow> dev \<Rightarrow> fault + dev" where
  "register_dmesh_nvs E = register_cmds E [''nvs_set'', ''nvs_get'', ''nvs_namespace'', ''nvs_list'']"

end
