(* ===== verification/System.thy ===== *)
theory System
  imports Nvs
begin

text \<open>
  The system commands, \<open>l3dmesh/cmd_system.c\<close>, the pin command, \<open>gpio/cmd_gpio.c\<close>, and the entry to
  deep sleep in \<open>main/main.c\<close>.  A call that never returns is the last of the history, and its
  command has no result.
\<close>

section \<open>Information\<close>

definition CHIP_ESP32 :: int where "CHIP_ESP32 = 1"
definition nl :: string where "nl = [char_of (10::nat)]"
definition tab :: string where "tab = [char_of (9::nat)]"

text \<open>
  The chip information is a structure: model and features of four bytes each, then cores and revision.
  The features are bits: 0 embedded flash, 1 WiFi, 4 BLE, 5 classic Bluetooth.
\<close>

definition feature_text :: "int \<Rightarrow> int \<Rightarrow> string" where
  "feature_text features flash =
    (if bit features 1 then ''/802.11bgn'' else []) @ (if bit features 4 then ''/BLE'' else []) @
    (if bit features 5 then ''/BT'' else []) @
    (if bit features 0 then ''/Embedded-Flash:'' else ''/External-Flash:'') @
    dec (flash div (1024 * 1024)) @ '' MB''"

definition get_version :: "env \<Rightarrow> dev \<Rightarrow> int \<times> dev" where
  "get_version E s =
    (let c = Api ''esp_chip_info'' []; info = fill E c 10 s; s = emit c s;
         v = Api ''esp_get_idf_version'' []; ver = cstr (got E v s); s = emit v s;
         s = printf (''IDF Version:'' @ ver @ crlf) s;
         s = printf (''Chip info:'' @ crlf) s;
         s = printf (tab @ ''model:'' @ (if le_uint (take 4 info) = CHIP_ESP32 then ''ESP32'' else ''Unknow'') @ crlf) s;
         s = printf (tab @ ''cores:'' @ dec (i_of (info ! 8)) @ crlf) s;
         f = Api ''spi_flash_get_chip_size'' []; flash = ret E f s; s = emit f s;
         s = printf (tab @ ''feature:'' @ feature_text (le_uint (take 4 (drop 4 info))) flash @ crlf) s;
         s = printf (tab @ ''revision number:'' @ dec (i_of (info ! 9)) @ crlf) s in
     (0, s))"

definition restart :: "dev \<Rightarrow> dev" where
  "restart s = emit (Api ''esp_restart'' []) s"

definition free_mem :: "env \<Rightarrow> dev \<Rightarrow> int \<times> dev" where
  "free_mem E s =
    (let c = Api ''esp_get_free_heap_size'' []; n = ret E c s in (0, printf (dec n @ nl) (emit c s)))"

definition heap_size :: "dev \<Rightarrow> int \<times> dev" where
  "heap_size s = (0, emit (Api ''heap_caps_get_minimum_free_size'' []) s)"

text \<open>
  The list of tasks goes into a buffer of 40 bytes for each task, with its terminating 0; the platform
  writes as much as it has.
\<close>

definition tasks_info :: "env \<Rightarrow> dev \<Rightarrow> fault + int \<times> dev" where
  "tasks_info E s =
    (let n = Api ''uxTaskGetNumberOfTasks'' []; sz = ret E n s * 40; s = emit n s;
         m = Api ''malloc'' [sz]; null = (ret E m s = 0); s = emit m s in
     if null then Inr (1, s)
     else
     let s = printf (''Task Name'' @ tab @ ''Status'' @ tab @ ''Prio'' @ tab @ ''HWM'' @ tab @ ''Task#'') s;
         s = printf nl s;
         c = Api ''vTaskList'' []; buf = cstr (got E c s); s = emit c s in
     if int (length buf) + 1 > sz then Inl WriteOOB
     else Inr (0, emit (Api ''free'' []) (printf buf s)))"

section \<open>Deep sleep\<close>

text \<open>\<open>1000ULL * t\<close> for an \<open>int\<close>: the product in 64 bits without a sign.\<close>

definition micros :: "int \<Rightarrow> int" where
  "micros t = (1000 * t) mod 2 ^ 64"

text \<open>The result tells whether the function returns.\<close>

definition dmesh_enter_deep_sleep :: "env \<Rightarrow> int \<Rightarrow> dev \<Rightarrow> fault + bool \<times> dev" where
  "dmesh_enter_deep_sleep E timeout s =
    (let s = emits [Api ''esp_bluedroid_disable'' [], Api ''esp_bt_controller_disable'' []] s in
     bindE (check E (Api ''esp_sleep_enable_timer_wakeup'' [timeout]) s) (\<lambda>s.
     let io_num = pinInterupt (lora (lo s));
         c = Api ''rtc_gpio_is_valid_gpio'' [io_num];
         valid = (ret E c s \<noteq> 0);
         s = emit c s in
     if \<not> valid then Inr (True, s)
     else
     bindE (check E (Api ''esp_sleep_enable_ext1_wakeup'' [2 ^ nat io_num, 1]) s) (\<lambda>s.
     Inr (False, emits [Api ''rtc_gpio_isolate'' [12], Api ''esp_deep_sleep_start'' []] s))))"

text \<open>Parsed options: the number of errors, and the value of each option that occurs.\<close>

record deep_sleep_args =
  ds_nerrors :: int
  ds_start :: "int option"
  ds_time :: "int option"
  ds_io :: "int option"
  ds_io_level :: "int option"

text \<open>The wake-up by a pin, where one is given: the command goes on, or ends with 1.\<close>

definition deep_sleep_io :: "env \<Rightarrow> deep_sleep_args \<Rightarrow> dev \<Rightarrow> fault + bool \<times> dev" where
  "deep_sleep_io E a s =
    (case ds_io a of None \<Rightarrow> Inr (True, s)
     | Some io_num \<Rightarrow>
         let c = Api ''rtc_gpio_is_valid_gpio'' [io_num]; valid = (ret E c s \<noteq> 0); s = emit c s in
         if \<not> valid then Inr (False, s)
         else
         let level = (case ds_io_level a of None \<Rightarrow> 0 | Some l \<Rightarrow> l) in
         if level \<noteq> 0 \<and> level \<noteq> 1 then Inr (False, s)
         else bindE (check E (Api ''esp_sleep_enable_ext1_wakeup'' [2 ^ nat io_num, level]) s) (\<lambda>s.
         Inr (True, s)))"

definition deep_sleep :: "env \<Rightarrow> deep_sleep_args \<Rightarrow> dev \<Rightarrow> fault + int option \<times> dev" where
  "deep_sleep E a s =
    (if ds_nerrors a \<noteq> 0 then Inr (Some 1, s)
     else case ds_start a of
       Some t \<Rightarrow> bindE (dmesh_enter_deep_sleep E (micros t) s) (\<lambda>(returns, s).
         Inr (if returns then Some 0 else None, s))
     | None \<Rightarrow>
         bindE (case ds_time a of None \<Rightarrow> Inr s
           | Some t \<Rightarrow> check E (Api ''esp_sleep_enable_timer_wakeup'' [micros t]) s) (\<lambda>s.
         bindE (deep_sleep_io E a s) (\<lambda>(goes_on, s).
         if \<not> goes_on then Inr (Some 1, s)
         else Inr (None, emits [Api ''rtc_gpio_isolate'' [12], Api ''esp_deep_sleep_start'' []] s))))"

section \<open>Light sleep\<close>

record light_sleep_args =
  ls_nerrors :: int
  ls_locks :: bool
  ls_autosleep :: bool
  ls_time :: "int option"
  ls_ios :: "int list"
  ls_levels :: "int list"

definition CONFIG_ESP_CONSOLE_UART_NUM :: int where "CONFIG_ESP_CONSOLE_UART_NUM = 0"

text \<open>The pins in order; the level of interrupt is 5 for high and 4 for low.\<close>

fun wakeup_pins :: "env \<Rightarrow> (int \<times> int) list \<Rightarrow> dev \<Rightarrow> fault + bool \<times> dev" where
  "wakeup_pins E [] s = Inr (True, s)"
| "wakeup_pins E ((io_num, level) # r) s =
    (if level \<noteq> 0 \<and> level \<noteq> 1 then Inr (False, s)
     else bindE (check E (Api ''gpio_wakeup_enable'' [io_num, if level \<noteq> 0 then 5 else 4]) s)
       (wakeup_pins E r))"

text \<open>Dynamic frequency between the crystal's and 80 MHz with automatic light sleep.\<close>

definition configure_light_sleep :: "env \<Rightarrow> int \<Rightarrow> dev \<Rightarrow> fault + dev" where
  "configure_light_sleep E xtal_freq s = check E (Api ''esp_pm_configure'' [80, xtal_freq, 1]) s"

definition uart_wakeup :: "env \<Rightarrow> dev \<Rightarrow> fault + dev" where
  "uart_wakeup E s =
    bindE (check E (Api ''uart_set_wakeup_threshold'' [CONFIG_ESP_CONSOLE_UART_NUM, 3]) s) (\<lambda>s.
    check E (Api ''esp_sleep_enable_uart_wakeup'' [CONFIG_ESP_CONSOLE_UART_NUM]) s)"

definition light_sleep :: "env \<Rightarrow> light_sleep_args \<Rightarrow> dev \<Rightarrow> fault + int \<times> dev" where
  "light_sleep E a s =
    (if ls_nerrors a \<noteq> 0 then Inr (1, s)
     else if ls_locks a then Inr (0, emit (Api ''esp_pm_dump_locks'' []) (printf ''LOCKS:'' s))
     else if ls_autosleep a then
       let c = Api ''rtc_clk_xtal_freq_get'' []; xtal_freq = ret E c s; s = emit c s in
       bindE (check E (Api ''gpio_wakeup_enable'' [26, 5]) s) (\<lambda>s.
       bindE (uart_wakeup E s) (\<lambda>s.
       bindE (configure_light_sleep E xtal_freq s) (\<lambda>s. Inr (0, s))))
     else
     let s = emit (ApiS ''esp_sleep_disable_wakeup_source'' [''ESP_SLEEP_WAKEUP_ALL'']) s in
     bindE (case ls_time a of None \<Rightarrow> Inr s
       | Some t \<Rightarrow> check E (Api ''esp_sleep_enable_timer_wakeup'' [micros t]) s) (\<lambda>s.
     if length (ls_ios a) \<noteq> length (ls_levels a) then Inr (1, s)
     else
     bindE (wakeup_pins E (zip (ls_ios a) (ls_levels a)) s) (\<lambda>(valid, s).
     if \<not> valid then Inr (1, s)
     else
     bindE (if ls_ios a \<noteq> [] then check E (Api ''esp_sleep_enable_gpio_wakeup'' []) s else Inr s) (\<lambda>s.
     bindE (if CONFIG_ESP_CONSOLE_UART_NUM \<le> 1 then uart_wakeup E s else Inr s) (\<lambda>s.
     let s = emits [Api ''uart_wait_tx_idle_polling'' [CONFIG_ESP_CONSOLE_UART_NUM], Api ''esp_light_sleep_start'' []] s;
         c = Api ''esp_sleep_get_wakeup_cause'' []; cause = ret E c s; s = emit c s in
     Inr (0, if cause = 7 \<or> cause = 8 \<or> cause = 4 then s else printf (dec cause @ nl) s))))))"

section \<open>Pins\<close>

record gpio_args =
  gp_nerrors :: int
  gp_pin :: "int option"
  gp_level :: "int option"
  gp_mode :: "int option"

definition gpio_cmd :: "gpio_args \<Rightarrow> dev \<Rightarrow> int \<times> dev" where
  "gpio_cmd a s =
    (if gp_nerrors a \<noteq> 0 then (0, s)
     else
     let pin = (case gp_pin a of None \<Rightarrow> 22 | Some p \<Rightarrow> p);
         s = (case gp_mode a of None \<Rightarrow> s | Some m \<Rightarrow> emit (Api ''gpio_set_direction'' [pin, m]) s);
         s = (case gp_level a of None \<Rightarrow> s | Some l \<Rightarrow> emit (GpioLevel pin l) s) in
     (0, s))"

section \<open>Registration\<close>

definition register_dmesh_system :: "env \<Rightarrow> dev \<Rightarrow> fault + dev" where
  "register_dmesh_system E =
    register_cmds E [''free'', ''heap'', ''version'', ''restart'', ''deep_sleep'', ''light_sleep'', ''tasks'']"

definition register_gpio :: "env \<Rightarrow> dev \<Rightarrow> fault + dev" where
  "register_gpio E = register_cmds E [''gpio'']"

end
