(* ===== verification/SleepProps.thy ===== *)
theory SleepProps
  imports System
begin

text \<open>
  What wakes the device: the sources a sleep leaves armed, as what the calls of the history make of
  them, and what the two sleep commands promise of them.
\<close>

section \<open>Wake-up sources\<close>

text \<open>
  A source that is enabled stays so until it is disabled; the calls of the platform change one source
  each, but for the one that disables all.  Which pins wake the device, and at which level, belongs to
  the pins: \<open>gpio_wakeup_enable\<close> sets it (5 is \<open>GPIO_INTR_HIGH_LEVEL\<close>), and disabling all sources leaves
  it.  It matters while the source \<open>gpio\<close> is enabled.
\<close>

record wake =
  w_timer :: "int option"
  w_ext1 :: "(int \<times> int) option"
  w_gpio :: bool
  w_uart :: bool
  w_pins :: "int \<rightharpoonup> int"

definition asleep_forever :: wake where
  "asleep_forever = \<lparr>w_timer = None, w_ext1 = None, w_gpio = False, w_uart = False, w_pins = Map.empty\<rparr>"

fun wake_call :: "call \<Rightarrow> wake \<Rightarrow> wake" where
  "wake_call (Api f as) w =
    (if f = ''esp_sleep_enable_timer_wakeup'' then w\<lparr>w_timer := Some (hd as)\<rparr>
     else if f = ''esp_sleep_enable_ext1_wakeup'' then w\<lparr>w_ext1 := Some (hd as, last as)\<rparr>
     else if f = ''esp_sleep_enable_gpio_wakeup'' then w\<lparr>w_gpio := True\<rparr>
     else if f = ''esp_sleep_enable_uart_wakeup'' then w\<lparr>w_uart := True\<rparr>
     else if f = ''gpio_wakeup_enable'' then w\<lparr>w_pins := (w_pins w)(hd as \<mapsto> if last as = 5 then 1 else 0)\<rparr>
     else w)"
| "wake_call (ApiS f as) w =
    (if f = ''esp_sleep_disable_wakeup_source'' \<and> as = [''ESP_SLEEP_WAKEUP_ALL'']
     then asleep_forever\<lparr>w_pins := w_pins w\<rparr> else w)"
| "wake_call c w = w"

definition wake_of :: "call list \<Rightarrow> wake" where
  "wake_of h = fold wake_call h asleep_forever"

abbreviation wake_at :: "dev \<Rightarrow> wake" where
  "wake_at s \<equiv> wake_of (hist s)"

text \<open>How often the device went to sleep.\<close>

definition sleeps :: "string \<Rightarrow> dev \<Rightarrow> nat" where
  "sleeps f s = length (filter (\<lambda>c. c = Api f []) (hist s))"

lemma wake_append [simp]: "wake_of (h @ cs) = fold wake_call cs (wake_of h)"
  by (simp add: wake_of_def)

lemma wake_printf [simp]: "wake_at (printf t s) = wake_at s" "sleeps f (printf t s) = sleeps f s"
  by (simp_all add: printf_def sleeps_def)

lemma sleeps_emit [simp]: "sleeps f (emit c s) = sleeps f s + (if c = Api f [] then 1 else 0)"
  by (simp add: sleeps_def)

lemma sleeps_emits [simp]: "sleeps f (emits (c # cs) s) = sleeps f (emits cs (emit c s))" "sleeps f (emits [] s) = sleeps f s"
  by (simp_all add: sleeps_def)

section \<open>Light sleep\<close>

definition level_ok :: "int \<Rightarrow> bool" where
  "level_ok l \<longleftrightarrow> l = 0 \<or> l = 1"

text \<open>The pins with their levels, one after the other up to the first wrong level.\<close>

fun armed_pins :: "int list \<Rightarrow> int list \<Rightarrow> (int \<rightharpoonup> int) \<Rightarrow> (int \<rightharpoonup> int)" where
  "armed_pins (io # ios) (l # ls) m = (if level_ok l then armed_pins ios ls (m(io \<mapsto> l)) else m)"
| "armed_pins ios ls m = m"

text \<open>What the functions of a sleep do to the sources and to the number of sleeps.\<close>

lemma wake_check:
  "check E c s = Inr s' \<Longrightarrow> wake_at s' = wake_call c (wake_at s) \<and> sleeps f s' = sleeps f s + (if c = Api f [] then 1 else 0)"
  by (auto simp: check_eq_Inr)

lemma wakeup_pins_wake:
  "wakeup_pins E (zip ios ls) s = Inr (v, s') \<Longrightarrow> length ios = length ls \<Longrightarrow>
   wake_at s' = (wake_at s)\<lparr>w_pins := armed_pins ios ls (w_pins (wake_at s))\<rparr> \<and> sleeps f s' = sleeps f s \<and>
   (v \<longleftrightarrow> list_all level_ok ls)"
proof (induction ios arbitrary: ls s)
  case (Cons io_num ios)
  then obtain level r where ls: "ls = level # r" "length ios = length r" by (cases ls) auto
  show ?case
  proof (cases "level_ok level")
    case True
    then obtain t where t: "check E (Api ''gpio_wakeup_enable'' [io_num, if level \<noteq> 0 then 5 else 4]) s = Inr t"
      "wakeup_pins E (zip ios r) t = Inr (v, s')"
      using Cons.prems(1) ls by (auto simp: level_ok_def bindE_eq_Inr)
    have w: "wake_at t = (wake_at s)\<lparr>w_pins := (w_pins (wake_at s))(io_num \<mapsto> level)\<rparr>" "sleeps f t = sleeps f s"
      using wake_check [OF t(1), of f] True by (auto simp: level_ok_def)
    show ?thesis
      using Cons.IH [OF t(2) ls(2)] True unfolding w ls(1) by (simp add: fun_upd_def)
  next
    case False
    then show ?thesis using Cons.prems ls False by (auto simp: level_ok_def)
  qed
qed simp

lemma uart_wakeup_wake:
  "uart_wakeup E s = Inr s' \<Longrightarrow> wake_at s' = (wake_at s)\<lparr>w_uart := True\<rparr> \<and> sleeps f s' = sleeps f s"
  by (auto simp: uart_wakeup_def bindE_eq_Inr dest!: wake_check [where f = f])

lemma timer_wake:
  assumes "(case t of None \<Rightarrow> Inr s | Some t \<Rightarrow> check E (Api ''esp_sleep_enable_timer_wakeup'' [micros t]) s) = Inr s'"
  shows "wake_at s' = (case t of None \<Rightarrow> wake_at s | Some t \<Rightarrow> (wake_at s)\<lparr>w_timer := Some (micros t)\<rparr>)"
    "sleeps f s' = sleeps f s"
  using assms by (auto dest!: wake_check [where f = f] split: option.splits)

text \<open>
  C38: What a light sleep arms.  Whatever was armed before, the sources are then exactly the serial line,
  the timer if it is given, and pins if any are given; each given pin wakes at the level given with it (a
  later level for the same pin counts), and pins set before keep their level: no pin is ever taken back,
  so they wake the device too.  A wrong level or a different number of pins and levels is an error: the
  command does not sleep and returns 1, the pins before the wrong level are set, and of the sources nothing
  but the timer stays armed, so the wake-ups by pin and serial line that the start of the device arms for
  its automatic sleep are lost.
\<close>

theorem light_sleep_arms_what_is_given:
  assumes "light_sleep E a s = Inr (r, s')" "ls_nerrors a = 0" "\<not> ls_locks a" "\<not> ls_autosleep a"
  defines "ok \<equiv> length (ls_ios a) = length (ls_levels a) \<and> list_all level_ok (ls_levels a)"
  shows "wake_at s' = \<lparr>w_timer = map_option micros (ls_time a), w_ext1 = None,
      w_gpio = (ok \<and> ls_ios a \<noteq> []), w_uart = ok,
      w_pins = (if length (ls_ios a) = length (ls_levels a)
        then armed_pins (ls_ios a) (ls_levels a) (w_pins (wake_at s)) else w_pins (wake_at s))\<rparr> \<and>
    r = (if ok then 0 else 1) \<and>
    sleeps ''esp_light_sleep_start'' s' = sleeps ''esp_light_sleep_start'' s + (if ok then 1 else 0)"
proof -
  define s0 where "s0 = emit (ApiS ''esp_sleep_disable_wakeup_source'' [''ESP_SLEEP_WAKEUP_ALL'']) s"
  have s0: "wake_at s0 = asleep_forever\<lparr>w_pins := w_pins (wake_at s)\<rparr>" "sleeps f s0 = sleeps f s" for f
    by (simp_all add: s0_def)
  define fin where "fin s = (let s = emits [Api ''uart_wait_tx_idle_polling'' [0], Api ''esp_light_sleep_start'' []] s;
      c = Api ''esp_sleep_get_wakeup_cause'' []; cause = ret E c s; s = emit c s
    in if cause = 7 \<or> cause = 8 \<or> cause = 4 then s else printf (dec cause @ nl) s)" for s
  let ?gpio = "\<lambda>s. if ls_ios a \<noteq> [] then check E (Api ''esp_sleep_enable_gpio_wakeup'' []) s else Inr s"
  let ?pins = "\<lambda>s. bindE (wakeup_pins E (zip (ls_ios a) (ls_levels a)) s) (\<lambda>(valid, s). if \<not> valid then Inr (1, s)
      else bindE (?gpio s) (\<lambda>s. bindE (uart_wakeup E s) (\<lambda>s. Inr (0, fin s))))"
  have fin: "wake_at (fin s) = wake_at s" "sleeps ''esp_light_sleep_start'' (fin s) = sleeps ''esp_light_sleep_start'' s + 1" for s
    by (simp_all add: fin_def Let_def)
  have u: "(if CONFIG_ESP_CONSOLE_UART_NUM \<le> 1 then uart_wakeup E s else Inr s) = uart_wakeup E s" for s
    by (simp add: CONFIG_ESP_CONSOLE_UART_NUM_def)
  have l: "bindE (case ls_time a of None \<Rightarrow> Inr s0 | Some t \<Rightarrow> check E (Api ''esp_sleep_enable_timer_wakeup'' [micros t]) s0)
      (\<lambda>s. if length (ls_ios a) \<noteq> length (ls_levels a) then Inr (1, s) else ?pins s) = Inr (r, s')"
    using assms(1-4) unfolding light_sleep_def s0_def fin_def Let_def u unfolding CONFIG_ESP_CONSOLE_UART_NUM_def by simp
  obtain t where t: "(case ls_time a of None \<Rightarrow> Inr s0
      | Some t \<Rightarrow> check E (Api ''esp_sleep_enable_timer_wakeup'' [micros t]) s0) = Inr t"
    and k: "(if length (ls_ios a) \<noteq> length (ls_levels a) then Inr (1, t) else ?pins t) = Inr (r, s')"
    by (rule bindE_InrE [OF l])
  have wt: "wake_at t = asleep_forever\<lparr>w_timer := map_option micros (ls_time a), w_pins := w_pins (wake_at s)\<rparr>"
    "sleeps f t = sleeps f s" for f
    using timer_wake(1) [OF t] timer_wake(2) [OF t, of f] by (auto simp: s0 asleep_forever_def split: option.splits)
  show ?thesis
  proof (cases "length (ls_ios a) = length (ls_levels a)")
    case False
    then show ?thesis using k wt by (auto simp: ok_def asleep_forever_def)
  next
    case True
    obtain v u where u: "wakeup_pins E (zip (ls_ios a) (ls_levels a)) t = Inr (v, u)"
      and k': "(if \<not> v then Inr (1, u) else bindE (?gpio u) (\<lambda>s. bindE (uart_wakeup E s) (\<lambda>s. Inr (0, fin s)))) = Inr (r, s')"
      using k True by (auto elim: bindE_InrE)
    have wu: "wake_at u = (wake_at t)\<lparr>w_pins := armed_pins (ls_ios a) (ls_levels a) (w_pins (wake_at s))\<rparr>"
      "sleeps f u = sleeps f t" "v = ok" for f
      using wakeup_pins_wake [OF u True, of f] True by (auto simp: ok_def wt)
    show ?thesis
    proof (cases ok)
      case False
      then show ?thesis using k' wt wu True by (auto simp: asleep_forever_def)
    next
      case ok: True
      obtain x y where x: "?gpio u = Inr x" and y: "uart_wakeup E x = Inr y" and e: "r = 0" "s' = fin y"
        using k' ok wu(3) by (auto elim!: bindE_InrE)
      have "wake_at x = (wake_at u)\<lparr>w_gpio := (ls_ios a \<noteq> [])\<rparr>"
        "sleeps ''esp_light_sleep_start'' x = sleeps ''esp_light_sleep_start'' u"
        using x wake_check [of E "Api ''esp_sleep_enable_gpio_wakeup'' []" u x "''esp_light_sleep_start''"] wu(1) wt(1)
        by (auto simp: asleep_forever_def split: if_splits)
      then show ?thesis
        using ok e fin uart_wakeup_wake [OF y] wt wu True by (simp add: asleep_forever_def)
    qed
  qed
qed

text \<open>Pin 26 is set before; pin 4 is to wake at high level, pin 5 at low level; and with a wrong level.\<close>

theorem light_sleep_arms_what_is_given_witness:
  "\<exists>s' t'. light_sleep quiet \<lparr>ls_nerrors = 0, ls_locks = False, ls_autosleep = False, ls_time = Some 5,
      ls_ios = [4, 5], ls_levels = [1, 0]\<rparr> (emit (Api ''gpio_wakeup_enable'' [26, 5]) boot) = Inr (0, s') \<and>
    wake_at s' = \<lparr>w_timer = Some 5000, w_ext1 = None, w_gpio = True, w_uart = True,
      w_pins = [26 \<mapsto> 1, 4 \<mapsto> 1, 5 \<mapsto> 0]\<rparr> \<and>
    light_sleep quiet \<lparr>ls_nerrors = 0, ls_locks = False, ls_autosleep = False, ls_time = Some 5,
      ls_ios = [4, 5], ls_levels = [1, 2]\<rparr> boot = Inr (1, t') \<and>
    wake_at t' = \<lparr>w_timer = Some 5000, w_ext1 = None, w_gpio = False, w_uart = False, w_pins = [4 \<mapsto> 1]\<rparr>"
proof -
  let ?a = "\<lambda>l. \<lparr>ls_nerrors = 0, ls_locks = False, ls_autosleep = False, ls_time = Some 5, ls_ios = [4, 5],
    ls_levels = [1, l]\<rparr>" and ?s = "emit (Api ''gpio_wakeup_enable'' [26, 5]) boot"
  have c: "check quiet c s = Inr (emit c s)" for c s by (simp add: check_def ret_def quiet_def ESP_OK_def)
  obtain s' where s': "light_sleep quiet (?a 0) ?s = Inr (0, s')"
    by (simp add: light_sleep_def uart_wakeup_def Let_def c CONFIG_ESP_CONSOLE_UART_NUM_def)
  obtain t' where t': "light_sleep quiet (?a 2) boot = Inr (1, t')"
    by (simp add: light_sleep_def Let_def c)
  have b: "wake_at boot = asleep_forever" by (simp add: wake_of_def boot_def)
  show ?thesis
    using light_sleep_arms_what_is_given [OF s'] light_sleep_arms_what_is_given [OF t'] s' t'
    by (simp add: level_ok_def micros_def b asleep_forever_def)
qed

section \<open>Deep sleep\<close>

text \<open>The pins of a deep sleep: none, or one that can wake the chip, with a level.\<close>

definition pin_ok :: "env \<Rightarrow> deep_sleep_args \<Rightarrow> dev \<Rightarrow> bool" where
  "pin_ok E a s \<longleftrightarrow> (case ds_io a of None \<Rightarrow> True
     | Some io \<Rightarrow> ret E (Api ''rtc_gpio_is_valid_gpio'' [io]) s \<noteq> 0 \<and>
         (case ds_io_level a of None \<Rightarrow> True | Some l \<Rightarrow> level_ok l))"

lemma deep_sleep_io_wake:
  assumes "deep_sleep_io E a s = Inr (v, s')"
  shows "v = pin_ok E a s" "sleeps f s' = sleeps f s"
    "wake_at s' = (case ds_io a of Some io \<Rightarrow> if v
       then (wake_at s)\<lparr>w_ext1 := Some (2 ^ nat io, case ds_io_level a of None \<Rightarrow> 0 | Some l \<Rightarrow> l)\<rparr> else wake_at s
     | None \<Rightarrow> wake_at s)"
  using assms
  by (auto simp: deep_sleep_io_def pin_ok_def level_ok_def Let_def bindE_eq_Inr
      dest!: wake_check [where f = f] split: option.splits if_splits)

text \<open>
  C39: A deep sleep with a pin that cannot wake the chip, or a wrong level, returns an error, does not
  sleep, and leaves the timer it was given armed: a later deep sleep without options, which the help
  promises to last for ever, is ended by it.
\<close>

theorem failed_deep_sleep_keeps_timer:
  assumes "deep_sleep E a s = Inr (Some e, t)" "ds_nerrors a = 0" "ds_start a = None" "ds_time a = Some ms"
    and "deep_sleep E b t = Inr (r, u)" "ds_nerrors b = 0" "ds_start b = None" "ds_time b = None" "ds_io b = None"
  shows "e = 1 \<and> ds_io a \<noteq> None \<and> sleeps ''esp_deep_sleep_start'' t = sleeps ''esp_deep_sleep_start'' s \<and>
    w_timer (wake_at t) = Some (micros ms) \<and>
    r = None \<and> sleeps ''esp_deep_sleep_start'' u = sleeps ''esp_deep_sleep_start'' t + 1 \<and>
    w_timer (wake_at u) = Some (micros ms)"
proof -
  let ?f = "''esp_deep_sleep_start''"
  obtain v where v: "check E (Api ''esp_sleep_enable_timer_wakeup'' [micros ms]) s = Inr v"
    and w: "deep_sleep_io E a v = Inr (False, t)" and e: "e = 1"
    using assms(1-4) by (auto simp: deep_sleep_def bindE_eq_Inr split: if_splits)
  have "u = emits [Api ''rtc_gpio_isolate'' [12], Api ?f []] t" "r = None"
    using assms(5-9) by (auto simp: deep_sleep_def deep_sleep_io_def bindE_eq_Inr)
  moreover have "w_timer (wake_at t) = Some (micros ms)" "sleeps ?f t = sleeps ?f s"
    using wake_check [OF v, of ?f] deep_sleep_io_wake(2) [OF w, of ?f] deep_sleep_io_wake(3) [OF w] by (auto split: option.splits)
  moreover have "ds_io a \<noteq> None" using deep_sleep_io_wake(1) [OF w] by (auto simp: pin_ok_def split: option.splits)
  ultimately show ?thesis using e by simp
qed

theorem failed_deep_sleep_keeps_timer_witness:
  "\<exists>t u. deep_sleep quiet \<lparr>ds_nerrors = 0, ds_start = None, ds_time = Some 100, ds_io = Some 99, ds_io_level = None\<rparr> boot
      = Inr (Some 1, t) \<and>
    deep_sleep quiet \<lparr>ds_nerrors = 0, ds_start = None, ds_time = None, ds_io = None, ds_io_level = None\<rparr> t = Inr (None, u) \<and>
    w_timer (wake_at u) = Some 100000"
proof -
  let ?a = "\<lparr>ds_nerrors = 0, ds_start = None, ds_time = Some 100, ds_io = Some 99, ds_io_level = None\<rparr>"
    and ?b = "\<lparr>ds_nerrors = 0, ds_start = None, ds_time = None, ds_io = None, ds_io_level = None\<rparr>"
  obtain t where t: "deep_sleep quiet ?a boot = Inr (Some 1, t)"
    by (simp add: deep_sleep_def deep_sleep_io_def Let_def check_def ret_def quiet_def ESP_OK_def)
  obtain u where u: "deep_sleep quiet ?b t = Inr (None, u)"
    by (simp add: deep_sleep_def deep_sleep_io_def)
  show ?thesis using failed_deep_sleep_keeps_timer [OF t _ _ _ u, of 100] t u by (auto simp: micros_def)
qed

end
