(* ===== verification/NanSend.thy ===== *)
theory NanSend
  imports Globals
begin

text \<open>
  Sending in \<open>esp-nan-aware\<close>: the frames of \<open>nan.c\<close> (\<open>nanSendPublish\<close>,
  \<open>nanSendNow\<close>) and of \<open>beacons.c\<close> (\<open>nanSendSync\<close>), each built in a fixed buffer
  with every copy checked against it, the clock, and the queue of a peer (\<open>nanQueue\<close>).
  The lemmas give each frame in closed form.
\<close>

section \<open>Constants of nan.h and nan.c\<close>

definition FRAME_DST :: int where "FRAME_DST = 4"
definition FRAME_SRC :: int where "FRAME_SRC = 10"
definition FRAME_SSID :: int where "FRAME_SSID = 16"
definition FRAME_DATA :: int where "FRAME_DATA = 24"
definition NAN_ACTION_START :: int where "NAN_ACTION_START = 30"
definition NAN_ID :: u8 where "NAN_ID = 1"

lemmas frame_offsets [simp] =
  FRAME_DST_def FRAME_SRC_def FRAME_SSID_def FRAME_DATA_def NAN_ACTION_START_def

definition nanHeader :: "u8 list" where
  "nanHeader =
    [0xD0, 0x00, 0x00, 0x00,
     0xFF, 0xFF, 0xFF, 0xFF, 0xFF, 0xFF,
     0x00, 0x00, 0x00, 0x00, 0x00, 0x00,
     0x50, 0x6F, 0x9A, 0x01, 0x05, 0x01,
     0, 0,
     0x04, 0x09,
     0x50, 0x6F, 0x9A,
     0x13]"

definition nanDeviceCapabilities :: "u8 list" where
  "nanDeviceCapabilities = [0x0F, 0x09, 0x00, 0, 1, 0, 0x04, 1, 0, 0, 0x14, 0]"

definition nanAvailability :: "u8 list" where
  "nanAvailability =
    [0x12, 0x1b, 0x00,
     0x0b, 0x01, 0x00, 0x16, 0x00, 0x1a, 0x10, 0x18, 0x00, 0x04, 0xfe,
     0xff, 0xff, 0x3f, 0x31, 0x51, 0xff, 0x07, 0x00, 0x80, 0x20, 0x00, 0x0f, 0x80, 0x01, 0x00, 0x0f]"

definition nanServiceExtension :: "u8 list" where
  "nanServiceExtension = [0x0e, 0x04, 0x00, NAN_ID, 0x00, 0x02, 0x02]"

definition SVC_ID :: "u8 list" where
  "SVC_ID = [0x75, 0x94, 0x31, 0x93, 0xea, 0xc9]"

definition nanServiceDescriptor :: "u8 list" where
  "nanServiceDescriptor =
    [0x03, 0x1A, 0x00,
     0x75, 0x94, 0x31, 0x93, 0xea, 0xc9,
     NAN_ID, 0, 0x10, 0x10,
     0x31, 0x32, 0x33, 0x34, 0x35, 0x36, 0x37, 0x38,
     0x30, 0x30, 0x30, 0x30,
     0x57, 0x78, 0x68, 0x37]"

lemma nan_const_lengths [simp]:
  "length nanHeader = 30"
  "length nanDeviceCapabilities = 12"
  "length nanAvailability = 30"
  "length nanServiceExtension = 7"
  "length SVC_ID = 6"
  "length nanServiceDescriptor = 29"
  by (simp_all add: nanHeader_def nanDeviceCapabilities_def nanAvailability_def
      nanServiceExtension_def SVC_ID_def nanServiceDescriptor_def)

section \<open>State access and the clock\<close>

definition upd_nan :: "(nan_vars \<Rightarrow> nan_vars) \<Rightarrow> dev \<Rightarrow> dev" where
  "upd_nan f s = s\<lparr>nan := f (nan s)\<rparr>"

definition upd_aware :: "(nan_driver \<Rightarrow> nan_driver) \<Rightarrow> dev \<Rightarrow> dev" where
  "upd_aware f s = upd_nan (\<lambda>v. v\<lparr>aware := f (aware v)\<rparr>) s"

text \<open>A \<open>NanPeer *\<close> is the index of the peer in \<open>aware.peers\<close>.\<close>

definition peer_of :: "dev \<Rightarrow> nat \<Rightarrow> NanPeer" where
  "peer_of s p = peers (aware (nan s)) ! p"

definition upd_peer :: "nat \<Rightarrow> (NanPeer \<Rightarrow> NanPeer) \<Rightarrow> dev \<Rightarrow> dev" where
  "upd_peer p f s = upd_aware (\<lambda>a. a\<lparr>peers := (peers a)[p := f (peers a ! p)]\<rparr>) s"

lemma upd_nan_simps [simp]:
  "hist (upd_nan f s) = hist s" "nan (upd_nan f s) = f (nan s)"
  "lo (upd_nan f s) = lo s" "ble (upd_nan f s) = ble s" "bt (upd_nan f s) = bt s"
  "hci (upd_nan f s) = hci s" "wifi (upd_nan f s) = wifi s"
  by (simp_all add: upd_nan_def)

lemma upd_aware_simps [simp]:
  "hist (upd_aware g s) = hist s" "aware (nan (upd_aware g s)) = g (aware (nan s))"
  "sendBuffer (nan (upd_aware g s)) = sendBuffer (nan s)"
  "sendBufferOff (nan (upd_aware g s)) = sendBufferOff (nan s)"
  "resBuf (nan (upd_aware g s)) = resBuf (nan s)"
  "nan_init (nan (upd_aware g s)) = nan_init (nan s)"
  "nan_netif (nan (upd_aware g s)) = nan_netif (nan s)"
  "startupTime (nan (upd_aware g s)) = startupTime (nan s)"
  "lastStats (nan (upd_aware g s)) = lastStats (nan s)"
  "maxPostSync (nan (upd_aware g s)) = maxPostSync (nan s)"
  "lo (upd_aware g s) = lo s" "ble (upd_aware g s) = ble s" "bt (upd_aware g s) = bt s"
  "hci (upd_aware g s) = hci s" "wifi (upd_aware g s) = wifi s"
  by (simp_all add: upd_aware_def)

text \<open>\<open>esp_timer_get_time\<close> counts microseconds in 64 bits; the cast keeps the low 32.\<close>

definition currentTimeMicro :: "env \<Rightarrow> dev \<Rightarrow> u32 \<times> dev" where
  "currentTimeMicro E s = (ucast (word_of_int (ret E GetTime s) :: u64), emit GetTime s)"

section \<open>nanSendPublish\<close>

text \<open>
  The C function has the parameters \<open>type\<close>, \<open>requestorEndpoint\<close>, \<open>data\<close> and \<open>len\<close>;
  its body reads none of them.  The log line is left out, the statistics it guards are kept.
\<close>

definition nanSendPublish :: "env \<Rightarrow> dev \<Rightarrow> fault + dev" where
  "nanSendPublish E s =
    (let a = aware (nan s) in
     bindE (wrn (sendBuffer (nan s)) 0 nanHeader) (\<lambda>b.
     bindE (memcpy b 10 (mymac a) 0 6) (\<lambda>b.
     bindE (memcpy b (FRAME_SSID + 4) (nanNet a) 0 2) (\<lambda>b.
     let off = int (length nanHeader) in
     bindE (wrn b off nanDeviceCapabilities) (\<lambda>b.
     let off = off + int (length nanDeviceCapabilities) in
     bindE (wrn b off nanAvailability) (\<lambda>b.
     let off = off + int (length nanAvailability) in
     bindE (wrn b off nanServiceExtension) (\<lambda>b.
     let off = off + int (length nanServiceExtension) in
     bindE (wrn b off nanServiceDescriptor) (\<lambda>b.
     let off = off + int (length nanServiceDescriptor);
         s = upd_nan (\<lambda>v. v\<lparr>sendBuffer := b, sendBufferOff := off\<rparr>) s;
         (now, s) = currentTimeMicro E s in
     bindE (rdn b 0 off) (\<lambda>frame.
     let s = emit (WifiTx frame) s;
         (now2, s) = currentTimeMicro E s;
         stime = now - lastSBeacon (aware (nan s)) in
     Inr (if maxPostSync (nan s) < stime
          then upd_nan (\<lambda>v. v\<lparr>maxPostSync := stime\<rparr>) s else s)))))))))) "

section \<open>nanQueue and nanSendNow\<close>

definition nanQueue :: "nat \<Rightarrow> nat \<Rightarrow> int \<Rightarrow> dev \<Rightarrow> dev" where
  "nanQueue peer data len s =
    (let l = outQueueLen (peer_of s peer) in
     if l \<ge> int OUT_QUEUE_SIZE then s
     else upd_peer peer (\<lambda>p. p\<lparr>outQueue := (outQueue p)[nat l := \<lparr>msg_data = data, msg_len = len\<rparr>],
                                outQueueLen := l + 1\<rparr>) s)"

definition nanSendNow :: "env \<Rightarrow> u8 list \<Rightarrow> u8 \<Rightarrow> u8 list \<Rightarrow> int \<Rightarrow> dev \<Rightarrow> fault + dev" where
  "nanSendNow E dstMac instanceId data len s =
    (let len = (if len > 255 then 255 else len);
         a = aware (nan s) in
     bindE (wrn (sendBuffer (nan s)) 0 nanHeader) (\<lambda>head.
     bindE (memcpy head FRAME_DST dstMac 0 6) (\<lambda>head.
     bindE (memcpy head FRAME_SRC (mymac a) 0 6) (\<lambda>head.
     bindE (memcpy head (FRAME_SSID + 4) (nanNet a) 0 2) (\<lambda>head.
     let i = int (length nanHeader) in
     bindE (wr head i 0x03) (\<lambda>head.
     let sz = len + 6 + 4 in
     bindE (wr head (i + 1) (b_of (cmod sz 256))) (\<lambda>head.
     bindE (wr head (i + 2) (b_of (cdiv sz 256))) (\<lambda>head.
     bindE (wrn head (i + 3) SVC_ID) (\<lambda>head.
     let i = i + 9 in
     bindE (wr head i NAN_ID) (\<lambda>head.
     bindE (wr head (i + 1) instanceId) (\<lambda>head.
     bindE (wr head (i + 2) 0x12) (\<lambda>head.
     bindE (wr head (i + 3) (b_of len)) (\<lambda>head.
     let i = i + 4 in
     bindE (memcpy head i data 0 len) (\<lambda>head.
     let i = i + len;
         s = upd_nan (\<lambda>v. v\<lparr>sendBuffer := head\<rparr>) s;
         (now, s) = currentTimeMicro E s in
     bindE (rdn head 0 i) (\<lambda>frame.
     let s = emit (WifiTx frame) s;
         (now2, s) = currentTimeMicro E s in
     Inr s)))))))))))))))"

section \<open>nanSendSync (beacons.c)\<close>

definition beaconHead :: "u8 list" where
  "beaconHead =
    [0x80, 0x00, 0x00, 0x00,
     0xFF, 0xFF, 0xFF, 0xFF, 0xFF, 0xFF,
     0x00, 0x00, 0x00, 0x00, 0x00, 0x00,
     0x50, 0x6F, 0x9A, 0x01, 0xd9, 0x49,
     0, 0,
     0xcc, 0, 0xc0, 0xb3, 1, 2, 3, 4,
     0, 2, 0x20, 0x04,
     0xdd, 34, 0x50, 0x6F, 0x9A, 0x13,
     0, 2, 0, 129, 0,
     1, 0x0d, 0,
     2, 0xeb, 0x23, 0x0a, 0xc9, 0x31,
     0x74, 129,
     0,
     0, 0, 0, 0,
     2, 6, 0,
     0x75, 0x94, 0x31, 0x93, 0xea, 0xc9]"

definition nanSendSync :: "env \<Rightarrow> int \<Rightarrow> dev \<Rightarrow> fault + dev" where
  "nanSendSync E interval s =
    (let a = aware (nan s); head = beaconHead in
     bindE (memcpy head FRAME_SRC (mymac a) 0 6) (\<lambda>head.
     bindE (memcpy head 50 (mymac a) 0 6) (\<lambda>head.
     bindE (memcpy head (FRAME_SSID + 4) (nanNet a) 0 2) (\<lambda>head.
     bindE (wr head 32 (b_of (interval AND 0xFF))) (\<lambda>head.
     bindE (wr head 33 (b_of (drop_bit 8 interval AND 0xFF))) (\<lambda>head.
     bindE (wr head 45 (masterPref a)) (\<lambda>head.
     bindE (wr head 46 (masterRandom a)) (\<lambda>head.
     bindE (wr head 57 (masterPref a)) (\<lambda>head.
     bindE (wr head 56 (masterRandom a)) (\<lambda>head.
     Inr (emit (WifiTx head) s)))))))))))"

section \<open>The frames in closed form\<close>

text \<open>The first 30 bytes of every action frame.\<close>

definition nan_head :: "u8 list \<Rightarrow> u8 list \<Rightarrow> u8 list \<Rightarrow> u8 list" where
  "nan_head dst src net =
     [0xD0, 0, 0, 0] @ dst @ src @ [0x50, 0x6F, 0x9A, 0x01] @ net @
     [0, 0, 0x04, 0x09, 0x50, 0x6F, 0x9A, 0x13]"

definition broadcast :: "u8 list" where
  "broadcast = replicate 6 0xFF"

definition publish_attrs :: "u8 list" where
  "publish_attrs =
     nanDeviceCapabilities @ nanAvailability @ nanServiceExtension @ nanServiceDescriptor"

definition publish_frame :: "u8 list \<Rightarrow> u8 list \<Rightarrow> u8 list" where
  "publish_frame src net = nan_head broadcast src net @ publish_attrs"

text \<open>A service descriptor attribute that carries a follow-up message.\<close>

definition followup_attr :: "u8 \<Rightarrow> u8 list \<Rightarrow> u8 list" where
  "followup_attr inst d =
     [0x03, b_of ((int (length d) + 10) mod 256), b_of ((int (length d) + 10) div 256)] @
     SVC_ID @ [NAN_ID, inst, 0x12, b_of (int (length d))] @ d"

definition followup_frame ::
    "u8 list \<Rightarrow> u8 list \<Rightarrow> u8 list \<Rightarrow> u8 \<Rightarrow> u8 list \<Rightarrow> u8 list" where
  "followup_frame dst src net inst d = nan_head dst src net @ followup_attr inst d"

text \<open>The well-formedness of the driver's buffers: what the C types fix.\<close>

definition nan_wf :: "dev \<Rightarrow> bool" where
  "nan_wf s \<longleftrightarrow>
     length (sendBuffer (nan s)) = 512 \<and> length (resBuf (nan s)) = 64 \<and>
     length (mymac (aware (nan s))) = 6 \<and> length (nanNet (aware (nan s))) = 2 \<and>
     length (peers (aware (nan s))) = NAN_MAX_PEERS \<and>
     (\<forall>p \<in> set (peers (aware (nan s))).
        length (peer_mac p) = 6 \<and> length (peer_nanNet p) = 2 \<and>
        length (outQueue p) = OUT_QUEUE_SIZE \<and>
        0 \<le> outQueueLen p \<and> outQueueLen p \<le> int OUT_QUEUE_SIZE)"

lemma list_split6:
  assumes "length xs = 6"
  obtains a b c d e f where "xs = [a, b, c, d, e, f]"
  using assms by (auto simp: numeral_eq_Suc length_Suc_conv)

lemma fill_head:
  assumes "length b = 512" "length src = 6" "length net = 2" "length dst = 6"
  shows "bindE (wrn b 0 nanHeader) (\<lambda>b. bindE (memcpy b 4 dst 0 6) (\<lambda>b.
           bindE (memcpy b 10 src 0 6) (\<lambda>b. bindE (memcpy b 20 net 0 2) k))) =
         k (nan_head dst src net @ drop 30 b)"
proof -
  have h: "nanHeader = [0xD0, 0, 0, 0] @ replicate 6 0xFF @ replicate 6 0 @
      [0x50, 0x6F, 0x9A, 0x01] @ [0x05, 0x01] @ [0, 0, 0x04, 0x09, 0x50, 0x6F, 0x9A, 0x13]"
    by (simp add: nanHeader_def numeral_eq_Suc)
  have m6: "memcpy x i xs 0 6 = wrn x i xs" if "length xs = 6" for x i xs
    using memcpy_all [of xs 6 x i] that by simp
  have m2: "memcpy x i xs 0 2 = wrn x i xs" if "length xs = 2" for x i xs
    using memcpy_all [of xs 2 x i] that by simp
  show ?thesis
    using assms by (simp add: m6 m2 h wrn_def nan_head_def)
qed

lemma fill_head_broadcast:
  assumes "length b = 512" "length src = 6" "length net = 2"
  shows "bindE (wrn b 0 nanHeader) (\<lambda>b. bindE (memcpy b 10 src 0 6) (\<lambda>b.
           bindE (memcpy b 20 net 0 2) k)) =
         k (nan_head broadcast src net @ drop 30 b)"
proof -
  have h: "nanHeader = [0xD0, 0, 0, 0] @ broadcast @ replicate 6 0 @
      [0x50, 0x6F, 0x9A, 0x01] @ [0x05, 0x01] @ [0, 0, 0x04, 0x09, 0x50, 0x6F, 0x9A, 0x13]"
    by (simp add: nanHeader_def broadcast_def numeral_eq_Suc)
  have m6: "memcpy x i xs 0 6 = wrn x i xs" if "length xs = 6" for x i xs
    using memcpy_all [of xs 6 x i] that by simp
  have m2: "memcpy x i xs 0 2 = wrn x i xs" if "length xs = 2" for x i xs
    using memcpy_all [of xs 2 x i] that by simp
  have l: "length broadcast = 6" by (simp add: broadcast_def)
  show ?thesis
    using assms by (simp add: m6 m2 h wrn_def nan_head_def l)
qed

lemma length_nan_head [simp]:
  "length dst = 6 \<Longrightarrow> length src = 6 \<Longrightarrow> length net = 2 \<Longrightarrow> length (nan_head dst src net) = 30"
  by (simp add: nan_head_def)

lemma length_broadcast [simp]: "length broadcast = 6"
  by (simp add: broadcast_def)

lemma length_publish_attrs [simp]: "length publish_attrs = 78"
  by (simp add: publish_attrs_def)

lemma nanSendPublish_eq:
  assumes "nan_wf s"
  defines "a \<equiv> aware (nan s)"
  defines "f \<equiv> publish_frame (mymac a) (nanNet a)"
  defines "t \<equiv> emit GetTime (emit (WifiTx f) (emit GetTime
      (upd_nan (\<lambda>v. v\<lparr>sendBuffer := f @ drop 108 (sendBuffer (nan s)), sendBufferOff := 108\<rparr>) s)))"
  shows "\<exists>m. nanSendPublish E s = Inr (upd_nan (\<lambda>v. v\<lparr>maxPostSync := m\<rparr>) t)"
proof -
  let ?b = "sendBuffer (nan s)"
  let ?h = "nan_head broadcast (mymac a) (nanNet a)"
  from assms(1) have l: "length ?b = 512" "length (mymac a) = 6" "length (nanNet a) = 2"
    by (simp_all add: nan_wf_def a_def)
  then have h: "length ?h = 30" by simp
  have a1: "wrn (?h @ drop 30 ?b) 30 nanDeviceCapabilities =
      Inr ((?h @ nanDeviceCapabilities) @ drop 42 ?b)"
    using wrn_append [OF h, of nanDeviceCapabilities "drop 30 ?b"] l by simp
  have a2: "wrn ((?h @ nanDeviceCapabilities) @ drop 42 ?b) 42 nanAvailability =
      Inr ((?h @ nanDeviceCapabilities @ nanAvailability) @ drop 72 ?b)"
    using wrn_append [of "?h @ nanDeviceCapabilities" 42 nanAvailability "drop 42 ?b"] l h by simp
  have a3: "wrn ((?h @ nanDeviceCapabilities @ nanAvailability) @ drop 72 ?b) 72 nanServiceExtension =
      Inr ((?h @ nanDeviceCapabilities @ nanAvailability @ nanServiceExtension) @ drop 79 ?b)"
    using wrn_append [of "?h @ nanDeviceCapabilities @ nanAvailability" 72 nanServiceExtension
        "drop 72 ?b"] l h by simp
  have a4: "wrn ((?h @ nanDeviceCapabilities @ nanAvailability @ nanServiceExtension) @ drop 79 ?b)
      79 nanServiceDescriptor = Inr (f @ drop 108 ?b)"
    using wrn_append [of "?h @ nanDeviceCapabilities @ nanAvailability @ nanServiceExtension" 79
        nanServiceDescriptor "drop 79 ?b"] l h
    by (simp add: f_def publish_frame_def publish_attrs_def)
  have a5: "rdn (f @ drop 108 ?b) 0 108 = Inr f"
    using rdn_prefix [of f 108] h by (simp add: f_def publish_frame_def)
  let ?v = "(nan s)\<lparr>sendBuffer := f @ drop 108 ?b, sendBufferOff := 108\<rparr>"
  let ?stime = "ucast (word_of_int (rc E (hist s) GetTime) :: u64) - lastSBeacon a"
  show ?thesis
    by (rule exI [of _ "if maxPostSync (nan s) < ?stime then ?stime else maxPostSync (nan s)"])
      (use l in \<open>simp add: nanSendPublish_def fill_head_broadcast a1 a2 a3 a4 a5 Let_def
        currentTimeMicro_def ret_def t_def upd_nan_def emit_def flip: a_def del: append_assoc\<close>)
qed

lemma nanSendNow_eq:
  fixes inst :: u8
  assumes "nan_wf s" "length dst = 6" "0 \<le> len" "min len 255 \<le> int (length data)"
  defines "a \<equiv> aware (nan s)"
  defines "d \<equiv> take (nat (min len 255)) data"
  defines "f \<equiv> followup_frame dst (mymac a) (nanNet a) inst d"
  shows "nanSendNow E dst inst data len s =
    Inr (emit GetTime (emit (WifiTx f) (emit GetTime
      (upd_nan (\<lambda>v. v\<lparr>sendBuffer := f @ drop (length f) (sendBuffer (nan s))\<rparr>) s))))"
proof -
  let ?b = "sendBuffer (nan s)"
  let ?h = "nan_head dst (mymac a) (nanNet a)"
  let ?n = "min len 255"
  from assms(1) have l: "length ?b = 512" "length (mymac a) = 6" "length (nanNet a) = 2"
    by (simp_all add: nan_wf_def a_def)
  then have h: "length ?h = 30" using assms(2) by simp
  have n: "(if 255 < len then 255 else len) = ?n" "0 \<le> ?n" "?n \<le> 255" "int (length d) = ?n"
    using assms(3,4) by (auto simp: d_def)
  let ?x = "[3, b_of ((10 + ?n) mod 256), b_of ((10 + ?n) div 256)]"
  let ?y = "[NAN_ID, inst, 0x12, b_of ?n]"
  define P where "P = ?h @ ?x @ SVC_ID"
  have a1: "wr (?h @ drop 30 ?b) 30 3 = Inr ((?h @ [3]) @ drop 31 ?b)"
    using wr_append [OF h, of "drop 30 ?b" 3] l by simp
  have a2: "wr ((?h @ [3]) @ drop 31 ?b) 31 v = Inr ((?h @ [3, v]) @ drop 32 ?b)" for v
    using wr_append [of "?h @ [3]" 31 "drop 31 ?b" v] l h by simp
  have a3: "wr ((?h @ [3, v]) @ drop 32 ?b) 32 w = Inr ((?h @ [3, v, w]) @ drop 33 ?b)" for v w
    using wr_append [of "?h @ [3, v]" 32 "drop 32 ?b" w] l h by simp
  have a4: "wrn ((?h @ ?x) @ drop 33 ?b) 33 SVC_ID = Inr (P @ drop 39 ?b)"
    using wrn_append [of "?h @ ?x" 33 SVC_ID "drop 33 ?b"] l h by (simp add: P_def)
  have p: "length P = 39" using h by (simp add: P_def)
  have a5: "wr (P @ drop 39 ?b) 39 NAN_ID = Inr ((P @ [NAN_ID]) @ drop 40 ?b)"
    using wr_append [OF p, of "drop 39 ?b" NAN_ID] l by simp
  have a6: "wr ((P @ [NAN_ID]) @ drop 40 ?b) 40 inst = Inr ((P @ [NAN_ID, inst]) @ drop 41 ?b)"
    using wr_append [of "P @ [NAN_ID]" 40 "drop 40 ?b" inst] l p by simp
  have a7: "wr ((P @ [NAN_ID, inst]) @ drop 41 ?b) 41 0x12 =
      Inr ((P @ [NAN_ID, inst, 0x12]) @ drop 42 ?b)"
    using wr_append [of "P @ [NAN_ID, inst]" 41 "drop 41 ?b" "0x12"] l p by simp
  have a8: "wr ((P @ [NAN_ID, inst, 0x12]) @ drop 42 ?b) 42 v =
      Inr ((P @ [NAN_ID, inst, 0x12, v]) @ drop 43 ?b)" for v
    using wr_append [of "P @ [NAN_ID, inst, 0x12]" 42 "drop 42 ?b" v] l p by simp
  have f: "f = (P @ ?y) @ d"
    using n by (simp add: f_def followup_frame_def followup_attr_def P_def add.commute)
  have a9: "memcpy ((P @ ?y) @ drop 43 ?b) 43 data 0 ?n = Inr (f @ drop (length f) ?b)"
  proof -
    have r: "rdn data 0 ?n = Inr d"
      using n assms(4) by (simp add: rdn_def d_def)
    have "length (P @ ?y) = 43" "length d \<le> length (drop 43 ?b)"
      using l p n by simp_all
    from wrn_append [OF this] have "wrn ((P @ ?y) @ drop 43 ?b) 43 d =
        Inr (((P @ ?y) @ d) @ drop (length d) (drop 43 ?b))"
      by simp
    then show ?thesis
      unfolding memcpy_def r f using p by (simp add: add.commute)
  qed
  have a10: "rdn (f @ R) 0 (43 + ?n) = Inr f" for R
    using rdn_prefix [of f "43 + length d" R] n p f by simp
  show ?thesis
    using l assms(2) n
    by (simp add: nanSendNow_def fill_head a1 a2 a3 a4 a5 a6 a7 a8 a9 a10
        currentTimeMicro_def Let_def flip: a_def del: append_assoc)
qed

end
