(* ===== verification/NanRecv.thy ===== *)
theory NanRecv
  imports NanSend
begin

text \<open>
  Receiving in \<open>nan.c\<close>: beacons (\<open>handleBeacon\<close>), the attribute parser of service
  discovery frames (\<open>handleDAF\<close>) and the promiscuous callback that dispatches to them
  (\<open>sniffer_cb1\<close>).  The frame is a buffer of the length the radio reports; every access
  of the parser is checked against it, so a handler that leaves the frame is a fault.
  Log output is left out: it has no effect on the state.
\<close>

section \<open>handleBeacon\<close>

text \<open>The branch for a sync beacon: count it, publish, and send the head of the queue.\<close>

definition beacon_sync :: "env \<Rightarrow> nat \<Rightarrow> u32 \<Rightarrow> dev \<Rightarrow> fault + dev" where
  "beacon_sync E peer now s =
    (let s = upd_aware (\<lambda>a. a\<lparr>nanSBeacon := nanSBeacon a + 1\<rparr>) s;
         s = upd_peer peer (\<lambda>p. p\<lparr>syncBeacons := syncBeacons p + 1\<rparr>) s;
         s = upd_aware (\<lambda>a. a\<lparr>lastSBeacon := now\<rparr>) s in
     bindE (nanSendPublish E s) (\<lambda>s.
     let p = peer_of s peer in
     if outQueueLen p > 0 then
       let m = outQueue p ! 0 in
       bindE (nanSendNow E (peer_mac p) (peer_instanceId (peer_of s 0))
                (mem E (hist s) (msg_data m)) (msg_len m) s) (\<lambda>s.
       Inr (upd_peer peer (\<lambda>p. p\<lparr>outQueueLen := outQueueLen p - 1\<rparr>) s))
     else Inr s))"

definition handleBeacon :: "env \<Rightarrow> nat \<Rightarrow> u8 list \<Rightarrow> dev \<Rightarrow> fault + dev" where
  "handleBeacon E peer frame s =
    (let (now, s) = currentTimeMicro E s;
         s = upd_peer peer (\<lambda>p. p\<lparr>lastSeen := now\<rparr>) s in
     bindE (rdn frame (FRAME_SSID + 4) 2) (\<lambda>net.
     let s = upd_aware (\<lambda>a. a\<lparr>nanNet := net\<rparr>) s;
         s = upd_peer peer (\<lambda>p. p\<lparr>peer_nanNet := net\<rparr>) s in
     bindE (rd frame (FRAME_DATA + 8)) (\<lambda>lo.
     bindE (if lo = 0 then bindE (rd frame (FRAME_DATA + 9)) (\<lambda>hi. Inr (hi = 2)) else Inr False) (\<lambda>sync.
     if sync then beacon_sync E peer now s
     else
       let s = upd_aware (\<lambda>a. a\<lparr>nanDBeacon := nanDBeacon a + 1\<rparr>) s;
           s = upd_aware (\<lambda>a. a\<lparr>lastDBeacon := now\<rparr>) s in
       Inr (upd_peer peer (\<lambda>p. p\<lparr>discoveryBeacons := discoveryBeacons p + 1\<rparr>) s)))))"

section \<open>handleDAF\<close>

definition PING :: "u8 list" where "PING = [0x50, 0x49, 0x4E, 0x47]"
definition PINGp :: "u8 list" where "PINGp = [0x50, 0x49, 0x4E, 0x47, 0x70]"
definition PONG :: "u8 list" where "PONG = [0x50, 0x4F, 0x4E, 0x47]"

text \<open>
  The message branch of a service descriptor: \<open>i\<close> is the offset of its data.  The source declares
  \<open>resBuf\<close> as \<open>const\<close> and writes to it; here it is an ordinary buffer.
\<close>

definition daf_message :: "env \<Rightarrow> nat \<Rightarrow> int \<Rightarrow> u8 \<Rightarrow> u8 list \<Rightarrow> dev \<Rightarrow> fault + u8 list \<times> dev" where
  "daf_message E peer i tlen frame s =
    (let s = upd_aware (\<lambda>a. a\<lparr>nanMessagesIn := nanMessagesIn a + 1\<rparr>) s in
     bindE (rdn frame i 4) (\<lambda>m.
     bindE (if m = PING then
              bindE (wrn (resBuf (nan s)) 0 PONG) (\<lambda>r.
              bindE (memcpy r 4 frame (i + 4) (i_of tlen)) (\<lambda>r.
              let s = upd_nan (\<lambda>v. v\<lparr>resBuf := r\<rparr>) s in
              bindE (rdn frame FRAME_SRC 6) (\<lambda>src.
              nanSendNow E src (peer_instanceId (peer_of s peer)) r (i_of tlen + 4) s)))
            else Inr s) (\<lambda>s.
     bindE (rdn frame FRAME_DST 6) (\<lambda>dst.
     let s = (if dst \<noteq> take 6 (mymac (aware (nan s)))
              then upd_aware (\<lambda>a. a\<lparr>nanPacketsOthers := nanPacketsOthers a + 1\<rparr>) s else s);
         (afterSend, s) = currentTimeMicro E s in
     bindE (wr frame (i + i_of tlen) 0) (\<lambda>frame.
     Inr (frame, s))))))"

text \<open>A service descriptor attribute whose body starts at \<open>i\<close>.\<close>

definition daf_descriptor :: "env \<Rightarrow> nat \<Rightarrow> int \<Rightarrow> u8 list \<Rightarrow> dev \<Rightarrow> fault + u8 list \<times> dev" where
  "daf_descriptor E peer i frame s =
    (let i = i + 6 in
     bindE (rd frame i) (\<lambda>instanceId.
     let s = upd_peer peer (\<lambda>p. p\<lparr>peer_instanceId := instanceId\<rparr>) s in
     bindE (rd frame (i + 1)) (\<lambda>requestorId.
     bindE (rd frame (i + 2)) (\<lambda>serviceControl.
     bindE (rd frame (i + 3)) (\<lambda>tlen.
     let i = i + 4 in
     bindE (rdn frame FRAME_SRC 6) (\<lambda>src.
     let s = upd_peer peer (\<lambda>p. p\<lparr>peer_mac := src\<rparr>) s in
     if serviceControl = 0x11 then
       bindE (nanSendPublish E s) (\<lambda>s.
       Inr (frame, upd_aware (\<lambda>a. a\<lparr>subReceived := subReceived a + 1\<rparr>) s))
     else if serviceControl = 0x10 then
       bindE (nanSendNow E src (peer_instanceId (peer_of s peer)) PINGp 5 s) (\<lambda>s.
       bindE (nanSendPublish E s) (\<lambda>s.
       Inr (frame, upd_aware (\<lambda>a. a\<lparr>pubReceived := pubReceived a + 1\<rparr>) s)))
     else daf_message E peer i tlen frame s))))))"

text \<open>
  One round of the attribute loop at offset \<open>next\<close>: the offset of the next round, or
  \<open>None\<close> for the early return on an attribute that is empty or runs past the frame.
  The comparison with \<open>len\<close> is unsigned.
\<close>

definition daf_attr ::
    "env \<Rightarrow> nat \<Rightarrow> u32 \<Rightarrow> int \<Rightarrow> u8 list \<Rightarrow> dev \<Rightarrow> fault + int option \<times> u8 list \<times> dev" where
  "daf_attr E peer len next frame s =
    bindE (rd frame next) (\<lambda>tag.
    bindE (rd frame (next + 1)) (\<lambda>lo.
    bindE (rd frame (next + 2)) (\<lambda>hi.
    let i = next + 3; tl = 256 * i_of hi + i_of lo; next = i + tl in
    if tl = 0 \<or> word_of_int (i + tl) > len then Inr (None, frame, s)
    else if tag = 3 then
      bindE (daf_descriptor E peer i frame s) (\<lambda>(frame, s). Inr (Some next, frame, s))
    else Inr (Some next, frame, s))))"

lemma daf_message_length:
  "daf_message E p i t frame s = Inr (frame', s') \<Longrightarrow> length frame' = length frame"
  by (auto simp: daf_message_def Let_def currentTimeMicro_def bindE_eq_Inr dest: wr_length)

lemma daf_descriptor_length:
  "daf_descriptor E p i frame s = Inr (frame', s') \<Longrightarrow> length frame' = length frame"
  by (auto simp: daf_descriptor_def Let_def bindE_eq_Inr split: if_splits dest: daf_message_length)

lemma daf_attr_progress:
  assumes "daf_attr E p len n frame s = Inr (r, frame', s')"
  shows "length frame' = length frame" "0 \<le> n" "n + 2 < int (length frame)"
    "r = Some n' \<Longrightarrow> n + 3 < n'"
proof -
  from assms show "length frame' = length frame"
    by (auto simp: daf_attr_def Let_def bindE_eq_Inr split: if_splits dest: daf_descriptor_length)
  from assms show "0 \<le> n" "n + 2 < int (length frame)"
    by (auto simp: daf_attr_def bindE_eq_Inr rd_eq_Inr)
  show "r = Some n' \<Longrightarrow> n + 3 < n'"
    using assms by (auto simp: daf_attr_def Let_def bindE_eq_Inr split: if_splits)
      (smt (verit) uint_ge_0)+
qed

lemma daf_attr_decreases:
  assumes "daf_attr E p len n frame s = Inr (Some n', frame', s')"
  shows "nat (int (length frame') - n') < nat (int (length frame) - n)"
  using daf_attr_progress(1-3) [OF assms] daf_attr_progress(4) [OF assms, of n'] by simp

function daf_loop ::
    "env \<Rightarrow> nat \<Rightarrow> u32 \<Rightarrow> int \<Rightarrow> u8 list \<Rightarrow> dev \<Rightarrow> fault + u8 list \<times> dev" where
  "daf_loop E peer len next frame s =
    (if (word_of_int next :: u32) < len - 4 then
       (case daf_attr E peer len next frame s of
          Inl e \<Rightarrow> Inl e
        | Inr (None, frame', s') \<Rightarrow> Inr (frame', s')
        | Inr (Some next', frame', s') \<Rightarrow> daf_loop E peer len next' frame' s')
     else Inr (frame, s))"
  by pat_completeness auto
termination
  by (relation "measure (\<lambda>(E, peer, len, next, frame, s). nat (int (length frame) - next))")
    (auto dest: daf_attr_decreases)

declare daf_loop.simps [simp del]

definition handleDAF :: "env \<Rightarrow> nat \<Rightarrow> u8 list \<Rightarrow> u32 \<Rightarrow> dev \<Rightarrow> fault + u8 list \<times> dev" where
  "handleDAF E peer frame len s =
    bindE (rdn frame 20 2) (\<lambda>net.
    let s = upd_aware (\<lambda>a. a\<lparr>nanNet := net\<rparr>) s in
    bindE (rdn frame (FRAME_SSID + 4) 2) (\<lambda>net.
    let s = upd_peer peer (\<lambda>p. p\<lparr>peer_nanNet := net\<rparr>) s in
    daf_loop E peer len NAN_ACTION_START frame s))"

section \<open>sniffer_cb1\<close>

definition WIFI_PKT_MGMT :: int where "WIFI_PKT_MGMT = 0"

text \<open>\<open>a || b || \<dots>\<close> over bytes of the frame: \<open>frame[i] != v\<close> for one pair, tested in order.\<close>

fun differs :: "u8 list \<Rightarrow> (int \<times> u8) list \<Rightarrow> fault + bool" where
  "differs frame [] = Inr False"
| "differs frame ((i, v) # ps) =
     bindE (rd frame i) (\<lambda>b. if b \<noteq> v then Inr True else differs frame ps)"

definition sniffer_cb1 :: "env \<Rightarrow> int \<Rightarrow> u32 \<Rightarrow> u8 list \<Rightarrow> dev \<Rightarrow> fault + u8 list \<times> dev" where
  "sniffer_cb1 E type len frame s =
    (let (now2, s) = currentTimeMicro E s;
         s = upd_aware (\<lambda>a. a\<lparr>capturedSinceLast := capturedSinceLast a + uint len\<rparr>) s;
         s = upd_aware (\<lambda>a. a\<lparr>capPackets := capPackets a + 1\<rparr>) s in
     if type \<noteq> WIFI_PKT_MGMT then Inr (frame, s)
     else
     bindE (differs frame [(16, 0x50), (17, 0x6f), (18, 0x9a)]) (\<lambda>d.
     if d then Inr (frame, s)
     else
     let peer = 0 in
     bindE (rd frame 0) (\<lambda>t.
     if t = 0x80 then bindE (handleBeacon E peer frame s) (\<lambda>s. Inr (frame, s))
     else if t \<noteq> 0xd0 then Inr (frame, s)
     else
     bindE (differs frame [(24, 4), (25, 9), (26, 0x50), (27, 0x6f), (28, 0x9a)]) (\<lambda>d.
     if d then Inr (frame, s)
     else
     let s = upd_aware (\<lambda>a. a\<lparr>nanPackets := nanPackets a + 1\<rparr>) s in
     bindE (rd frame 29) (\<lambda>st.
     if st \<noteq> 19 then Inr (frame, s)
     else handleDAF E peer frame len s)))))"

end
