(* ===== verification/NanTimer.thy ===== *)
theory NanTimer
  imports NanRecv
begin

text \<open>
  The beacon timer and the life cycle of the driver in \<open>nan.c\<close>: \<open>timerCB\<close>,
  \<open>nanTimer\<close>, \<open>nanStartSniffing\<close>, \<open>nanStart\<close>, \<open>nanStop\<close> and the console command.
  The code for the ESP8266 and the statistics log are left out.
\<close>

section \<open>The timer\<close>

text \<open>
  Times are 32-bit microseconds.  The age of the last sync beacon is compared as an unsigned
  number, the age of the statistics and the delay as signed ones: their differences wrap around, as
  they do on the chip, where the standard leaves a signed overflow undefined.
\<close>

definition timerCB :: "env \<Rightarrow> dev \<Rightarrow> fault + dev" where
  "timerCB E s =
    (if \<not> nan_running (aware (nan s)) then Inr s
     else
     let (now, s) = currentTimeMicro E s;
         syncNeeded = (now - lastSentSBeacon (aware (nan s)) > 490) in
     bindE (if syncNeeded
            then nanSendSync E 512 (upd_aware (\<lambda>a. a\<lparr>lastSentSBeacon := now\<rparr>) s)
            else Inr s) (\<lambda>s.
     let s = (if sint (now - lastStats (nan s)) > 10 * 1000 * 1000
              then upd_aware (\<lambda>a. a\<lparr>capturedSinceLast := 0\<rparr>)
                     (upd_nan (\<lambda>v. v\<lparr>lastStats := now\<rparr>) s)
              else s);
         nextWakeup = now + 512 * 1024;
         (now2, s) = currentTimeMicro E s;
         delta = sint (nextWakeup - now2);
         delta = (if delta < 1000 then 100 * 1000 else delta) in
     Inr (emit (TimerOnce delta) s)))"

definition nanTimer :: "env \<Rightarrow> dev \<Rightarrow> fault + dev" where
  "nanTimer E s =
    (let (now, s) = currentTimeMicro E s;
         s = upd_nan (\<lambda>v. v\<lparr>startupTime := now\<rparr>) s;
         s = emit (Api ''esp_timer_init'' []) s in
     bindE (check E (Api ''esp_timer_create'' []) s) (\<lambda>s.
     Inr (emit (TimerOnce (5 * 1000000)) (emit (Api ''esp_timer_stop'' []) s))))"

section \<open>Start and stop\<close>

definition WIFI_PROMIS_FILTER_MASK_MGMT :: int where "WIFI_PROMIS_FILTER_MASK_MGMT = 1"
definition START_BIT :: int where "START_BIT = 2"
definition ESP_MAC_WIFI_STA :: int where "ESP_MAC_WIFI_STA = 0"
definition WIFI_EVENT_STA_START :: int where "WIFI_EVENT_STA_START = 2"
definition WIFI_STORAGE_RAM :: int where "WIFI_STORAGE_RAM = 1"
definition WIFI_MODE_STA :: int where "WIFI_MODE_STA = 1"

definition nanStartSniffing :: "env \<Rightarrow> dev \<Rightarrow> fault + dev" where
  "nanStartSniffing E s =
    bindE (check E (ApiS ''esp_wifi_set_promiscuous_rx_cb'' [''sniffer_cb1'']) s) (\<lambda>s.
    bindE (check E (Api ''esp_wifi_set_promiscuous_filter'' [WIFI_PROMIS_FILTER_MASK_MGMT]) s) (\<lambda>s.
    bindE (check E (Api ''esp_wifi_start'' []) s) (\<lambda>s.
    let s = emit (Api ''xEventGroupWaitBits'' [START_BIT, 0, 1, 2000]) s;
        c = Api ''esp_read_mac'' [ESP_MAC_WIFI_STA];
        mac = fill E c 6 s;
        s = upd_aware (\<lambda>a. a\<lparr>mymac := mac\<rparr>) (emit c s) in
    bindE (check E (Api ''esp_wifi_set_promiscuous'' [1]) s) (\<lambda>s.
    bindE (check E (Api ''esp_wifi_set_channel'' [6, 0]) s) (\<lambda>s.
    nanTimer E (upd_aware (\<lambda>a. a\<lparr>nan_running := True\<rparr>) s))))))"

definition event_handler :: "dev \<Rightarrow> dev" where
  "event_handler s = emit (Api ''xEventGroupSetBits'' [START_BIT]) s"

definition nanStart :: "env \<Rightarrow> dev \<Rightarrow> fault + dev" where
  "nanStart E s =
    (let s = (if \<not> nan_init (nan s)
              then upd_nan (\<lambda>v. v\<lparr>nan_init := True\<rparr>) (emit (Api ''xEventGroupCreate'' []) s)
              else s);
         s = upd_aware (\<lambda>a. a\<lparr>masterPref := 129\<rparr>) s;
         r = ret E (Api ''rand'' []) s;
         s = upd_aware (\<lambda>a. a\<lparr>masterRandom := b_of r\<rparr>) (emit (Api ''rand'' []) s) in
     bindE (check E (Api ''esp_event_handler_register'' [WIFI_EVENT_STA_START]) s) (\<lambda>s.
     let c = Api ''esp_netif_create_default_wifi_sta'' [];
         netif = (ret E c s \<noteq> 0);
         s = upd_nan (\<lambda>v. v\<lparr>nan_netif := netif\<rparr>) (emit c s) in
     bindE (if netif then Inr s else Inl Abort) (\<lambda>s.
     let s = emit (Api ''esp_netif_init'' []) s in
     bindE (check E (Api ''esp_wifi_init'' []) s) (\<lambda>s.
     bindE (check E (Api ''esp_wifi_set_storage'' [WIFI_STORAGE_RAM]) s) (\<lambda>s.
     bindE (check E (Api ''esp_wifi_set_mode'' [WIFI_MODE_STA]) s) (\<lambda>s.
     nanStartSniffing E s))))))"

definition nanStop :: "env \<Rightarrow> dev \<Rightarrow> fault + dev" where
  "nanStop E s =
    bindE (check E (Api ''esp_wifi_set_promiscuous'' [0]) s) (\<lambda>s.
    bindE (check E (Api ''esp_wifi_stop'' []) s) (\<lambda>s.
    bindE (check E (Api ''esp_wifi_deinit'' []) s) (\<lambda>s.
    bindE (check E (Api ''esp_event_handler_unregister'' [WIFI_EVENT_STA_START]) s) (\<lambda>s.
    Inr (if nan_netif (nan s)
         then upd_nan (\<lambda>v. v\<lparr>nan_netif := False\<rparr>) (emit (Api ''esp_netif_destroy'' []) s)
         else s)))))"

section \<open>The console command\<close>

text \<open>
  \<open>arg_parse\<close> belongs to argtable3: the command gets its result, the number of errors, the
  counts of the flags and the pointer of \<open>--send\<close>.  A string is the memory at its pointer up
  to the first 0.
\<close>

record nan_args =
  na_nerrors :: int
  na_mon :: int
  na_stop :: int
  na_send :: "nat option"

definition strlen :: "env \<Rightarrow> nat \<Rightarrow> dev \<Rightarrow> int" where
  "strlen E p s = int (length (takeWhile (\<lambda>b. b \<noteq> 0) (mem E (hist s) p)))"

definition cmd_nan :: "env \<Rightarrow> nan_args \<Rightarrow> dev \<Rightarrow> fault + int \<times> dev" where
  "cmd_nan E a s =
    (if na_nerrors a \<noteq> 0 then Inr (1, emit (ApiS ''arg_print_errors'' []) s)
     else if na_stop a \<noteq> 0 then bindE (nanStop E s) (\<lambda>s. Inr (0, s))
     else if na_mon a \<noteq> 0 then bindE (nanStart E s) (\<lambda>s. Inr (0, s))
     else case na_send a of
            Some p \<Rightarrow> Inr (0, nanQueue 0 p (strlen E p s) s)
          | None \<Rightarrow> Inr (0, s))"

definition console_register_nan :: "env \<Rightarrow> dev \<Rightarrow> fault + dev" where
  "console_register_nan E s = check E (ApiS ''esp_console_cmd_register'' [''nan'']) s"

end
