(* ===== verification/Wifi.thy ===== *)
theory Wifi
  imports NanTimer Nvs
begin

text \<open>
  The access point and station driver, \<open>main/wifi_sta_ap.c\<close>: events, start, stop, joining a network
  and the \<open>wifi\<close> command.  The event group is created by \<open>init_wifi\<close> alone; FreeRTOS asserts
  that the group it is given exists.
\<close>

section \<open>Events\<close>

definition upd_wifi :: "(wifi_vars \<Rightarrow> wifi_vars) \<Rightarrow> dev \<Rightarrow> dev" where
  "upd_wifi f s = s\<lparr>wifi := f (wifi s)\<rparr>"

definition CONNECTED_BIT :: int where "CONNECTED_BIT = 1"
definition WIFI_START_BIT :: int where "WIFI_START_BIT = 2"
definition JOIN_TIMEOUT_MS :: int where "JOIN_TIMEOUT_MS = 10000"
definition ESP_ERR_WIFI_NOT_INIT :: int where "ESP_ERR_WIFI_NOT_INIT = 0x3001"

datatype event_base = WIFI_EVENT | IP_EVENT

definition WIFI_EVENT_STA_DISCONNECTED :: int where "WIFI_EVENT_STA_DISCONNECTED = 5"
definition IP_EVENT_STA_GOT_IP :: int where "IP_EVENT_STA_GOT_IP = 0"

text \<open>A call on the event group.\<close>

definition group_call :: "string \<Rightarrow> int list \<Rightarrow> dev \<Rightarrow> fault + dev" where
  "group_call f as s = (if wifi_group (wifi s) then Inr (emit (Api f as) s) else Inl Abort)"

definition wifi_event_handler :: "event_base \<Rightarrow> int \<Rightarrow> dev \<Rightarrow> fault + dev" where
  "wifi_event_handler event_base event_id s =
    bindE (group_call ''xEventGroupSetBits'' [WIFI_START_BIT] s) (\<lambda>s.
    if event_base = WIFI_EVENT \<and> event_id = WIFI_EVENT_STA_DISCONNECTED then
      group_call ''xEventGroupClearBits'' [CONNECTED_BIT] (emit (Api ''esp_wifi_connect'' []) s)
    else if event_base = IP_EVENT \<and> event_id = IP_EVENT_STA_GOT_IP then
      group_call ''xEventGroupSetBits'' [CONNECTED_BIT] s
    else Inr s)"

definition syncTime :: "string \<Rightarrow> dev \<Rightarrow> dev" where
  "syncTime server s = emits [ApiS ''sntp_setoperatingmode'' [''SNTP_OPMODE_POLL''],
     ApiS ''sntp_setservername'' [server], Api ''sntp_init'' []] s"

section \<open>Stop and start\<close>

text \<open>Calls under \<open>ESP_ERROR_CHECK\<close>, in order.\<close>

primrec checks :: "env \<Rightarrow> call list \<Rightarrow> dev \<Rightarrow> fault + dev" where
  "checks E [] s = Inr s"
| "checks E (c # cs) s = bindE (check E c s) (checks E cs)"

definition wifi_stop :: "env \<Rightarrow> dev \<Rightarrow> fault + dev" where
  "wifi_stop E s =
    bindE (checks E (map (\<lambda>e. ApiS ''esp_event_handler_unregister'' [e])
      [''WIFI_EVENT_STA_DISCONNECTED'', ''WIFI_EVENT_STA_CONNECTED'', ''WIFI_EVENT_STA_START'',
       ''WIFI_EVENT_WIFI_READY'', ''IP_EVENT_STA_GOT_IP'']) s) (\<lambda>s.
    let c = Api ''esp_wifi_stop'' []; err = ret E c s; s = emit c s in
    if err = ESP_ERR_WIFI_NOT_INIT then Inr s
    else bindE (if err = ESP_OK then Inr s else Inl Abort) (\<lambda>s.
    bindE (checks E [Api ''esp_wifi_deinit'' [],
      ApiS ''esp_wifi_clear_default_wifi_driver_and_handlers'' [''sta_netif'']] s) (\<lambda>s.
    let s = upd_wifi (\<lambda>v. v\<lparr>sta_netif := False\<rparr>) (emit (ApiS ''esp_netif_destroy'' [''sta_netif'']) s);
        s = upd_wifi (\<lambda>v. v\<lparr>ap_netif := False\<rparr>) (emit (ApiS ''esp_netif_destroy'' [''ap_netif'']) s) in
    Inr (upd_wifi (\<lambda>v. v\<lparr>wifi_initialized := False\<rparr>) s))))"

text \<open>A network interface: the pointer is stored, then asserted not to be null.\<close>

definition create_netif :: "env \<Rightarrow> string \<Rightarrow> (bool \<Rightarrow> wifi_vars \<Rightarrow> wifi_vars) \<Rightarrow> dev \<Rightarrow> fault + dev" where
  "create_netif E f store s =
    (let c = Api f []; p = (ret E c s \<noteq> 0); s = upd_wifi (store p) (emit c s) in
     if p then Inr s else Inl Abort)"

definition initialise_wifi :: "env \<Rightarrow> dev \<Rightarrow> fault + dev" where
  "initialise_wifi E s =
    (let s = emit (ApiS ''esp_log_level_set'' [''wifi'', ''ESP_LOG_INFO'']) s in
     if wifi_initialized (wifi s) then Inr s
     else
     bindE (check E (Api ''esp_netif_init'' []) s) (\<lambda>s.
     bindE (create_netif E ''esp_netif_create_default_wifi_ap'' (\<lambda>p v. v\<lparr>ap_netif := p\<rparr>) s) (\<lambda>s.
     bindE (create_netif E ''esp_netif_create_default_wifi_sta'' (\<lambda>p v. v\<lparr>sta_netif := p\<rparr>) s) (\<lambda>s.
     bindE (check E (Api ''esp_wifi_init'' []) s) (\<lambda>s.
     bindE (checks E (map (\<lambda>e. ApiS ''esp_event_handler_register'' [e])
       [''WIFI_EVENT_WIFI_READY'', ''WIFI_EVENT_STA_START'', ''WIFI_EVENT_STA_CONNECTED'',
        ''WIFI_EVENT_STA_DISCONNECTED'', ''IP_EVENT_STA_GOT_IP'']) s) (\<lambda>s.
     bindE (check E (Api ''esp_wifi_set_storage'' [WIFI_STORAGE_RAM]) s) (\<lambda>s.
     Inr (upd_wifi (\<lambda>v. v\<lparr>wifi_initialized := True\<rparr>) s))))))))"

text \<open>
  The name is copied into 32 bytes and the password into 64 by \<open>strlcpy\<close>, so 31 and 63 characters
  of them.
\<close>

definition wifi_sta :: "env \<Rightarrow> string \<Rightarrow> string option \<Rightarrow> dev \<Rightarrow> fault + dev" where
  "wifi_sta E ssid pass s =
    bindE (initialise_wifi E s) (\<lambda>s.
    checks E [Api ''esp_wifi_set_mode'' [WIFI_MODE_STA],
      ApiS ''esp_wifi_set_config'' [take 31 ssid, case pass of None \<Rightarrow> [] | Some p \<Rightarrow> take 63 p],
      Api ''esp_wifi_start'' [], Api ''esp_wifi_connect'' []] s)"

text \<open>The time-out is divided as an unsigned number of 32 bits.\<close>

definition wifi_join :: "env \<Rightarrow> string \<Rightarrow> string \<Rightarrow> int \<Rightarrow> dev \<Rightarrow> fault + bool \<times> dev" where
  "wifi_join E ssid pass timeout_ms s =
    bindE (wifi_sta E ssid (Some pass) s) (\<lambda>s.
    let as = [CONNECTED_BIT, 0, 1, timeout_ms mod 2 ^ 32 div 10]; c = Api ''xEventGroupWaitBits'' as; bits = ret E c s in
    bindE (group_call ''xEventGroupWaitBits'' as s) (\<lambda>s.
    Inr (bits AND CONNECTED_BIT \<noteq> 0, s)))"

definition init_wifi :: "env \<Rightarrow> int \<Rightarrow> string option \<Rightarrow> string option \<Rightarrow> dev \<Rightarrow> fault + int \<times> dev" where
  "init_wifi E mode ssid psk s =
    (let c = Api ''xEventGroupCreate'' []; g = (ret E c s \<noteq> 0);
         s = upd_wifi (\<lambda>v. v\<lparr>wifi_group := g\<rparr>) (emit c s) in
     bindE (case ssid of Some x \<Rightarrow> if mode = 1 then wifi_sta E x psk s else Inr s | None \<Rightarrow> Inr s) (\<lambda>s.
     Inr (0, s)))"

section \<open>The command\<close>

text \<open>
  The parsed arguments: the number of errors, which options occur, the time-out where it does, and
  the texts of name and password (empty where there are none).
\<close>

record wifi_args =
  wf_nerrors :: int
  wf_time :: bool
  wf_stop :: bool
  wf_ap :: bool
  wf_timeout :: "int option"
  wf_ssid :: string
  wf_password :: string

definition cmd_wifi :: "env \<Rightarrow> wifi_args \<Rightarrow> dev \<Rightarrow> fault + int \<times> dev" where
  "cmd_wifi E a s =
    (if wf_nerrors a \<noteq> 0 then Inr (1, s)
     else if wf_time a then Inr (0, syncTime ''pool.ntp.org'' s)
     else if wf_stop a then bindE (wifi_stop E s) (\<lambda>s. Inr (0, s))
     else if wf_ap a then Inr (0, s)
     else
     let timeout = (case wf_timeout a of None \<Rightarrow> JOIN_TIMEOUT_MS | Some t \<Rightarrow> t) in
     bindE (wifi_join E (wf_ssid a) (wf_password a) timeout s) (\<lambda>(connected, s).
     if \<not> connected then Inr (1, s) else Inr (0, s)))"

definition register_wifi :: "env \<Rightarrow> dev \<Rightarrow> fault + dev" where
  "register_wifi E = check E (ApiS ''esp_console_cmd_register'' [''wifi''])"

section \<open>The life of the driver\<close>

text \<open>What happens to the driver: start-up, commands and events, in any order.\<close>

datatype wifi_do =
    InitWifi int "string option" "string option"
  | WifiCmd wifi_args
  | WifiEvent event_base int

fun wifi_step :: "env \<Rightarrow> wifi_do \<Rightarrow> dev \<Rightarrow> fault + dev" where
  "wifi_step E (InitWifi mode ssid psk) s = bindE (init_wifi E mode ssid psk s) (\<lambda>(r, s). Inr s)"
| "wifi_step E (WifiCmd a) s = bindE (cmd_wifi E a s) (\<lambda>(r, s). Inr s)"
| "wifi_step E (WifiEvent event_base event_id) s = wifi_event_handler event_base event_id s"

text \<open>An initialised driver has both interfaces.\<close>

definition wifi_ok :: "dev \<Rightarrow> bool" where
  "wifi_ok s \<longleftrightarrow> (wifi_initialized (wifi s) \<longrightarrow> ap_netif (wifi s) \<and> sta_netif (wifi s))"

lemma upd_wifi_simps [simp]: "wifi (upd_wifi f s) = f (wifi s)" "hist (upd_wifi f s) = hist s"
  by (simp_all add: upd_wifi_def)

lemma checks_keep: "checks E cs s = Inr s' \<Longrightarrow> wifi s' = wifi s"
  by (induction cs arbitrary: s) (auto simp: bindE_eq_Inr check_eq_Inr)

lemma group_call_keeps: "group_call f as s = Inr s' \<Longrightarrow> wifi s' = wifi s \<and> wifi_group (wifi s)"
  by (auto simp: group_call_def split: if_splits)

lemma create_netif_stores:
  "create_netif E f store s = Inr s' \<Longrightarrow> wifi s' = store True (wifi s)"
  by (auto simp: create_netif_def Let_def split: if_splits)

lemma event_handler_keeps: "wifi_event_handler b e s = Inr s' \<Longrightarrow> wifi s' = wifi s \<and> wifi_group (wifi s)"
  by (auto simp: wifi_event_handler_def bindE_eq_Inr dest!: group_call_keeps split: if_splits)

lemma wifi_stop_clears:
  "wp (wifi_stop E s) (\<lambda>s'. wifi s' = wifi s \<or>
     wifi s' = (wifi s)\<lparr>sta_netif := False, ap_netif := False, wifi_initialized := False\<rparr>)"
  unfolding wifi_stop_def Let_def
  by (intro wp_intros)
    (auto simp del: checks.simps simp: emit_simps dest!: checks_keep split: if_splits)

lemma wifi_stop_ok:
  "wifi_stop E s = Inr s' \<Longrightarrow> wifi_ok s \<Longrightarrow> wifi_ok s' \<and> wifi_group (wifi s') = wifi_group (wifi s)"
  using wpD [OF wifi_stop_clears] by (fastforce simp: wifi_ok_def)

lemma initialise_wifi_ok:
  "initialise_wifi E s = Inr s' \<Longrightarrow> wifi_ok s \<Longrightarrow> wifi_ok s' \<and> wifi_group (wifi s') = wifi_group (wifi s)"
  by (auto simp: initialise_wifi_def Let_def bindE_eq_Inr wifi_ok_def check_eq_Inr
      simp del: checks.simps list.map dest!: checks_keep create_netif_stores split: if_splits)

lemma wifi_sta_ok:
  assumes "wifi_sta E ssid pass s = Inr s'" "wifi_ok s"
  shows "wifi_ok s' \<and> wifi_group (wifi s') = wifi_group (wifi s)"
proof -
  obtain s1 where s1: "initialise_wifi E s = Inr s1" "wifi s' = wifi s1"
    using assms(1) by (auto simp: wifi_sta_def bindE_eq_Inr simp del: checks.simps dest!: checks_keep)
  show ?thesis using initialise_wifi_ok [OF s1(1) assms(2)] s1(2) by (simp add: wifi_ok_def)
qed

lemma wifi_join_ok:
  assumes "wifi_join E ssid pass t s = Inr (r, s')" "wifi_ok s"
  shows "wifi_ok s' \<and> wifi_group (wifi s') = wifi_group (wifi s) \<and> wifi_group (wifi s)"
proof -
  obtain s1 where s1: "wifi_sta E ssid (Some pass) s = Inr s1" "wifi s' = wifi s1" "wifi_group (wifi s1)"
    using assms(1) by (auto simp: wifi_join_def Let_def bindE_eq_Inr dest!: group_call_keeps)
  show ?thesis using wifi_sta_ok [OF s1(1) assms(2)] s1(2,3) by (simp add: wifi_ok_def)
qed

lemma wifi_step_ok:
  assumes "wifi_ok s" "wifi_step E e s = Inr s'"
  shows "wifi_ok s' \<and> ((\<forall>m x p. e \<noteq> InitWifi m x p) \<longrightarrow> wifi_group (wifi s') = wifi_group (wifi s))"
proof (cases e)
  case (InitWifi m x p)
  have "wifi_ok (upd_wifi (\<lambda>v. v\<lparr>wifi_group := g\<rparr>) (emit c s))" for g c
    using assms(1) by (simp add: wifi_ok_def)
  then show ?thesis
    using assms(2) InitWifi
    by (auto simp: init_wifi_def Let_def bindE_eq_Inr dest!: wifi_sta_ok split: option.splits if_splits)
next
  case (WifiCmd a)
  have "wifi (syncTime x s) = wifi s" for x by (simp add: syncTime_def)
  then have y: "wifi_ok (syncTime x s)" "wifi_group (wifi (syncTime x s)) = wifi_group (wifi s)" for x
    using assms(1) by (simp_all add: wifi_ok_def)
  show ?thesis
    using assms WifiCmd y
    by (auto simp: cmd_wifi_def Let_def bindE_eq_Inr dest!: wifi_stop_ok wifi_join_ok split: if_splits)
next
  case (WifiEvent b i)
  then show ?thesis
    using assms by (auto simp: wifi_ok_def dest!: event_handler_keeps)
qed

interpretation wm: invariant_machine "wifi_step E" wifi_ok for E
  by unfold_locales (use wifi_step_ok in blast)

lemma faults_abort:
  "checks E cs s = Inl e \<Longrightarrow> e = Abort" "group_call f as s = Inl e \<Longrightarrow> e = Abort"
  "create_netif E f store s = Inl e \<Longrightarrow> e = Abort" "check E c s = Inl e \<Longrightarrow> e = Abort"
proof -
  show "check E c s = Inl e \<Longrightarrow> e = Abort" for c s by (auto simp: check_def split: if_splits)
  then show "checks E cs s = Inl e \<Longrightarrow> e = Abort"
    by (induction cs arbitrary: s) (auto simp: bindE_def split: sum.splits)
qed (auto simp: group_call_def create_netif_def Let_def split: if_splits)

lemma bindE_eq_Inl: "bindE m f = Inl e \<longleftrightarrow> m = Inl e \<or> (\<exists>x. m = Inr x \<and> f x = Inl e)"
  by (cases m) auto

lemma wifi_sta_faults: "wifi_sta E ssid pass s = Inl e \<Longrightarrow> e = Abort"
  unfolding wifi_sta_def initialise_wifi_def Let_def
  by (auto simp: bindE_eq_Inl simp del: checks.simps dest: faults_abort split: if_splits)

text \<open>The parsed arguments of a join.\<close>

definition joins :: "wifi_args \<Rightarrow> bool" where
  "joins a \<longleftrightarrow> wf_nerrors a = 0 \<and> \<not> wf_time a \<and> \<not> wf_stop a \<and> \<not> wf_ap a"

lemma join_without_group:
  assumes "wifi_ok s'" "\<not> wifi_group (wifi s')" "joins a"
  shows "cmd_wifi E a s' = Inl Abort"
proof -
  have "wifi_join E x y t s' = Inl Abort" for x y t
  proof (cases "wifi_join E x y t s'")
    case (Inl e)
    then show ?thesis
      by (auto simp: wifi_join_def Let_def bindE_eq_Inl dest: wifi_sta_faults faults_abort)
  next
    case (Inr r)
    then show ?thesis using wifi_join_ok [OF _ assms(1), of E x y t "fst r" "snd r"] assms(2) by simp
  qed
  then show ?thesis
    using assms(3) by (simp add: cmd_wifi_def joins_def Let_def)
qed

text \<open>A platform on which the calls of a join succeed: the interfaces are created, the others return 0.\<close>

definition join_calls_succeed :: "env \<Rightarrow> bool" where
  "join_calls_succeed E \<longleftrightarrow>
     (\<forall>h. \<forall>f \<in> {''esp_netif_create_default_wifi_ap'', ''esp_netif_create_default_wifi_sta''}. rc E h (Api f []) \<noteq> 0) \<and>
     (\<forall>h as. \<forall>f \<in> {''esp_netif_init'', ''esp_wifi_init'', ''esp_wifi_set_storage'', ''esp_wifi_set_mode'',
        ''esp_wifi_start'', ''esp_wifi_connect''}. rc E h (Api f as) = 0) \<and>
     (\<forall>h as. \<forall>f \<in> {''esp_event_handler_register'', ''esp_wifi_set_config''}. rc E h (ApiS f as) = 0)"

lemma checks_pass:
  "(\<And>c h. c \<in> set cs \<Longrightarrow> rc E h c = 0) \<Longrightarrow> checks E cs s = Inr (emits cs s)"
  by (induction cs arbitrary: s) (simp_all add: check_def ret_def ESP_OK_def emit_def emits_def)

lemma initialise_wifi_passes:
  assumes "join_calls_succeed E"
  obtains s' where "initialise_wifi E s = Inr s'" "wifi_initialized (wifi s')"
    "wifi_group (wifi s') = wifi_group (wifi s)"
proof (cases "wifi_initialized (wifi s)")
  case True
  then show ?thesis
    by (intro that [of "emit (ApiS ''esp_log_level_set'' [''wifi'', ''ESP_LOG_INFO'']) s"])
      (simp_all add: initialise_wifi_def)
next
  case False
  define regs where "regs = map (\<lambda>e. ApiS ''esp_event_handler_register'' [e])
       [''WIFI_EVENT_WIFI_READY'', ''WIFI_EVENT_STA_START'', ''WIFI_EVENT_STA_CONNECTED'',
        ''WIFI_EVENT_STA_DISCONNECTED'', ''IP_EVENT_STA_GOT_IP'']"
  have r: "checks E regs s = Inr (emits regs s)" for s
    using assms by (intro checks_pass) (auto simp: regs_def join_calls_succeed_def)
  have c: "check E (Api ''esp_netif_init'' []) s = Inr (emit (Api ''esp_netif_init'' []) s)"
    "check E (Api ''esp_wifi_init'' []) s = Inr (emit (Api ''esp_wifi_init'' []) s)"
    "check E (Api ''esp_wifi_set_storage'' as) s = Inr (emit (Api ''esp_wifi_set_storage'' as) s)" for s as
    using assms by (simp_all add: check_def ret_def ESP_OK_def join_calls_succeed_def)
  have n: "\<exists>s'. create_netif E f st s = Inr s' \<and> wifi s' = st True (wifi s)"
    if "f \<in> {''esp_netif_create_default_wifi_ap'', ''esp_netif_create_default_wifi_sta''}" for f st s
  proof -
    have "rc E (hist s) (Api f []) \<noteq> 0"
      by (rule bspec [OF spec [OF conjunct1 [OF assms [unfolded join_calls_succeed_def]]] that])
    then show ?thesis by (simp add: create_netif_def Let_def ret_def)
  qed
  define t where "t = emit (Api ''esp_netif_init'' []) (emit (ApiS ''esp_log_level_set'' [''wifi'', ''ESP_LOG_INFO'']) s)"
  obtain t1 where t1: "create_netif E ''esp_netif_create_default_wifi_ap'' (\<lambda>p v. v\<lparr>ap_netif := p\<rparr>) t = Inr t1"
    "wifi t1 = (wifi s)\<lparr>ap_netif := True\<rparr>"
    using n [of "''esp_netif_create_default_wifi_ap''" _ t] by (auto simp: t_def)
  obtain t2 where t2: "create_netif E ''esp_netif_create_default_wifi_sta'' (\<lambda>p v. v\<lparr>sta_netif := p\<rparr>) t1 = Inr t2"
    "wifi t2 = (wifi s)\<lparr>ap_netif := True, sta_netif := True\<rparr>"
    using n [of "''esp_netif_create_default_wifi_sta''" _ t1] t1(2) by auto
  have "initialise_wifi E s = Inr (upd_wifi (\<lambda>v. v\<lparr>wifi_initialized := True\<rparr>)
      (emit (Api ''esp_wifi_set_storage'' [WIFI_STORAGE_RAM]) (emits regs (emit (Api ''esp_wifi_init'' []) t2))))"
    using False unfolding initialise_wifi_def Let_def regs_def [symmetric]
    by (simp only: emit_simps if_False c bindE_Inr t1(1) [unfolded t_def] t2(1) r)
  then show ?thesis by (rule that) (simp_all add: t2(2))
qed

lemma join_with_group:
  assumes "join_calls_succeed E" "wifi_ok s" "wifi_group (wifi s)" "joins a"
  defines "wait \<equiv> Api ''xEventGroupWaitBits''
    [1, 0, 1, (case wf_timeout a of None \<Rightarrow> 10000 | Some t \<Rightarrow> t) mod 2 ^ 32 div 10]"
  shows "\<exists>h t. cmd_wifi E a s = Inr (if bit (rc E h wait) 0 then 0 else 1, t) \<and> hist t = h @ [wait] \<and>
    wifi_initialized (wifi t) \<and> ap_netif (wifi t) \<and> sta_netif (wifi t)"
proof -
  obtain s1 where s1: "initialise_wifi E s = Inr s1" "wifi_initialized (wifi s1)" "wifi_group (wifi s1)"
    by (rule initialise_wifi_passes [OF assms(1), of s]) (use assms(3) in simp)
  have k: "ap_netif (wifi s1)" "sta_netif (wifi s1)"
    using initialise_wifi_ok [OF s1(1) assms(2)] s1(2) by (simp_all add: wifi_ok_def)
  define cs where "cs = [Api ''esp_wifi_set_mode'' [WIFI_MODE_STA],
      ApiS ''esp_wifi_set_config'' [take 31 (wf_ssid a), take 63 (wf_password a)],
      Api ''esp_wifi_start'' [], Api ''esp_wifi_connect'' []]"
  have "checks E cs s1 = Inr (emits cs s1)"
    using assms(1) by (intro checks_pass) (auto simp: cs_def join_calls_succeed_def)
  then have st: "wifi_sta E (wf_ssid a) (Some (wf_password a)) s = Inr (emits cs s1)"
    using s1(1) by (simp add: wifi_sta_def cs_def del: checks.simps)
  have m: "(b AND 1 = 0) = (\<not> bit b 0)" for b :: int using and_exp_eq_0_iff_not_bit [of b 0] by simp
  have "wifi_join E (wf_ssid a) (wf_password a) tm s =
      (let s = emits cs s1; c = Api ''xEventGroupWaitBits'' [1, 0, 1, tm mod 2 ^ 32 div 10] in
       Inr (bit (rc E (hist s) c) 0, emit c s))" for tm
    unfolding wifi_join_def st bindE_Inr using s1(3)
    by (simp only: Let_def group_call_def CONNECTED_BIT_def emits_simps if_True bindE_Inr ret_def m not_not)
  then have "cmd_wifi E a s = Inr (if bit (rc E (hist (emits cs s1)) wait) 0 then 0 else 1, emit wait (emits cs s1))"
    using assms(4) unfolding cmd_wifi_def joins_def JOIN_TIMEOUT_MS_def wait_def by (simp add: Let_def)
  then show ?thesis using s1(2) k by (intro exI [of _ "hist (emits cs s1)"] exI) auto
qed


text \<open>A platform that creates what it is asked to create, and sets bit 0 in every wait.\<close>

definition giving_env :: env where
  "giving_env = quiet\<lparr>rc := \<lambda>h c. case c of
     Api f as \<Rightarrow> if f \<in> {''xEventGroupCreate'', ''esp_netif_create_default_wifi_ap'',
         ''esp_netif_create_default_wifi_sta'', ''xEventGroupWaitBits''} then 1 else 0
   | _ \<Rightarrow> 0\<rparr>"


end
