(* ===== verification/StationProps.thy ===== *)
theory StationProps
  imports Wifi
begin

text \<open>
  The device as a station: what the start in station mode asks of the WiFi stack, and how the events of
  the stack keep it connected.
\<close>

section \<open>The event group and the connects\<close>

text \<open>
  The bits of the event group, as the calls of the history set and clear them: a new group has none.
\<close>

fun bits_call :: "call \<Rightarrow> int \<Rightarrow> int" where
  "bits_call (Api f as) b =
    (if f = ''xEventGroupCreate'' then 0
     else if f = ''xEventGroupSetBits'' then b OR hd as
     else if f = ''xEventGroupClearBits'' then b AND NOT (hd as) else b)"
| "bits_call c b = b"

definition bits_of :: "call list \<Rightarrow> int" where
  "bits_of h = fold bits_call h 0"

abbreviation group_bits :: "dev \<Rightarrow> int" where
  "group_bits s \<equiv> bits_of (hist s)"

definition connects :: "dev \<Rightarrow> nat" where
  "connects s = length (filter (\<lambda>c. c = Api ''esp_wifi_connect'' []) (hist s))"

lemma bits_append [simp]: "bits_of (h @ cs) = fold bits_call cs (bits_of h)"
  by (simp add: bits_of_def)

lemma connects_emit [simp]: "connects (emit c s) = connects s + (if c = Api ''esp_wifi_connect'' [] then 1 else 0)"
  by (simp add: connects_def)

lemma station_upd [simp]: "connects (upd_wifi f s) = connects s"
  by (simp add: connects_def)

text \<open>What a run of events makes of a connection, and how often it was lost.\<close>

fun station_up :: "bool \<Rightarrow> (event_base \<times> int) list \<Rightarrow> bool" where
  "station_up u [] = u"
| "station_up u ((b, i) # es) = station_up
    (if b = WIFI_EVENT \<and> i = WIFI_EVENT_STA_DISCONNECTED then False
     else if b = IP_EVENT \<and> i = IP_EVENT_STA_GOT_IP then True else u) es"

definition losses :: "(event_base \<times> int) list \<Rightarrow> nat" where
  "losses es = length (filter (\<lambda>e. e = (WIFI_EVENT, WIFI_EVENT_STA_DISCONNECTED)) es)"

lemma connected_bits: "(b OR 2) AND 1 = b AND (1::int)" "(b OR 1) AND 1 = (1::int)" "(b AND - 2) AND 1 = (0::int)"
  by (auto intro!: bit_eqI simp: bit_simps)

lemma event_keeps_station:
  assumes "wifi_group (wifi s)" "group_bits s AND CONNECTED_BIT = (if u then 1 else 0)"
  shows "\<exists>t. wifi_event_handler b i s = Inr t \<and> wifi t = wifi s \<and>
    group_bits t AND CONNECTED_BIT = (if station_up u [(b, i)] then 1 else 0) \<and>
    connects t = connects s + losses [(b, i)]"
  using assms
  by (auto simp: wifi_event_handler_def group_call_def losses_def CONNECTED_BIT_def WIFI_START_BIT_def connected_bits)

lemma station_up_Cons: "station_up u (e # es) = station_up (station_up u [e]) es"
  by (cases e) simp

lemma losses_Cons: "losses (e # es) = losses [e] + losses es"
  by (simp add: losses_def)

lemma events_keep_station:
  assumes "wifi_group (wifi s)" "group_bits s AND CONNECTED_BIT = (if u then 1 else 0)"
  shows "\<exists>t. run_all (\<lambda>(b, i). wifi_event_handler b i) es s = Inr t \<and>
    group_bits t AND CONNECTED_BIT = (if station_up u es then 1 else 0) \<and> connects t = connects s + losses es"
  using assms
proof (induction es arbitrary: s u)
  case (Cons e es)
  obtain b i where e: "e = (b, i)" by fastforce
  obtain t where t: "wifi_event_handler b i s = Inr t" "wifi t = wifi s"
    "group_bits t AND CONNECTED_BIT = (if station_up u [e] then 1 else 0)" "connects t = connects s + losses [e]"
    using event_keeps_station [OF Cons.prems, of b i] unfolding e by blast
  obtain w where "run_all (\<lambda>(b, i). wifi_event_handler b i) es t = Inr w"
    "group_bits w AND CONNECTED_BIT = (if station_up (station_up u [e]) es then 1 else 0)"
    "connects w = connects t + losses es"
    using Cons.IH [OF _ t(3)] Cons.prems(1) t(2) by auto
  then show ?case
    unfolding station_up_Cons [of u e es] losses_Cons [of e es] using t(1,4) by (auto simp: e)
qed (simp add: losses_def)

section \<open>The start\<close>

lemma checks_emits: "checks E cs s = Inr t \<Longrightarrow> t = emits cs s"
  by (induction cs arbitrary: s) (force simp: bindE_eq_Inr check_eq_Inr emits_def emit_def)+

lemma initialise_station:
  assumes "initialise_wifi E s = Inr t"
  shows "group_bits t = group_bits s \<and> connects t = connects s \<and> wifi_group (wifi t) = wifi_group (wifi s)"
  using assms
  by (auto simp: initialise_wifi_def create_netif_def connects_def Let_def bindE_eq_Inr check_eq_Inr
      dest!: checks_emits split: if_splits)

text \<open>
  C37: In station mode the start gives the stack the stored network, cut to 31 and 63 characters, and
  connects once.  From then on, whatever events come, none of them faults, every loss of the connection
  is answered by one more attempt, and the bit that says the device is connected is set exactly if it
  got an address after the last loss.
\<close>

theorem station_stays_connected:
  assumes "init_wifi E 1 (Some ssid) psk s = Inr (r, t)" "ret E (Api ''xEventGroupCreate'' []) s \<noteq> 0"
  shows "ApiS ''esp_wifi_set_config'' [take 31 ssid, case psk of None \<Rightarrow> [] | Some p \<Rightarrow> take 63 p] \<in> set (hist t) \<and>
    connects t = connects s + 1 \<and>
    (\<exists>u. run_all (\<lambda>(b, i). wifi_event_handler b i) es t = Inr u \<and> connects u = connects t + losses es \<and>
      group_bits u AND CONNECTED_BIT = (if station_up False es then 1 else 0))"
proof -
  let ?s = "upd_wifi (\<lambda>v. v\<lparr>wifi_group := True\<rparr>) (emit (Api ''xEventGroupCreate'' []) s)"
  obtain w where w: "initialise_wifi E ?s = Inr w"
    and t: "t = emits [Api ''esp_wifi_set_mode'' [WIFI_MODE_STA],
      ApiS ''esp_wifi_set_config'' [take 31 ssid, case psk of None \<Rightarrow> [] | Some p \<Rightarrow> take 63 p],
      Api ''esp_wifi_start'' [], Api ''esp_wifi_connect'' []] w"
    using assms by (auto simp: init_wifi_def wifi_sta_def Let_def bindE_eq_Inr simp del: checks.simps dest!: checks_emits)
  have "group_bits t = 0" "connects t = connects s + 1" "wifi_group (wifi t)"
    using initialise_station [OF w] by (simp_all add: t connects_def)
  then show ?thesis using events_keep_station [of t False es] by (auto simp: t)
qed

theorem station_stays_connected_witness:
  "\<exists>E t u. init_wifi E 1 (Some ''net'') None boot = Inr (0, t) \<and>
    run_all (\<lambda>(b, i). wifi_event_handler b i)
      [(IP_EVENT, IP_EVENT_STA_GOT_IP), (WIFI_EVENT, WIFI_EVENT_STA_DISCONNECTED)] t = Inr u \<and>
    connects u = 2 \<and> group_bits u AND CONNECTED_BIT = 0"
proof -
  let ?E = "quiet\<lparr>rc := \<lambda>h c. if c \<in> {Api ''xEventGroupCreate'' [],
    Api ''esp_netif_create_default_wifi_ap'' [], Api ''esp_netif_create_default_wifi_sta'' []} then 1 else 0\<rparr>"
    and ?es = "[(IP_EVENT, IP_EVENT_STA_GOT_IP), (WIFI_EVENT, WIFI_EVENT_STA_DISCONNECTED)]"
  obtain t where t: "init_wifi ?E 1 (Some ''net'') None boot = Inr (0, t)"
    by (simp add: init_wifi_def wifi_sta_def initialise_wifi_def create_netif_def check_def ret_def Let_def
        ESP_OK_def upd_wifi_def boot_def)
  have "connects boot = 0" by (simp add: connects_def boot_def)
  then show ?thesis
    using station_stays_connected [OF t, of ?es] t by (force simp: ret_def losses_def)
qed

end
