(* ===== verification/Hci.thy ===== *)
theory Hci
  imports Text
begin

text \<open>
  Advertising over the raw controller interface, \<open>l2-ble-bt/ble_hci.c\<close>: the four commands and
  how they are laid out in the command buffer, the task that sends one of them per turn, the
  start of the controller and the console command.
\<close>

section \<open>Writing a command\<close>

text \<open>A cursor is the buffer and the offset the pointer has reached.\<close>

type_synonym cursor = "u8 list \<times> int"

definition UINT8_TO_STREAM :: "u8 \<Rightarrow> cursor \<Rightarrow> fault + cursor" where
  "UINT8_TO_STREAM v c = bindE (wr (fst c) (snd c) v) (\<lambda>b. Inr (b, snd c + 1))"

definition UINT16_TO_STREAM :: "u16 \<Rightarrow> cursor \<Rightarrow> fault + cursor" where
  "UINT16_TO_STREAM v c =
     bindE (UINT8_TO_STREAM (ucast v) c) (UINT8_TO_STREAM (ucast (drop_bit 8 v)))"

primrec bytes_to_stream :: "u8 list \<Rightarrow> cursor \<Rightarrow> fault + cursor" where
  "bytes_to_stream [] c = Inr c"
| "bytes_to_stream (b # bs) c = bindE (UINT8_TO_STREAM b c) (bytes_to_stream bs)"

definition BDADDR_TO_STREAM :: "u8 list \<Rightarrow> cursor \<Rightarrow> fault + cursor" where
  "BDADDR_TO_STREAM a c = bindE (rdn a 0 6) (\<lambda>bs. bytes_to_stream (rev bs) c)"

definition ARRAY_TO_STREAM :: "u8 list \<Rightarrow> int \<Rightarrow> cursor \<Rightarrow> fault + cursor" where
  "ARRAY_TO_STREAM a len c = bindE (rdn a 0 len) (\<lambda>bs. bytes_to_stream bs c)"

primrec stream :: "(cursor \<Rightarrow> fault + cursor) list \<Rightarrow> cursor \<Rightarrow> fault + cursor" where
  "stream [] c = Inr c"
| "stream (w # ws) c = bindE (w c) (stream ws)"

definition H4_TYPE_COMMAND :: u8 where "H4_TYPE_COMMAND = 1"
definition HCI_H4_CMD_PREAMBLE_SIZE :: int where "HCI_H4_CMD_PREAMBLE_SIZE = 4"
definition HCI_GRP_HOST_CONT_BASEBAND_CMDS :: u16 where "HCI_GRP_HOST_CONT_BASEBAND_CMDS = push_bit 10 0x03"
definition HCI_GRP_BLE_CMDS :: u16 where "HCI_GRP_BLE_CMDS = push_bit 10 0x08"
definition HCI_RESET :: u16 where "HCI_RESET = 0x0003 OR HCI_GRP_HOST_CONT_BASEBAND_CMDS"
definition HCI_BLE_WRITE_ADV_ENABLE :: u16 where "HCI_BLE_WRITE_ADV_ENABLE = 0x000A OR HCI_GRP_BLE_CMDS"
definition HCI_BLE_WRITE_ADV_PARAMS :: u16 where "HCI_BLE_WRITE_ADV_PARAMS = 0x0006 OR HCI_GRP_BLE_CMDS"
definition HCI_BLE_WRITE_ADV_DATA :: u16 where "HCI_BLE_WRITE_ADV_DATA = 0x0008 OR HCI_GRP_BLE_CMDS"
definition HCIC_PARAM_SIZE_WRITE_ADV_ENABLE :: int where "HCIC_PARAM_SIZE_WRITE_ADV_ENABLE = 1"
definition HCIC_PARAM_SIZE_BLE_WRITE_ADV_PARAMS :: int where "HCIC_PARAM_SIZE_BLE_WRITE_ADV_PARAMS = 15"
definition HCIC_PARAM_SIZE_BLE_WRITE_ADV_DATA :: int where "HCIC_PARAM_SIZE_BLE_WRITE_ADV_DATA = 31"

lemmas hci_const_defs = H4_TYPE_COMMAND_def HCI_H4_CMD_PREAMBLE_SIZE_def
  HCI_GRP_HOST_CONT_BASEBAND_CMDS_def HCI_GRP_BLE_CMDS_def HCI_RESET_def HCI_BLE_WRITE_ADV_ENABLE_def
  HCI_BLE_WRITE_ADV_PARAMS_def HCI_BLE_WRITE_ADV_DATA_def HCIC_PARAM_SIZE_WRITE_ADV_ENABLE_def
  HCIC_PARAM_SIZE_BLE_WRITE_ADV_PARAMS_def HCIC_PARAM_SIZE_BLE_WRITE_ADV_DATA_def

text \<open>Each of these returns the size of the packet and the buffer.\<close>

definition make_cmd_reset :: "u8 list \<Rightarrow> fault + int \<times> u8 list" where
  "make_cmd_reset buf =
    bindE (stream [UINT8_TO_STREAM H4_TYPE_COMMAND, UINT16_TO_STREAM HCI_RESET, UINT8_TO_STREAM 0] (buf, 0))
      (\<lambda>c. Inr (HCI_H4_CMD_PREAMBLE_SIZE, fst c))"

definition make_cmd_ble_set_adv_enable :: "u8 list \<Rightarrow> u8 \<Rightarrow> fault + int \<times> u8 list" where
  "make_cmd_ble_set_adv_enable buf adv_enable =
    bindE (stream [UINT8_TO_STREAM H4_TYPE_COMMAND, UINT16_TO_STREAM HCI_BLE_WRITE_ADV_ENABLE,
        UINT8_TO_STREAM (b_of HCIC_PARAM_SIZE_WRITE_ADV_ENABLE), UINT8_TO_STREAM adv_enable] (buf, 0))
      (\<lambda>c. Inr (HCI_H4_CMD_PREAMBLE_SIZE + HCIC_PARAM_SIZE_WRITE_ADV_ENABLE, fst c))"

definition make_cmd_ble_set_adv_param ::
    "u8 list \<Rightarrow> u16 \<Rightarrow> u16 \<Rightarrow> u8 \<Rightarrow> u8 \<Rightarrow> u8 \<Rightarrow> u8 list \<Rightarrow> u8 \<Rightarrow> u8 \<Rightarrow> fault + int \<times> u8 list" where
  "make_cmd_ble_set_adv_param buf adv_int_min adv_int_max adv_type addr_type_own addr_type_dir
      direct_bda channel_map adv_filter_policy =
    bindE (stream [UINT8_TO_STREAM H4_TYPE_COMMAND, UINT16_TO_STREAM HCI_BLE_WRITE_ADV_PARAMS,
        UINT8_TO_STREAM (b_of HCIC_PARAM_SIZE_BLE_WRITE_ADV_PARAMS),
        UINT16_TO_STREAM adv_int_min, UINT16_TO_STREAM adv_int_max, UINT8_TO_STREAM adv_type,
        UINT8_TO_STREAM addr_type_own, UINT8_TO_STREAM addr_type_dir, BDADDR_TO_STREAM direct_bda,
        UINT8_TO_STREAM channel_map, UINT8_TO_STREAM adv_filter_policy] (buf, 0))
      (\<lambda>c. Inr (HCI_H4_CMD_PREAMBLE_SIZE + HCIC_PARAM_SIZE_BLE_WRITE_ADV_PARAMS, fst c))"

text \<open>\<open>p_data\<close> is \<open>None\<close> for the null pointer.\<close>

definition make_cmd_ble_set_adv_data :: "u8 list \<Rightarrow> u8 \<Rightarrow> u8 list option \<Rightarrow> fault + int \<times> u8 list" where
  "make_cmd_ble_set_adv_data buf data_len p_data =
    bindE (stream [UINT8_TO_STREAM H4_TYPE_COMMAND, UINT16_TO_STREAM HCI_BLE_WRITE_ADV_DATA,
        UINT8_TO_STREAM (b_of (HCIC_PARAM_SIZE_BLE_WRITE_ADV_DATA + 1))] (buf, 0)) (\<lambda>c.
    bindE (wrn (fst c) (snd c) (replicate (nat HCIC_PARAM_SIZE_BLE_WRITE_ADV_DATA) 0)) (\<lambda>b.
    bindE (case p_data of
         None \<Rightarrow> Inr (b, snd c)
       | Some d \<Rightarrow>
           if data_len > 0 then
             let data_len = (if i_of data_len > HCIC_PARAM_SIZE_BLE_WRITE_ADV_DATA
                             then b_of HCIC_PARAM_SIZE_BLE_WRITE_ADV_DATA else data_len) in
             stream [UINT8_TO_STREAM data_len, ARRAY_TO_STREAM d (i_of data_len)] (b, snd c)
           else Inr (b, snd c)) (\<lambda>c.
    Inr (HCI_H4_CMD_PREAMBLE_SIZE + HCIC_PARAM_SIZE_BLE_WRITE_ADV_DATA + 1, fst c))))"

section \<open>Sending\<close>

definition upd_hci :: "(hci_vars \<Rightarrow> hci_vars) \<Rightarrow> dev \<Rightarrow> dev" where
  "upd_hci f s = s\<lparr>hci := f (hci s)\<rparr>"

text \<open>The command in the buffer is handed to the controller.\<close>

definition hci_send :: "(u8 list \<Rightarrow> fault + int \<times> u8 list) \<Rightarrow> dev \<Rightarrow> fault + dev" where
  "hci_send mk s =
    bindE (mk (hci_cmd_buf (hci s))) (\<lambda>(sz, buf).
    let s = upd_hci (\<lambda>v. v\<lparr>hci_cmd_buf := buf\<rparr>) s in
    bindE (rdn buf 0 sz) (\<lambda>v. Inr (emit (VhciSend v) s)))"

definition hci_cmd_send_reset :: "dev \<Rightarrow> fault + dev" where
  "hci_cmd_send_reset = hci_send make_cmd_reset"

definition hci_cmd_send_ble_adv_start :: "dev \<Rightarrow> fault + dev" where
  "hci_cmd_send_ble_adv_start = hci_send (\<lambda>buf. make_cmd_ble_set_adv_enable buf 1)"

definition hci_cmd_send_ble_set_adv_param :: "dev \<Rightarrow> fault + dev" where
  "hci_cmd_send_ble_set_adv_param = hci_send (\<lambda>buf. make_cmd_ble_set_adv_param buf 256 256 0 0 0
     [0x80, 0x81, 0x82, 0x83, 0x84, 0x85] 0x07 0)"

text \<open>\<open>ESP-BLE-HELLO\<close>, copied byte by byte behind the first five bytes of the data.\<close>

definition adv_name :: "u8 list" where
  "adv_name = [0x45, 0x53, 0x50, 0x2D, 0x42, 0x4C, 0x45, 0x2D, 0x48, 0x45, 0x4C, 0x4C, 0x4F]"

definition hci_cmd_send_ble_set_adv_data :: "dev \<Rightarrow> fault + dev" where
  "hci_cmd_send_ble_set_adv_data s =
    (let name_len = int (length adv_name) in
     bindE (wr ([0x02, 0x01, 0x06, 0x0, 0x09] @ replicate 26 0) 3 (b_of (name_len + 1))) (\<lambda>adv_data.
     bindE (wrn adv_data 5 adv_name) (\<lambda>adv_data.
     hci_send (\<lambda>buf. make_cmd_ble_set_adv_data buf (b_of (5 + name_len)) (Some adv_data)) s)))"

section \<open>The controller's callbacks and the task\<close>

definition controller_rcv_pkt_ready :: "dev \<Rightarrow> dev" where
  "controller_rcv_pkt_ready s = printf (''controller rcv pkt ready'' @ [char_of (10::nat)]) s"

definition host_rcv_pkt :: "u8 list \<Rightarrow> int \<Rightarrow> dev \<Rightarrow> fault + int \<times> dev" where
  "host_rcv_pkt data len s =
    bindE (rdn data 0 len) (\<lambda>bs.
    Inr (0, printf [char_of (10::nat)] (fold (\<lambda>b. printf (hex2 b)) bs (printf ''host rcv pkt: '' s))))"

text \<open>
  The \<open>i\<close>-th instance of \<open>bleAdvtTask\<close> runs until it waits: the head of the loop ends the task
  or starts the wait of three seconds, a tick being 10 ms.
\<close>

definition adv_loop_head :: "nat \<Rightarrow> dev \<Rightarrow> dev" where
  "adv_loop_head i s =
    (if hciRun (hci s) then emit (TaskDelay (3000 div 10)) s
     else emit (Api ''vTaskDelete'' [])
       (upd_hci (\<lambda>v. v\<lparr>adv_tasks := take i (adv_tasks v) @ drop (Suc i) (adv_tasks v)\<rparr>) s))"

definition adv_command :: "int \<Rightarrow> dev \<Rightarrow> fault + int \<times> dev" where
  "adv_command cmd_cnt s =
    (if cmd_cnt = 0 then bindE (hci_cmd_send_reset s) (\<lambda>s. Inr (cmd_cnt + 1, s))
     else if cmd_cnt = 1 then bindE (hci_cmd_send_ble_set_adv_param s) (\<lambda>s. Inr (cmd_cnt + 1, s))
     else if cmd_cnt = 2 then bindE (hci_cmd_send_ble_set_adv_data s) (\<lambda>s. Inr (cmd_cnt + 1, s))
     else if cmd_cnt = 3 then bindE (hci_cmd_send_ble_adv_start s) (\<lambda>s. Inr (cmd_cnt + 1, s))
     else Inr (cmd_cnt, s))"

text \<open>A turn from one wait to the next; the first one registers the callback and enters the loop.\<close>

definition bleAdvtTask :: "env \<Rightarrow> nat \<Rightarrow> dev \<Rightarrow> fault + dev" where
  "bleAdvtTask E i s =
    (case adv_tasks (hci s) ! i of
       None \<Rightarrow>
         Inr (adv_loop_head i (upd_hci (\<lambda>v. v\<lparr>adv_tasks := (adv_tasks v)[i := Some 0]\<rparr>)
           (printf (''BLE advt task start'' @ [char_of (10::nat)])
             (emit (ApiS ''esp_vhci_host_register_callback'' [''vhci_host_cb'']) s))))
     | Some cmd_cnt \<Rightarrow>
         let c = Api ''esp_vhci_host_check_send_available'' [];
             send_avail = (ret E c s \<noteq> 0);
             s = emit c s in
         bindE (if send_avail then adv_command cmd_cnt s else Inr (cmd_cnt, s)) (\<lambda>(cmd_cnt, s).
         Inr (adv_loop_head i (upd_hci (\<lambda>v. v\<lparr>adv_tasks := (adv_tasks v)[i := Some cmd_cnt]\<rparr>) s))))"

section \<open>Start and console\<close>

text \<open>The modes are \<open>ESP_BT_MODE_BLE = 1\<close> and \<open>ESP_BT_MODE_CLASSIC_BT = 2\<close>; \<open>pdPASS\<close> is 1.\<close>

definition start_hci_run :: "env \<Rightarrow> dev \<Rightarrow> dev" where
  "start_hci_run E s =
    (let c = Api ''esp_bt_controller_enable'' [1]; err = ret E c s; s = emit c s in
     if err \<noteq> ESP_OK then s
     else
     let s = upd_hci (\<lambda>v. v\<lparr>hciRun := True\<rparr>) s;
         c = ApiS ''xTaskCreatePinnedToCore'' [''bleAdvtTask''];
         r = ret E c s;
         s = emit c s in
     if r = 1 then upd_hci (\<lambda>v. v\<lparr>adv_tasks := adv_tasks v @ [None]\<rparr>) s else s)"

definition start_hci :: "env \<Rightarrow> dev \<Rightarrow> dev" where
  "start_hci E s =
    (if \<not> hciInit (hci s) then
       let c = Api ''esp_bt_controller_mem_release'' [2]; err = ret E c s; s = emit c s in
       if err \<noteq> 0 then s
       else
       let c = Api ''esp_bt_controller_init'' []; err = ret E c s; s = emit c s in
       if err \<noteq> ESP_OK then s
       else start_hci_run E (upd_hci (\<lambda>v. v\<lparr>hciInit := True\<rparr>) s)
     else start_hci_run E s)"

text \<open>The parsed arguments: the number of errors, and whether \<open>start\<close> and \<open>stop\<close> occur.\<close>

record hci_args =
  hci_nerrors :: int
  hci_start :: bool
  hci_stop :: bool

definition hci_ble_cmd :: "env \<Rightarrow> hci_args \<Rightarrow> dev \<Rightarrow> int \<times> dev" where
  "hci_ble_cmd E a s =
    (if hci_nerrors a \<noteq> 0 then (1, s)
     else if hci_start a then (0, start_hci E s)
     else if hci_stop a then
       (0, upd_hci (\<lambda>v. v\<lparr>hciRun := False\<rparr>) (emit (Api ''esp_bt_controller_disable'' []) s))
     else (0, s))"

definition register_hci_ble :: "env \<Rightarrow> dev \<Rightarrow> fault + dev" where
  "register_hci_ble E s =
    bindE (check E (ApiS ''esp_console_cmd_register'' [''hci'']) s) (\<lambda>s.
    let (err, mode, s) = nvs_get_i32 E ''hci'' 0 s in
    Inr (if err = ESP_OK then if mode = 1 then start_hci E s else s else s))"

end
