(* ===== verification/HciProps.thy ===== *)
theory HciProps
  imports Hci
begin

text \<open>
  What the raw advertising code promises: the commands are well-formed packets that carry their
  parameters, and a task sends the four of them once, in order.
\<close>

section \<open>Packets\<close>

text \<open>A packet as the controller reads it: the type, the opcode, and as many parameters as it says.\<close>

definition hci_parse :: "u8 list \<Rightarrow> (u16 \<times> u8 list) option" where
  "hci_parse p =
    (case p of
       t # a # b # n # ps \<Rightarrow>
         if t = 1 \<and> length ps = unat n then Some (ucast a + push_bit 8 (ucast b), ps) else None
     | _ \<Rightarrow> None)"

definition le16 :: "u16 \<Rightarrow> u8 list" where
  "le16 v = [ucast v, ucast (drop_bit 8 v)]"

text \<open>Every writer puts bytes down one after the other.\<close>

lemma bytes_to_stream_append:
  "bytes_to_stream (xs @ ys) c = bindE (bytes_to_stream xs c) (bytes_to_stream ys)"
  by (induction xs arbitrary: c) (simp_all add: bindE_def split: sum.splits)

lemma bytes_to_stream_eq:
  "length bs \<le> length R \<Longrightarrow>
   bytes_to_stream bs (P @ R, int (length P)) = Inr (P @ bs @ drop (length bs) R, int (length P + length bs))"
proof (induction bs arbitrary: P R)
  case (Cons b bs)
  then have "UINT8_TO_STREAM b (P @ R, int (length P)) = Inr ((P @ [b]) @ drop 1 R, int (length (P @ [b])))"
    by (cases R) (simp_all add: UINT8_TO_STREAM_def wr_def)
  moreover have "length bs \<le> length (drop 1 R)" using Cons.prems by simp
  ultimately show ?case
    using Cons.IH [of "drop 1 R" "P @ [b]"] by (simp add: drop_Suc drop_tl)
qed simp

lemma writers:
  "UINT8_TO_STREAM v = bytes_to_stream [v]"
  "UINT16_TO_STREAM w = bytes_to_stream (le16 w)"
  "length a = 6 \<Longrightarrow> BDADDR_TO_STREAM a = bytes_to_stream (rev a)"
  "n \<le> length d \<Longrightarrow> ARRAY_TO_STREAM d (int n) = bytes_to_stream (take n d)"
proof -
  show u: "UINT8_TO_STREAM v = bytes_to_stream [v]" for v
    by (rule ext) (simp add: bindE_def split: sum.split)
  show "UINT16_TO_STREAM w = bytes_to_stream (le16 w)"
    by (intro ext) (simp add: UINT16_TO_STREAM_def le16_def bindE_def split: sum.split)
  show "length a = 6 \<Longrightarrow> BDADDR_TO_STREAM a = bytes_to_stream (rev a)"
    by (intro ext) (simp add: BDADDR_TO_STREAM_def rdn_def)
  show "n \<le> length d \<Longrightarrow> ARRAY_TO_STREAM d (int n) = bytes_to_stream (take n d)"
    by (intro ext) (simp add: ARRAY_TO_STREAM_def rdn_def)
qed

lemma stream_bytes: "stream (map bytes_to_stream bss) c = bytes_to_stream (concat bss) c"
  by (induction bss arbitrary: c) (simp_all add: bytes_to_stream_append bindE_def split: sum.split)

lemma stream_eq:
  assumes "ws = map bytes_to_stream bss" "length (concat bss) \<le> length buf"
  shows "stream ws (buf, 0) = Inr (concat bss @ drop (length (concat bss)) buf, int (length (concat bss)))"
  using bytes_to_stream_eq [of "concat bss" buf "[]"] assms by (simp add: stream_bytes)

lemmas opcode_defs = HCI_GRP_HOST_CONT_BASEBAND_CMDS_def HCI_GRP_BLE_CMDS_def HCI_RESET_def
  HCI_BLE_WRITE_ADV_ENABLE_def HCI_BLE_WRITE_ADV_PARAMS_def HCI_BLE_WRITE_ADV_DATA_def

lemma opcodes: "le16 HCI_RESET = [0x03, 0x0c]" "le16 HCI_BLE_WRITE_ADV_ENABLE = [0x0a, 0x20]"
  "le16 HCI_BLE_WRITE_ADV_PARAMS = [0x06, 0x20]" "le16 HCI_BLE_WRITE_ADV_DATA = [0x08, 0x20]"
  by (simp_all add: le16_def opcode_defs)

lemma make_cmd_reset_eq:
  "4 \<le> length buf \<Longrightarrow> make_cmd_reset buf = Inr (4, [1, 0x03, 0x0c, 0] @ drop 4 buf)"
  unfolding make_cmd_reset_def
  by (subst stream_eq [where bss = "[[1], le16 HCI_RESET, [0]]"])
    (simp_all add: writers opcodes hci_const_defs(1,2) eval_nat_numeral)

lemma make_cmd_ble_set_adv_enable_eq:
  "5 \<le> length buf \<Longrightarrow> make_cmd_ble_set_adv_enable buf e = Inr (5, [1, 0x0a, 0x20, 1, e] @ drop 5 buf)"
  unfolding make_cmd_ble_set_adv_enable_def
  by (subst stream_eq [where bss = "[[1], le16 HCI_BLE_WRITE_ADV_ENABLE, [1], [e]]"])
    (simp_all add: writers opcodes hci_const_defs(1,2,9) eval_nat_numeral)

definition adv_params :: "u16 \<Rightarrow> u16 \<Rightarrow> u8 \<Rightarrow> u8 \<Rightarrow> u8 \<Rightarrow> u8 list \<Rightarrow> u8 \<Rightarrow> u8 \<Rightarrow> u8 list" where
  "adv_params mi ma t own dir bda chan filt =
     le16 mi @ le16 ma @ [t, own, dir] @ rev bda @ [chan, filt]"

lemma length_adv_params: "length bda = 6 \<Longrightarrow> length (adv_params mi ma t own dir bda chan filt) = 15"
  by (simp add: adv_params_def le16_def)

lemma make_cmd_ble_set_adv_param_eq:
  assumes "19 \<le> length buf" "length bda = 6"
  shows "make_cmd_ble_set_adv_param buf mi ma t own dir bda chan filt =
    Inr (19, ([1, 0x06, 0x20, 15] @ adv_params mi ma t own dir bda chan filt) @ drop 19 buf)"
proof -
  let ?bss = "[[1], le16 HCI_BLE_WRITE_ADV_PARAMS, [15], le16 mi, le16 ma, [t], [own], [dir], rev bda, [chan], [filt]]"
  have c: "concat ?bss = [1, 0x06, 0x20, 15] @ adv_params mi ma t own dir bda chan filt"
    by (simp add: adv_params_def opcodes)
  have l: "length ([1, 0x06, 0x20, 15] @ adv_params mi ma t own dir bda chan filt) = 19"
    using length_adv_params [OF assms(2)] by simp
  have w: "[UINT8_TO_STREAM H4_TYPE_COMMAND, UINT16_TO_STREAM HCI_BLE_WRITE_ADV_PARAMS,
        UINT8_TO_STREAM (b_of HCIC_PARAM_SIZE_BLE_WRITE_ADV_PARAMS),
        UINT16_TO_STREAM mi, UINT16_TO_STREAM ma, UINT8_TO_STREAM t,
        UINT8_TO_STREAM own, UINT8_TO_STREAM dir, BDADDR_TO_STREAM bda,
        UINT8_TO_STREAM chan, UINT8_TO_STREAM filt] = map bytes_to_stream ?bss"
    by (simp add: writers assms(2) hci_const_defs(1,10))
  show ?thesis
    unfolding make_cmd_ble_set_adv_param_def stream_eq [OF w, of buf, unfolded c l, OF assms(1)] bindE_Inr
    by (simp add: hci_const_defs(2,10))
qed

text \<open>
  The data command: the block of 32 bytes is cleared but for its last byte, then the length and
  up to 31 bytes of data are put at its front.
\<close>

lemma make_cmd_ble_set_adv_data_eq:
  assumes "36 \<le> length buf" "n = min 31 (unat len)" "len \<noteq> 0" "n \<le> length d"
  shows "make_cmd_ble_set_adv_data buf len (Some d) =
    Inr (36, ([1, 0x08, 0x20, 32, of_nat n] @ take n d @ replicate (30 - n) 0) @ drop (5 + n + (30 - n)) buf)"
proof -
  let ?h = "[1, 0x08, 0x20, 32] :: u8 list"
  have ws: "[UINT8_TO_STREAM H4_TYPE_COMMAND, UINT16_TO_STREAM HCI_BLE_WRITE_ADV_DATA,
      UINT8_TO_STREAM (b_of (HCIC_PARAM_SIZE_BLE_WRITE_ADV_DATA + 1))] =
      map bytes_to_stream [[1], le16 HCI_BLE_WRITE_ADV_DATA, [32]]"
    by (simp add: writers hci_const_defs(1,11))
  have c: "concat [[1], le16 HCI_BLE_WRITE_ADV_DATA, [32]] = ?h" "length ?h = 4" by (simp_all add: opcodes)
  have l4: "4 \<le> length buf" using assms(1) by simp
  note h = stream_eq [OF ws, of buf, unfolded c, OF l4]
  have z: "wrn (?h @ drop 4 buf) 4 (replicate 31 0) = Inr (?h @ replicate 31 0 @ drop 35 buf)"
    using wrn_append [of ?h 4 "replicate 31 0" "drop 4 buf"] assms(1) by simp
  have big: "i_of len > 31 \<longleftrightarrow> 31 < unat len" using uint_nat [of len] by linarith
  have "(if i_of len > 31 then b_of 31 else len) = of_nat n"
    unfolding big using assms(2) by (cases "31 < unat len") simp_all
  then have len: "(if i_of len > HCIC_PARAM_SIZE_BLE_WRITE_ADV_DATA
       then b_of HCIC_PARAM_SIZE_BLE_WRITE_ADV_DATA else len) = of_nat n" "0 < len"
    unfolding hci_const_defs(11) using assms(3) by (simp_all add: word_gt_0)
  have n: "n \<le> 31" "i_of (of_nat n) = int n" using assms(2) by (simp_all add: of_nat_byte)
  have ws2: "[UINT8_TO_STREAM (of_nat n), ARRAY_TO_STREAM d (int n)] = map bytes_to_stream [[of_nat n], take n d]"
    by (simp add: writers assms(4))
  have w: "stream [UINT8_TO_STREAM (of_nat n), ARRAY_TO_STREAM d (int n)] (?h @ R, 4) =
      Inr (?h @ (of_nat n # take n d) @ drop (Suc n) R, 4 + int (Suc n))" if "Suc n \<le> length R" for R
    using bytes_to_stream_eq [of "of_nat n # take n d" R ?h] that assms(4)
    unfolding ws2 stream_bytes by (simp del: bytes_to_stream.simps)
  have d: "drop (Suc n) (replicate 31 0 @ drop 35 buf) = replicate (30 - n) 0 @ drop (5 + n + (30 - n)) buf"
    using n(1) by (cases "n = 31") simp_all
  have r: "Suc n \<le> length (replicate 31 0 @ drop 35 buf)" using n(1) assms(1) by simp
  show ?thesis
    unfolding make_cmd_ble_set_adv_data_def h bindE_Inr fst_conv snd_conv
    using z len n w [OF r] d
    by (simp add: hci_const_defs(2,11) Let_def del: stream.simps)
qed

text \<open>
  C26: Each command is a packet the controller can read, with the opcode of the specification and its
  parameters in the order and byte order it asks for; the data command carries up to 31 bytes of
  data, cleared behind them except for the last byte, which an earlier command may have left.
\<close>

theorem hci_commands_parse:
  assumes "36 \<le> length buf" "length bda = 6" "d \<noteq> []" "length d < 256"
  shows "\<exists>b1 b2 b3 b4 n. make_cmd_reset buf = Inr (4, b1) \<and> hci_parse (take 4 b1) = Some (0x0c03, []) \<and>
    make_cmd_ble_set_adv_enable buf e = Inr (5, b2) \<and> hci_parse (take 5 b2) = Some (0x200a, [e]) \<and>
    make_cmd_ble_set_adv_param buf mi ma t own dir bda chan filt = Inr (19, b3) \<and>
    hci_parse (take 19 b3) =
      Some (0x2006, le16 mi @ le16 ma @ [t, own, dir] @ rev bda @ [chan, filt]) \<and>
    make_cmd_ble_set_adv_data buf (of_nat (length d)) (Some d) = Inr (36, b4) \<and> n = min 31 (length d) \<and>
    hci_parse (take 36 b4) = Some (0x2008, of_nat n # take n d @ replicate (30 - n) 0 @
      (if n = 31 then [] else [buf ! 35]))"
proof -
  define n where "n = min 31 (length d)"
  have n: "n \<le> 31" "n \<le> length d" by (simp_all add: n_def)
  have len: "unat (of_nat (length d) :: u8) = length d" "of_nat (length d) \<noteq> (0 :: u8)"
    using assms(3,4) by (simp_all add: of_nat_byte, auto simp: word_unat_eq_iff of_nat_byte)
  have b4: "make_cmd_ble_set_adv_data buf (of_nat (length d)) (Some d) =
    Inr (36, ([1, 0x08, 0x20, 32, of_nat n] @ take n d @ replicate (30 - n) 0) @ drop (5 + n + (30 - n)) buf)"
    by (rule make_cmd_ble_set_adv_data_eq) (use assms(1) n len in \<open>simp_all add: n_def\<close>)
  have t4: "take 36 (([1, 0x08, 0x20, 32, of_nat n] @ take n d @ replicate (30 - n) 0) @ drop (5 + n + (30 - n)) buf) =
      [1, 0x08, 0x20, 32] @ (of_nat n # take n d @ replicate (30 - n) 0 @ (if n = 31 then [] else [buf ! 35]))"
  proof (cases "n = 31")
    case False
    then have "take 1 (drop 35 buf) = [buf ! 35]" using assms(1) by (simp add: take_Suc_conv_app_nth hd_drop_conv_nth take_Suc)
    then show ?thesis using False n by simp
  qed (use n in simp)
  have p4: "hci_parse ([1, 0x08, 0x20, 32] @ (of_nat n # take n d @ replicate (30 - n) 0 @ (if n = 31 then [] else [buf ! 35]))) =
      Some (0x2008, of_nat n # take n d @ replicate (30 - n) 0 @ (if n = 31 then [] else [buf ! 35]))"
    using n by (auto simp: hci_parse_def)
  have p3: "hci_parse ([1, 0x06, 0x20, 15] @ adv_params mi ma t own dir bda chan filt) =
      Some (0x2006, adv_params mi ma t own dir bda chan filt)"
    using length_adv_params [OF assms(2)] by (simp add: hci_parse_def)
  have t3: "take 19 (([1, 0x06, 0x20, 15] @ adv_params mi ma t own dir bda chan filt) @ drop 19 buf) =
      [1, 0x06, 0x20, 15] @ adv_params mi ma t own dir bda chan filt"
    using length_adv_params [OF assms(2)] by simp
  have l: "4 \<le> length buf" "5 \<le> length buf" "19 \<le> length buf" using assms(1) by simp_all
  have q1: "hci_parse (take 4 ([1, 0x03, 0x0c, 0] @ drop 4 buf)) = Some (0x0c03, [])"
    and q2: "hci_parse (take 5 ([1, 0x0a, 0x20, 1, e] @ drop 5 buf)) = Some (0x200a, [e])"
    by (simp_all add: hci_parse_def)
  have q3: "hci_parse (take 19 (([1, 0x06, 0x20, 15] @ adv_params mi ma t own dir bda chan filt) @ drop 19 buf)) =
      Some (0x2006, adv_params mi ma t own dir bda chan filt)" unfolding t3 by (rule p3)
  have q4: "hci_parse (take 36 (([1, 0x08, 0x20, 32, of_nat n] @ take n d @ replicate (30 - n) 0) @
      drop (5 + n + (30 - n)) buf)) = Some (0x2008, of_nat n # take n d @ replicate (30 - n) 0 @
        (if n = 31 then [] else [buf ! 35]))" unfolding t4 by (rule p4)
  show ?thesis
    unfolding make_cmd_reset_eq [OF l(1)] make_cmd_ble_set_adv_enable_eq [OF l(2)]
      make_cmd_ble_set_adv_param_eq [OF l(3) assms(2)] b4 adv_params_def
    by (intro exI conjI, rule refl, rule q1, rule refl, rule q2, rule refl, rule q3 [unfolded adv_params_def], rule refl, rule n_def, rule q4)
qed

theorem hci_commands_parse_witness:
  "\<exists>b. make_cmd_ble_set_adv_data (replicate 36 9) 1 (Some [7]) = Inr (36, b) \<and>
    hci_parse (take 36 b) = Some (0x2008, [1, 7] @ replicate 29 0 @ [9])"
  using hci_commands_parse [of "replicate 36 9" "replicate 6 1" "[7]" 0 0 0 0 0 0 0 0] by auto

section \<open>The advertising task\<close>

text \<open>The packets handed to the controller, among calls.\<close>

fun vhci_sent :: "call list \<Rightarrow> u8 list list" where
  "vhci_sent [] = []"
| "vhci_sent (VhciSend p # cs) = p # vhci_sent cs"
| "vhci_sent (c # cs) = vhci_sent cs"

lemma vhci_sent_append [simp]: "vhci_sent (xs @ ys) = vhci_sent xs @ vhci_sent ys"
  by (induction xs rule: vhci_sent.induct) auto

definition adv_cmds :: "u8 list list" where
  "adv_cmds =
    [[1, 0x03, 0x0c, 0],
     [1, 0x06, 0x20, 15] @ adv_params 256 256 0 0 0 [0x80, 0x81, 0x82, 0x83, 0x84, 0x85] 7 0,
     [1, 0x08, 0x20, 32, 18] @ [0x02, 0x01, 0x06, 14, 0x09] @ adv_name @ replicate 13 0,
     [1, 0x0a, 0x20, 1, 1]]"

lemma upd_hci_simps [simp]: "hci (upd_hci f s) = f (hci s)" "hist (upd_hci f s) = hist s"
  by (simp_all add: upd_hci_def)

text \<open>A device whose advertising task has entered its loop, and environments, for examples.\<close>

definition adv0 :: dev where
  "adv0 = upd_hci (\<lambda>v. v\<lparr>hciInit := True, hciRun := True, adv_tasks := [Some 0]\<rparr>) boot"

definition ready_env :: env where
  "ready_env = quiet\<lparr>rc := \<lambda>h c. 1\<rparr>"

definition ready0_env :: env where
  "ready0_env = quiet\<lparr>rc := \<lambda>h c. if c = ApiS ''xTaskCreatePinnedToCore'' [''bleAdvtTask''] then 1 else 0\<rparr>"

definition hci_ok :: "dev \<Rightarrow> bool" where
  "hci_ok s \<longleftrightarrow> length (hci_cmd_buf (hci s)) = 128 \<and> hci_cmd_buf (hci s) ! 35 = 0"

lemma hci_send_eq:
  assumes "mk (hci_cmd_buf (hci s)) = Inr (int (length p), p @ r)" "length (p @ r) = 128" "(p @ r) ! 35 = 0"
  shows "\<exists>b. hci_send mk s = Inr (emit (VhciSend p) (upd_hci (\<lambda>v. v\<lparr>hci_cmd_buf := b\<rparr>) s)) \<and>
    length b = 128 \<and> b ! 35 = 0"
  using assms by (intro exI [of _ "p @ r"]) (simp add: hci_send_def Let_def rdn_prefix)

lemma adv_command_sends:
  assumes "hci_ok s" "k < 4"
  shows "\<exists>b. adv_command (int k) s =
      Inr (int k + 1, emit (VhciSend (adv_cmds ! k)) (upd_hci (\<lambda>v. v\<lparr>hci_cmd_buf := b\<rparr>) s)) \<and>
    length b = 128 \<and> b ! 35 = 0"
proof -
  let ?buf = "hci_cmd_buf (hci s)"
  have b: "length ?buf = 128" "?buf ! 35 = 0" using assms(1) by (simp_all add: hci_ok_def)
  consider "k = 0" | "k = 1" | "k = 2" | "k = 3" using assms(2) by linarith
  then show ?thesis
  proof cases
    case 1
    have "make_cmd_reset ?buf = Inr (int (length (adv_cmds ! 0)), adv_cmds ! 0 @ drop 4 ?buf)"
      using make_cmd_reset_eq [of ?buf] b by (simp add: adv_cmds_def)
    from hci_send_eq [of make_cmd_reset, OF this] obtain b where
      "hci_send make_cmd_reset s = Inr (emit (VhciSend (adv_cmds ! 0)) (upd_hci (\<lambda>v. v\<lparr>hci_cmd_buf := b\<rparr>) s))"
      "length b = 128" "b ! 35 = 0"
      using b by (auto simp: adv_cmds_def nth_append)
    then show ?thesis using 1 by (auto simp: adv_command_def hci_cmd_send_reset_def)
  next
    case 2
    let ?p = "adv_cmds ! 1"
    let ?mk = "\<lambda>buf. make_cmd_ble_set_adv_param buf 256 256 0 0 0 [0x80, 0x81, 0x82, 0x83, 0x84, 0x85] 7 0"
    have l: "length ?p = 19" by (simp add: adv_cmds_def length_adv_params)
    have "?mk ?buf = Inr (int (length ?p), ?p @ drop 19 ?buf)"
      unfolding l using b by (subst make_cmd_ble_set_adv_param_eq) (simp_all add: adv_cmds_def)
    from hci_send_eq [of ?mk, OF this] obtain b where
      "hci_send ?mk s = Inr (emit (VhciSend ?p) (upd_hci (\<lambda>v. v\<lparr>hci_cmd_buf := b\<rparr>) s))"
      "length b = 128" "b ! 35 = 0"
      using b l by (auto simp: nth_append)
    then show ?thesis using 2 by (auto simp: adv_command_def hci_cmd_send_ble_set_adv_param_def)
  next
    case 3
    let ?d = "[0x02, 0x01, 0x06, 14, 0x09] @ adv_name @ replicate 13 0 :: u8 list"
    let ?mk = "\<lambda>buf. make_cmd_ble_set_adv_data buf 18 (Some ?d)"
    let ?p = "adv_cmds ! 2"
    have l: "length ?p = 36" by (simp add: adv_cmds_def adv_name_def)
    have d: "drop 35 ?buf = 0 # drop 36 ?buf" using b Cons_nth_drop_Suc [of 35 ?buf] by simp
    have "?mk ?buf = Inr (36, ([1, 0x08, 0x20, 32, of_nat 18] @ take 18 ?d @ replicate (30 - 18) 0) @
        drop (5 + 18 + (30 - 18)) ?buf)"
      using b by (intro make_cmd_ble_set_adv_data_eq) (simp_all add: adv_name_def)
    also have "\<dots> = Inr (int (length ?p), ?p @ drop 36 ?buf)"
      unfolding l by (simp add: adv_cmds_def adv_name_def d) (simp add: eval_nat_numeral)
    finally have m: "?mk ?buf = Inr (int (length ?p), ?p @ drop 36 ?buf)" .
    obtain b where
      "hci_send ?mk s = Inr (emit (VhciSend ?p) (upd_hci (\<lambda>v. v\<lparr>hci_cmd_buf := b\<rparr>) s))"
      "length b = 128" "b ! 35 = 0"
      using hci_send_eq [of ?mk, OF m] b l by (auto simp: nth_append adv_cmds_def adv_name_def)
    moreover have "hci_cmd_send_ble_set_adv_data s = hci_send ?mk s"
      by (simp add: hci_cmd_send_ble_set_adv_data_def Let_def adv_name_def wr_def wrn_def eval_nat_numeral)
    ultimately show ?thesis using 3 by (auto simp: adv_command_def)
  next
    case 4
    let ?mk = "\<lambda>buf. make_cmd_ble_set_adv_enable buf 1"
    have "?mk ?buf = Inr (int (length (adv_cmds ! 3)), adv_cmds ! 3 @ drop 5 ?buf)"
      using make_cmd_ble_set_adv_enable_eq [of ?buf 1] b by (simp add: adv_cmds_def)
    from hci_send_eq [of ?mk, OF this] obtain b where
      "hci_send ?mk s = Inr (emit (VhciSend (adv_cmds ! 3)) (upd_hci (\<lambda>v. v\<lparr>hci_cmd_buf := b\<rparr>) s))"
      "length b = 128" "b ! 35 = 0"
      using b by (auto simp: adv_cmds_def nth_append)
    then show ?thesis using 4 by (auto simp: adv_command_def hci_cmd_send_ble_adv_start_def)
  qed
qed

lemma adv_command_done: "4 \<le> k \<Longrightarrow> adv_command (int k) s = Inr (int k, s)"
  by (simp add: adv_command_def)

text \<open>How often, in the calls \<open>cs\<close> made after \<open>h\<close>, the controller was asked, and was ready.\<close>

abbreviation poll :: call where "poll \<equiv> Api ''esp_vhci_host_check_send_available'' []"

fun ready_polls :: "env \<Rightarrow> call list \<Rightarrow> call list \<Rightarrow> nat" where
  "ready_polls E h [] = 0"
| "ready_polls E h (c # cs) = (if c = poll \<and> rc E h c \<noteq> 0 then 1 else 0) + ready_polls E (h @ [c]) cs"

definition polls :: "call list \<Rightarrow> nat" where
  "polls cs = length (filter (\<lambda>c. c = poll) cs)"

lemma ready_polls_append: "ready_polls E h (cs @ ds) = ready_polls E h cs + ready_polls E (h @ cs) ds"
  by (induction cs arbitrary: h) simp_all

text \<open>One turn of a task that has sent \<open>k\<close> commands and keeps running.\<close>

lemma adv_turn:
  fixes E :: env
  assumes "hciRun (hci s)" "hci_ok s" "i < length (adv_tasks (hci s))" "adv_tasks (hci s) ! i = Some (int k)" "k \<le> 4"
  defines "ready \<equiv> ret E poll s \<noteq> 0"
  shows "\<exists>s' cs. bleAdvtTask E i s = Inr s' \<and> hciRun (hci s') \<and> hci_ok s' \<and>
    length (adv_tasks (hci s')) = length (adv_tasks (hci s)) \<and>
    adv_tasks (hci s') ! i = Some (int (if ready \<and> k < 4 then Suc k else k)) \<and>
    hist s' = hist s @ cs \<and> polls cs = 1 \<and> ready_polls E (hist s) cs = (if ready then 1 else 0) \<and>
    vhci_sent cs = (if ready \<and> k < 4 then [adv_cmds ! k] else [])"
proof (cases "ready \<and> k < 4")
  case True
  let ?s = "emit poll s"
  have "hci_ok ?s" using assms(2) by (simp add: hci_ok_def)
  from adv_command_sends [OF this, of k] True obtain b where b: "adv_command (int k) ?s =
      Inr (int k + 1, emit (VhciSend (adv_cmds ! k)) (upd_hci (\<lambda>v. v\<lparr>hci_cmd_buf := b\<rparr>) ?s))"
    "length b = 128" "b ! 35 = 0" by blast
  show ?thesis
    using True assms(1,3,4) b
    by (simp add: bleAdvtTask_def Let_def ready_def adv_loop_head_def hci_ok_def polls_def ret_def)
next
  case False
  then show ?thesis
    using assms(1-5) adv_command_done [of k]
    by (auto simp: bleAdvtTask_def Let_def ready_def adv_loop_head_def hci_ok_def polls_def ret_def)
qed

lemma adv_turns:
  assumes "hciRun (hci s)" "hci_ok s" "i < length (adv_tasks (hci s))" "adv_tasks (hci s) ! i = Some (int k)" "k \<le> 4"
  shows "\<exists>s' cs. run_all (\<lambda>_. bleAdvtTask E i) (replicate n ()) s = Inr s' \<and>
    hist s' = hist s @ cs \<and> polls cs = n \<and>
    vhci_sent cs = take (ready_polls E (hist s) cs) (drop k adv_cmds)"
  using assms
proof (induction n arbitrary: s k)
  case (Suc n)
  let ?r = "ret E poll s \<noteq> 0"
  let ?k = "if ?r \<and> k < 4 then Suc k else k"
  obtain s1 cs where s1: "bleAdvtTask E i s = Inr s1" "hciRun (hci s1)" "hci_ok s1"
    "i < length (adv_tasks (hci s1))" "adv_tasks (hci s1) ! i = Some (int ?k)"
    "hist s1 = hist s @ cs" "polls cs = 1" "ready_polls E (hist s) cs = (if ?r then 1 else 0)"
    "vhci_sent cs = (if ?r \<and> k < 4 then [adv_cmds ! k] else [])"
    using adv_turn [OF Suc.prems, of E] Suc.prems(3) by auto
  have k4: "?k \<le> 4" using Suc.prems(5) by simp
  obtain s' ds where s': "run_all (\<lambda>_. bleAdvtTask E i) (replicate n ()) s1 = Inr s'"
    "hist s' = hist s1 @ ds" "polls ds = n" "vhci_sent ds = take (ready_polls E (hist s1) ds) (drop ?k adv_cmds)"
    using Suc.IH [OF s1(2-5) k4] by blast
  have l: "length adv_cmds = 4" by (simp add: adv_cmds_def)
  have d: "drop k adv_cmds = (if k < 4 then adv_cmds ! k # drop (Suc k) adv_cmds else [])"
    using l by (simp add: Cons_nth_drop_Suc)
  have "vhci_sent (cs @ ds) = take (ready_polls E (hist s) (cs @ ds)) (drop k adv_cmds)"
  proof (cases "?r \<and> k < 4")
    case True
    then show ?thesis using s'(4) s1(6,8,9) by (simp add: ready_polls_append d)
  next
    case False
    then show ?thesis using s'(4) s1(6,8,9) d by (auto simp: ready_polls_append)
  qed
  then show ?case using s1(1,6,7) s'(1-3) by (auto simp: polls_def intro!: exI [of _ "cs @ ds"])
qed (simp add: polls_def)

text \<open>
  C27: In \<open>n\<close> turns a task that has entered its loop asks the controller \<open>n\<close> times whether it is
  ready, and sends as many of the commands reset, parameters, data, enable, in this order, as the
  answer was yes; a no delays the next command and loses none, and after the fourth nothing is sent.
\<close>

theorem adv_task_sends_in_order:
  assumes "hciRun (hci s)" "hci_ok s" "i < length (adv_tasks (hci s))" "adv_tasks (hci s) ! i = Some 0"
  shows "\<exists>s' cs. run_all (\<lambda>_. bleAdvtTask E i) (replicate n ()) s = Inr s' \<and>
    hist s' = hist s @ cs \<and> polls cs = n \<and> vhci_sent cs = take (ready_polls E (hist s) cs) adv_cmds"
  using adv_turns [OF assms(1-3), of 0 E n] assms(4) by auto

theorem adv_task_sends_in_order_witness:
  "\<exists>s'. run_all (\<lambda>_. bleAdvtTask ready_env 0) (replicate 9 ()) adv0 = Inr s' \<and> vhci_sent (hist s') = adv_cmds"
proof -
  have s: "hciRun (hci adv0)" "hci_ok adv0" "0 < length (adv_tasks (hci adv0))" "adv_tasks (hci adv0) ! 0 = Some 0"
    "hist adv0 = []"
    by (simp_all add: adv0_def hci_ok_def upd_hci_def boot_def)
  have "rc ready_env h c \<noteq> 0" for h c by (simp add: ready_env_def)
  then have "ready_polls ready_env h cs = polls cs" for h cs
    by (induction cs arbitrary: h) (simp_all add: polls_def)
  then show ?thesis
    using adv_task_sends_in_order [OF s(1-4), of ready_env 9] s(5) by (auto simp: adv_cmds_def)
qed

text \<open>
  \<open>hci --stop\<close> only clears a flag that the task looks at after its wait: a start before that
  leaves the old task running beside the new one.
\<close>

lemma restart_leaves_two_tasks:
  assumes "hciInit (hci s)" "ret E (Api ''esp_bt_controller_enable'' [1]) (snd (hci_ble_cmd E \<lparr>hci_nerrors = 0, hci_start = False, hci_stop = True\<rparr> s)) = ESP_OK"
    and "\<forall>h. rc E h (ApiS ''xTaskCreatePinnedToCore'' [''bleAdvtTask'']) = 1"
  shows "\<exists>s'. hci_ble_cmd E \<lparr>hci_nerrors = 0, hci_start = True, hci_stop = False\<rparr>
      (snd (hci_ble_cmd E \<lparr>hci_nerrors = 0, hci_start = False, hci_stop = True\<rparr> s)) = (0, s') \<and>
    adv_tasks (hci s') = adv_tasks (hci s) @ [None] \<and> hciRun (hci s')"
  using assms by (simp add: hci_ble_cmd_def start_hci_def start_hci_run_def Let_def ret_def)

end
