(* ===== verification/Font.thy ===== *)
theory Font
  imports Prelude
begin

text \<open>The font of \<open>ssd1306/font8x8_basic.h\<close>: for each of the characters 0 to 127 its eight columns.\<close>

definition font8x8_basic_tr :: "u8 list list" where
  "font8x8_basic_tr =
    [[0x00, 0x00, 0x00, 0x00, 0x00, 0x00, 0x00, 0x00],
     [0x00, 0x00, 0x00, 0x00, 0x00, 0x00, 0x00, 0x00],
     [0x00, 0x00, 0x00, 0x00, 0x00, 0x00, 0x00, 0x00],
     [0x00, 0x00, 0x00, 0x00, 0x00, 0x00, 0x00, 0x00],
     [0x00, 0x00, 0x00, 0x00, 0x00, 0x00, 0x00, 0x00],
     [0x00, 0x00, 0x00, 0x00, 0x00, 0x00, 0x00, 0x00],
     [0x00, 0x00, 0x00, 0x00, 0x00, 0x00, 0x00, 0x00],
     [0x00, 0x00, 0x00, 0x00, 0x00, 0x00, 0x00, 0x00],
     [0x00, 0x00, 0x00, 0x00, 0x00, 0x00, 0x00, 0x00],
     [0x00, 0x00, 0x00, 0x00, 0x00, 0x00, 0x00, 0x00],
     [0x00, 0x00, 0x00, 0x00, 0x00, 0x00, 0x00, 0x00],
     [0x00, 0x00, 0x00, 0x00, 0x00, 0x00, 0x00, 0x00],
     [0x00, 0x00, 0x00, 0x00, 0x00, 0x00, 0x00, 0x00],
     [0x00, 0x00, 0x00, 0x00, 0x00, 0x00, 0x00, 0x00],
     [0x00, 0x00, 0x00, 0x00, 0x00, 0x00, 0x00, 0x00],
     [0x00, 0x00, 0x00, 0x00, 0x00, 0x00, 0x00, 0x00],
     [0x00, 0x00, 0x00, 0x00, 0x00, 0x00, 0x00, 0x00],
     [0x00, 0x00, 0x00, 0x00, 0x00, 0x00, 0x00, 0x00],
     [0x00, 0x00, 0x00, 0x00, 0x00, 0x00, 0x00, 0x00],
     [0x00, 0x00, 0x00, 0x00, 0x00, 0x00, 0x00, 0x00],
     [0x00, 0x00, 0x00, 0x00, 0x00, 0x00, 0x00, 0x00],
     [0x00, 0x00, 0x00, 0x00, 0x00, 0x00, 0x00, 0x00],
     [0x00, 0x00, 0x00, 0x00, 0x00, 0x00, 0x00, 0x00],
     [0x00, 0x00, 0x00, 0x00, 0x00, 0x00, 0x00, 0x00],
     [0x00, 0x00, 0x00, 0x00, 0x00, 0x00, 0x00, 0x00],
     [0x00, 0x00, 0x00, 0x00, 0x00, 0x00, 0x00, 0x00],
     [0x00, 0x00, 0x00, 0x00, 0x00, 0x00, 0x00, 0x00],
     [0x00, 0x00, 0x00, 0x00, 0x00, 0x00, 0x00, 0x00],
     [0x00, 0x00, 0x00, 0x00, 0x00, 0x00, 0x00, 0x00],
     [0x00, 0x00, 0x00, 0x00, 0x00, 0x00, 0x00, 0x00],
     [0x00, 0x00, 0x00, 0x00, 0x00, 0x00, 0x00, 0x00],
     [0x00, 0x00, 0x00, 0x00, 0x00, 0x00, 0x00, 0x00],
     [0x00, 0x00, 0x00, 0x00, 0x00, 0x00, 0x00, 0x00],
     [0x00, 0x00, 0x06, 0x5F, 0x5F, 0x06, 0x00, 0x00],
     [0x00, 0x03, 0x03, 0x00, 0x03, 0x03, 0x00, 0x00],
     [0x14, 0x7F, 0x7F, 0x14, 0x7F, 0x7F, 0x14, 0x00],
     [0x24, 0x2E, 0x6B, 0x6B, 0x3A, 0x12, 0x00, 0x00],
     [0x46, 0x66, 0x30, 0x18, 0x0C, 0x66, 0x62, 0x00],
     [0x30, 0x7A, 0x4F, 0x5D, 0x37, 0x7A, 0x48, 0x00],
     [0x04, 0x07, 0x03, 0x00, 0x00, 0x00, 0x00, 0x00],
     [0x00, 0x1C, 0x3E, 0x63, 0x41, 0x00, 0x00, 0x00],
     [0x00, 0x41, 0x63, 0x3E, 0x1C, 0x00, 0x00, 0x00],
     [0x08, 0x2A, 0x3E, 0x1C, 0x1C, 0x3E, 0x2A, 0x08],
     [0x08, 0x08, 0x3E, 0x3E, 0x08, 0x08, 0x00, 0x00],
     [0x00, 0x80, 0xE0, 0x60, 0x00, 0x00, 0x00, 0x00],
     [0x08, 0x08, 0x08, 0x08, 0x08, 0x08, 0x00, 0x00],
     [0x00, 0x00, 0x60, 0x60, 0x00, 0x00, 0x00, 0x00],
     [0x60, 0x30, 0x18, 0x0C, 0x06, 0x03, 0x01, 0x00],
     [0x3E, 0x7F, 0x71, 0x59, 0x4D, 0x7F, 0x3E, 0x00],
     [0x40, 0x42, 0x7F, 0x7F, 0x40, 0x40, 0x00, 0x00],
     [0x62, 0x73, 0x59, 0x49, 0x6F, 0x66, 0x00, 0x00],
     [0x22, 0x63, 0x49, 0x49, 0x7F, 0x36, 0x00, 0x00],
     [0x18, 0x1C, 0x16, 0x53, 0x7F, 0x7F, 0x50, 0x00],
     [0x27, 0x67, 0x45, 0x45, 0x7D, 0x39, 0x00, 0x00],
     [0x3C, 0x7E, 0x4B, 0x49, 0x79, 0x30, 0x00, 0x00],
     [0x03, 0x03, 0x71, 0x79, 0x0F, 0x07, 0x00, 0x00],
     [0x36, 0x7F, 0x49, 0x49, 0x7F, 0x36, 0x00, 0x00],
     [0x06, 0x4F, 0x49, 0x69, 0x3F, 0x1E, 0x00, 0x00],
     [0x00, 0x00, 0x66, 0x66, 0x00, 0x00, 0x00, 0x00],
     [0x00, 0x80, 0xE6, 0x66, 0x00, 0x00, 0x00, 0x00],
     [0x08, 0x1C, 0x36, 0x63, 0x41, 0x00, 0x00, 0x00],
     [0x24, 0x24, 0x24, 0x24, 0x24, 0x24, 0x00, 0x00],
     [0x00, 0x41, 0x63, 0x36, 0x1C, 0x08, 0x00, 0x00],
     [0x02, 0x03, 0x51, 0x59, 0x0F, 0x06, 0x00, 0x00],
     [0x3E, 0x7F, 0x41, 0x5D, 0x5D, 0x1F, 0x1E, 0x00],
     [0x7C, 0x7E, 0x13, 0x13, 0x7E, 0x7C, 0x00, 0x00],
     [0x41, 0x7F, 0x7F, 0x49, 0x49, 0x7F, 0x36, 0x00],
     [0x1C, 0x3E, 0x63, 0x41, 0x41, 0x63, 0x22, 0x00],
     [0x41, 0x7F, 0x7F, 0x41, 0x63, 0x3E, 0x1C, 0x00],
     [0x41, 0x7F, 0x7F, 0x49, 0x5D, 0x41, 0x63, 0x00],
     [0x41, 0x7F, 0x7F, 0x49, 0x1D, 0x01, 0x03, 0x00],
     [0x1C, 0x3E, 0x63, 0x41, 0x51, 0x73, 0x72, 0x00],
     [0x7F, 0x7F, 0x08, 0x08, 0x7F, 0x7F, 0x00, 0x00],
     [0x00, 0x41, 0x7F, 0x7F, 0x41, 0x00, 0x00, 0x00],
     [0x30, 0x70, 0x40, 0x41, 0x7F, 0x3F, 0x01, 0x00],
     [0x41, 0x7F, 0x7F, 0x08, 0x1C, 0x77, 0x63, 0x00],
     [0x41, 0x7F, 0x7F, 0x41, 0x40, 0x60, 0x70, 0x00],
     [0x7F, 0x7F, 0x0E, 0x1C, 0x0E, 0x7F, 0x7F, 0x00],
     [0x7F, 0x7F, 0x06, 0x0C, 0x18, 0x7F, 0x7F, 0x00],
     [0x1C, 0x3E, 0x63, 0x41, 0x63, 0x3E, 0x1C, 0x00],
     [0x41, 0x7F, 0x7F, 0x49, 0x09, 0x0F, 0x06, 0x00],
     [0x1E, 0x3F, 0x21, 0x71, 0x7F, 0x5E, 0x00, 0x00],
     [0x41, 0x7F, 0x7F, 0x09, 0x19, 0x7F, 0x66, 0x00],
     [0x26, 0x6F, 0x4D, 0x59, 0x73, 0x32, 0x00, 0x00],
     [0x03, 0x41, 0x7F, 0x7F, 0x41, 0x03, 0x00, 0x00],
     [0x7F, 0x7F, 0x40, 0x40, 0x7F, 0x7F, 0x00, 0x00],
     [0x1F, 0x3F, 0x60, 0x60, 0x3F, 0x1F, 0x00, 0x00],
     [0x7F, 0x7F, 0x30, 0x18, 0x30, 0x7F, 0x7F, 0x00],
     [0x43, 0x67, 0x3C, 0x18, 0x3C, 0x67, 0x43, 0x00],
     [0x07, 0x4F, 0x78, 0x78, 0x4F, 0x07, 0x00, 0x00],
     [0x47, 0x63, 0x71, 0x59, 0x4D, 0x67, 0x73, 0x00],
     [0x00, 0x7F, 0x7F, 0x41, 0x41, 0x00, 0x00, 0x00],
     [0x01, 0x03, 0x06, 0x0C, 0x18, 0x30, 0x60, 0x00],
     [0x00, 0x41, 0x41, 0x7F, 0x7F, 0x00, 0x00, 0x00],
     [0x08, 0x0C, 0x06, 0x03, 0x06, 0x0C, 0x08, 0x00],
     [0x80, 0x80, 0x80, 0x80, 0x80, 0x80, 0x80, 0x80],
     [0x00, 0x00, 0x03, 0x07, 0x04, 0x00, 0x00, 0x00],
     [0x20, 0x74, 0x54, 0x54, 0x3C, 0x78, 0x40, 0x00],
     [0x41, 0x7F, 0x3F, 0x48, 0x48, 0x78, 0x30, 0x00],
     [0x38, 0x7C, 0x44, 0x44, 0x6C, 0x28, 0x00, 0x00],
     [0x30, 0x78, 0x48, 0x49, 0x3F, 0x7F, 0x40, 0x00],
     [0x38, 0x7C, 0x54, 0x54, 0x5C, 0x18, 0x00, 0x00],
     [0x48, 0x7E, 0x7F, 0x49, 0x03, 0x02, 0x00, 0x00],
     [0x98, 0xBC, 0xA4, 0xA4, 0xF8, 0x7C, 0x04, 0x00],
     [0x41, 0x7F, 0x7F, 0x08, 0x04, 0x7C, 0x78, 0x00],
     [0x00, 0x44, 0x7D, 0x7D, 0x40, 0x00, 0x00, 0x00],
     [0x60, 0xE0, 0x80, 0x80, 0xFD, 0x7D, 0x00, 0x00],
     [0x41, 0x7F, 0x7F, 0x10, 0x38, 0x6C, 0x44, 0x00],
     [0x00, 0x41, 0x7F, 0x7F, 0x40, 0x00, 0x00, 0x00],
     [0x7C, 0x7C, 0x18, 0x38, 0x1C, 0x7C, 0x78, 0x00],
     [0x7C, 0x7C, 0x04, 0x04, 0x7C, 0x78, 0x00, 0x00],
     [0x38, 0x7C, 0x44, 0x44, 0x7C, 0x38, 0x00, 0x00],
     [0x84, 0xFC, 0xF8, 0xA4, 0x24, 0x3C, 0x18, 0x00],
     [0x18, 0x3C, 0x24, 0xA4, 0xF8, 0xFC, 0x84, 0x00],
     [0x44, 0x7C, 0x78, 0x4C, 0x04, 0x1C, 0x18, 0x00],
     [0x48, 0x5C, 0x54, 0x54, 0x74, 0x24, 0x00, 0x00],
     [0x00, 0x04, 0x3E, 0x7F, 0x44, 0x24, 0x00, 0x00],
     [0x3C, 0x7C, 0x40, 0x40, 0x3C, 0x7C, 0x40, 0x00],
     [0x1C, 0x3C, 0x60, 0x60, 0x3C, 0x1C, 0x00, 0x00],
     [0x3C, 0x7C, 0x70, 0x38, 0x70, 0x7C, 0x3C, 0x00],
     [0x44, 0x6C, 0x38, 0x10, 0x38, 0x6C, 0x44, 0x00],
     [0x9C, 0xBC, 0xA0, 0xA0, 0xFC, 0x7C, 0x00, 0x00],
     [0x4C, 0x64, 0x74, 0x5C, 0x4C, 0x64, 0x00, 0x00],
     [0x08, 0x08, 0x3E, 0x77, 0x41, 0x41, 0x00, 0x00],
     [0x00, 0x00, 0x00, 0x77, 0x77, 0x00, 0x00, 0x00],
     [0x41, 0x41, 0x77, 0x3E, 0x08, 0x08, 0x00, 0x00],
     [0x02, 0x03, 0x01, 0x03, 0x02, 0x03, 0x01, 0x00],
     [0x00, 0x00, 0x00, 0x00, 0x00, 0x00, 0x00, 0x00]]"

lemma font_length: "length font8x8_basic_tr = 128"
  by (simp add: font8x8_basic_tr_def)

lemma font_rows: "\<forall>r \<in> set font8x8_basic_tr. length r = 8"
  by (simp add: font8x8_basic_tr_def)

lemma font_row: "c < 128 \<Longrightarrow> length (font8x8_basic_tr ! c) = 8"
  using font_rows font_length by (metis nth_mem)

end
