(* ===== verification/Oled.thy ===== *)
theory Oled
  imports Text Font
begin

text \<open>
  The display: the driver \<open>ssd1306/ssd1306.c\<close> and the task of \<open>main/ui.c\<close> that shows the
  counters of the LoRa and NAN drivers.  A transaction on the bus is one call with the
  operations of the command link; its result, where the driver looks at it, is the
  environment's.
\<close>

section \<open>Commands\<close>

definition OLED_I2C_ADDRESS :: u8 where "OLED_I2C_ADDRESS = 0x3C"
definition OLED_CONTROL_BYTE_CMD_SINGLE :: u8 where "OLED_CONTROL_BYTE_CMD_SINGLE = 0x80"
definition OLED_CONTROL_BYTE_CMD_STREAM :: u8 where "OLED_CONTROL_BYTE_CMD_STREAM = 0x00"
definition OLED_CONTROL_BYTE_DATA_STREAM :: u8 where "OLED_CONTROL_BYTE_DATA_STREAM = 0x40"
definition OLED_CMD_DISPLAY_ON :: u8 where "OLED_CMD_DISPLAY_ON = 0xAF"
definition OLED_CMD_SET_SEGMENT_REMAP :: u8 where "OLED_CMD_SET_SEGMENT_REMAP = 0xA1"
definition OLED_CMD_SET_COM_SCAN_MODE :: u8 where "OLED_CMD_SET_COM_SCAN_MODE = 0xC8"
definition OLED_CMD_SET_CHARGE_PUMP :: u8 where "OLED_CMD_SET_CHARGE_PUMP = 0x8D"
definition CHARGEPUMP :: u8 where "CHARGEPUMP = 0x8D"
definition COMSCANINC :: u8 where "COMSCANINC = 0xC0"
definition DISPLAYALLON_RESUME :: u8 where "DISPLAYALLON_RESUME = 0xA4"
definition DISPLAYOFF :: u8 where "DISPLAYOFF = 0xAE"
definition DISPLAYON :: u8 where "DISPLAYON = 0xAF"
definition INVERTDISPLAY :: u8 where "INVERTDISPLAY = 0xA7"
definition MEMORYMODE :: u8 where "MEMORYMODE = 0x20"
definition NORMALDISPLAY :: u8 where "NORMALDISPLAY = 0xA6"
definition SEGREMAP :: u8 where "SEGREMAP = 0xA0"
definition SETCOMPINS :: u8 where "SETCOMPINS = 0xDA"
definition SETCONTRAST :: u8 where "SETCONTRAST = 0x81"
definition SETDISPLAYCLOCKDIV :: u8 where "SETDISPLAYCLOCKDIV = 0xD5"
definition SETDISPLAYOFFSET :: u8 where "SETDISPLAYOFFSET = 0xD3"
definition SETPRECHARGE :: u8 where "SETPRECHARGE = 0xD9"
definition SETSTARTLINE :: u8 where "SETSTARTLINE = 0x40"
definition SETVCOMDETECT :: u8 where "SETVCOMDETECT = 0xDB"

lemmas oled_defs = OLED_I2C_ADDRESS_def OLED_CONTROL_BYTE_CMD_SINGLE_def OLED_CONTROL_BYTE_CMD_STREAM_def
  OLED_CONTROL_BYTE_DATA_STREAM_def

text \<open>A write transaction: the address byte, then the given operations.  \<open>I2C_NUM_0\<close> is 0.\<close>

definition oled_link :: "i2c_op list \<Rightarrow> call" where
  "oled_link ops = I2cBegin 0 ([I2cStart, I2cWrite [push_bit 1 OLED_I2C_ADDRESS] True] @ ops @ [I2cStop])"

definition sendCommand :: "u8 \<Rightarrow> dev \<Rightarrow> dev" where
  "sendCommand x s = emit (oled_link [I2cWrite [OLED_CONTROL_BYTE_CMD_SINGLE] True, I2cWrite [x] True]) s"

definition sendCommands :: "u8 list \<Rightarrow> dev \<Rightarrow> dev" where
  "sendCommands xs s = fold sendCommand xs s"

definition displayOn :: "dev \<Rightarrow> dev" where "displayOn = sendCommand DISPLAYON"
definition displayOff :: "dev \<Rightarrow> dev" where "displayOff = sendCommand DISPLAYOFF"
definition invertDisplay :: "dev \<Rightarrow> dev" where "invertDisplay = sendCommand INVERTDISPLAY"
definition normalDisplay :: "dev \<Rightarrow> dev" where "normalDisplay = sendCommand NORMALDISPLAY"

definition setContrast :: "u8 \<Rightarrow> u8 \<Rightarrow> u8 \<Rightarrow> dev \<Rightarrow> dev" where
  "setContrast contrast precharge comdetect = sendCommands
     [SETPRECHARGE, precharge, SETCONTRAST, contrast, SETVCOMDETECT, comdetect, DISPLAYALLON_RESUME,
      NORMALDISPLAY, DISPLAYON]"

definition sendInitCommands :: "dev \<Rightarrow> dev" where
  "sendInitCommands = sendCommands
     [DISPLAYOFF, SETDISPLAYCLOCKDIV, 0xF0, SETDISPLAYOFFSET, 0x00, SETSTARTLINE, CHARGEPUMP, 0x14,
      MEMORYMODE, 0x00, SEGREMAP, COMSCANINC, SETCOMPINS, 0x12, SETCONTRAST, 0xCF, SETPRECHARGE, 0xF1,
      SETVCOMDETECT, 0x40, DISPLAYALLON_RESUME, NORMALDISPLAY, 0x2e, DISPLAYON]"

text \<open>
  The factor is the double \<open>1.171\<close>; a product with a byte other than 0 is at least a thousandth away
  from every integer, so truncation gives what exact arithmetic gives.
\<close>

definition setBrightness :: "u8 \<Rightarrow> dev \<Rightarrow> dev" where
  "setBrightness brightness =
    (let b = i_of brightness;
         contrast = (if b < 128 then b * 1171 div 1000 else (b * 1171 - 43000) div 1000);
         precharge = (if b = 0 then 0 else 241);
         comdetect = b div 8 in
     setContrast (b_of contrast) (b_of precharge) (b_of comdetect))"

definition displaySleep :: "dev \<Rightarrow> dev" where "displaySleep = sendCommands [0x8D, 0x10, 0xAE]"
definition displayWakeup :: "dev \<Rightarrow> dev" where "displayWakeup = sendCommands [0x8D, 0x14, 0xAF]"

definition display_clear :: "dev \<Rightarrow> dev" where
  "display_clear s = fold (\<lambda>i. emit (oled_link
     [I2cWrite [OLED_CONTROL_BYTE_CMD_SINGLE] True, I2cWrite [0xB0 OR of_nat i] True,
      I2cWrite [OLED_CONTROL_BYTE_DATA_STREAM] True, I2cWrite (replicate 128 0) True])) [0..<8] s"

definition ssd1306_init :: "env \<Rightarrow> dev \<Rightarrow> int \<times> dev" where
  "ssd1306_init E s =
    (let c = oled_link (map (\<lambda>b. I2cWrite [b] True)
       [OLED_CONTROL_BYTE_CMD_STREAM, OLED_CMD_SET_CHARGE_PUMP, 0x14, OLED_CMD_SET_SEGMENT_REMAP,
        OLED_CMD_SET_COM_SCAN_MODE, OLED_CMD_DISPLAY_ON]) in
     (ret E c s, emit c s))"

section \<open>Text\<close>

definition upd_ui :: "(ui_vars \<Rightarrow> ui_vars) \<Rightarrow> dev \<Rightarrow> dev" where
  "upd_ui f s = s\<lparr>ui := f (ui s)\<rparr>"

text \<open>A character above 128 is drawn as 0; the table ends at 127.\<close>

definition writeChar :: "u8 \<Rightarrow> dev \<Rightarrow> fault + dev" where
  "writeChar c s =
    (let c = (if c > 128 then 0 else c) in
     if unat c < length font8x8_basic_tr then
       Inr (emit (oled_link [I2cWrite [OLED_CONTROL_BYTE_DATA_STREAM] True,
         I2cWrite (take 8 (font8x8_basic_tr ! unat c)) True]) s)
     else Inl ReadOOB)"

text \<open>The new value of \<open>d->line\<close>, and the state.\<close>

definition ui_setline :: "int \<Rightarrow> dev \<Rightarrow> int \<times> dev" where
  "ui_setline line s =
    (let line = (if line > 8 then 0 else line) in
     (line, emit (oled_link [I2cWrite [OLED_CONTROL_BYTE_CMD_STREAM] True, I2cWrite [0x00] True,
        I2cWrite [0x10] True, I2cWrite [b_of (0xB0 OR line)] True]) s))"

primrec writeChars :: "u8 list \<Rightarrow> dev \<Rightarrow> fault + dev" where
  "writeChars [] s = Inr s"
| "writeChars (c # cs) s = bindE (writeChar c s) (writeChars cs)"

text \<open>
  \<open>ui_println\<close> passes the address of its parameter to \<open>ui_setline\<close>: the line that one stores
  goes into the parameter and is lost.
\<close>

definition ui_println :: "string \<Rightarrow> dev \<Rightarrow> fault + dev" where
  "ui_println txt s =
    (let text_len = i_of (of_nat (length txt));
         text_len = (if text_len > 16 then 16 else text_len) in
     bindE (writeChars (map byte_of (take (nat text_len) txt)) s) (\<lambda>s.
     bindE (writeChars (replicate (16 - nat text_len) 0x20) s) (\<lambda>s.
     let s = upd_ui (\<lambda>v. v\<lparr>ui_line := ui_line v + 1\<rparr>) s in
     Inr (snd (ui_setline (ui_line (ui s)) s)))))"

section \<open>The task\<close>

text \<open>\<open>snprintf\<close> into the 20 bytes it is given: at most 19 characters.\<close>

definition snprintf20 :: "string \<Rightarrow> string" where
  "snprintf20 txt = take 19 txt"

definition gpio_reset :: "dev \<Rightarrow> dev" where
  "gpio_reset s = emits [Api ''gpio_set_direction'' [oled_rst (ui s), 2], GpioLevel (oled_rst (ui s)) 1] s"

definition lora_line :: "dev \<Rightarrow> string" where
  "lora_line s = (let l = lora (lo s) in
     ''L:'' @ dec (loraBeacons l) @ ''/'' @ dec (loraReceived l) @ '' '' @ dec (pkt_rssi (lora_last l)) @
     ''/'' @ dec (pkt_snr (lora_last l)))"

definition nan_line :: "dev \<Rightarrow> string" where
  "nan_line s = (let a = aware (nan s) in
     ''N: '' @ dec (nanMessagesIn a) @ '' '' @ dec (nanSBeacon a) @ '' '' @ dec (nanDBeacon a) @ '' '' @
     dec (nanPackets a))"

primrec ui_lines :: "(dev \<Rightarrow> string) list \<Rightarrow> dev \<Rightarrow> fault + dev" where
  "ui_lines [] s = Inr s"
| "ui_lines (f # fs) s = bindE (ui_println (f s) s) (ui_lines fs)"

text \<open>What \<open>task_ui\<close> does before its loop.\<close>

definition task_ui_start :: "env \<Rightarrow> dev \<Rightarrow> fault + dev" where
  "task_ui_start E = check E (ApiS ''esp_pm_lock_create'' [''ui''])"

text \<open>
  One round of \<open>task_ui\<close>.  The time of day as text is the environment's (\<open>strftime\<close> with \<open>%T\<close>).
\<close>

definition task_ui :: "env \<Rightarrow> dev \<Rightarrow> fault + dev" where
  "task_ui E s =
    (let s = emit (Api ''xEventGroupWaitBits'' [1, 0, 1, 500]) s;
         s = (if oled_rst (ui s) > 0 then gpio_reset s else s);
         (line, s) = ui_setline 0 s;
         s = upd_ui (\<lambda>v. v\<lparr>ui_line := line\<rparr>) s;
         c = ApiS ''strftime'' [''%T''];
         now = map char_of_byte (got E c s);
         s = emit c s;
         blank = (\<lambda>s. snprintf20 (replicate 16 (CHR '' ''))) in
     bindE (ui_lines [\<lambda>s. now, \<lambda>s. snprintf20 (lora_line s), \<lambda>s. snprintf20 (nan_line s),
        blank, blank, blank, blank, blank] s) (\<lambda>s.
     Inr (emits [ApiS ''esp_pm_lock_acquire'' [''ui''], TaskDelay (3000 div 10),
       ApiS ''esp_pm_lock_release'' [''ui'']] s)))"

definition ui_update :: "int \<Rightarrow> dev \<Rightarrow> dev" where
  "ui_update line s = emit (Api ''xEventGroupSetBits ui'' [0]) s"

definition oled_sleep :: "dev \<Rightarrow> dev" where
  "oled_sleep s = s"

definition oled_wakeup :: "dev \<Rightarrow> dev" where
  "oled_wakeup s = (if oled_rst (ui s) > 0 then gpio_reset s else s)"

end
