(* ===== verification/OledProps.thy ===== *)
theory OledProps
  imports Oled
begin

text \<open>
  What the display shows.  The chip in page addressing mode, its mode after reset, has eight
  pages of 128 columns and a position; the text functions of the driver put the glyphs of a
  line there, and a round of the task fills the screen with the status.
\<close>

section \<open>The chip\<close>

record oled =
  page :: nat
  column :: nat
  ram :: "nat \<Rightarrow> u8 list"

text \<open>
  The positioning commands, by the first byte: a page, the lower and the upper half of a column.
  The others do not move the position.
\<close>

definition oled_cmd :: "u8 \<Rightarrow> oled \<Rightarrow> oled" where
  "oled_cmd b d =
    (let n = unat b in
     if n < 16 then d\<lparr>column := column d div 16 * 16 + n\<rparr>
     else if n < 32 then d\<lparr>column := (n - 16) mod 8 * 16 + column d mod 16\<rparr>
     else if 0xB0 \<le> n \<and> n < 0xB8 then d\<lparr>page := n - 0xB0\<rparr>
     else d)"

text \<open>The commands with an argument byte, which a stream of commands has to skip.\<close>

fun oled_cmds :: "u8 list \<Rightarrow> oled \<Rightarrow> oled" where
  "oled_cmds [] d = d"
| "oled_cmds (b # bs) d =
    (if b \<in> {0x20, 0x81, 0x8D, 0xA8, 0xD3, 0xD5, 0xD9, 0xDA, 0xDB} then oled_cmds (drop 1 bs) d
     else oled_cmds bs (oled_cmd b d))"

fun oled_data :: "u8 list \<Rightarrow> oled \<Rightarrow> oled" where
  "oled_data [] d = d"
| "oled_data (b # bs) d = oled_data bs
     (d\<lparr>ram := (ram d)(page d := (ram d (page d))[column d := b]), column := (column d + 1) mod 128\<rparr>)"

fun link_bytes :: "i2c_op list \<Rightarrow> u8 list" where
  "link_bytes [] = []"
| "link_bytes (I2cWrite bs ack # ops) = bs @ link_bytes ops"
| "link_bytes (op # ops) = link_bytes ops"

text \<open>A transaction to the chip's address: a stream of commands or of data, by the control byte.\<close>

definition oled_bytes :: "u8 list \<Rightarrow> oled \<Rightarrow> oled" where
  "oled_bytes bs d =
    (case bs of
       a # ctl # rest \<Rightarrow>
         if a \<noteq> 0x78 then d
         else if ctl = 0x00 then oled_cmds rest d
         else if ctl = 0x80 then (case rest of [b] \<Rightarrow> oled_cmd b d | _ \<Rightarrow> d)
         else if ctl = 0x40 then oled_data rest d
         else d
     | _ \<Rightarrow> d)"

fun oled_call :: "call \<Rightarrow> oled \<Rightarrow> oled" where
  "oled_call (I2cBegin p ops) d = (if p = 0 then oled_bytes (link_bytes ops) d else d)"
| "oled_call c d = d"

definition oled_of :: "oled \<Rightarrow> call list \<Rightarrow> oled" where
  "oled_of d0 h = fold oled_call h d0"

abbreviation oled_at :: "oled \<Rightarrow> dev \<Rightarrow> oled" where
  "oled_at d0 s \<equiv> oled_of d0 (hist s)"

lemma oled_of_append [simp]: "oled_of d0 (h @ cs) = fold oled_call cs (oled_of d0 h)"
  by (simp add: oled_of_def)

lemma link_bytes_append [simp]: "link_bytes (xs @ ys) = link_bytes xs @ link_bytes ys"
  by (induction xs rule: link_bytes.induct) auto

lemma oled_link_call: "oled_call (oled_link ops) d = oled_bytes (0x78 # link_bytes ops) d"
  by (simp add: oled_link_def oled_defs)

text \<open>Data that stays within a page.\<close>

lemma oled_data_row:
  assumes "column d + length bs \<le> 128" "length (ram d (page d)) = 128" "column d < 128"
  shows "oled_data bs d = d\<lparr>ram := (ram d)(page d :=
       take (column d) (ram d (page d)) @ bs @ drop (column d + length bs) (ram d (page d))),
     column := (column d + length bs) mod 128\<rparr>"
  using assms
proof (induction bs arbitrary: d)
  case (Cons b bs)
  let ?r = "ram d (page d)"
  let ?d = "d\<lparr>ram := (ram d)(page d := ?r[column d := b]), column := (column d + 1) mod 128\<rparr>"
  show ?case
  proof (cases "column d + 1 = 128")
    case True
    then have "bs = []" using Cons.prems(1) by simp
    then show ?thesis
      using True Cons.prems by (simp add: upd_conv_take_nth_drop fun_upd_def)
  next
    case False
    then have c: "column d + 1 < 128" using Cons.prems(1) by simp
    have "oled_data bs ?d = ?d\<lparr>ram := (ram ?d)(page ?d :=
       take (column ?d) (ram ?d (page ?d)) @ bs @ drop (column ?d + length bs) (ram ?d (page ?d))),
     column := (column ?d + length bs) mod 128\<rparr>"
      by (rule Cons.IH) (use Cons.prems c in simp_all)
    then show ?thesis
      using c Cons.prems by (simp add: take_Suc_conv_app_nth add.commute fun_upd_def cong: if_cong)
  qed
qed simp

section \<open>Lines of text\<close>

text \<open>The columns of a line: 16 characters of eight columns, cut off or filled with spaces.\<close>

definition glyphs :: "string \<Rightarrow> u8 list" where
  "glyphs str = concat (map (\<lambda>c. font8x8_basic_tr ! of_char c) str)"

definition line16 :: "string \<Rightarrow> u8 list" where
  "line16 str = glyphs (take 16 str @ replicate (16 - length str) (CHR '' ''))"

definition ascii :: "string \<Rightarrow> bool" where
  "ascii str \<longleftrightarrow> (\<forall>c \<in> set str. (of_char c :: nat) < 128)"

lemma glyphs_append: "glyphs (xs @ ys) = glyphs xs @ glyphs ys"
  by (simp add: glyphs_def)

lemma length_glyphs: "ascii str \<Longrightarrow> length (glyphs str) = 8 * length str"
  by (induction str) (simp_all add: glyphs_def ascii_def font_row)

lemma ascii_take: "ascii str \<Longrightarrow> ascii (take n str)"
  by (auto simp: ascii_def dest: in_set_takeD)

lemma ascii_line: "ascii str \<Longrightarrow> ascii (take 16 str @ replicate (16 - length str) (CHR '' ''))"
  by (auto simp: ascii_def dest: in_set_takeD)

lemma length_line16: "ascii str \<Longrightarrow> length (line16 str) = 128"
  using length_glyphs [OF ascii_line] by (auto simp: line16_def min_def)

lemma oled_data_append: "oled_data (xs @ ys) d = oled_data ys (oled_data xs d)"
  by (induction xs arbitrary: d) simp_all

lemma writeChar_draws:
  assumes "(of_char c :: nat) < 128"
  shows "\<exists>cs. writeChar (byte_of c) s = Inr (emits cs s) \<and>
    (\<forall>d. fold oled_call cs d = oled_data (font8x8_basic_tr ! of_char c) d)"
proof -
  have n: "\<not> byte_of c > 128" using assms by (simp add: word_less_nat_alt)
  let ?c = "oled_link [I2cWrite [OLED_CONTROL_BYTE_DATA_STREAM] True, I2cWrite (font8x8_basic_tr ! of_char c) True]"
  have "writeChar (byte_of c) s = Inr (emits [?c] s)"
    using n assms font_row [OF assms] font_length by (simp add: writeChar_def Let_def emit_def emits_def)
  moreover have "fold oled_call [?c] d = oled_data (font8x8_basic_tr ! of_char c) d" for d
    by (simp add: oled_link_call oled_bytes_def oled_defs)
  ultimately show ?thesis by blast
qed

lemma emits_emits: "emits ds (emits cs s) = emits (cs @ ds) s"
  by (simp add: emits_def)

lemma writeChars_draws:
  assumes "ascii str"
  shows "\<exists>cs. writeChars (map byte_of str) s = Inr (emits cs s) \<and>
    (\<forall>d. fold oled_call cs d = oled_data (glyphs str) d)"
  using assms
proof (induction str arbitrary: s)
  case Nil
  then show ?case by (auto simp: glyphs_def intro: exI [of _ "[]"])
next
  case (Cons c str)
  then have a: "(of_char c :: nat) < 128" "ascii str" by (simp_all add: ascii_def)
  obtain cs where cs: "writeChar (byte_of c) s = Inr (emits cs s)"
    "\<And>d. fold oled_call cs d = oled_data (font8x8_basic_tr ! of_char c) d"
    using writeChar_draws [OF a(1)] by blast
  obtain ds where ds: "writeChars (map byte_of str) (emits cs s) = Inr (emits ds (emits cs s))"
    "\<And>d. fold oled_call ds d = oled_data (glyphs str) d"
    using Cons.IH [OF a(2)] by blast
  show ?case
    by (rule exI [of _ "cs @ ds"])
      (simp add: cs ds emits_emits oled_data_append glyphs_def)
qed

text \<open>Positioning: a line the chip has becomes its page, and the column is 0 in any case.\<close>

lemma oled_home: "oled_cmds (0x00 # 0x10 # bs) d = oled_cmds bs (d\<lparr>column := 0\<rparr>)"
  by (simp add: oled_cmd_def)

lemma oled_page:
  assumes "0 \<le> l" "l \<le> 8"
  shows "oled_cmds [b_of (0xB0 OR l)] d = (if l < 8 then d\<lparr>page := nat l\<rparr> else d)"
proof -
  have "l \<in> {0, 1, 2, 3, 4, 5, 6, 7, 8}" using assms by auto
  then have "b_of (0xB0 OR l) = 0xB0 + b_of l" "uint (0xB0 + b_of l :: u8) = 0xB0 + l" by auto
  moreover from this(2) have "unat (0xB0 + b_of l :: u8) = nat (0xB0 + l)" by (simp add: unat_eq_nat_uint)
  ultimately have u: "unat (b_of (0xB0 OR l)) = 176 + nat l" using assms(1) by simp
  then have n: "b_of (0xB0 OR l) \<notin> {0x20, 0x81, 0x8D, 0xA8, 0xD3, 0xD5, 0xD9, 0xDA, 0xDB}"
    using assms by (auto dest!: arg_cong [of _ _ unat])
  have "oled_cmds [b_of (0xB0 OR l)] d = oled_cmd (b_of (0xB0 OR l)) d"
    using n by (simp only: oled_cmds.simps if_False)
  also have "\<dots> = (if l < 8 then d\<lparr>page := nat l\<rparr> else d)"
    unfolding oled_cmd_def u Let_def using assms by auto
  finally show ?thesis .
qed

lemma setline_moves:
  assumes "0 \<le> l" "l \<le> 8"
  shows "oled_at d0 (snd (ui_setline l s)) =
    (oled_at d0 s)\<lparr>page := (if l < 8 then nat l else page (oled_at d0 s)), column := 0\<rparr>"
    "fst (ui_setline l s) = l"
proof -
  let ?d = "oled_at d0 s"
  have "oled_at d0 (snd (ui_setline l s)) = oled_cmds [b_of (0xB0 OR l)] (?d\<lparr>column := 0\<rparr>)"
    using assms(2) oled_home [of "[b_of (0xB0 OR l)]" ?d]
    by (simp add: ui_setline_def Let_def oled_link_call oled_bytes_def oled_defs del: oled_cmds.simps)
  then show "oled_at d0 (snd (ui_setline l s)) =
    (oled_at d0 s)\<lparr>page := (if l < 8 then nat l else page (oled_at d0 s)), column := 0\<rparr>"
    unfolding oled_page [OF assms] by simp
  show "fst (ui_setline l s) = l" using assms by (simp add: ui_setline_def Let_def)
qed

text \<open>The display at the start of line \<open>p\<close>, as the driver's counter says.\<close>

definition at_line :: "nat \<Rightarrow> oled \<Rightarrow> dev \<Rightarrow> bool" where
  "at_line p d0 s \<longleftrightarrow> ui_line (ui s) = int p \<and> (p < 8 \<longrightarrow> page (oled_at d0 s) = p) \<and>
     column (oled_at d0 s) = 0 \<and> (\<forall>q. length (ram (oled_at d0 s) q) = 128)"

lemma upd_ui_simps [simp]: "ui (upd_ui f s) = f (ui s)" "hist (upd_ui f s) = hist s"
  "lo (upd_ui f s) = lo s" "nan (upd_ui f s) = nan s"
  by (simp_all add: upd_ui_def)

lemma emits_ui [simp]: "ui (emits cs s) = ui s"
  by (simp add: emits_def)

lemma ui_setline_frame: "ui (snd (ui_setline l s)) = ui s" "lo (snd (ui_setline l s)) = lo s"
  "nan (snd (ui_setline l s)) = nan s"
  by (simp_all add: ui_setline_def Let_def)

lemma println_draws:
  assumes "at_line p d0 s" "p < 8" "ascii str" "length str < 256"
  shows "\<exists>s'. ui_println str s = Inr s' \<and> at_line (Suc p) d0 s' \<and>
    ram (oled_at d0 s') = (ram (oled_at d0 s))(p := line16 str) \<and> lo s' = lo s \<and> nan s' = nan s"
proof -
  let ?n = "min 16 (length str)"
  let ?d = "oled_at d0 s"
  have n: "nat (if i_of (of_nat (length str)) > 16 then 16 else i_of (of_nat (length str))) = ?n"
    using assms(4) by (simp add: of_nat_byte min_def)
  obtain cs where cs: "writeChars (map byte_of (take ?n str)) s = Inr (emits cs s)"
    "\<And>d. fold oled_call cs d = oled_data (glyphs (take ?n str)) d"
    using writeChars_draws [of "take ?n str" s, OF ascii_take [OF assms(3)]] by blast
  have sp: "replicate (16 - ?n) 0x20 = map byte_of (replicate (16 - ?n) (CHR '' ''))"
    by (simp add: byte_of_def)
  obtain ds where ds: "writeChars (replicate (16 - ?n) 0x20) (emits cs s) = Inr (emits ds (emits cs s))"
    "\<And>d. fold oled_call ds d = oled_data (glyphs (replicate (16 - ?n) (CHR '' ''))) d"
  proof -
    have "ascii (replicate (16 - ?n) (CHR '' ''))" by (simp add: ascii_def)
    from writeChars_draws [OF this, of "emits cs s"] show ?thesis using that unfolding sp by blast
  qed
  define s1 where "s1 = upd_ui (\<lambda>v. v\<lparr>ui_line := ui_line v + 1\<rparr>) (emits ds (emits cs s))"
  have l1: "ui_line (ui s1) = int (Suc p)" using assms(1) by (simp add: s1_def at_line_def)
  have print: "ui_println str s = Inr (snd (ui_setline (int (Suc p)) s1))"
    unfolding ui_println_def Let_def n using cs(1) ds(1) l1 by (simp add: s1_def add.commute)
  have take: "take ?n str @ replicate (16 - ?n) (CHR '' '') = take 16 str @ replicate (16 - length str) (CHR '' '')"
    by (simp add: min_def)
  have row: "oled_at d0 s1 = oled_data (line16 str) ?d"
    unfolding line16_def take [symmetric] by (simp add: s1_def cs(2) ds(2) glyphs_append oled_data_append)
  have col: "column ?d = 0" "page ?d = p" "length (ram ?d p) = 128"
    using assms(1,2) by (simp_all add: at_line_def)
  have r1: "oled_at d0 s1 = ?d\<lparr>ram := (ram ?d)(p := line16 str), column := 0\<rparr>"
    unfolding row using oled_data_row [of ?d "line16 str"] length_line16 [OF assms(3)] col by simp
  have p: "0 \<le> int (Suc p)" "int (Suc p) \<le> 8" using assms(2) by simp_all
  have frame: "lo s1 = lo s" "nan s1 = nan s" by (simp_all add: s1_def)
  show ?thesis
    using setline_moves(1) [OF p, of d0 s1] assms(1) l1 frame
    by (simp add: print r1 at_line_def ui_setline_frame length_line16 [OF assms(3)] nat_add_distrib)
qed

text \<open>A column of lines, whose text depends on the counters only.\<close>

definition steady :: "(dev \<Rightarrow> string) \<Rightarrow> bool" where
  "steady f \<longleftrightarrow> (\<forall>s s'. lo s' = lo s \<and> nan s' = nan s \<longrightarrow> f s' = f s) \<and> (\<forall>s. ascii (f s) \<and> length (f s) < 256)"

lemma steadyD:
  assumes "steady f"
  shows "lo s' = lo s \<Longrightarrow> nan s' = nan s \<Longrightarrow> f s' = f s" "ascii (f s)" "length (f s) < 256"
  using assms unfolding steady_def by blast+

lemma steadyI:
  "(\<And>s s'. lo s' = lo s \<Longrightarrow> nan s' = nan s \<Longrightarrow> f s' = f s) \<Longrightarrow> (\<And>s. ascii (f s)) \<Longrightarrow>
   (\<And>s. length (f s) < 256) \<Longrightarrow> steady f"
  unfolding steady_def by blast

lemma ui_lines_draw:
  assumes "at_line p d0 s" "p + length fs \<le> 8" "\<forall>f \<in> set fs. steady f"
  shows "\<exists>s'. ui_lines fs s = Inr s' \<and> at_line (p + length fs) d0 s' \<and>
    (\<forall>q. ram (oled_at d0 s') q =
      (if p \<le> q \<and> q < p + length fs then line16 ((fs ! (q - p)) s) else ram (oled_at d0 s) q))"
  using assms
proof (induction fs arbitrary: p s)
  case (Cons f fs)
  have st: "steady f" "\<forall>f \<in> set fs. steady f" using Cons.prems(3) by simp_all
  note f = steadyD(2,3) [OF st(1)]
  obtain s1 where s1: "ui_println (f s) s = Inr s1" "at_line (Suc p) d0 s1"
    "ram (oled_at d0 s1) = (ram (oled_at d0 s))(p := line16 (f s))" "lo s1 = lo s" "nan s1 = nan s"
    using println_draws [OF Cons.prems(1) _ f] Cons.prems(2) by auto
  obtain s' where s': "ui_lines fs s1 = Inr s'" "at_line (Suc p + length fs) d0 s'"
    "\<And>q. ram (oled_at d0 s') q = (if Suc p \<le> q \<and> q < Suc p + length fs
      then line16 ((fs ! (q - Suc p)) s1) else ram (oled_at d0 s1) q)"
    using Cons.IH [OF s1(2) _ st(2)] Cons.prems(2) by auto
  have same: "g s1 = g s" if "g \<in> set fs" for g
    using that st(2) steadyD(1) [OF _ s1(4,5)] by blast
  have "ram (oled_at d0 s') q = (if p \<le> q \<and> q < p + length (f # fs) then line16 (((f # fs) ! (q - p)) s)
      else ram (oled_at d0 s) q)" for q
  proof (cases "Suc p \<le> q \<and> q < Suc p + length fs")
    case True
    then have "q - p = Suc (q - Suc p)" "q - Suc p < length fs" by arith+
    then show ?thesis using True s'(3) same [of "fs ! (q - Suc p)"] by simp
  next
    case False
    then show ?thesis using s'(3) s1(3) by (auto simp: not_less_eq_eq le_less_Suc_eq)
  qed
  then show ?case using s1(1) s'(1,2) by auto
qed auto

text \<open>A dark display, for examples.\<close>

definition dark :: oled where
  "dark = \<lparr>page = 0, column = 0, ram = \<lambda>_. replicate 128 0\<rparr>"

lemma dark_boot: "at_line 0 dark boot"
  by (simp add: at_line_def boot_def oled_of_def dark_def)

text \<open>
  C28: A line of text appears on the page of the current line, cut to 16 characters or filled up with
  spaces, and nothing else on the display changes; the next line follows.
\<close>

theorem line_is_shown:
  assumes "at_line p d0 s" "p < 8" "ascii str" "length str < 256"
  shows "\<exists>s'. ui_println str s = Inr s' \<and> at_line (Suc p) d0 s' \<and>
    ram (oled_at d0 s') = (ram (oled_at d0 s))(p := line16 str)"
  using println_draws [OF assms] by blast

theorem line_is_shown_witness:
  "\<exists>s'. ui_println ''hi'' boot = Inr s' \<and> ram (oled_at dark s') 0 = line16 ''hi''"
  using line_is_shown [of 0 dark boot "''hi''"] dark_boot by (auto simp: ascii_def)

text \<open>
  Drawing a character reads outside the font exactly for the code 128, which the check lets
  through; a code above is drawn as code 0.
\<close>

lemma only_character_128_faults:
  "(writeChar c s = Inl ReadOOB \<longleftrightarrow> c = 128) \<and> writeChar (if c > 128 then 0 else c) s = writeChar c s"
proof -
  consider "c > 128" | "c = 128" | "c < 128" by (rule linorder_cases [of c 128])
  then show ?thesis
  proof cases
    case 1
    then show ?thesis by (auto simp: writeChar_def Let_def font_length)
  next
    case 2
    then show ?thesis by (simp add: writeChar_def Let_def font_length)
  next
    case 3
    then have "\<not> c > 128" "unat c < 128" by (simp_all add: word_less_nat_alt)
    then show ?thesis using 3 by (auto simp: writeChar_def Let_def font_length)
  qed
qed

lemma ascii_dec: "ascii (dec i)"
proof -
  have m: "n mod 10 < 80" for n :: nat by (rule less_trans [of _ 10]) simp_all
  have "ascii (dec_nat n)" for n
    by (induction n rule: dec_nat.induct) (subst dec_nat.simps, simp add: ascii_def decd_def m)
  then show ?thesis by (simp add: dec_def ascii_def)
qed

lemma ascii_append [simp]: "ascii (xs @ ys) \<longleftrightarrow> ascii xs \<and> ascii ys"
  by (auto simp: ascii_def)

lemma ascii_Cons [simp]: "ascii (c # str) \<longleftrightarrow> (of_char c :: nat) < 128 \<and> ascii str" "ascii []"
  by (auto simp: ascii_def)

lemma steady_take:
  assumes "\<And>s s'. lo s' = lo s \<Longrightarrow> nan s' = nan s \<Longrightarrow> f s' = f s" "\<And>s. ascii (f s)"
  shows "steady (\<lambda>s. take 19 (f s))"
proof (rule steadyI)
  fix s s' :: dev assume "lo s' = lo s" "nan s' = nan s"
  then show "take 19 (f s') = take 19 (f s)" using assms(1) by metis
next
  fix s show "ascii (take 19 (f s))" by (rule ascii_take [OF assms(2)])
  show "length (take 19 (f s)) < 256" by (rule le_less_trans [of _ 19]) simp_all
qed

lemma steady_lines: "steady (\<lambda>s. take 19 (lora_line s))" "steady (\<lambda>s. take 19 (nan_line s))"
  by (rule steady_take; simp add: lora_line_def nan_line_def Let_def ascii_dec)+

lemma steady_const: "ascii str \<Longrightarrow> length str < 256 \<Longrightarrow> steady (\<lambda>s. str)"
  by (rule steadyI) simp_all

text \<open>Drawing only adds to the history.\<close>

lemma writeChars_grows: "writeChars cs s = Inr s' \<Longrightarrow> \<exists>r. hist s' = hist s @ r"
  by (induction cs arbitrary: s)
    (fastforce simp: bindE_eq_Inr writeChar_def Let_def split: if_splits)+

lemma ui_println_grows: "ui_println x s = Inr s' \<Longrightarrow> \<exists>r. hist s' = hist s @ r"
  unfolding ui_println_def Let_def ui_setline_def upd_ui_def
  by (auto simp: bindE_eq_Inr dest!: writeChars_grows)

lemma ui_lines_grows: "ui_lines fs s = Inr s' \<Longrightarrow> \<exists>r. hist s' = hist s @ r"
proof (induction fs arbitrary: s)
  case (Cons f fs)
  then show ?case by (fastforce simp: bindE_eq_Inr dest: ui_println_grows)
qed simp

text \<open>What the task has called when it asks for the time: the wait, the reset of the chip, line 0.\<close>

definition before_time :: "dev \<Rightarrow> call list" where
  "before_time s = hist s @ [Api ''xEventGroupWaitBits'' [1, 0, 1, 500]] @
     (if oled_rst (ui s) > 0 then [Api ''gpio_set_direction'' [oled_rst (ui s), 2], GpioLevel (oled_rst (ui s)) 1]
      else []) @
     [oled_link [I2cWrite [OLED_CONTROL_BYTE_CMD_STREAM] True, I2cWrite [0] True, I2cWrite [0x10] True,
        I2cWrite [0xB0] True]]"

text \<open>
  C29: One round of the task asks the platform for the time, as \<open>%T\<close> prints it, and shows the
  answer, the counters of the LoRa and the NAN driver, each cut to 16 characters, and five blank
  lines; nothing of the earlier screen is left.
\<close>

theorem status_is_shown:
  assumes "\<forall>h. length (rb E h (ApiS ''strftime'' [''%T''])) < 100 \<and>
      (\<forall>b \<in> set (rb E h (ApiS ''strftime'' [''%T''])). b < 128)"
    and "\<forall>q. length (ram (oled_at d0 s) q) = 128"
  shows "\<exists>s' rest. task_ui E s = Inr s' \<and>
    hist s' = before_time s @ ApiS ''strftime'' [''%T''] # rest \<and>
    map (ram (oled_at d0 s')) [0..<8] =
      map line16 [map char_of_byte (rb E (before_time s) (ApiS ''strftime'' [''%T''])),
        take 19 (lora_line s), take 19 (nan_line s), [], [], [], [], []]"
proof -
  define s1 where "s1 = (let s = emit (Api ''xEventGroupWaitBits'' [1, 0, 1, 500]) s in
    if oled_rst (ui s) > 0 then gpio_reset s else s)"
  define s2 where "s2 = upd_ui (\<lambda>v. v\<lparr>ui_line := 0\<rparr>) (snd (ui_setline 0 s1))"
  let ?c = "ApiS ''strftime'' [''%T'']"
  define now where "now = map char_of_byte (got E ?c s2)"
  let ?blank = "\<lambda>s :: dev. take 19 (replicate 16 (CHR '' ''))"
  let ?fs = "[\<lambda>s. now, \<lambda>s. take 19 (lora_line s), \<lambda>s. take 19 (nan_line s), ?blank, ?blank, ?blank, ?blank, ?blank]"
  let ?rest = "emits [ApiS ''esp_pm_lock_acquire'' [''ui''], TaskDelay (3000 div 10),
       ApiS ''esp_pm_lock_release'' [''ui'']]"
  have o1: "oled_at d0 s1 = oled_at d0 s" "lo s1 = lo s" "nan s1 = nan s"
    by (simp_all add: s1_def gpio_reset_def Let_def)
  have h2: "hist s2 = before_time s"
    by (simp add: s2_def s1_def before_time_def gpio_reset_def ui_setline_def upd_ui_def Let_def)
  have o2: "oled_at d0 (emit ?c s2) = (oled_at d0 s)\<lparr>page := 0, column := 0\<rparr>" "lo (emit ?c s2) = lo s"
    "nan (emit ?c s2) = nan s" "ui_line (ui (emit ?c s2)) = 0"
    using setline_moves(1) [of 0 d0 s1] o1 by (simp_all add: s2_def ui_setline_frame)
  have a: "at_line 0 d0 (emit ?c s2)" using assms(2) o2 by (simp add: at_line_def)
  have r: "length (rb E (hist s2) ?c) < 100" "\<And>b. b \<in> set (rb E (hist s2) ?c) \<Longrightarrow> unat b < 128"
    using assms(1) by (simp_all add: word_less_nat_alt)
  have now: "ascii now" "length now < 256"
    using r by (auto simp: now_def ascii_def got_def char_of_byte_def
        intro: le_less_trans [OF mod_less_eq_dividend])
  have "steady ?blank" by (rule steady_const) (simp_all add: ascii_take, simp add: ascii_def)
  then have "\<forall>f \<in> set ?fs. steady f" using steady_const [OF now] steady_lines by simp
  then obtain s' where s': "ui_lines ?fs (emit ?c s2) = Inr s'"
    "\<And>q. q < 8 \<Longrightarrow> ram (oled_at d0 s') q = line16 ((?fs ! q) (emit ?c s2))"
    using ui_lines_draw [OF a, of ?fs] by auto
  obtain cs where cs: "hist s' = hist s2 @ ?c # cs" using ui_lines_grows [OF s'(1)] by auto
  have "ui_setline 0 s1 = (0, snd (ui_setline 0 s1))" by (simp add: ui_setline_def)
  then have "task_ui E s = bindE (ui_lines ?fs (emit ?c s2)) (\<lambda>s. Inr (?rest s))"
    by (simp add: task_ui_def Let_def snprintf20_def s1_def s2_def now_def split_def setline_moves(2) del: ui_lines.simps)
  moreover have "line16 (take 19 (replicate 16 (CHR '' ''))) = line16 []" by (simp add: line16_def)
  moreover have "oled_at d0 (?rest s') = oled_at d0 s'" by simp
  moreover have "lora_line (emit ?c s2) = lora_line s" "nan_line (emit ?c s2) = nan_line s"
    using o2(2,3) by (simp_all add: lora_line_def nan_line_def)
  moreover have "now = map char_of_byte (rb E (before_time s) ?c)"
    by (simp add: now_def got_def h2)
  ultimately show ?thesis
    using s' cs h2 by (intro exI [of _ "?rest s'"] exI) (simp add: upt_rec)
qed

definition clock_env :: env where
  "clock_env = quiet\<lparr>rb := \<lambda>h c. if c = ApiS ''strftime'' [''%T''] then map byte_of ''12:34:56'' else []\<rparr>"

theorem status_is_shown_witness:
  "\<exists>s'. task_ui clock_env boot = Inr s' \<and> ram (oled_at dark s') 0 = line16 ''12:34:56'' \<and>
    ram (oled_at dark s') (Suc 0) = line16 (take 19 (lora_line boot))"
proof -
  have rb: "rb clock_env h (ApiS ''strftime'' [''%T'']) = map byte_of ''12:34:56''" for h
    by (simp add: clock_env_def)
  have "map char_of_byte (map byte_of ''12:34:56'') = ''12:34:56''"
    by (simp only: list.map char_of_byte_of)
  moreover have "\<forall>b \<in> set (map byte_of ''12:34:56''). b < 128" "length (map byte_of ''12:34:56'') < 100"
    by (simp_all add: byte_of_def)
  moreover have "\<forall>q. length (ram (oled_at dark boot) q) = 128" using dark_boot by (simp add: at_line_def)
  ultimately show ?thesis
    using status_is_shown [of clock_env dark boot, unfolded rb] by (auto simp: upt_rec)
qed

end
