(* ===== verification/I2cProps.thy ===== *)
theory I2cProps
  imports I2cTools
begin

text \<open>
  What the bus tools show: the scan prints the table of the addresses that answer, and a dump
  prints the same table of registers whatever the size of its reads.
\<close>

section \<open>What a step prints\<close>

text \<open>
  From \<open>s\<close> to \<open>s'\<close> the text is printed, the transactions run on the bus in this order, and the
  bus keeps its settings.
\<close>

definition transactions :: "call list \<Rightarrow> i2c_op list list" where
  "transactions cs = concat (map (\<lambda>c. case c of I2cBegin p ops \<Rightarrow> [ops] | _ \<Rightarrow> []) cs)"

definition shows_text :: "string \<Rightarrow> i2c_op list list \<Rightarrow> dev \<Rightarrow> dev \<Rightarrow> bool" where
  "shows_text x ts s s' \<longleftrightarrow> printed (hist s') = printed (hist s) @ x \<and>
     transactions (hist s') = transactions (hist s) @ ts \<and> i2c s' = i2c s"

lemma transactions_simps [simp]:
  "transactions [] = []" "transactions (xs @ ys) = transactions xs @ transactions ys"
  "transactions (Print x # cs) = transactions cs" "transactions (Api f as # cs) = transactions cs"
  "transactions (I2cBegin p ops # cs) = ops # transactions cs"
  by (simp_all add: transactions_def)

lemma shows_refl: "shows_text [] [] s s"
  by (simp add: shows_text_def)

lemma shows_trans:
  "shows_text x ts s s1 \<Longrightarrow> shows_text y us s1 s2 \<Longrightarrow> shows_text (x @ y) (ts @ us) s s2"
  by (simp add: shows_text_def)

lemma shows_printf: "shows_text x [] s (printf x s)"
  by (simp add: shows_text_def)

lemma shows_begin: "shows_text [] [ops] s (emit (begin_link ops s) s)"
  by (simp add: shows_text_def begin_link_def)

lemma shows_api: "shows_text [] [] s (emit (Api f as) s)"
  by (simp add: shows_text_def)

lemma shows_open: "shows_text [] [] s (i2c_open s)"
  by (simp add: shows_text_def i2c_open_def i2c_master_driver_initialize_def)

lemma shows_close: "shows_text [] [] s (i2c_close s)"
  by (simp add: shows_text_def i2c_close_def)

lemma shows_printf_fold:
  "shows_text (concat (map f xs)) [] s (fold (\<lambda>x. printf (f x)) xs s)"
proof (induction xs arbitrary: s)
  case Nil
  show ?case by (simp add: shows_refl)
next
  case (Cons x xs)
  show ?case using shows_trans [OF shows_printf Cons] by simp
qed

text \<open>A loop whose every round prints a text that its index determines.\<close>

lemma shows_fold:
  assumes "\<And>i s. i \<in> set is \<Longrightarrow> i2c s = v \<Longrightarrow> shows_text (f i) (g i) s (step i s)" "i2c s = v"
  shows "shows_text (concat (map f is)) (concat (map g is)) s (fold step is s)"
  using assms
proof (induction "is" arbitrary: s)
  case Nil
  show ?case by (simp add: shows_refl)
next
  case (Cons i "is")
  have h: "shows_text (f i) (g i) s (step i s)" using Cons.prems by simp
  then have "i2c (step i s) = v" using Cons.prems by (simp add: shows_text_def)
  then show ?case using shows_trans [OF h Cons.IH] Cons.prems(1) by simp
qed

section \<open>The scan\<close>

definition probe :: "nat \<Rightarrow> i2c_op list" where
  "probe a = [I2cStart, I2cWrite [of_nat (2 * a)] True, I2cStop]"

definition cell_text :: "nat \<Rightarrow> int \<Rightarrow> string" where
  "cell_text a r = (if r = ESP_OK then hex2 (of_nat a) @ '' '' else if r = ESP_ERR_TIMEOUT then ''UU '' else ''-- '')"

definition scan_table :: "(nat \<Rightarrow> int) \<Rightarrow> string" where
  "scan_table r = detect_head @ concat (map (\<lambda>k. hex2 (of_nat (16 * k)) @ '': '' @
     concat (map (\<lambda>j. cell_text (16 * k + j) (r (16 * k + j))) [0..<16]) @ crlf) [0..<8])"

lemma detect_link_probe: "detect_link a s = begin_link (probe a) s"
proof -
  have "push_bit 1 (int a) OR WRITE_BIT = int (2 * a)" by (simp add: WRITE_BIT_def push_bit_eq_mult)
  then show ?thesis by (simp add: detect_link_def wbyte_def probe_def)
qed

lemma detect_cell_shows:
  assumes "\<forall>h. rc E h (I2cBegin (i2c_port (i2c s)) (probe a)) = r a"
  shows "shows_text (cell_text a (r a)) [probe a] s (detect_cell E a s)"
proof -
  have "ret E (begin_link (probe a) s) s = r a" using assms by (simp add: ret_def begin_link_def)
  then have "detect_cell E a s = printf (cell_text a (r a)) (emit (begin_link (probe a) s) s)"
    by (simp add: detect_cell_def detect_link_probe cell_text_def Let_def)
  then show ?thesis using shows_trans [OF shows_begin shows_printf] by simp
qed

lemma rows_probe:
  "concat (map (\<lambda>k. map (\<lambda>j. f (16 * k + j)) [0..<16]) [0..<n]) = map f [0..<16 * n]"
proof (induction n)
  case (Suc n)
  have "map (\<lambda>j. f (16 * n + j)) [0..<16] = map f (map (\<lambda>j. 16 * n + j) [0..<16])" by simp
  also have "map (\<lambda>j. 16 * n + j) [0..<16] = [16 * n..<16 * Suc n]"
    using map_add_upt [of "16 * n" 16] by (simp add: add.commute)
  finally show ?case using Suc upt_add_eq_append [of 0 "16 * n" 16] by (simp add: add.commute)
qed simp

text \<open>
  C30: On a bus where the answer to a probe depends on the address alone, \<open>i2cdetect\<close> probes the
  addresses 0 to 127 once each in order and prints the table with each answering address at its place,
  \<open>UU\<close> where the bus is busy and \<open>--\<close> where nobody answers.
\<close>

theorem scan_shows_table:
  assumes "\<forall>h a. a < 128 \<longrightarrow> rc E h (I2cBegin (i2c_port (i2c s)) (probe a)) = r a"
  shows "\<exists>s'. do_i2cdetect_cmd E s = (0, s') \<and> printed (hist s') = printed (hist s) @ scan_table r \<and>
    transactions (hist s') = transactions (hist s) @ map probe [0..<128]"
proof -
  define s1 where "s1 = printf detect_head (i2c_open s)"
  have s1: "shows_text detect_head [] s s1"
    using shows_trans [OF shows_open shows_printf] by (simp add: s1_def)
  have row: "shows_text (hex2 (of_nat (16 * k)) @ '': '' @
        concat (map (\<lambda>j. cell_text (16 * k + j) (r (16 * k + j))) [0..<16]) @ crlf)
      (concat (map (\<lambda>j. [probe (16 * k + j)]) [0..<16])) t (detect_row E (16 * k) t)"
    if "k \<in> set [0..<8]" "i2c t = i2c s" for k t
  proof -
    let ?t = "printf (hex2 (of_nat (16 * k)) @ '': '') t"
    have cell: "shows_text (cell_text (16 * k + j) (r (16 * k + j))) [probe (16 * k + j)] u
        (detect_cell E (16 * k + j) u)" if "j \<in> set [0..<16]" "i2c u = i2c s" for j u
      by (rule detect_cell_shows) (use assms that \<open>k \<in> set [0..<8]\<close> in auto)
    have "shows_text (concat (map (\<lambda>j. cell_text (16 * k + j) (r (16 * k + j))) [0..<16]))
        (concat (map (\<lambda>j. [probe (16 * k + j)]) [0..<16])) ?t
        (fold (\<lambda>j. detect_cell E (16 * k + j)) [0..<16] ?t)"
      by (rule shows_fold [where v = "i2c s"], rule cell) (use that in auto)
    from shows_trans [OF shows_trans [OF shows_printf this] shows_printf [of crlf]]
    show ?thesis by (simp add: detect_row_def)
  qed
  have "shows_text (concat (map (\<lambda>k. hex2 (of_nat (16 * k)) @ '': '' @
        concat (map (\<lambda>j. cell_text (16 * k + j) (r (16 * k + j))) [0..<16]) @ crlf) [0..<8]))
      (concat (map (\<lambda>k. concat (map (\<lambda>j. [probe (16 * k + j)]) [0..<16])) [0..<8])) s1
      (fold (\<lambda>k. detect_row E (16 * k)) [0..<8] s1)"
    by (rule shows_fold [where v = "i2c s"], rule row) (use s1 in \<open>auto simp: shows_text_def\<close>)
  from shows_trans [OF shows_trans [OF s1 this] shows_close] show ?thesis
    by (simp add: do_i2cdetect_cmd_def Let_def s1_def shows_text_def scan_table_def rows_probe [of probe 8, simplified])
qed

text \<open>A bus with one chip, at address 0x3c.\<close>

definition one_chip :: env where
  "one_chip = quiet\<lparr>rc := \<lambda>h c. case c of
     I2cBegin p ops \<Rightarrow> if ops = probe 0x3c then ESP_OK else ESP_FAIL | _ \<Rightarrow> ESP_OK\<rparr>"

lemma probe_inj: "a < 128 \<Longrightarrow> b < 128 \<Longrightarrow> probe a = probe b \<longleftrightarrow> a = b"
proof -
  assume h: "a < 128" "b < 128"
  have "(of_nat (2 * a) :: u8) = of_nat (2 * b) \<Longrightarrow> 2 * a = 2 * b"
    using h by (metis of_nat_byte(1) mult_less_mono2 numeral_Bit0 mult_2 add_strict_mono)
  then show "probe a = probe b \<longleftrightarrow> a = b" by (auto simp: probe_def)
qed

theorem scan_shows_table_witness:
  "\<exists>s'. do_i2cdetect_cmd one_chip boot = (0, s') \<and>
     printed (hist s') = scan_table (\<lambda>a. if a = 0x3c then ESP_OK else ESP_FAIL)"
proof -
  have p: "printed (hist boot) = []" by (simp add: boot_def)
  have "\<forall>h a. a < 128 \<longrightarrow> rc one_chip h (I2cBegin (i2c_port (i2c boot)) (probe a)) =
      (if a = 0x3c then ESP_OK else ESP_FAIL)"
    by (simp add: one_chip_def probe_inj)
  then show ?thesis using scan_shows_table [of one_chip boot "\<lambda>a. if a = 0x3c then ESP_OK else ESP_FAIL"] p
    by auto
qed

section \<open>The dump\<close>

text \<open>
  A chip as a map from the addresses 0 to 127 to registers, some of which cannot be read.  A read of
  \<open>n\<close> bytes from \<open>a\<close> delivers the registers from \<open>a\<close> on, and fails where the first of them cannot
  be read.
\<close>

definition serves :: "env \<Rightarrow> int \<Rightarrow> int \<Rightarrow> (nat \<Rightarrow> u8 option) \<Rightarrow> bool" where
  "serves E p chip regs \<longleftrightarrow>
    (\<forall>s n a. i2c_port (i2c s) = p \<longrightarrow> n \<in> {1, 2, 4} \<longrightarrow> a < 128 \<longrightarrow>
      (let c = dump_link chip n a s in
       (case regs a of None \<Rightarrow> ret E c s \<noteq> ESP_OK
        | Some b \<Rightarrow> ret E c s = ESP_OK \<and> fill E c n s = map (the \<circ> regs) [a..<a + n])))"

text \<open>Registers that can be read come in aligned groups of four.\<close>

definition grouped :: "(nat \<Rightarrow> u8 option) \<Rightarrow> bool" where
  "grouped regs \<longleftrightarrow> (\<forall>a < 128. (regs a = None) = (regs (a div 4 * 4) = None))"

definition cell_value :: "u8 option \<Rightarrow> int" where
  "cell_value r = (case r of None \<Rightarrow> -1 | Some b \<Rightarrow> i_of b)"

definition cell_hex :: "u8 option \<Rightarrow> string" where
  "cell_hex r = (case r of None \<Rightarrow> ''XX '' | Some b \<Rightarrow> hex2 b @ '' '')"

definition register_table :: "(nat \<Rightarrow> u8 option) \<Rightarrow> string" where
  "register_table regs = dump_head @ concat (map (\<lambda>k. hex2 (of_nat (16 * k)) @ '': '' @
     concat (map (\<lambda>a. cell_hex (regs a)) [16 * k..<16 * k + 16]) @ ''   '' @
     concat (map (\<lambda>a. dump_char (cell_value (regs a))) [16 * k..<16 * k + 16]) @ crlf) [0..<8])"

lemma group_uniform:
  assumes "grouped regs" "n \<in> {1, 2, 4}" "n dvd a" "a < 128" "x \<in> {a..<a + n}"
  shows "(regs x = None) = (regs a = None)"
proof -
  have "x div 4 * 4 = a div 4 * 4" "x < 128"
    using assms(2-5) by (auto simp: dvd_def)
  then show ?thesis using assms(1,4) unfolding grouped_def by metis
qed

lemma fold_const: "concat (map (\<lambda>_. x) [0..<n]) = concat (replicate n x)"
  by (simp add: map_replicate_trivial)

lemma shows_dump_link:
  "shows_text x [] (emit (dump_link chip n a s) s) s' \<Longrightarrow> \<exists>ts. shows_text x ts s s'"
  using shows_trans [OF shows_begin] unfolding dump_link_def by fastforce

text \<open>A read appends its registers to the block and prints them.\<close>

lemma dump_read_shows:
  assumes "serves E (i2c_port (i2c s)) chip regs" "grouped regs" "n \<in> {1, 2, 4}" "n dvd a" "a < 128"
  shows "\<exists>s' ts. dump_read E chip n a (block, s) = (block @ map (\<lambda>x. cell_value (regs x)) [a..<a + n], s') \<and>
    shows_text (concat (map (\<lambda>x. cell_hex (regs x)) [a..<a + n])) ts s s'"
proof (cases "regs a")
  case None
  let ?c = "dump_link chip n a s"
  have "map regs [a..<a + n] = map (\<lambda>_. None) [a..<a + n]"
    using group_uniform [OF assms(2-5)] None by simp
  then have "map regs [a..<a + n] = replicate n None" by (simp add: map_replicate_const)
  then have "map (f \<circ> regs) [a..<a + n] = replicate n (f None)" for f :: "u8 option \<Rightarrow> 'z"
    by (metis map_map map_replicate)
  from this [of cell_value] this [of cell_hex]
  have m: "map (\<lambda>x. cell_value (regs x)) [a..<a + n] = replicate n (-1)"
    "map (\<lambda>x. cell_hex (regs x)) [a..<a + n] = replicate n ''XX ''"
    by (simp_all add: cell_value_def cell_hex_def comp_def)
  have "ret E ?c s \<noteq> ESP_OK" using assms(1,3,5) None by (force simp: serves_def Let_def)
  then have "dump_read E chip n a (block, s) =
      (block @ replicate n (-1), fold (\<lambda>_. printf ''XX '') [0..<n] (emit ?c s))"
    by (simp add: dump_read_def Let_def)
  moreover have "shows_text (concat (replicate n ''XX '')) [] (emit ?c s) (fold (\<lambda>_. printf ''XX '') [0..<n] (emit ?c s))"
    using shows_printf_fold [of "\<lambda>_. ''XX ''" "[0..<n]"] by (simp add: map_replicate_trivial)
  ultimately show ?thesis using shows_dump_link m by fastforce
next
  case (Some b)
  let ?c = "dump_link chip n a s"
  have "regs x = Some (the (regs x))" if "x \<in> set [a..<a + n]" for x
    using group_uniform [OF assms(2-5)] Some that by simp
  then have "map (\<lambda>x. f (regs x)) [a..<a + n] = map (\<lambda>x. f (Some (the (regs x)))) [a..<a + n]"
    for f :: "u8 option \<Rightarrow> 'z"
    by (intro map_cong arg_cong [of _ _ f]) auto
  from this [of cell_value] this [of cell_hex]
  have m: "map (\<lambda>x. cell_value (regs x)) [a..<a + n] = map i_of (map (the \<circ> regs) [a..<a + n])"
    "map (\<lambda>x. cell_hex (regs x)) [a..<a + n] = map (\<lambda>b. hex2 b @ '' '') (map (the \<circ> regs) [a..<a + n])"
    by (simp_all add: cell_value_def cell_hex_def)
  have "ret E ?c s = ESP_OK" "fill E ?c n s = map (the \<circ> regs) [a..<a + n]"
    using assms(1,3,5) Some by (force simp: serves_def Let_def)+
  then have "dump_read E chip n a (block, s) = (block @ map i_of (map (the \<circ> regs) [a..<a + n]),
      fold (\<lambda>b. printf (hex2 b @ '' '')) (map (the \<circ> regs) [a..<a + n]) (emit ?c s))"
    by (simp add: dump_read_def Let_def)
  moreover have "shows_text (concat (map (\<lambda>x. cell_hex (regs x)) [a..<a + n])) [] (emit ?c s)
      (fold (\<lambda>b. printf (hex2 b @ '' '')) (map (the \<circ> regs) [a..<a + n]) (emit ?c s))"
    unfolding m by (rule shows_printf_fold)
  ultimately show ?thesis using shows_dump_link m(1) by fastforce
qed

text \<open>The reads of a row fill the block with its sixteen registers.\<close>

lemma dump_reads_show:
  assumes "serves E p chip regs" "grouped regs" "n \<in> {1, 2, 4}" "n dvd i" "i + n * k \<le> 128" "i2c_port (i2c s) = p"
  shows "\<exists>s' ts. fold (\<lambda>j. dump_read E chip n (i + n * j)) [0..<k] ([], s) =
      (map (\<lambda>x. cell_value (regs x)) [i..<i + n * k], s') \<and>
    shows_text (concat (map (\<lambda>x. cell_hex (regs x)) [i..<i + n * k])) ts s s'"
  using assms(5)
proof (induction k)
  case 0
  then show ?case using shows_refl by auto
next
  case (Suc k)
  then obtain s1 ts where s1: "fold (\<lambda>j. dump_read E chip n (i + n * j)) [0..<k] ([], s) =
      (map (\<lambda>x. cell_value (regs x)) [i..<i + n * k], s1)"
    "shows_text (concat (map (\<lambda>x. cell_hex (regs x)) [i..<i + n * k])) ts s s1"
    by auto
  have "serves E (i2c_port (i2c s1)) chip regs" using s1(2) assms(1,6) by (simp add: shows_text_def)
  moreover have "n dvd i + n * k" "i + n * k < 128" using assms(3,4) Suc.prems by auto
  ultimately obtain s2 us where s2: "dump_read E chip n (i + n * k) (map (\<lambda>x. cell_value (regs x)) [i..<i + n * k], s1) =
      (map (\<lambda>x. cell_value (regs x)) [i..<i + n * k] @ map (\<lambda>x. cell_value (regs x)) [i + n * k..<i + n * k + n], s2)"
    "shows_text (concat (map (\<lambda>x. cell_hex (regs x)) [i + n * k..<i + n * k + n])) us s1 s2"
    using dump_read_shows [OF _ assms(2,3)] by blast
  have "[i..<i + n * k] @ [i + n * k..<i + n * k + n] = [i..<i + n * Suc k]"
    using upt_add_eq_append [of i "i + n * k" n] by (simp add: algebra_simps)
  then have u: "map f [i..<i + n * Suc k] = map f [i..<i + n * k] @ map f [i + n * k..<i + n * k + n]"
    for f :: "nat \<Rightarrow> 'z"
    by (metis map_append)
  show ?case
    using s1(1) s2(1) shows_trans [OF s1(2) s2(2)] unfolding u by fastforce
qed

lemma dump_row_shows:
  assumes "serves E p chip regs" "grouped regs" "n \<in> {1, 2, 4}" "k < 8" "i2c_port (i2c s) = p"
  shows "\<exists>ts. shows_text (hex2 (of_nat (16 * k)) @ '': '' @
     concat (map (\<lambda>a. cell_hex (regs a)) [16 * k..<16 * k + 16]) @ ''   '' @
     concat (map (\<lambda>a. dump_char (cell_value (regs a))) [16 * k..<16 * k + 16]) @ crlf) ts s
    (dump_row E chip n (16 * k) s)"
proof -
  let ?s = "printf (hex2 (of_nat (16 * k)) @ '': '') s"
  have "n dvd 16 * k" "n * (16 div n) = 16" using assms(3) by auto
  then obtain s1 ts where s1: "fold (\<lambda>j. dump_read E chip n (16 * k + n * j)) [0..<16 div n] ([], ?s) =
      (map (\<lambda>x. cell_value (regs x)) [16 * k..<16 * k + 16], s1)"
    "shows_text (concat (map (\<lambda>x. cell_hex (regs x)) [16 * k..<16 * k + 16])) ts ?s s1"
    using dump_reads_show [OF assms(1-3), of "16 * k" "16 div n" ?s] assms(4,5) by auto
  have r: "dump_row E chip n (16 * k) s = printf crlf (fold (\<lambda>v. printf (dump_char v))
      (map (\<lambda>x. cell_value (regs x)) [16 * k..<16 * k + 16]) (printf ''   '' s1))"
    using s1(1) by (simp add: dump_row_def Let_def)
  have "shows_text (concat (map dump_char (map (\<lambda>x. cell_value (regs x)) [16 * k..<16 * k + 16]))) []
     (printf ''   '' s1) (fold (\<lambda>v. printf (dump_char v))
      (map (\<lambda>x. cell_value (regs x)) [16 * k..<16 * k + 16]) (printf ''   '' s1))"
    by (rule shows_printf_fold)
  from shows_trans [OF shows_printf shows_trans [OF s1(2) shows_trans [OF shows_printf shows_trans [OF this shows_printf [of crlf]]]]]
  show ?thesis unfolding r by (auto simp: comp_def)
qed

lemma rows_show:
  assumes "\<And>k s. k \<in> set ks \<Longrightarrow> i2c s = v \<Longrightarrow> \<exists>ts. shows_text (f k) ts s (step k s)" "i2c s = v"
  shows "\<exists>ts. shows_text (concat (map f ks)) ts s (fold step ks s)"
  using assms
proof (induction ks arbitrary: s)
  case Nil
  show ?case using shows_refl by auto
next
  case (Cons k ks)
  obtain ts where h: "shows_text (f k) ts s (step k s)" using Cons.prems by force
  then have "i2c (step k s) = v" using Cons.prems by (simp add: shows_text_def)
  then obtain us where "shows_text (concat (map f ks)) us (step k s) (fold step ks (step k s))"
    using Cons.IH Cons.prems(1) by force
  from shows_trans [OF h this] show ?case by auto
qed

text \<open>
  C31: Whatever size of reads is asked for, 1, 2 or 4 bytes or none, \<open>i2cdump\<close> prints one and the
  same table, that of the chip's registers, \<open>XX\<close> where they cannot be read, if its registers can be
  read in aligned groups of four or not at all.
\<close>

theorem dump_sizes_agree:
  assumes "serves E (i2c_port (i2c s)) (dump_chip a) regs" "grouped regs"
    and "dump_nerrors a = 0" "dump_size a \<in> {None, Some 1, Some 2, Some 4}"
  shows "\<exists>s'. do_i2cdump_cmd E a s = (0, s') \<and> printed (hist s') = printed (hist s) @ register_table regs"
proof -
  define n where "n = nat (case dump_size a of None \<Rightarrow> 1 | Some n \<Rightarrow> n)"
  have n: "n \<in> {1, 2, 4}" using assms(4) by (auto simp: n_def)
  define s1 where "s1 = printf dump_head (i2c_open s)"
  have s1: "shows_text dump_head [] s s1"
    using shows_trans [OF shows_open shows_printf] by (simp add: s1_def)
  let ?row = "\<lambda>k. hex2 (of_nat (16 * k)) @ '': '' @
     concat (map (\<lambda>a. cell_hex (regs a)) [16 * k..<16 * k + 16]) @ ''   '' @
     concat (map (\<lambda>a. dump_char (cell_value (regs a))) [16 * k..<16 * k + 16]) @ crlf"
  have "\<exists>ts. shows_text (?row k) ts t (dump_row E (dump_chip a) n (16 * k) t)"
    if "k \<in> set [0..<8]" "i2c t = i2c s" for k t
    using dump_row_shows [OF assms(1,2) n, of k t] that by simp
  then have "\<exists>ts. shows_text (concat (map ?row [0..<8])) ts s1
      (fold (\<lambda>k. dump_row E (dump_chip a) n (16 * k)) [0..<8] s1)"
    by (rule rows_show [where v = "i2c s"]) (use s1 in \<open>auto simp: shows_text_def\<close>)
  then obtain ts where "shows_text (concat (map ?row [0..<8])) ts s1
      (fold (\<lambda>k. dump_row E (dump_chip a) n (16 * k)) [0..<8] s1)" by blast
  note all = shows_trans [OF shows_trans [OF s1 this] shows_close]
  have "do_i2cdump_cmd E a s =
      (0, i2c_close (fold (\<lambda>k. dump_row E (dump_chip a) n (16 * k)) [0..<8] s1))"
    using assms(3,4) by (auto simp: do_i2cdump_cmd_def Let_def s1_def n_def)
  then show ?thesis using all unfolding shows_text_def register_table_def by simp
qed

text \<open>A chip whose registers hold their own addresses.\<close>

definition counting_chip :: env where
  "counting_chip = quiet\<lparr>rb := \<lambda>h c. case c of
     I2cBegin p ops \<Rightarrow> (case ops of
       I2cStart # I2cWrite w1 k1 # I2cWrite w k # rest \<Rightarrow> map (\<lambda>j. hd w + of_nat j) [0..<4] | _ \<Rightarrow> [])
     | _ \<Rightarrow> []\<rparr>"

theorem dump_sizes_agree_witness:
  "(\<exists>s'. do_i2cdump_cmd counting_chip \<lparr>dump_nerrors = 0, dump_chip = 0x3c, dump_size = None\<rparr> boot = (0, s') \<and>
     printed (hist s') = register_table (\<lambda>a. Some (of_nat a))) \<and>
   (\<exists>s'. do_i2cdump_cmd counting_chip \<lparr>dump_nerrors = 0, dump_chip = 0x3c, dump_size = Some 4\<rparr> boot = (0, s') \<and>
     printed (hist s') = register_table (\<lambda>a. Some (of_nat a)))"
proof -
  have "fill counting_chip (dump_link 0x3c n a s) n s = map (\<lambda>a. of_nat a) [a..<a + n]" if "n \<in> {1, 2, 4}" for n a s
  proof -
    have "got counting_chip (dump_link 0x3c n a s) s = map (\<lambda>j. of_nat a + of_nat j) [0..<4]"
      by (simp add: got_def counting_chip_def dump_link_def begin_link_def wbyte_def)
    moreover have "n \<le> 4" using that by auto
    moreover from this have "take n [0..<4] = [0..<n]" by (simp only: take_upt add_0)
    ultimately have "fill counting_chip (dump_link 0x3c n a s) n s = map (\<lambda>j. of_nat a + of_nat j) [0..<n]"
      by (simp add: fill_def fit_def take_map del: upt_conv_Nil upt_rec_numeral)
    also have "\<dots> = map of_nat (map (\<lambda>j. j + a) [0..<n])" by (simp add: add.commute)
    finally show ?thesis by (simp only: map_add_upt add.commute)
  qed
  then have "serves counting_chip (i2c_port (i2c boot)) 0x3c (\<lambda>a. Some (of_nat a))"
    by (auto simp: serves_def Let_def ret_def counting_chip_def quiet_def ESP_OK_def comp_def)
  moreover have "printed (hist boot) = []" by (simp add: boot_def)
  ultimately show ?thesis
    using dump_sizes_agree [of counting_chip boot "\<lparr>dump_nerrors = 0, dump_chip = 0x3c, dump_size = None\<rparr>"]
      dump_sizes_agree [of counting_chip boot "\<lparr>dump_nerrors = 0, dump_chip = 0x3c, dump_size = Some 4\<rparr>"]
    by (auto simp: grouped_def)
qed

section \<open>Reading with a length\<close>

text \<open>
  \<open>i2cget\<close> does not check its length: where the read succeeds, a length of 0 or less stores the last
  byte before the block, and any other prints exactly the bytes read.
\<close>

lemma get_writes_before_block:
  assumes "\<forall>h ops. rc E h (I2cBegin (i2c_port (i2c s)) ops) = ESP_OK" "get_nerrors a = 0"
    and "get_length a = Some l" "l < 1"
  shows "do_i2cget_cmd E a s = Inl WriteOOB"
proof -
  have "i2c (i2c_open (emit c s)) = i2c s" for c
    by (simp add: i2c_open_def i2c_master_driver_initialize_def)
  then have "ret E (get_link chip reg l (i2c_open (emit c s))) (i2c_open (emit c s)) = ESP_OK" for chip reg c
    using assms(1) by (simp add: ret_def get_link_def begin_link_def)
  then show ?thesis using assms(2-4) by (simp add: do_i2cget_cmd_def Let_def)
qed

lemma get_prints_bytes:
  assumes "\<forall>h ops. rc E h (I2cBegin (i2c_port (i2c s)) ops) = ESP_OK \<and>
      rb E h (I2cBegin (i2c_port (i2c s)) ops) = bs"
    and "\<forall>h n. rc E h (Api ''malloc'' [n]) \<noteq> 0"
    and "get_nerrors a = 0" "get_length a = Some (int (length bs))" "bs \<noteq> []"
  shows "\<exists>s'. do_i2cget_cmd E a s = Inr (0, s') \<and> printed (hist s') = printed (hist s) @ get_text bs"
proof -
  let ?m = "Api ''malloc'' [int (length bs)]"
  let ?s = "i2c_open (emit ?m s)"
  let ?c = "get_link (get_chip a) (get_register a) (int (length bs)) ?s"
  have i: "i2c ?s = i2c s" by (simp add: i2c_open_def i2c_master_driver_initialize_def)
  have r: "ret E ?c ?s = ESP_OK" "fill E ?c (length bs) ?s = bs"
    using assms(1) i by (simp_all add: ret_def fill_def got_def fit_def get_link_def begin_link_def)
  have l: "\<not> int (length bs) < 1" using assms(5) by (cases bs) auto
  have "shows_text ([] @ [] @ get_text bs @ [] @ []) ([] @ [] @ [] @ [] @ []) (emit ?c ?s)
      (i2c_close (emit (Api ''free'' []) (printf (get_text bs) (emit ?c ?s))))"
    using shows_trans [OF shows_refl shows_trans [OF shows_refl shows_trans [OF shows_printf shows_trans [OF shows_api shows_close]]]] .
  moreover have "printed (hist (emit ?c ?s)) = printed (hist s)"
    by (simp add: get_link_def begin_link_def i2c_open_def i2c_master_driver_initialize_def)
  ultimately show ?thesis
    using assms(2-4) r l by (auto simp: do_i2cget_cmd_def Let_def ret_def shows_text_def)
qed

end
