(* ===== verification/NvsProps.thy ===== *)
theory NvsProps
  imports Nvs I2cProps
begin

text \<open>
  What the settings commands promise: a value that is set can be got back as it was, what is stored
  has the size of its type, and one number out of range spoils every later set.
\<close>

section \<open>Numbers as bytes\<close>

lemma le_bytes_Suc: "le_bytes (Suc n) v = b_of v # le_bytes n (drop_bit 8 v)"
  by (simp add: le_bytes_def upt_conv_Cons map_Suc_upt [symmetric] o_def add.commute
      del: upt_Suc)

lemma length_le_bytes [simp]: "length (le_bytes n v) = n"
  by (simp add: le_bytes_def)

lemma le_uint_le_bytes: "le_uint (le_bytes n v) = v mod 256 ^ n"
proof (induction n arbitrary: v)
  case 0
  then show ?case by (simp add: le_bytes_def)
next
  case (Suc n)
  have "v mod (256 * 256 ^ n) = 256 * (v div 256 mod 256 ^ n) + v mod 256"
    by (rule zmod_zmult2_eq) simp
  then show ?case
    using Suc by (simp add: le_bytes_Suc drop_bit_eq_div uint_word_of_int)
qed

lemma le_sint_le_bytes:
  assumes "- (256 ^ n) \<le> 2 * v" "2 * v < 256 ^ n"
  shows "le_sint (le_bytes n v) = v"
proof (cases "v < 0")
  case True
  then have "(v + 256 ^ n) mod 256 ^ n = v + 256 ^ n" using assms(1)
    by (intro mod_pos_pos_trivial) linarith+
  then have "v mod 256 ^ n = v + 256 ^ n" by simp
  then show ?thesis using True assms by (simp add: le_sint_def le_uint_le_bytes Let_def)
next
  case False
  then have "v mod 256 ^ n = v" using assms(2) by (intro mod_pos_pos_trivial) linarith+
  then show ?thesis using assms(2) by (simp add: le_sint_def le_uint_le_bytes)
qed

section \<open>A store that keeps what it is given\<close>

text \<open>
  The settings as the calls so far leave them: the namespace opened last, and for a namespace and a
  key the type and the bytes put last.
\<close>

type_synonym settings = "string \<times> string \<Rightarrow> (string \<times> u8 list) option"

fun settings_step :: "call \<Rightarrow> string \<times> settings \<Rightarrow> string \<times> settings" where
  "settings_step (ApiS f as) (ns, m) = (if f = ''nvs_open'' \<and> as \<noteq> [] then hd as else ns, m)"
| "settings_step (NvsPut fn key bs) (ns, m) = (ns, m((ns, key) \<mapsto> (drop 8 fn, bs)))"
| "settings_step c (ns, m) = (ns, m)"

definition settings_of :: "call list \<Rightarrow> string \<times> settings" where
  "settings_of h = fold settings_step h ([], Map.empty)"

abbreviation setting :: "dev \<Rightarrow> string \<Rightarrow> (string \<times> u8 list) option" where
  "setting s key \<equiv> snd (settings_of (hist s)) (current_namespace (con s), key)"

lemma settings_snoc [simp]:
  "settings_of (h @ [c]) = settings_step c (settings_of h)"
  "settings_of (h @ [c, d]) = settings_step d (settings_step c (settings_of h))"
  by (simp_all add: settings_of_def)

text \<open>
  The platform's store as its documentation describes it: opening, putting and committing succeed,
  memory can be had, and a get of the type that was put delivers the bytes.
\<close>

definition keeps_settings :: "env \<Rightarrow> bool" where
  "keeps_settings E \<longleftrightarrow>
    (\<forall>h ns mode. rc E h (ApiS ''nvs_open'' [ns, mode]) = ESP_OK) \<and>
    (\<forall>h. rc E h (Api ''nvs_commit'' []) = ESP_OK) \<and>
    (\<forall>h fn key bs. rc E h (NvsPut fn key bs) = ESP_OK) \<and>
    (\<forall>h n. 0 < n \<longrightarrow> rc E h (Api ''malloc'' [n]) \<noteq> 0) \<and>
    (\<forall>h key ty bs. snd (settings_of h) (fst (settings_of h), key) = Some (ty, bs) \<longrightarrow>
       rc E h (Nvs (''nvs_get_'' @ ty) key) = ESP_OK \<and> rb E h (Nvs (''nvs_get_'' @ ty) key) = bs)"

text \<open>The range of a numeric type and its size in bytes.\<close>

definition number_range :: "string \<Rightarrow> (int \<times> int \<times> nat) option" where
  "number_range t = map_of
    [(''i8'', -128, 128, 1), (''u8'', 0, 256, 1), (''i16'', -32768, 32768, 2), (''u16'', 0, 65536, 2),
     (''i32'', - (2 ^ 31), 2 ^ 31, 4), (''u32'', 0, 2 ^ 32, 4), (''i64'', - (2 ^ 63), 2 ^ 63, 8),
     (''u64'', 0, 2 ^ 64, 8)] t"

text \<open>
  The text \<open>x\<close> of a value of type \<open>t\<close>, its bytes and what reading it prints.  A negative \<open>i16\<close> is
  printed as the unsigned 32-bit number it converts to.
\<close>

definition encodes :: "string \<Rightarrow> string \<Rightarrow> u8 list \<Rightarrow> string \<Rightarrow> bool" where
  "encodes t x bs out \<longleftrightarrow>
    (\<exists>v l u n. number_range t = Some (l, u, n) \<and> l \<le> v \<and> v < u \<and> x = dec v \<and> bs = le_bytes n v \<and>
       out = dec (if t = ''i16'' \<and> v < 0 then v + 2 ^ 32 else v)) \<or>
    t = ''str'' \<and> (CHR 0x00) \<notin> set x \<and> bs = map byte_of x @ [0] \<and> out = x \<or>
    t = ''blob'' \<and> bs \<noteq> [] \<and> x = concat (map hex2 bs) \<and> out = x"

lemma number_types:
  assumes "number_range t = Some (l, u, n)"
  obtains "t = ''i8''" "l = -128" "u = 128" "n = 1" | "t = ''u8''" "l = 0" "u = 256" "n = 1"
  | "t = ''i16''" "l = -32768" "u = 32768" "n = 2" | "t = ''u16''" "l = 0" "u = 65536" "n = 2"
  | "t = ''i32''" "l = - (2 ^ 31)" "u = 2 ^ 31" "n = 4" | "t = ''u32''" "l = 0" "u = 2 ^ 32" "n = 4"
  | "t = ''i64''" "l = - (2 ^ 63)" "u = 2 ^ 63" "n = 8" | "t = ''u64''" "l = 0" "u = 2 ^ 64" "n = 8"
  using assms unfolding number_range_def by (auto split: if_splits)

lemma str_to_type_simps [simp]:
  "str_to_type ''i8'' = NVS_TYPE_I8" "str_to_type ''u8'' = NVS_TYPE_U8"
  "str_to_type ''i16'' = NVS_TYPE_I16" "str_to_type ''u16'' = NVS_TYPE_U16"
  "str_to_type ''i32'' = NVS_TYPE_I32" "str_to_type ''u32'' = NVS_TYPE_U32"
  "str_to_type ''i64'' = NVS_TYPE_I64" "str_to_type ''u64'' = NVS_TYPE_U64"
  "str_to_type ''str'' = NVS_TYPE_STR" "str_to_type ''blob'' = NVS_TYPE_BLOB"
  by (simp_all add: str_to_type_def type_str_pair_def)

text \<open>The text of a blob gives its bytes.\<close>

lemma hex_value_hexd: "hex_value (hexd n) = Some (of_nat (n mod 16))"
proof -
  have "n mod 16 < 16" by simp
  then have "n mod 16 \<in> {0..<16}" by simp
  then show ?thesis
    by (auto simp: hex_value_def hexd_def Let_def atLeastLessThan_nat_numeral)
qed

lemma nibbles: "push_bit 4 (of_nat (unat b div 16 mod 16)) + of_nat (unat b mod 16) = (b :: u8)"
proof -
  have "unat b < 2 ^ LENGTH(8)" by (rule unsigned_less)
  then have "unat b div 16 < 16" by (simp add: less_mult_imp_div_less)
  moreover have "(of_nat (unat b div 16 * 16 + unat b mod 16) :: u8) = b"
    unfolding div_mult_mod_eq by simp
  then have "of_nat (unat b div 16) * 16 + of_nat (unat b mod 16) = b"
    by (simp only: of_nat_add of_nat_mult of_nat_numeral)
  ultimately show ?thesis by (simp add: push_bit_eq_mult)
qed

lemma blob_bytes_hex: "blob_bytes (concat (map hex2 bs)) = Some bs"
  by (induction bs) (simp_all add: hex2_def hex_value_hexd nibbles)

lemma length_hex: "length (concat (map hex2 bs)) = 2 * length bs"
  by (induction bs) (simp_all add: hex2_def)

section \<open>Setting and getting\<close>

lemma con_emit_simps [simp]:
  "con (nvs_close s) = con s" "hist (nvs_close s) = hist s @ [Api ''nvs_close'' []]"
  by (simp_all add: nvs_close_def)

lemma settings_step_simps [simp]:
  "settings_step (Api f as) x = x" "settings_step (Print y) x = x" "settings_step (Nvs g key) x = x"
  "settings_step (ApiS ''nvs_open'' [ns, mode]) x = (ns, snd x)"
  "settings_step (NvsPut fn key bs) x = (fst x, (snd x)((fst x, key) \<mapsto> (drop 8 fn, bs)))"
  by (cases x; simp)+

lemma converted_dec:
  "- (2 ^ 31) \<le> v \<Longrightarrow> v < 2 ^ 31 \<Longrightarrow> converted (strtol 32 (dec v)) s = (v, s)"
  "- (2 ^ 63) \<le> v \<Longrightarrow> v < 2 ^ 63 \<Longrightarrow> converted (strtol 64 (dec v)) s = (v, s)"
  "0 \<le> v \<Longrightarrow> v < 2 ^ 32 \<Longrightarrow> converted (strtoul 32 (dec v)) s = (v, s)"
  "0 \<le> v \<Longrightarrow> v < 2 ^ 64 \<Longrightarrow> converted (strtoul 64 (dec v)) s = (v, s)"
  by (simp_all add: converted_def strtol_dec strtoul_dec)

text \<open>Storing a value puts its bytes under its type, and nothing of the console's state changes.\<close>

lemma store_value_puts:
  assumes "encodes t x bs out" "keeps_settings E" "\<not> erange (con s)"
  shows "\<exists>s1. store_value E (str_to_type t) key x s = (ESP_OK, False, s1) \<and> con s1 = con s \<and>
    settings_of (hist s1) = settings_step (NvsPut (''nvs_set_'' @ t) key bs) (settings_of (hist s))"
  using assms(1) unfolding encodes_def
proof (elim disjE exE conjE)
  fix v l u n
  assume r: "number_range t = Some (l, u, n)" and v: "l \<le> v" "v < u" "x = dec v" "bs = le_bytes n v"
  have p: "nvs_put E fn key bs s = (ESP_OK, emit (NvsPut fn key bs) s)" for fn key bs
    using assms(2) by (simp add: nvs_put_def keeps_settings_def ret_def)
  show ?thesis
    by (rule number_types [OF r]; insert v assms(3);
        simp add: store_value_def nvs_type_defs converted_dec p)
next
  assume "t = ''str''" "bs = map byte_of x @ [0]"
  then show ?thesis
    using assms(2) by (simp add: store_value_def nvs_type_defs nvs_put_def keeps_settings_def ret_def)
next
  assume b: "t = ''blob''" "bs \<noteq> []" "x = concat (map hex2 bs)"
  then have "store_blob E key x s = (ESP_OK, emits [Api ''malloc'' [int (length bs)],
      NvsPut ''nvs_set_blob'' key bs, Api ''free'' [], Api ''nvs_commit'' []] s)"
    using assms(2)
    by (simp add: store_blob_def length_hex blob_bytes_hex nvs_put_def nvs_commit_def keeps_settings_def
        ret_def emits_def emit_def Let_def)
  then show ?thesis
    using b by (simp add: store_value_def nvs_type_defs settings_of_def)
qed

lemma encodes_type: "encodes t x bs out \<Longrightarrow> str_to_type t \<noteq> NVS_TYPE_ANY"
  by (auto simp: encodes_def nvs_type_defs elim!: number_types)

lemma set_value_puts:
  assumes "encodes t x bs out" "keeps_settings E" "\<not> erange (con s)"
  shows "\<exists>s1. set_value_in_nvs E key t x s = (ESP_OK, s1) \<and> con s1 = con s \<and> setting s1 key = Some (t, bs)"
proof -
  let ?c = "ApiS ''nvs_open'' [current_namespace (con s), ''NVS_READWRITE'']"
  have o: "nvs_open E ''NVS_READWRITE'' s = (ESP_OK, emit ?c s)"
    using assms(2) by (simp add: nvs_open_def keeps_settings_def ret_def)
  have c: "nvs_commit E s = (ESP_OK, emit (Api ''nvs_commit'' []) s)" for s
    using assms(2) by (simp add: nvs_commit_def keeps_settings_def ret_def)
  have "\<not> erange (con (emit ?c s))" using assms(3) by simp
  from store_value_puts [OF assms(1,2) this] obtain s1 where
    s1: "store_value E (str_to_type t) key x (emit ?c s) = (ESP_OK, False, s1)" "con s1 = con s"
      "settings_of (hist s1) = settings_step (NvsPut (''nvs_set_'' @ t) key bs) (settings_of (hist (emit ?c s)))"
    by auto
  then show ?thesis
    using assms(3) encodes_type [OF assms(1)] by (simp add: set_value_in_nvs_def o c Let_def)
qed

text \<open>A value that is there is printed.\<close>

lemma print_blob_text: "printed (hist (print_blob bs s)) = printed (hist s) @ concat (map hex2 bs) @ [char_of (10::nat)]"
  using shows_trans [OF shows_printf_fold shows_printf] unfolding print_blob_def shows_text_def by fastforce

lemma byte_of_zero: "byte_of c = 0 \<longleftrightarrow> c = CHR 0x00"
proof
  assume "byte_of c = 0"
  then have "char_of_byte (byte_of c) = char_of_byte 0" by simp
  then show "c = CHR 0x00" unfolding char_of_byte_of by (simp add: char_of_byte_def char_of_def)
qed (simp add: byte_of_def)

lemma fit_self: "length bs = n \<Longrightarrow> fit n bs = bs"
  by (auto simp: fit_def)

lemma mod_minus: "- m \<le> v \<Longrightarrow> v < 0 \<Longrightarrow> v mod m = v + (m :: int)"
proof -
  assume "- m \<le> v" "v < 0"
  then have "(v + m) mod m = v + m" by (intro mod_pos_pos_trivial) linarith+
  then show ?thesis by simp
qed

lemma load_value_prints:
  assumes "encodes t x bs out" "keeps_settings E" "snd (settings_of (hist s)) (fst (settings_of (hist s)), key) = Some (t, bs)"
  shows "\<exists>s2. load_value E (str_to_type t) key s = Inr (ESP_OK, s2) \<and>
    printed (hist s2) = printed (hist s) @ out @ [char_of (10::nat)]"
proof -
  let ?c = "Nvs (''nvs_get_'' @ t) key" and ?m = "Api ''malloc'' [int (length bs)]"
  have g: "ret E ?c s' = ESP_OK" "got E ?c s' = bs" if "settings_of (hist s') = settings_of (hist s)" for s'
    using assms(2,3) that unfolding keeps_settings_def ret_def got_def by metis+
  have bytes: "get_bytes E (''nvs_get_'' @ t) key k s =
      bindE (k False bs (emits [?c, ?m, ?c] s)) (\<lambda>s. Inr (ESP_OK, emit (Api ''free'' []) s))" if "bs \<noteq> []" for k
  proof -
    have "ret E ?m (emit ?c s) \<noteq> 0"
      using assms(2) that by (simp add: keeps_settings_def ret_def)
    then show ?thesis
      using g by (simp add: get_bytes_def fill_def fit_self Let_def) (simp add: emits_def emit_def)
  qed
  show ?thesis
    using assms(1) unfolding encodes_def
  proof (elim disjE exE conjE)
    fix v l u n
    assume r: "number_range t = Some (l, u, n)" and v: "l \<le> v" "v < u" "x = dec v" "bs = le_bytes n v"
      "out = dec (if t = ''i16'' \<and> v < 0 then v + 2 ^ 32 else v)"
    have num: "get_number E (''nvs_get_'' @ t) key n f s = (ESP_OK, printf (f (le_bytes n v) @ [char_of (10::nat)]) (emit ?c s))" for f
      using g v by (simp add: get_number_def fill_def fit_self)
    show ?thesis
      by (rule number_types [OF r]; insert v num; cases "v < 0";
          simp add: load_value_def nvs_type_defs le_sint_le_bytes le_uint_le_bytes pct_u_def mod_minus)
  next
    assume h: "t = ''str''" "(CHR 0x00) \<notin> set x" "bs = map byte_of x @ [0]" "out = x"
    have "\<forall>c \<in> set x. byte_of c \<noteq> 0" using h(2) unfolding byte_of_zero by metis
    then have "takeWhile (\<lambda>b. b \<noteq> 0) bs = map byte_of x"
      unfolding h(3) by (subst takeWhile_append2) auto
    then have "map char_of_byte (takeWhile (\<lambda>b. b \<noteq> 0) bs) = x" by (simp add: comp_def)
    moreover have "bs \<noteq> []" "0 \<in> set bs" using h(3) by simp_all
    ultimately have "get_bytes E ''nvs_get_str'' key print_str s = Inr (ESP_OK, emit (Api ''free'' [])
        (printf (x @ [char_of (10::nat)]) (emits [?c, ?m, ?c] s)))"
      using bytes [of print_str] h(1) by (simp add: print_str_def)
    then show ?thesis using h by (simp add: load_value_def nvs_type_defs)
  next
    assume h: "t = ''blob''" "bs \<noteq> []" "x = concat (map hex2 bs)" "out = x"
    then have "get_bytes E ''nvs_get_blob'' key print_blob_at s = Inr (ESP_OK, emit (Api ''free'' [])
        (print_blob bs (emits [?c, ?m, ?c] s)))"
      using bytes [of print_blob_at] by (simp add: print_blob_at_def)
    then show ?thesis using h by (simp add: load_value_def nvs_type_defs print_blob_text)
  qed
qed

lemma get_value_prints:
  assumes "encodes t x bs out" "keeps_settings E" "setting s key = Some (t, bs)"
  shows "\<exists>s2. get_value_from_nvs E key t s = Inr (ESP_OK, s2) \<and>
    printed (hist s2) = printed (hist s) @ out @ [char_of (10::nat)]"
proof -
  let ?c = "ApiS ''nvs_open'' [current_namespace (con s), ''NVS_READONLY'']"
  have o: "nvs_open E ''NVS_READONLY'' s = (ESP_OK, emit ?c s)"
    using assms(2) by (simp add: nvs_open_def keeps_settings_def ret_def)
  have "snd (settings_of (hist (emit ?c s))) (fst (settings_of (hist (emit ?c s))), key) = Some (t, bs)"
    using assms(3) by simp
  from load_value_prints [OF assms(1,2) this] show ?thesis
    using encodes_type [OF assms(1)] by (auto simp: get_value_from_nvs_def o Let_def)
qed

section \<open>What a set command may do\<close>

text \<open>
  Whatever its arguments and the platform's answers, it puts values only under its key and with the
  size of their type, keeps the namespace, and never clears the error number.
\<close>

definition sized :: "string \<Rightarrow> u8 list \<Rightarrow> bool" where
  "sized ty bs \<longleftrightarrow> (case number_range ty of Some (l, u, n) \<Rightarrow> length bs = n
     | None \<Rightarrow> ty = ''str'' \<and> bs \<noteq> [] \<and> last bs = 0 \<or> ty = ''blob'')"

fun put_ok :: "string \<Rightarrow> call \<Rightarrow> bool" where
  "put_ok k (NvsPut fn key bs) \<longleftrightarrow> key = k \<and> sized (drop 8 fn) bs"
| "put_ok k c \<longleftrightarrow> True"

definition puts_only :: "string \<Rightarrow> dev \<Rightarrow> dev \<Rightarrow> bool" where
  "puts_only k s s' \<longleftrightarrow> (\<exists>cs. hist s' = hist s @ cs \<and> (\<forall>c \<in> set cs. put_ok k c)) \<and>
     current_namespace (con s') = current_namespace (con s) \<and> (erange (con s) \<longrightarrow> erange (con s'))"

lemma puts_only_refl: "puts_only k s s"
  by (simp add: puts_only_def)

lemma puts_only_trans: "puts_only k s s1 \<Longrightarrow> puts_only k s1 s2 \<Longrightarrow> puts_only k s s2"
  by (fastforce simp: puts_only_def)

lemma puts_only_emit: "puts_only k s s1 \<Longrightarrow> put_ok k c \<Longrightarrow> puts_only k s (emit c s1)"
  by (fastforce simp: puts_only_def)

lemma puts_only_converted: "puts_only k s s1 \<Longrightarrow> puts_only k s (snd (converted r s1))"
  by (auto simp: puts_only_def converted_def upd_con_def)

lemma sized_simps:
  "sized ''i8'' (le_bytes 1 v)" "sized ''u8'' (le_bytes 1 v)" "sized ''i16'' (le_bytes 2 v)"
  "sized ''u16'' (le_bytes 2 v)" "sized ''i32'' (le_bytes 4 v)" "sized ''u32'' (le_bytes 4 v)"
  "sized ''i64'' (le_bytes 8 v)" "sized ''u64'' (le_bytes 8 v)" "sized ''str'' (bs @ [0])" "sized ''blob'' bs"
  by (simp_all add: sized_def number_range_def)

lemma puts_only_store_blob: "puts_only k s s1 \<Longrightarrow> puts_only k s (snd (store_blob E k x s1))"
  by (auto simp: store_blob_def Let_def nvs_put_def nvs_commit_def sized_simps
      intro!: puts_only_emit split: option.splits)

lemma puts_only_put:
  "puts_only k s (snd (converted r s1)) \<Longrightarrow> sized (drop 8 fn) bs \<Longrightarrow>
   puts_only k s (snd (nvs_put E fn k bs (snd (converted r s1))))"
  by (simp add: nvs_put_def Let_def puts_only_emit)

lemma puts_only_if:
  "puts_only k s (snd (snd a)) \<Longrightarrow> puts_only k s (snd (snd b)) \<Longrightarrow> puts_only k s (snd (snd (if c then a else b)))"
  by simp

lemma sized_calls:
  "sized (drop 8 ''nvs_set_i8'') (le_bytes 1 v)" "sized (drop 8 ''nvs_set_u8'') (le_bytes 1 v)"
  "sized (drop 8 ''nvs_set_i16'') (le_bytes 2 v)" "sized (drop 8 ''nvs_set_u16'') (le_bytes 2 v)"
  "sized (drop 8 ''nvs_set_i32'') (le_bytes 4 v)" "sized (drop 8 ''nvs_set_u32'') (le_bytes 4 v)"
  "sized (drop 8 ''nvs_set_i64'') (le_bytes 8 v)" "sized (drop 8 ''nvs_set_u64'') (le_bytes 8 v)"
  by (simp_all add: sized_simps [simplified])

lemma puts_only_store_value:
  assumes "puts_only k s s1"
  shows "puts_only k s (snd (snd (store_value E ty k x s1)))"
proof -
  note c = puts_only_converted [OF assms]
  note p = puts_only_put [OF c]
  have str: "puts_only k s (snd (nvs_put E ''nvs_set_str'' k (map byte_of x @ [0]) s1))"
    using assms by (simp add: nvs_put_def Let_def puts_only_emit sized_simps)
  show ?thesis
    unfolding store_value_def Let_def split_def
    by (intro puts_only_if; simp only: fst_conv snd_conv;
        (rule c p str puts_only_store_blob assms sized_calls)+)
qed

lemma set_value_puts_only: "puts_only k s (snd (set_value_in_nvs E k t x s))"
proof -
  have o: "puts_only k s (snd (nvs_open E m s))" for m
    by (simp add: nvs_open_def Let_def puts_only_emit puts_only_refl)
  note v = puts_only_store_value [OF o]
  have c: "puts_only k s (snd (nvs_commit E s1))" "puts_only k s (nvs_close s1)" if "puts_only k s s1" for s1
    using that by (simp_all add: nvs_commit_def nvs_close_def Let_def puts_only_emit)
  show ?thesis
    unfolding set_value_in_nvs_def Let_def split_def using o v c puts_only_refl by simp
qed

text \<open>A sequence of set commands, with whatever result.\<close>

definition set_all :: "env \<Rightarrow> (string \<times> string \<times> string) list \<Rightarrow> dev \<Rightarrow> dev" where
  "set_all E cmds s = fold (\<lambda>(k, t, x) s. snd (set_value_in_nvs E k t x s)) cmds s"

lemma set_all_induct:
  assumes "P s" "\<And>k t x s. (k, t, x) \<in> set cmds \<Longrightarrow> P s \<Longrightarrow> P (snd (set_value_in_nvs E k t x s))"
  shows "P (set_all E cmds s)"
  using assms unfolding set_all_def by (induction cmds arbitrary: s) auto

lemma settings_append: "settings_of (h @ cs) = fold settings_step cs (settings_of h)"
  by (simp add: settings_of_def)

lemma puts_only_other:
  assumes "\<forall>c \<in> set cs. put_ok k c" "key \<noteq> k"
  shows "snd (fold settings_step cs x) (ns, key) = snd x (ns, key)"
  using assms
proof (induction cs arbitrary: x)
  case (Cons c cs)
  have "snd (settings_step c x) (ns, key) = snd x (ns, key)"
    using Cons.prems by (cases "(c, x)" rule: settings_step.cases) auto
  then show ?case using Cons by simp
qed simp

lemma set_other_key:
  assumes "key \<noteq> k"
  shows "setting (snd (set_value_in_nvs E k t x s)) key = setting s key"
proof -
  obtain cs where "hist (snd (set_value_in_nvs E k t x s)) = hist s @ cs" "\<forall>c \<in> set cs. put_ok k c"
    "current_namespace (con (snd (set_value_in_nvs E k t x s))) = current_namespace (con s)"
    using set_value_puts_only [of k s E t x] by (auto simp: puts_only_def)
  then show ?thesis using puts_only_other [OF _ assms] by (simp add: settings_append)
qed

text \<open>
  C32: On a store that keeps what it is given, a value set under a key, followed by any set commands
  for other keys, is printed by \<open>nvs_get\<close> as it was set: a number of any of the eight integer types
  within its range, a string, or a blob in hexadecimal; but a negative \<open>i16\<close> is printed as an unsigned
  32-bit number.
\<close>

theorem settings_come_back:
  assumes "keeps_settings E" "encodes t x bs out" "\<not> erange (con s)" "\<forall>(k, t', x') \<in> set cmds. k \<noteq> key"
  shows "\<exists>s1 s2. set_value_in_nvs E key t x s = (ESP_OK, s1) \<and>
    get_value_from_nvs E key t (set_all E cmds s1) = Inr (ESP_OK, s2) \<and>
    printed (hist s2) = printed (hist (set_all E cmds s1)) @ out @ [char_of (10::nat)]"
proof -
  obtain s1 where s1: "set_value_in_nvs E key t x s = (ESP_OK, s1)" "setting s1 key = Some (t, bs)"
    using set_value_puts [OF assms(2,1,3)] by blast
  have "setting (set_all E cmds s1) key = Some (t, bs)"
  proof (rule set_all_induct)
    show "setting s1 key = Some (t, bs)" by (rule s1)
    fix k t' x' s' assume "(k, t', x') \<in> set cmds" "setting s' key = Some (t, bs)"
    then show "setting (snd (set_value_in_nvs E k t' x' s')) key = Some (t, bs)"
      using assms(4) set_other_key [of key k] by fastforce
  qed
  then show ?thesis using s1(1) get_value_prints [OF assms(2,1)] by blast
qed

text \<open>Such a store.\<close>

definition store_env :: env where
  "store_env = \<lparr>rc = \<lambda>h c. case c of
       Nvs fn key \<Rightarrow> (case snd (settings_of h) (fst (settings_of h), key) of
         Some (ty, bs) \<Rightarrow> if fn = ''nvs_get_'' @ ty then ESP_OK else ESP_ERR_NVS_TYPE_MISMATCH
       | None \<Rightarrow> ESP_ERR_NVS_NOT_FOUND)
     | Api f as \<Rightarrow> if f = ''malloc'' then 1 else ESP_OK
     | _ \<Rightarrow> ESP_OK,
     rb = \<lambda>h c. case c of
       Nvs fn key \<Rightarrow> (case snd (settings_of h) (fst (settings_of h), key) of Some (ty, bs) \<Rightarrow> bs | None \<Rightarrow> [])
     | _ \<Rightarrow> [],
     mem = \<lambda>h p. []\<rparr>"

lemma store_env_keeps: "keeps_settings store_env"
  by (simp add: keeps_settings_def store_env_def ESP_OK_def)

theorem settings_come_back_witness:
  "\<exists>s1 s2. set_value_in_nvs store_env ''a'' ''i16'' (dec (-5)) boot = (ESP_OK, s1) \<and>
    get_value_from_nvs store_env ''a'' ''i16'' (set_all store_env [(''b'', ''u8'', ''7'')] s1) = Inr (ESP_OK, s2) \<and>
    printed (hist s2) = printed (hist (set_all store_env [(''b'', ''u8'', ''7'')] s1)) @ dec 4294967291 @ [char_of (10::nat)]"
proof -
  have "encodes ''i16'' (dec (-5)) (le_bytes 2 (-5)) (dec 4294967291)"
    unfolding encodes_def by (rule disjI1, rule exI [of _ "-5"]) (simp add: number_range_def)
  then show ?thesis
    by (rule settings_come_back [OF store_env_keeps]) (simp_all add: boot_def)
qed

text \<open>A set command after an overflow.\<close>

lemma converted_simps [simp]:
  "hist (snd (converted r s)) = hist s" "erange (con s) \<Longrightarrow> erange (con (snd (converted r s)))"
  "current_namespace (con (snd (converted r s))) = current_namespace (con s)"
  "snd r \<Longrightarrow> erange (con (snd (converted r s)))"
  by (auto simp: converted_def upd_con_def)

abbreviation opened :: "dev \<Rightarrow> call" where
  "opened s \<equiv> ApiS ''nvs_open'' [current_namespace (con s), ''NVS_READWRITE'']"

lemma opens:
  "\<forall>h ns mode. rc E h (ApiS ''nvs_open'' [ns, mode]) = ESP_OK \<Longrightarrow>
   nvs_open E ''NVS_READWRITE'' s = (ESP_OK, emit (opened s) s)"
  by (simp add: nvs_open_def ret_def)

lemma set_after_overflow:
  assumes "\<forall>h ns mode. rc E h (ApiS ''nvs_open'' [ns, mode]) = ESP_OK" "erange (con s)" "str_to_type t \<noteq> NVS_TYPE_ANY"
  shows "set_value_in_nvs E k t x s =
    (ESP_ERR_NVS_VALUE_TOO_LONG, nvs_close (snd (snd (store_value E (str_to_type t) k x (emit (opened s) s)))))"
proof -
  have "erange (con (snd (snd (store_value E (str_to_type t) k x (emit (opened s) s)))))"
    using puts_only_store_value [OF puts_only_refl, of k "emit (opened s) s" E "str_to_type t" x] assms(2)
    by (simp add: puts_only_def)
  then show ?thesis
    using assms(3) by (simp add: set_value_in_nvs_def opens [OF assms(1)] split_def Let_def)
qed

lemma store_number_after_overflow:
  assumes "number_range t = Some (l, u, n)" "erange (con s)"
  shows "hist (snd (snd (store_value E (str_to_type t) k x s))) = hist s"
  by (rule number_types [OF assms(1)]; simp add: store_value_def nvs_type_defs split_def Let_def assms(2))

lemma number_type_defined: "number_range t = Some (l, u, n) \<Longrightarrow> str_to_type t \<noteq> NVS_TYPE_ANY"
  by (auto simp: nvs_type_defs elim!: number_types)

text \<open>
  The numbers that the conversion of a type takes without an overflow, between the two bounds: \<open>strtol\<close>
  on 32 bits for the small signed types, \<open>strtoul\<close>, which takes a minus sign, for the small unsigned ones,
  and \<open>strtoll\<close> and \<open>strtoull\<close> for the types of 64 bits.
\<close>

definition conversion_bounds :: "string \<Rightarrow> (int \<times> int) option" where
  "conversion_bounds t = map_of
    [(''i8'', - 2147483649, 2147483648), (''i16'', - 2147483649, 2147483648), (''i32'', - 2147483649, 2147483648),
     (''u8'', - 4294967296, 4294967296), (''u16'', - 4294967296, 4294967296), (''u32'', - 4294967296, 4294967296),
     (''i64'', - 9223372036854775809, 9223372036854775808),
     (''u64'', - 18446744073709551616, 18446744073709551616)] t"

lemma conversion_types:
  assumes "conversion_bounds t = Some (l, u)"
  obtains "t \<in> {''i8'', ''i16'', ''i32''}" "l = - 2147483649" "u = 2147483648"
  | "t \<in> {''u8'', ''u16'', ''u32''}" "l = - 4294967296" "u = 4294967296"
  | "t = ''i64''" "l = - 9223372036854775809" "u = 9223372036854775808"
  | "t = ''u64''" "l = - 18446744073709551616" "u = 18446744073709551616"
  using assms unfolding conversion_bounds_def by (auto split: if_splits)

text \<open>Out of bounds the branch of the type puts nothing, and the error number is set.\<close>

lemma store_value_overflows:
  assumes "conversion_bounds t = Some (l, u)" "\<not> (l < v \<and> v < u)"
  obtains b s' where "store_value E (str_to_type t) key (dec v) s = (ESP_OK, b, s')" "erange (con s')"
    "hist s' = hist s" "current_namespace (con s') = current_namespace (con s)" "str_to_type t \<noteq> NVS_TYPE_ANY"
  using assms(1)
proof (cases rule: conversion_types)
  case 1
  then have "snd (strtol 32 (dec v))" using assms(2) by (intro strtol_dec_out) auto
  then have o: "erange (con (snd (converted (strtol 32 (dec v)) s)))" by simp
  then have "\<exists>b. store_value E (str_to_type t) key (dec v) s = (ESP_OK, b, snd (converted (strtol 32 (dec v)) s))"
    using 1(1) by (elim insertE emptyE; force simp: store_value_def nvs_type_defs split_def Let_def)
  moreover have "str_to_type t \<noteq> NVS_TYPE_ANY" using 1(1) by (auto simp: nvs_type_defs)
  ultimately show ?thesis using o that by auto
next
  case 2
  then have "snd (strtoul 32 (dec v))" using assms(2) by (intro strtoul_dec_out) auto
  then have o: "erange (con (snd (converted (strtoul 32 (dec v)) s)))" by simp
  then have "\<exists>b. store_value E (str_to_type t) key (dec v) s = (ESP_OK, b, snd (converted (strtoul 32 (dec v)) s))"
    using 2(1) by (elim insertE emptyE; force simp: store_value_def nvs_type_defs split_def Let_def)
  moreover have "str_to_type t \<noteq> NVS_TYPE_ANY" using 2(1) by (auto simp: nvs_type_defs)
  ultimately show ?thesis using o that by auto
next
  case 3
  then have "snd (strtol 64 (dec v))" using assms(2) by (intro strtol_dec_out) auto
  then have o: "erange (con (snd (converted (strtol 64 (dec v)) s)))" by simp
  then have "\<exists>b. store_value E (str_to_type t) key (dec v) s = (ESP_OK, b, snd (converted (strtol 64 (dec v)) s))"
    using 3(1) by (force simp: store_value_def nvs_type_defs split_def Let_def)
  moreover have "str_to_type t \<noteq> NVS_TYPE_ANY" using 3(1) by (auto simp: nvs_type_defs)
  ultimately show ?thesis using o that by auto
next
  case 4
  then have "snd (strtoul 64 (dec v))" using assms(2) by (intro strtoul_dec_out) auto
  then have o: "erange (con (snd (converted (strtoul 64 (dec v)) s)))" by simp
  then have "\<exists>b. store_value E (str_to_type t) key (dec v) s = (ESP_OK, b, snd (converted (strtoul 64 (dec v)) s))"
    using 4(1) by (force simp: store_value_def nvs_type_defs split_def Let_def)
  moreover have "str_to_type t \<noteq> NVS_TYPE_ANY" using 4(1) by (auto simp: nvs_type_defs)
  ultimately show ?thesis using o that by auto
qed

text \<open>
  C34: A decimal number that the conversion of its type cannot take (beyond 32 bits for the types of up to
  32 bits, beyond 64 for the others; a minus sign is allowed in the unsigned types) is refused as too long
  and not put, and from then on every \<open>nvs_set\<close> of any type fails as too long, whatever its value,
  because the error number is never cleared: no number is put any more, and a string is put, reported as
  too long, and not committed.
\<close>

theorem one_overflow_spoils_all:
  assumes "\<forall>h ns mode. rc E h (ApiS ''nvs_open'' [ns, mode]) = ESP_OK"
    and "conversion_bounds t = Some (l, u)" "v \<le> l \<or> u \<le> v"
  shows "\<exists>s1. set_value_in_nvs E key t (dec v) s = (ESP_ERR_NVS_VALUE_TOO_LONG, s1) \<and>
    hist s1 = hist s @ [ApiS ''nvs_open'' [current_namespace (con s), ''NVS_READWRITE''], Api ''nvs_close'' []] \<and>
    (\<forall>cmds k t' x'. let s2 = set_all E cmds s1; op = ApiS ''nvs_open'' [current_namespace (con s), ''NVS_READWRITE''] in
      (str_to_type t' \<noteq> NVS_TYPE_ANY \<longrightarrow> fst (set_value_in_nvs E k t' x' s2) = ESP_ERR_NVS_VALUE_TOO_LONG) \<and>
      (number_range t' \<noteq> None \<longrightarrow> hist (snd (set_value_in_nvs E k t' x' s2)) = hist s2 @ [op, Api ''nvs_close'' []]) \<and>
      hist (snd (set_value_in_nvs E k ''str'' x' s2)) =
        hist s2 @ [op, NvsPut ''nvs_set_str'' k (map byte_of x' @ [0]), Api ''nvs_close'' []])"
proof -
  have "\<not> (l < v \<and> v < u)" using assms(3) by auto
  from store_value_overflows [OF assms(2) this, of E key "emit (opened s) s"] obtain b s0 where
    b: "store_value E (str_to_type t) key (dec v) (emit (opened s) s) = (ESP_OK, b, s0)"
    and o: "erange (con s0)" and h: "hist s0 = hist s @ [opened s]"
    and n: "current_namespace (con s0) = current_namespace (con s)" and t: "str_to_type t \<noteq> NVS_TYPE_ANY"
    by (metis emit_simps(1) emit_simps(9))
  define s1 where "s1 = nvs_close s0"
  have r: "set_value_in_nvs E key t (dec v) s = (ESP_ERR_NVS_VALUE_TOO_LONG, s1)" "hist s1 = hist s0 @ [Api ''nvs_close'' []]"
    using o b t by (simp_all add: set_value_in_nvs_def opens [OF assms(1)] s1_def split_def Let_def nvs_close_def)
  have e: "erange (con s2) \<and> current_namespace (con s2) = current_namespace (con s)" if "s2 = set_all E cmds s1" for cmds s2
    unfolding that
  proof (rule set_all_induct)
    show "erange (con s1) \<and> current_namespace (con s1) = current_namespace (con s)"
      using o n by (simp add: s1_def)
  next
    fix k t' x' and s' :: dev assume "erange (con s') \<and> current_namespace (con s') = current_namespace (con s)"
    then show "erange (con (snd (set_value_in_nvs E k t' x' s'))) \<and>
        current_namespace (con (snd (set_value_in_nvs E k t' x' s'))) = current_namespace (con s)"
      using set_value_puts_only [of k s' E t' x'] by (simp add: puts_only_def)
  qed
  have "(str_to_type t' \<noteq> NVS_TYPE_ANY \<longrightarrow> fst (set_value_in_nvs E k t' x' s2) = ESP_ERR_NVS_VALUE_TOO_LONG) \<and>
      (number_range t' \<noteq> None \<longrightarrow> hist (snd (set_value_in_nvs E k t' x' s2)) = hist s2 @ [opened s, Api ''nvs_close'' []]) \<and>
      hist (snd (set_value_in_nvs E k ''str'' x' s2)) =
        hist s2 @ [opened s, NvsPut ''nvs_set_str'' k (map byte_of x' @ [0]), Api ''nvs_close'' []]"
    if "s2 = set_all E cmds s1" for cmds k t' x' s2
  proof (intro conjI impI)
    note e2 = e [OF that]
    note a = set_after_overflow [OF assms(1) conjunct1 [OF e2]]
    show "fst (set_value_in_nvs E k t' x' s2) = ESP_ERR_NVS_VALUE_TOO_LONG" if "str_to_type t' \<noteq> NVS_TYPE_ANY"
      using a [OF that] by simp
    show "hist (snd (set_value_in_nvs E k t' x' s2)) = hist s2 @ [opened s, Api ''nvs_close'' []]" if n: "number_range t' \<noteq> None"
    proof -
      obtain l u m where m: "number_range t' = Some (l, u, m)" using n by auto
      show ?thesis
        using a [OF number_type_defined [OF m]] store_number_after_overflow [OF m, of "emit (opened s2) s2"] e2 by simp
    qed
    have "str_to_type ''str'' \<noteq> NVS_TYPE_ANY" by (simp add: nvs_type_defs)
    from a [OF this] show "hist (snd (set_value_in_nvs E k ''str'' x' s2)) =
        hist s2 @ [opened s, NvsPut ''nvs_set_str'' k (map byte_of x' @ [0]), Api ''nvs_close'' []]"
      using e2 by (simp add: store_value_def nvs_type_defs nvs_put_def Let_def)
  qed
  then show ?thesis using r h by (intro exI [of _ s1]) (simp add: Let_def)
qed

text \<open>An unsigned byte of 2 to the 33rd, and an unsigned word of 64 bits that needs 65.\<close>

theorem one_overflow_spoils_all_witness:
  "(\<exists>s1. set_value_in_nvs store_env ''a'' ''u8'' (dec 8589934592) boot = (ESP_ERR_NVS_VALUE_TOO_LONG, s1) \<and>
     fst (set_value_in_nvs store_env ''b'' ''u8'' ''7'' (set_all store_env [] s1)) = ESP_ERR_NVS_VALUE_TOO_LONG) \<and>
   (\<exists>s1. set_value_in_nvs store_env ''a'' ''u64'' (dec 18446744073709551616) boot = (ESP_ERR_NVS_VALUE_TOO_LONG, s1) \<and>
     fst (set_value_in_nvs store_env ''b'' ''u8'' ''7'' (set_all store_env [] s1)) = ESP_ERR_NVS_VALUE_TOO_LONG)"
proof -
  have o: "\<forall>h ns mode. rc store_env h (ApiS ''nvs_open'' [ns, mode]) = ESP_OK"
    using store_env_keeps by (simp add: keeps_settings_def)
  have c: "conversion_bounds ''u8'' = Some (- 4294967296, 4294967296)"
    "conversion_bounds ''u64'' = Some (- 18446744073709551616, 18446744073709551616)"
    by (simp_all add: conversion_bounds_def)
  have u: "str_to_type ''u8'' \<noteq> NVS_TYPE_ANY" by (simp add: nvs_type_defs)
  have "\<exists>s1. set_value_in_nvs store_env ''a'' t (dec v) boot = (ESP_ERR_NVS_VALUE_TOO_LONG, s1) \<and>
     fst (set_value_in_nvs store_env ''b'' ''u8'' ''7'' (set_all store_env [] s1)) = ESP_ERR_NVS_VALUE_TOO_LONG"
    if "conversion_bounds t = Some (l, r)" "v \<le> l \<or> r \<le> v" for t l r v
    by (rule exE [OF one_overflow_spoils_all [OF o that, of "''a''" boot]], elim conjE, drule spec [of _ "[]"],
        drule spec [of _ "''b''"], drule spec [of _ "''u8''"], drule spec [of _ "''7''"], unfold Let_def,
        elim conjE, drule mp [OF _ u], rule exI, rule conjI)
  from this [OF c(1), of 8589934592] this [OF c(2), of 18446744073709551616] show ?thesis by simp
qed

end
