(* ===== verification/Console.thy ===== *)
theory Console
  imports System Wifi Dmesh Hci Oled
begin

text \<open>
  The console, \<open>main/console.c\<close> and the start of \<open>main/ui.c\<close>: set-up of the terminal, the task that
  reads and runs lines while it holds the power lock, and the registration of all commands.
\<close>

section \<open>The terminal\<close>

definition ESP_ERR_INVALID_ARG :: int where "ESP_ERR_INVALID_ARG = 0x102"

text \<open>115200 is the configured baud rate.\<close>

definition initialize_console :: "env \<Rightarrow> dev \<Rightarrow> fault + dev" where
  "initialize_console E s =
    (let s = emits [ApiS ''fflush'' [''stdout''], ApiS ''fsync'' [''stdout''], ApiS ''setvbuf'' [''stdin'', ''_IONBF''],
       ApiS ''esp_vfs_dev_uart_set_rx_line_endings'' [''ESP_LINE_ENDINGS_CR''],
       ApiS ''esp_vfs_dev_uart_set_tx_line_endings'' [''ESP_LINE_ENDINGS_CRLF'']] s in
     bindE (check E (Api ''uart_driver_install'' [CONFIG_ESP_CONSOLE_UART_NUM, 2048, 0, 0, 0]) s) (\<lambda>s.
     bindE (check E (Api ''uart_param_config'' [CONFIG_ESP_CONSOLE_UART_NUM, 115200]) s) (\<lambda>s.
     let s = emit (Api ''esp_vfs_dev_uart_use_driver'' [CONFIG_ESP_CONSOLE_UART_NUM]) s in
     bindE (check E (Api ''esp_console_init'' [8, 256]) s) (\<lambda>s.
     Inr (emits [Api ''linenoiseSetMultiLine'' [1],
       ApiS ''linenoiseSetCompletionCallback'' [''esp_console_get_completion''],
       ApiS ''linenoiseSetHintsCallback'' [''esp_console_get_hint''],
       Api ''linenoiseHistorySetMaxLen'' [100]] s)))))"

section \<open>The task\<close>

text \<open>The power lock that keeps the chip awake, acquired at the first character of a line.\<close>

definition getlock :: "dev \<Rightarrow> dev" where
  "getlock s =
    (if lock_held (con s) then s
     else upd_con (\<lambda>v. v\<lparr>lock_held := True\<rparr>) (emit (ApiS ''esp_pm_lock_acquire'' [''dmsh'']) s))"

fun hex_nat :: "nat \<Rightarrow> string" where
  "hex_nat n = (if n < 16 then [hexd n] else hex_nat (n div 16) @ [hexd n])"

declare hex_nat.simps [simp del]

definition error_name :: "env \<Rightarrow> int \<Rightarrow> dev \<Rightarrow> string \<times> dev" where
  "error_name E err s = (let c = Api ''esp_err_to_name'' [err] in (cstr (got E c s), emit c s))"

text \<open>
  What the terminal library reports while the task waits in \<open>linenoise\<close>: the first character of a
  line, a call without a line, or a line.  \<open>run\<close> is \<open>esp_console_run\<close>, which parses the line and
  calls the command: the error and what the command returned, or \<open>None\<close> where the command does not
  return, and the state.
\<close>

datatype console_event = FirstChar | NoLine | Line string

definition console_report :: "env \<Rightarrow> int \<Rightarrow> int \<Rightarrow> dev \<Rightarrow> dev" where
  "console_report E err r s =
    (if err = ESP_ERR_NOT_FOUND then printf (''Unrecognized command'' @ nl) s
     else if err = ESP_ERR_INVALID_ARG then s
     else if err = ESP_OK \<and> r \<noteq> ESP_OK then
       let (name, s) = error_name E r s in
       printf (''Command returned non-zero error code: 0x'' @ hex_nat (nat (r mod 2 ^ 32)) @ '' ('' @ name @ '')'' @ nl) s
     else if err \<noteq> ESP_OK then
       let (name, s) = error_name E err s in printf (''Internal error: '' @ name @ nl) s
     else s)"

fun console_task :: "env \<Rightarrow> (string \<Rightarrow> dev \<Rightarrow> fault + (int \<times> int) option \<times> dev) \<Rightarrow> console_event \<Rightarrow> dev \<Rightarrow> fault + dev" where
  "console_task E run FirstChar s = Inr (getlock s)"
| "console_task E run NoLine s = Inr s"
| "console_task E run (Line line) s =
    (let s = emit (ApiS ''linenoiseHistoryAdd'' [line]) s in
     bindE (run line s) (\<lambda>(result, s).
     case result of None \<Rightarrow> Inr s
     | Some (err, r) \<Rightarrow>
         let s = console_report E err r s;
             s = emits [Api ''linenoiseFree'' [], ApiS ''esp_pm_lock_release'' [''dmsh'']] s in
         Inr (upd_con (\<lambda>v. v\<lparr>lock_held := False\<rparr>) s)))"

section \<open>The bt and lora commands\<close>

record bt_cmd_args =
  btc_nerrors :: int
  btc_start :: bool

definition cmd_bt :: "env \<Rightarrow> bt_cmd_args \<Rightarrow> dev \<Rightarrow> int \<times> dev" where
  "cmd_bt E a s =
    (if btc_nerrors a \<noteq> 0 then (0, s)
     else if btc_start a then (0, init_bt E s)
     else (0, s))"

definition register_bt_cmd :: "env \<Rightarrow> dev \<Rightarrow> fault + dev" where
  "register_bt_cmd E = check E (ApiS ''esp_console_cmd_register'' [''bt''])"

record lora_cmd_args =
  lc_nerrors :: int
  lc_stop :: bool
  lc_dump :: bool
  lc_beacon :: "int option"
  lc_data :: bool

definition cmd_lora :: "env \<Rightarrow> lora_cmd_args \<Rightarrow> dev \<Rightarrow> fault + int \<times> dev" where
  "cmd_lora E a s =
    (if lc_nerrors a \<noteq> 0 then Inr (0, s)
     else if lc_stop a then Inr (0, lora_sleep s)
     else if lc_dump a then Inr (0, lora_dump_registers E s)
     else case lc_beacon a of
       Some sz \<Rightarrow> bindE (lora_receive_beacon E sz s) (\<lambda>s. Inr (0, s))
     | None \<Rightarrow> if lc_data a then Inr (0, lora_receive_upstream E s) else Inr (0, s))"

definition register_lora_cmd :: "env \<Rightarrow> dev \<Rightarrow> fault + dev" where
  "register_lora_cmd E = check E (ApiS ''esp_console_cmd_register'' [''lora''])"

section \<open>Registration\<close>

definition register_ui :: "env \<Rightarrow> dev \<Rightarrow> dev" where
  "register_ui E s =
    (let s = emit (Api ''xEventGroupCreate ui'' []) s;
         (err, rst, s) = nvs_get_i32 E ''oledrst'' (oled_rst (ui s)) s;
         s = upd_ui (\<lambda>v. v\<lparr>oled_rst := rst\<rparr>) s;
         s = (if err = ESP_OK then gpio_reset s else s);
         (err, s) = i2c_master_init E s in
     if err \<noteq> ESP_OK then s
     else
     let (err, s) = ssd1306_init E s in
     if err \<noteq> ESP_OK then s
     else emit (ApiS ''xTaskCreate'' [''task_ui'']) s)"

definition register_console :: "env \<Rightarrow> dev \<Rightarrow> fault + dev" where
  "register_console E s =
    bindE (initialize_console E s) (\<lambda>s.
    let s = emit (Api ''esp_console_register_help_command'' []) s in
    bindE (register_lora_cmd E s) (\<lambda>s.
    bindE (register_dmesh_nvs E s) (\<lambda>s.
    bindE (register_dmesh_system E s) (\<lambda>s.
    bindE (register_wifi E s) (\<lambda>s.
    bindE (register_spp_ble E s) (\<lambda>s.
    bindE (register_bt_cmd E s) (\<lambda>s.
    bindE (register_dmesh E s) (\<lambda>s.
    bindE (console_register_nan E s) (\<lambda>s.
    let s = register_ui E s in
    bindE (register_gpio E s) (\<lambda>s.
    bindE (register_i2ctools E s) (\<lambda>s.
    let c = Api ''linenoiseProbe'' []; probe_status = ret E c s; s = emit c s;
        s = (if probe_status \<noteq> 0 then emit (Api ''linenoiseSetDumbMode'' [1]) s else s) in
    Inr (emit (ApiS ''xTaskCreate'' [''console_task'']) s))))))))))))"

end
