(* ===== verification/Boot.thy ===== *)
theory Boot
  imports Console
begin

text \<open>
  The start of the device, \<open>main/main.c\<close>: the settings, the console, power management, the wireless
  mode and the LoRa radio.
\<close>

definition ESP_ERR_NVS_NO_FREE_PAGES :: int where "ESP_ERR_NVS_NO_FREE_PAGES = 0x110d"
definition ESP_ERR_NVS_NEW_VERSION_FOUND :: int where "ESP_ERR_NVS_NEW_VERSION_FOUND = 0x1110"

definition initialize_nvs :: "env \<Rightarrow> dev \<Rightarrow> fault + dev" where
  "initialize_nvs E s =
    (let c = Api ''nvs_flash_init'' []; err = ret E c s; s = emit c s in
     if err = ESP_ERR_NVS_NO_FREE_PAGES \<or> err = ESP_ERR_NVS_NEW_VERSION_FOUND then
       bindE (check E (Api ''nvs_flash_erase'' []) s) (check E c)
     else if err = ESP_OK then Inr s else Inl Abort)"

definition upd_main :: "(main_vars \<Rightarrow> main_vars) \<Rightarrow> dev \<Rightarrow> dev" where
  "upd_main f s = s\<lparr>main := f (main s)\<rparr>"

text \<open>
  A text of the settings read into an array of \<open>n\<close> bytes.  A first call asks for the length; the
  second one is told that length, not the size of the array, and writes all of it.  \<open>None\<close> stands for
  the null pointer that is passed on where there is no text.
\<close>

definition read_text :: "env \<Rightarrow> string \<Rightarrow> nat \<Rightarrow> dev \<Rightarrow> fault + string option \<times> dev" where
  "read_text E key n s =
    (let c = Nvs ''nvs_get_str'' key;
         len = (if ret E c s = ESP_OK then length (got E c s) else 0);
         s = emit c s;
         err = ret E c s;
         bs = fill E c len s;
         s = emit c s in
     if err = ESP_OK then
       if len > n then Inl WriteOOB
       else Inr (if len = 0 then None else Some (cstr bs), s)
     else Inr (None, s))"

definition power_setup :: "env \<Rightarrow> dev \<Rightarrow> fault + dev" where
  "power_setup E s =
    bindE (check E (Api ''esp_sleep_enable_gpio_wakeup'' []) s) (\<lambda>s.
    bindE (uart_wakeup E s) (\<lambda>s.
    let (err, lsleep, s) = nvs_get_i32 E ''lsleep'' 0 s in
    if err = ESP_OK \<and> lsleep > 0 then
      let c = Api ''rtc_clk_xtal_freq_get'' []; xtal_freq = ret E c s; s = emit c s in
      configure_light_sleep E xtal_freq s
    else Inr s))"

text \<open>Up to the creation of the power lock, and from there on.\<close>

definition app_begin :: "env \<Rightarrow> dev \<Rightarrow> fault + dev" where
  "app_begin E s =
    (let (now, s) = currentTimeMicro E s;
         s = upd_main (\<lambda>v. v\<lparr>resetTime := now\<rparr>) s;
         s = (if firstBoot (main s) = 0 then
                let (now, s) = currentTimeMicro E s in upd_main (\<lambda>v. v\<lparr>firstBoot := now\<rparr>) s
              else s);
         s = emit (Api ''esp_sleep_get_wakeup_cause'' []) s in
     bindE (initialize_nvs E s) (\<lambda>s.
     bindE (checks E [ApiS ''nvs_open'' [''storage'', ''NVS_READWRITE''],
       ApiS ''nvs_open'' [''nvs.net80211'', ''NVS_READWRITE''], Api ''esp_event_loop_create_default'' []] s) (\<lambda>s.
     Inr (emits [ApiS ''esp_sleep_pd_config'' [''ESP_PD_DOMAIN_RTC_PERIPH'', ''ESP_PD_OPTION_ON''],
       ApiS ''esp_sleep_pd_config'' [''ESP_PD_DOMAIN_RTC_SLOW_MEM'', ''ESP_PD_OPTION_OFF''],
       ApiS ''esp_sleep_pd_config'' [''ESP_PD_DOMAIN_RTC_FAST_MEM'', ''ESP_PD_OPTION_OFF'']] s))))"

definition app_rest :: "env \<Rightarrow> dev \<Rightarrow> fault + dev" where
  "app_rest E s =
    bindE (register_console E s) (\<lambda>s.
    bindE (power_setup E s) (\<lambda>s.
    let (err, mode, s) = nvs_get_i32 E ''wifi'' 0 s;
        mode = (if err \<noteq> ESP_OK then 0 else mode) in
    bindE (read_text E ''ssid'' 32 s) (\<lambda>(ssid, s).
    bindE (read_text E ''psk'' 16 s) (\<lambda>(psk, s).
    bindE (if mode = 4 then nanStart E s else bindE (init_wifi E mode ssid psk s) (\<lambda>(r, s). Inr s)) (\<lambda>s.
    let s = emits [ApiS ''setenv'' [''TZ'', ''UTC-8''], Api ''tzset'' [], Api ''time'' []] s in
    bindE (register_lora E s) (\<lambda>s.
    Inr (snd (currentTimeMicro E (snd (currentTimeMicro E s))))))))))"

definition app_main :: "env \<Rightarrow> dev \<Rightarrow> fault + dev" where
  "app_main E s =
    bindE (app_begin E s) (\<lambda>s.
    bindE (check E (ApiS ''esp_pm_lock_create'' [''dmsh'']) s) (app_rest E))"

end
