(* ===== verification/Commands.thy ===== *)
theory Commands
  imports Boot
begin

text \<open>
  The commands of the console: the option tables the source declares, what each handler takes out of a
  parsed table, and the commands in the order of their registration.
\<close>

section \<open>Option tables\<close>

text \<open>
  An entry as the constructors of argtable3 get it: kind, short and long name, the name of the value
  and the glossary where there are, and the least and greatest number of occurrences.  A table is the
  structure of the entries, field by field, \<open>None\<close> for a pointer that is never assigned, and the size
  of its error store, the argument of \<open>arg_end\<close>.
\<close>

datatype arg_kind = ArgLit | ArgInt | ArgStr

record arg_entry =
  o_kind :: arg_kind
  o_short :: "string option"
  o_long :: "string option"
  o_value :: "string option"
  o_help :: string
  o_min :: nat
  o_max :: nat

record arg_table =
  at_fields :: "(string \<times> arg_entry option) list"
  at_errors :: nat

definition arg_lit0 :: "string option \<Rightarrow> string option \<Rightarrow> string \<Rightarrow> arg_entry option" where
  "arg_lit0 sh lg h = Some \<lparr>o_kind = ArgLit, o_short = sh, o_long = lg, o_value = None, o_help = h, o_min = 0, o_max = 1\<rparr>"

definition arg_intn :: "string option \<Rightarrow> string option \<Rightarrow> string \<Rightarrow> nat \<Rightarrow> nat \<Rightarrow> string \<Rightarrow> arg_entry option" where
  "arg_intn sh lg v a b h = Some \<lparr>o_kind = ArgInt, o_short = sh, o_long = lg, o_value = Some v, o_help = h, o_min = a, o_max = b\<rparr>"

definition arg_strn :: "string option \<Rightarrow> string option \<Rightarrow> string \<Rightarrow> nat \<Rightarrow> nat \<Rightarrow> string \<Rightarrow> arg_entry option" where
  "arg_strn sh lg v a b h = Some \<lparr>o_kind = ArgStr, o_short = sh, o_long = lg, o_value = Some v, o_help = h, o_min = a, o_max = b\<rparr>"

abbreviation "arg_int0 sh lg v h \<equiv> arg_intn sh lg v 0 1 h"
abbreviation "arg_int1 sh lg v h \<equiv> arg_intn sh lg v 1 1 h"
abbreviation "arg_str0 sh lg v h \<equiv> arg_strn sh lg v 0 1 h"
abbreviation "arg_str1 sh lg v h \<equiv> arg_strn sh lg v 1 1 h"

lemmas arg_defs = arg_lit0_def arg_intn_def arg_strn_def

definition ARG_TYPE_STR :: string where
  "ARG_TYPE_STR = ''type can be: i8, u8, i16, u16 i32, u32 i64, u64, str, blob''"

definition nvs_set_table :: arg_table where
  "nvs_set_table = \<lparr>at_fields =
     [(''key'', arg_str1 None None ''<key>'' ''key of the value to be set''),
      (''type'', arg_str1 None None ''<type>'' ARG_TYPE_STR),
      (''value'', arg_str1 (Some ''v'') (Some ''value'') ''<value>'' ''value to be stored'')], at_errors = 2\<rparr>"

definition nvs_get_table :: arg_table where
  "nvs_get_table = \<lparr>at_fields =
     [(''key'', arg_str1 None None ''<key>'' ''key of the value to be read''),
      (''type'', arg_str1 None None ''<type>'' ARG_TYPE_STR)], at_errors = 2\<rparr>"

definition nvs_namespace_table :: arg_table where
  "nvs_namespace_table = \<lparr>at_fields =
     [(''namespace'', arg_str1 None None ''<namespace>'' ''namespace of the partition to be selected'')],
     at_errors = 2\<rparr>"

definition nvs_list_table :: arg_table where
  "nvs_list_table = \<lparr>at_fields =
     [(''partition'', arg_str1 None None ''<partition>'' ''partition name''),
      (''namespace'', arg_str0 (Some ''n'') (Some ''namespace'') ''<namespace>'' ''namespace name''),
      (''type'', arg_str0 (Some ''t'') (Some ''type'') ''<type>'' ARG_TYPE_STR)], at_errors = 2\<rparr>"

definition bt_table :: arg_table where
  "bt_table = \<lparr>at_fields =
     [(''start'', arg_lit0 None (Some ''start'') ''Start''), (''stop'', arg_lit0 None (Some ''stop'') ''Stop'')],
     at_errors = 0\<rparr>"

definition lora_table :: arg_table where
  "lora_table = \<lparr>at_fields =
     [(''sf'', arg_int0 None (Some ''sf'') ''<int>'' ''Spreading factor (12)''),
      (''cr'', arg_int1 None (Some ''cr'') ''<int>'' ''Coding rate (5)''),
      (''beacon'', arg_int0 (Some ''b'') (Some ''beacon'') ''<int>'' ''Wait for beacon with fixed size (23 recommended)''),
      (''data'', arg_lit0 (Some ''d'') (Some ''data'') ''Wait for data''),
      (''band'', arg_int1 None (Some ''band'') ''<int>'' ''Band (0)''),
      (''sendI'', arg_int1 None (Some ''si'') ''<int>'' ''Send interval (100) ms''),
      (''sendC'', arg_int1 None (Some ''sc'') ''<int>'' ''Send count (5)''),
      (''dump'', arg_lit0 (Some ''d'') (Some ''dump'') ''Dump registers''),
      (''stop'', arg_lit0 None (Some ''stop'') ''Sleep mode'')], at_errors = 0\<rparr>"

definition deep_sleep_table :: arg_table where
  "deep_sleep_table = \<lparr>at_fields =
     [(''start'', arg_int0 (Some ''s'') (Some ''start'') ''<t>'' ''Dmesh sleep''),
      (''wakeup_time'', arg_int0 (Some ''t'') (Some ''time'') ''<t>'' ''Wake up time, ms''),
      (''wakeup_gpio_num'', arg_int0 None (Some ''io'') ''<n>'' ''If specified, wakeup using GPIO with given number''),
      (''wakeup_gpio_level'', arg_int0 None (Some ''io_level'') ''<0|1>'' ''GPIO level to trigger wakeup'')],
     at_errors = 3\<rparr>"

definition light_sleep_table :: arg_table where
  "light_sleep_table = \<lparr>at_fields =
     [(''wakeup_time'', arg_int0 (Some ''t'') (Some ''time'') ''<t>'' ''Wake up time, ms''),
      (''wakeup_gpio_num'', arg_intn None (Some ''io'') ''<n>'' 0 8 ''If specified, wakeup using GPIO with given number''),
      (''wakeup_gpio_level'', arg_intn None (Some ''io_level'') ''<0|1>'' 0 8 ''GPIO level to trigger wakeup''),
      (''autosleep'', arg_lit0 None (Some ''auto'') ''Autosleep''),
      (''locks'', arg_lit0 None (Some ''locks'') ''Dump locks'')], at_errors = 3\<rparr>"

text \<open>The structure has a field \<open>mon\<close> that no code assigns.\<close>

definition wifi_table :: arg_table where
  "wifi_table = \<lparr>at_fields =
     [(''timeout'', arg_int0 None (Some ''timeout'') ''<t>'' ''Connection timeout, ms''),
      (''ssid'', arg_str0 None (Some ''ssid'') ''<ssid>'' ''SSID of AP''),
      (''password'', arg_str0 None (Some ''psk'') ''<pass>'' ''PSK of AP''),
      (''ap'', arg_int0 None (Some ''ap'') ''<t>'' ''AP mode, s''),
      (''mon'', None),
      (''stop'', arg_lit0 None (Some ''stop'') ''Stop wifi''),
      (''time'', arg_str0 None (Some ''time'') ''<ssid>'' ''ntp server'')], at_errors = 0\<rparr>"

definition ble_table :: arg_table where
  "ble_table = \<lparr>at_fields =
     [(''start'', arg_lit0 None (Some ''start'') []), (''stop'', arg_lit0 None (Some ''stop'') [])], at_errors = 0\<rparr>"

definition nan_table :: arg_table where
  "nan_table = \<lparr>at_fields =
     [(''mon'', arg_lit0 None (Some ''start'') ''Start NAN''),
      (''stop'', arg_lit0 None (Some ''stop'') ''Stop NAN, disable wifi''),
      (''send'', arg_str1 (Some ''s'') (Some ''send'') ''<s>'' ''Send NAN'')], at_errors = 0\<rparr>"

definition gpio_table :: arg_table where
  "gpio_table = \<lparr>at_fields =
     [(''pin'', arg_int0 None (Some ''pin'') ''<gpio>'' ''Pin''),
      (''level'', arg_int0 None (Some ''level'') ''<0|1>'' ''Level''),
      (''mode'', arg_int1 None (Some ''mode'') ''<0|1>'' ''Set the mode, default output'')], at_errors = 0\<rparr>"

definition i2cconfig_table :: arg_table where
  "i2cconfig_table = \<lparr>at_fields =
     [(''port'', arg_int0 None (Some ''port'') ''<0|1>'' ''Set the I2C bus port number''),
      (''freq'', arg_int0 None (Some ''freq'') ''<Hz>'' ''Set the frequency(Hz) of I2C bus''),
      (''sda'', arg_int1 None (Some ''sda'') ''<gpio>'' ''Set the gpio for I2C SDA''),
      (''scl'', arg_int1 None (Some ''scl'') ''<gpio>'' ''Set the gpio for I2C SCL'')], at_errors = 2\<rparr>"

definition i2cget_table :: arg_table where
  "i2cget_table = \<lparr>at_fields =
     [(''chip_address'', arg_int1 (Some ''c'') (Some ''chip'') ''<chip_addr>'' ''Specify the address of the chip on that bus''),
      (''register_address'', arg_int0 (Some ''r'') (Some ''register'') ''<register_addr>''
         ''Specify the address on that chip to read from''),
      (''data_length'', arg_int0 (Some ''l'') (Some ''length'') ''<length>''
         ''Specify the length to read from that data address'')], at_errors = 1\<rparr>"

definition i2cset_table :: arg_table where
  "i2cset_table = \<lparr>at_fields =
     [(''chip_address'', arg_int1 (Some ''c'') (Some ''chip'') ''<chip_addr>'' ''Specify the address of the chip on that bus''),
      (''register_address'', arg_int0 (Some ''r'') (Some ''register'') ''<register_addr>''
         ''Specify the address on that chip to read from''),
      (''data'', arg_intn None None ''<data>'' 0 256 ''Specify the data to write to that data address'')],
     at_errors = 2\<rparr>"

definition i2cdump_table :: arg_table where
  "i2cdump_table = \<lparr>at_fields =
     [(''chip_address'', arg_int1 (Some ''c'') (Some ''chip'') ''<chip_addr>'' ''Specify the address of the chip on that bus''),
      (''size'', arg_int0 (Some ''s'') (Some ''size'') ''<size>'' ''Specify the size of each read'')], at_errors = 1\<rparr>"

text \<open>The table of the raw advertising command, which is not registered.\<close>

definition hci_table :: arg_table where
  "hci_table = \<lparr>at_fields =
     [(''start'', arg_lit0 None (Some ''start'') []), (''stop'', arg_lit0 None (Some ''stop'') [])], at_errors = 0\<rparr>"

section \<open>Parsed arguments\<close>

text \<open>
  What \<open>arg_parse\<close> leaves in a table: the number of errors it stored, and of each field the number of
  occurrences, the values, and for texts the address of the first.
\<close>

record parsed =
  pa_nerrors :: int
  pa_count :: "string \<Rightarrow> nat"
  pa_ival :: "string \<Rightarrow> nat \<Rightarrow> int"
  pa_sval :: "string \<Rightarrow> nat \<Rightarrow> string"
  pa_sptr :: "string \<Rightarrow> nat"

type_synonym arg_parser = "arg_table \<Rightarrow> string list \<Rightarrow> fault + parsed"

definition ival0 :: "parsed \<Rightarrow> string \<Rightarrow> int option" where
  "ival0 p f = (if pa_count p f \<noteq> 0 then Some (pa_ival p f 0) else None)"

definition sval0 :: "parsed \<Rightarrow> string \<Rightarrow> string option" where
  "sval0 p f = (if pa_count p f \<noteq> 0 then Some (pa_sval p f 0) else None)"

definition ivals :: "parsed \<Rightarrow> string \<Rightarrow> int list" where
  "ivals p f = map (pa_ival p f) [0..<pa_count p f]"

text \<open>What each handler takes out of its table.\<close>

definition set_args_of :: "parsed \<Rightarrow> set_args" where
  "set_args_of p = \<lparr>set_value_nerrors = pa_nerrors p, set_key = pa_sval p ''key'' 0, set_type = pa_sval p ''type'' 0,
     set_value_text = pa_sval p ''value'' 0\<rparr>"

definition get_args_of :: "parsed \<Rightarrow> get_args" where
  "get_args_of p = \<lparr>get_value_nerrors = pa_nerrors p, get_key = pa_sval p ''key'' 0, get_type = pa_sval p ''type'' 0\<rparr>"

definition namespace_args_of :: "parsed \<Rightarrow> namespace_args" where
  "namespace_args_of p = \<lparr>ns_nerrors = pa_nerrors p, ns_name = pa_sval p ''namespace'' 0\<rparr>"

definition list_args_of :: "parsed \<Rightarrow> list_args" where
  "list_args_of p = \<lparr>list_nerrors = pa_nerrors p, list_partition = pa_sval p ''partition'' 0,
     list_namespace = sval0 p ''namespace'', list_type = sval0 p ''type''\<rparr>"

definition bt_args_of :: "parsed \<Rightarrow> bt_cmd_args" where
  "bt_args_of p = \<lparr>btc_nerrors = pa_nerrors p, btc_start = (pa_count p ''start'' \<noteq> 0)\<rparr>"

definition lora_args_of :: "parsed \<Rightarrow> lora_cmd_args" where
  "lora_args_of p = \<lparr>lc_nerrors = pa_nerrors p, lc_stop = (pa_count p ''stop'' \<noteq> 0),
     lc_dump = (pa_count p ''dump'' \<noteq> 0), lc_beacon = ival0 p ''beacon'', lc_data = (pa_count p ''data'' \<noteq> 0)\<rparr>"

definition deep_sleep_args_of :: "parsed \<Rightarrow> deep_sleep_args" where
  "deep_sleep_args_of p = \<lparr>ds_nerrors = pa_nerrors p, ds_start = ival0 p ''start'', ds_time = ival0 p ''wakeup_time'',
     ds_io = ival0 p ''wakeup_gpio_num'', ds_io_level = ival0 p ''wakeup_gpio_level''\<rparr>"

definition light_sleep_args_of :: "parsed \<Rightarrow> light_sleep_args" where
  "light_sleep_args_of p = \<lparr>ls_nerrors = pa_nerrors p, ls_locks = (pa_count p ''locks'' \<noteq> 0),
     ls_autosleep = (pa_count p ''autosleep'' \<noteq> 0), ls_time = ival0 p ''wakeup_time'',
     ls_ios = ivals p ''wakeup_gpio_num'', ls_levels = ivals p ''wakeup_gpio_level''\<rparr>"

definition wifi_args_of :: "parsed \<Rightarrow> wifi_args" where
  "wifi_args_of p = \<lparr>wf_nerrors = pa_nerrors p, wf_time = (pa_count p ''time'' \<noteq> 0),
     wf_stop = (pa_count p ''stop'' \<noteq> 0), wf_ap = (pa_count p ''ap'' \<noteq> 0), wf_timeout = ival0 p ''timeout'',
     wf_ssid = pa_sval p ''ssid'' 0, wf_password = pa_sval p ''password'' 0\<rparr>"

definition ble_args_of :: "parsed \<Rightarrow> ble_args" where
  "ble_args_of p = \<lparr>ble_nerrors = pa_nerrors p, ble_start = (pa_count p ''start'' \<noteq> 0),
     ble_stop = (pa_count p ''stop'' \<noteq> 0)\<rparr>"

definition nan_args_of :: "parsed \<Rightarrow> nan_args" where
  "nan_args_of p = \<lparr>na_nerrors = pa_nerrors p, na_mon = int (pa_count p ''mon''), na_stop = int (pa_count p ''stop''),
     na_send = (if pa_count p ''send'' \<noteq> 0 then Some (pa_sptr p ''send'') else None)\<rparr>"

definition gpio_args_of :: "parsed \<Rightarrow> gpio_args" where
  "gpio_args_of p = \<lparr>gp_nerrors = pa_nerrors p, gp_pin = ival0 p ''pin'', gp_level = ival0 p ''level'',
     gp_mode = ival0 p ''mode''\<rparr>"

definition i2cconfig_args_of :: "parsed \<Rightarrow> i2cconfig_args" where
  "i2cconfig_args_of p = \<lparr>cfg_nerrors = pa_nerrors p, cfg_port = ival0 p ''port'', cfg_freq = ival0 p ''freq'',
     cfg_sda = pa_ival p ''sda'' 0, cfg_scl = pa_ival p ''scl'' 0\<rparr>"

definition i2cget_args_of :: "parsed \<Rightarrow> i2cget_args" where
  "i2cget_args_of p = \<lparr>get_nerrors = pa_nerrors p, get_chip = pa_ival p ''chip_address'' 0,
     get_register = ival0 p ''register_address'', get_length = ival0 p ''data_length''\<rparr>"

definition i2cset_args_of :: "parsed \<Rightarrow> i2cset_args" where
  "i2cset_args_of p = \<lparr>set_nerrors = pa_nerrors p, set_chip = pa_ival p ''chip_address'' 0,
     set_register = ival0 p ''register_address'', set_data = ivals p ''data''\<rparr>"

definition i2cdump_args_of :: "parsed \<Rightarrow> i2cdump_args" where
  "i2cdump_args_of p = \<lparr>dump_nerrors = pa_nerrors p, dump_chip = pa_ival p ''chip_address'' 0,
     dump_size = ival0 p ''size''\<rparr>"

section \<open>Commands\<close>

text \<open>
  A handler gets the words of the line; one with a table parses them first.  The result is what it
  returns, \<open>None\<close> where it never does.
\<close>

datatype cmd_func =
    Plain "env \<Rightarrow> dev \<Rightarrow> fault + int option \<times> dev"
  | Parsing arg_table "env \<Rightarrow> parsed \<Rightarrow> dev \<Rightarrow> fault + int option \<times> dev"

record console_cmd =
  cc_name :: string
  cc_help :: string
  cc_func :: cmd_func

fun call_cmd :: "cmd_func \<Rightarrow> env \<Rightarrow> arg_parser \<Rightarrow> string list \<Rightarrow> dev \<Rightarrow> fault + int option \<times> dev" where
  "call_cmd (Plain f) E ap argv s = f E s"
| "call_cmd (Parsing t f) E ap argv s = bindE (ap t argv) (\<lambda>p. f E p s)"

definition returns :: "fault + int \<times> dev \<Rightarrow> fault + int option \<times> dev" where
  "returns m = bindE m (\<lambda>(v, s). Inr (Some v, s))"

definition nvs_set_cc :: console_cmd where
  "nvs_set_cc = \<lparr>cc_name = ''nvs_set'',
     cc_help = ''Set key-value pair in selected namespace.'' @ nl @ ''Examples:'' @ nl @
       '' nvs_set VarName i32 -v 123 '' @ nl @ '' nvs_set VarName srt -v YourString '' @ nl @
       '' nvs_set VarName blob -v 0123456789abcdef '' @ nl,
     cc_func = Parsing nvs_set_table (\<lambda>E p s. returns (Inr (set_value E (set_args_of p) s)))\<rparr>"

definition nvs_get_cc :: console_cmd where
  "nvs_get_cc = \<lparr>cc_name = ''nvs_get'',
     cc_help = ''Get key-value pair from selected namespace. '' @ nl @ ''Example: nvs_get VarName i32'',
     cc_func = Parsing nvs_get_table (\<lambda>E p s. returns (get_value E (get_args_of p) s))\<rparr>"

definition nvs_namespace_cc :: console_cmd where
  "nvs_namespace_cc = \<lparr>cc_name = ''nvs_namespace'', cc_help = ''Set current namespace'',
     cc_func = Parsing nvs_namespace_table (\<lambda>E p s. returns (Inr (set_namespace (namespace_args_of p) s)))\<rparr>"

definition nvs_list_cc :: console_cmd where
  "nvs_list_cc = \<lparr>cc_name = ''nvs_list'',
     cc_help = ''List stored key-value pairs stored in NVS.'' @
       ''Namespace and type can be specified to print only those key-value pairs.'' @ nl @
       ''Following command list variables stored inside '' @ [CHR 0x27] @ ''nvs'' @ [CHR 0x27] @
       '' partition, under namespace '' @ [CHR 0x27] @ ''storage'' @ [CHR 0x27] @ '' with type uint32_t'' @
       ''Example: nvs_list nvs -n storage -t u32 '' @ nl,
     cc_func = Parsing nvs_list_table (\<lambda>E p s. returns (list_entries E (list_args_of p) s))\<rparr>"

definition nvs_cmds :: "console_cmd list" where
  "nvs_cmds = [nvs_set_cc, nvs_get_cc, nvs_namespace_cc, nvs_list_cc]"

definition free_cc :: console_cmd where
  "free_cc = \<lparr>cc_name = ''free'', cc_help = ''Get the current size of free heap memory'',
     cc_func = Plain (\<lambda>E s. returns (Inr (free_mem E s)))\<rparr>"

definition heap_cc :: console_cmd where
  "heap_cc = \<lparr>cc_name = ''heap'',
     cc_help = ''Get minimum size of free heap memory that was available during program execution'',
     cc_func = Plain (\<lambda>E s. returns (Inr (heap_size s)))\<rparr>"

definition version_cc :: console_cmd where
  "version_cc = \<lparr>cc_name = ''version'', cc_help = ''Get version of chip and SDK'',
     cc_func = Plain (\<lambda>E s. returns (Inr (get_version E s)))\<rparr>"

definition restart_cc :: console_cmd where
  "restart_cc = \<lparr>cc_name = ''restart'', cc_help = ''Software reset of the chip'',
     cc_func = Plain (\<lambda>E s. Inr (None, restart s))\<rparr>"

definition deep_sleep_cc :: console_cmd where
  "deep_sleep_cc = \<lparr>cc_name = ''deep_sleep'',
     cc_help = ''Enter deep sleep mode. '' @ ''Two wakeup modes are supported: timer and GPIO. '' @
       ''If no wakeup option is specified, will sleep indefinitely.'',
     cc_func = Parsing deep_sleep_table (\<lambda>E p s. deep_sleep E (deep_sleep_args_of p) s)\<rparr>"

definition light_sleep_cc :: console_cmd where
  "light_sleep_cc = \<lparr>cc_name = ''light_sleep'',
     cc_help = ''Enter light sleep mode. '' @ ''Two wakeup modes are supported: timer and GPIO. '' @
       ''Multiple GPIO pins can be specified using pairs of '' @ [CHR 0x27] @ ''io'' @ [CHR 0x27] @ '' and '' @
       [CHR 0x27] @ ''io_level'' @ [CHR 0x27] @ '' arguments. '' @ ''Will also wake up on UART input.'',
     cc_func = Parsing light_sleep_table (\<lambda>E p s. returns (light_sleep E (light_sleep_args_of p) s))\<rparr>"

definition tasks_cc :: console_cmd where
  "tasks_cc = \<lparr>cc_name = ''tasks'', cc_help = ''Get information about running tasks'',
     cc_func = Plain (\<lambda>E s. returns (tasks_info E s))\<rparr>"

definition system_cmds :: "console_cmd list" where
  "system_cmds = [free_cc, heap_cc, version_cc, restart_cc, deep_sleep_cc, light_sleep_cc, tasks_cc]"

definition i2cconfig_cc :: console_cmd where
  "i2cconfig_cc = \<lparr>cc_name = ''i2cconfig'', cc_help = ''Config I2C bus'',
     cc_func = Parsing i2cconfig_table (\<lambda>E p s. returns (Inr (do_i2cconfig_cmd (i2cconfig_args_of p) s)))\<rparr>"

definition i2cdetect_cc :: console_cmd where
  "i2cdetect_cc = \<lparr>cc_name = ''i2cdetect'', cc_help = ''Scan I2C bus for devices'',
     cc_func = Plain (\<lambda>E s. returns (Inr (do_i2cdetect_cmd E s)))\<rparr>"

definition i2cget_cc :: console_cmd where
  "i2cget_cc = \<lparr>cc_name = ''i2cget'', cc_help = ''Read registers visible through the I2C bus'',
     cc_func = Parsing i2cget_table (\<lambda>E p s. returns (do_i2cget_cmd E (i2cget_args_of p) s))\<rparr>"

definition i2cset_cc :: console_cmd where
  "i2cset_cc = \<lparr>cc_name = ''i2cset'', cc_help = ''Set registers visible through the I2C bus'',
     cc_func = Parsing i2cset_table (\<lambda>E p s. returns (Inr (do_i2cset_cmd (i2cset_args_of p) s)))\<rparr>"

definition i2cdump_cc :: console_cmd where
  "i2cdump_cc = \<lparr>cc_name = ''i2cdump'', cc_help = ''Examine registers visible through the I2C bus'',
     cc_func = Parsing i2cdump_table (\<lambda>E p s. returns (Inr (do_i2cdump_cmd E (i2cdump_args_of p) s)))\<rparr>"

definition i2c_cmds :: "console_cmd list" where
  "i2c_cmds = [i2cconfig_cc, i2cdetect_cc, i2cget_cc, i2cset_cc, i2cdump_cc]"

definition lora_cc :: console_cmd where
  "lora_cc = \<lparr>cc_name = ''lora'', cc_help = ''lora'',
     cc_func = Parsing lora_table (\<lambda>E p s. returns (cmd_lora E (lora_args_of p) s))\<rparr>"

definition wifi_cc :: console_cmd where
  "wifi_cc = \<lparr>cc_name = ''wifi'', cc_help = ''WiFi AP, station or monitor'',
     cc_func = Parsing wifi_table (\<lambda>E p s. returns (cmd_wifi E (wifi_args_of p) s))\<rparr>"

definition ble_cc :: console_cmd where
  "ble_cc = \<lparr>cc_name = ''ble'', cc_help = ''BLE'',
     cc_func = Parsing ble_table (\<lambda>E p s. returns (Inr (ble_cmd E (ble_args_of p) s)))\<rparr>"

definition bt_cc :: console_cmd where
  "bt_cc = \<lparr>cc_name = ''bt'', cc_help = ''bt'',
     cc_func = Parsing bt_table (\<lambda>E p s. returns (Inr (cmd_bt E (bt_args_of p) s)))\<rparr>"

definition nan_cc :: console_cmd where
  "nan_cc = \<lparr>cc_name = ''nan'', cc_help = ''WiFi AP, station or monitor'',
     cc_func = Parsing nan_table (\<lambda>E p s. returns (cmd_nan E (nan_args_of p) s))\<rparr>"

definition gpio_cc :: console_cmd where
  "gpio_cc = \<lparr>cc_name = ''gpio'', cc_help = ''Config GPIO bus'',
     cc_func = Parsing gpio_table (\<lambda>E p s. returns (Inr (gpio_cmd (gpio_args_of p) s)))\<rparr>"

text \<open>All commands, in the order in which \<open>register_console\<close> registers them.\<close>

definition console_cmds :: "console_cmd list" where
  "console_cmds = [lora_cc] @ nvs_cmds @ system_cmds @ [wifi_cc, ble_cc, bt_cc, nan_cc, gpio_cc] @ i2c_cmds"

lemmas nvs_cmd_defs = nvs_cmds_def nvs_set_cc_def nvs_get_cc_def nvs_namespace_cc_def nvs_list_cc_def

lemmas system_cmd_defs = system_cmds_def free_cc_def heap_cc_def version_cc_def restart_cc_def deep_sleep_cc_def
  light_sleep_cc_def tasks_cc_def

lemmas i2c_cmd_defs = i2c_cmds_def i2cconfig_cc_def i2cdetect_cc_def i2cget_cc_def i2cset_cc_def i2cdump_cc_def

lemmas cc_defs = lora_cc_def wifi_cc_def ble_cc_def bt_cc_def nan_cc_def gpio_cc_def nvs_cmd_defs system_cmd_defs
  i2c_cmd_defs

text \<open>
  The console library looks a line up among the registered commands: it calls one with the words of
  the line, or ends with an error, or does something of its own (\<open>NotRun ESP_OK\<close>).
\<close>

datatype lookup = NotRun int | Calls nat "string list"

record shell =
  sh_lookup :: "string \<Rightarrow> lookup"
  sh_parse :: arg_parser

definition run_line :: "env \<Rightarrow> shell \<Rightarrow> string \<Rightarrow> dev \<Rightarrow> fault + (int \<times> int) option \<times> dev" where
  "run_line E sh line s =
    (case sh_lookup sh line of
       Calls i argv \<Rightarrow>
         if i < length console_cmds then
           bindE (call_cmd (cc_func (console_cmds ! i)) E (sh_parse sh) argv s)
             (\<lambda>(r, s). Inr (map_option (\<lambda>v. (ESP_OK, v)) r, s))
         else Inr (Some (ESP_ERR_NOT_FOUND, 0), s)
     | NotRun err \<Rightarrow> Inr (Some (err, 0), s))"

end
