(* ===== verification/CommandProps.thy ===== *)
theory CommandProps
  imports Commands
begin

text \<open>
  The commands of the console: they are registered in the order of their table, they read no number
  that was not given, and one of them cannot be called.
\<close>

section \<open>Registration\<close>

fun reg_name :: "call \<Rightarrow> string list" where
  "reg_name (ApiS f as) = (if f = ''esp_console_cmd_register'' then as else [])"
| "reg_name c = []"

definition registered :: "call list \<Rightarrow> string list" where
  "registered cs = concat (map reg_name cs)"

lemma registered_simps [simp]:
  "registered [] = []" "registered (c # cs) = reg_name c @ registered cs"
  "registered (cs @ cs') = registered cs @ registered cs'"
  by (simp_all add: registered_def)

definition regs :: "string list \<Rightarrow> dev \<Rightarrow> dev \<Rightarrow> bool" where
  "regs ns s t \<longleftrightarrow> registered (hist t) = registered (hist s) @ ns"

lemma regs_refl: "regs [] s s"
  by (simp add: regs_def)

lemma regs_check:
  "check E c t = Inr t' \<Longrightarrow> regs ns s t \<Longrightarrow> regs (ns @ registered [c]) s t'"
  by (auto simp: check_eq_Inr regs_def)

lemma regs_emit: "regs ns s t \<Longrightarrow> registered [c] = [] \<Longrightarrow> regs ns s (emit c t)"
  "regs ns s t \<Longrightarrow> registered cs = [] \<Longrightarrow> regs ns s (emits cs t)"
  by (simp_all add: regs_def)

lemma regs_nvs: "nvs_get_i32 E key d t = (err, v, t') \<Longrightarrow> regs ns s t \<Longrightarrow> regs ns s t'"
  by (auto simp: nvs_get_i32_def Let_def regs_emit)

lemma regs_cmds: "register_cmds E names t = Inr t' \<Longrightarrow> regs ns s t \<Longrightarrow> regs (ns @ names) s t'"
proof (induction names arbitrary: t' rule: rev_induct)
  case (snoc n names)
  then show ?case by (auto simp: register_cmds_def bindE_eq_Inr dest!: regs_check [where s = s])
qed (simp add: register_cmds_def)

lemma regs_ble: "regs ns s t \<Longrightarrow> regs ns s (start_ble_server E t)"
proof -
  have i: "regs ns s t \<Longrightarrow> regs ns s (init_ble_svc E t)" for t
    by (auto simp: init_ble_svc_def Let_def intro!: regs_emit)
  have "regs ns s t \<Longrightarrow> registered cs = [] \<Longrightarrow> regs ns s (try_calls E cs (init_ble_svc E) t)" for cs
    by (induction cs arbitrary: t) (auto simp: regs_emit intro: i)
  then show "regs ns s t \<Longrightarrow> regs ns s (start_ble_server E t)"
    by (simp add: start_ble_server_def stack_calls_def del: try_calls.simps)
qed

lemma regs_ui: "regs ns s t \<Longrightarrow> regs ns s (register_ui E t)"
proof -
  have u: "regs ns s t \<Longrightarrow> regs ns s (upd_ui f t)" for f t by (simp add: regs_def upd_ui_def)
  have b: "i2c_master_init E t = (err, t') \<Longrightarrow> regs ns s t \<Longrightarrow> regs ns s t'" for t err t'
    by (auto simp: i2c_master_init_def Let_def split: prod.splits if_splits intro!: regs_emit elim!: regs_nvs)
  show "regs ns s t \<Longrightarrow> regs ns s (register_ui E t)"
    by (auto simp: register_ui_def ssd1306_init_def oled_link_def gpio_reset_def Let_def
        split: prod.splits if_splits intro!: regs_emit u elim!: b regs_nvs)
qed

lemma regs_spp_ble:
  assumes "register_spp_ble E t = Inr t'" "regs ns s t"
  shows "regs (ns @ [''ble'']) s t'"
proof -
  obtain u where u: "check E (ApiS ''esp_console_cmd_register'' [''ble'']) t = Inr u"
    using assms(1) by (auto simp: register_spp_ble_def bindE_eq_Inr)
  have "regs (ns @ [''ble'']) s u" using regs_check [OF u assms(2)] by simp
  then show ?thesis
    using assms(1) u by (auto simp: register_spp_ble_def Let_def split: prod.splits if_splits
        intro!: regs_ble elim!: regs_nvs)
qed

lemma regs_others:
  "initialize_console E t = Inr t' \<Longrightarrow> regs ns s t \<Longrightarrow> regs ns s t'"
  "register_dmesh E t = Inr t' \<Longrightarrow> regs ns s t \<Longrightarrow> regs ns s t'"
  by (auto simp: initialize_console_def register_dmesh_def Let_def bindE_eq_Inr check_eq_Inr regs_def)

lemma console_names: "map cc_name console_cmds = [''lora'', ''nvs_set'', ''nvs_get'', ''nvs_namespace'', ''nvs_list'',
    ''free'', ''heap'', ''version'', ''restart'', ''deep_sleep'', ''light_sleep'', ''tasks'', ''wifi'', ''ble'',
    ''bt'', ''nan'', ''gpio'', ''i2cconfig'', ''i2cdetect'', ''i2cget'', ''i2cset'', ''i2cdump'']"
  by (simp add: console_cmds_def cc_defs)

text \<open>
  The start of the console registers exactly the commands of the table, in its order, and no name
  twice; the raw advertising command \<open>hci\<close> is not among them.
\<close>

lemma commands_are_registered:
  assumes "register_console E s = Inr t"
  shows "registered (hist t) = registered (hist s) @ map cc_name console_cmds \<and>
    distinct (map cc_name console_cmds) \<and> ''hci'' \<notin> cc_name ` set console_cmds"
proof -
  note d = register_lora_cmd_def register_dmesh_nvs_def register_dmesh_system_def register_wifi_def
    register_bt_cmd_def console_register_nan_def register_gpio_def register_i2ctools_def
  obtain a b1 b2 b3 b4 b5 b6 b7 b8 b9 u where
    r: "initialize_console E s = Inr a"
      "register_lora_cmd E (emit (Api ''esp_console_register_help_command'' []) a) = Inr b1"
      "register_dmesh_nvs E b1 = Inr b2" "register_dmesh_system E b2 = Inr b3" "register_wifi E b3 = Inr b4"
      "register_spp_ble E b4 = Inr b5" "register_bt_cmd E b5 = Inr b6" "register_dmesh E b6 = Inr b7"
      "console_register_nan E b7 = Inr b8" "register_gpio E (register_ui E b8) = Inr b9"
      "register_i2ctools E b9 = Inr u" "registered (hist t) = registered (hist u)"
    using assms unfolding register_console_def Let_def
    by (elim bindE_InrE) (rule that, assumption+, auto split: if_splits)
  have "regs [] s (emit (Api ''esp_console_register_help_command'' []) a)"
    using regs_others(1) [OF r(1) regs_refl] by (simp add: regs_emit)
  note regs_check [OF r(2) [unfolded d] this]
  note regs_cmds [OF r(4) [unfolded d] regs_cmds [OF r(3) [unfolded d] this]]
  note regs_spp_ble [OF r(6) regs_check [OF r(5) [unfolded d] this]]
  note regs_others(2) [OF r(8) regs_check [OF r(7) [unfolded d] this]]
  note regs_cmds [OF r(10) [unfolded d] regs_ui [OF regs_check [OF r(9) [unfolded d] this]]]
  note regs_cmds [OF r(11) [unfolded d] this]
  then have "regs (map cc_name console_cmds) s u" by (simp add: console_names)
  then have "registered (hist t) = registered (hist s) @ map cc_name console_cmds" by (simp add: regs_def r(12))
  moreover have "distinct (map cc_name console_cmds)" "''hci'' \<notin> set (map cc_name console_cmds)"
    by (simp_all add: console_names)
  ultimately show ?thesis by (metis list.set_map)
qed

section \<open>The null entry\<close>

text \<open>
  What argtable3 asks of a table: its functions read the header of every entry, so a null pointer among
  them is read through.
\<close>

definition rejects_null :: "arg_parser \<Rightarrow> bool" where
  "rejects_null ap \<longleftrightarrow> (\<forall>t argv. None \<in> snd ` set (at_fields t) \<longrightarrow> ap t argv = Inl ReadOOB)"

text \<open>
  The \<open>wifi\<close> command cannot be called: its table has an entry that is never assigned, which the
  parser reads through, whatever the line; the tables of all other commands are complete.
\<close>

lemma wifi_command_always_faults:
  assumes "rejects_null ap" "c \<in> set console_cmds" "cc_func c = Parsing t f"
  shows "if cc_name c = ''wifi'' then call_cmd (cc_func c) E ap argv s = Inl ReadOOB
    else None \<notin> snd ` set (at_fields t)"
  using assms
  by (auto simp: console_cmds_def cc_defs rejects_null_def
      nvs_set_table_def nvs_get_table_def nvs_namespace_table_def nvs_list_table_def bt_table_def
      lora_table_def deep_sleep_table_def light_sleep_table_def wifi_table_def ble_table_def nan_table_def
      gpio_table_def i2cconfig_table_def i2cget_table_def i2cset_table_def i2cdump_table_def arg_defs)

section \<open>Numbers\<close>

text \<open>
  What argtable3 promises of a parse: it stores no more errors than the table has room for, and a table
  with room that has none got every mandatory entry.  Two parses agree on what was given.
\<close>

definition lawful :: "arg_table \<Rightarrow> parsed \<Rightarrow> bool" where
  "lawful t p \<longleftrightarrow> 0 \<le> pa_nerrors p \<and> pa_nerrors p \<le> int (at_errors t) \<and>
     (pa_nerrors p = 0 \<and> 0 < at_errors t \<longrightarrow>
       (\<forall>(f, e) \<in> set (at_fields t). \<forall>x. e = Some x \<longrightarrow> o_min x \<le> pa_count p f))"

definition agrees :: "parsed \<Rightarrow> parsed \<Rightarrow> bool" where
  "agrees p p' \<longleftrightarrow> pa_nerrors p' = pa_nerrors p \<and> pa_count p' = pa_count p \<and> pa_sval p' = pa_sval p \<and>
     pa_sptr p' = pa_sptr p \<and> (\<forall>f k. k < pa_count p f \<longrightarrow> pa_ival p' f k = pa_ival p f k)"

lemma agrees_ivals:
  assumes "agrees p p'"
  shows "ival0 p' f = ival0 p f" "sval0 p' f = sval0 p f" "ivals p' f = ivals p f"
    "pa_nerrors p' = pa_nerrors p" "pa_count p' = pa_count p" "pa_sval p' = pa_sval p" "pa_sptr p' = pa_sptr p"
    "0 < pa_count p f \<Longrightarrow> pa_ival p' f 0 = pa_ival p f 0"
  using assms by (auto simp: agrees_def ival0_def sval0_def ivals_def)

text \<open>
  C33: No command reads a number that was not given on its line: whatever the other values in its table
  are, it does the same.  The commands that read a number unconditionally make it mandatory and stop
  at a parse error.
\<close>

theorem commands_read_given_numbers:
  assumes "c \<in> set console_cmds" "cc_func c = Parsing t f" "lawful t p" "agrees p p'"
  shows "f E p s = f E p' s"
proof -
  note a = agrees_ivals [OF assms(4)]
  have m: "pa_nerrors p \<noteq> 0 \<or> pa_ival p' fl 0 = pa_ival p fl 0"
    if "(fl, Some x) \<in> set (at_fields t)" "o_min x = 1" "0 < at_errors t" for fl x
    using assms(3) that a(8) [of fl] by (fastforce simp: lawful_def)
  have cfg: "do_i2cconfig_cmd (i2cconfig_args_of p) s = do_i2cconfig_cmd (i2cconfig_args_of p') s"
    if "t = i2cconfig_table"
    using m [of "''sda''"] m [of "''scl''"] that a
    by (cases "pa_nerrors p = 0") (auto simp: i2cconfig_table_def arg_defs i2cconfig_args_of_def do_i2cconfig_cmd_def)
  have get: "do_i2cget_cmd E (i2cget_args_of p) s = do_i2cget_cmd E (i2cget_args_of p') s"
    if "t = i2cget_table"
    using m [of "''chip_address''"] that a
    by (cases "pa_nerrors p = 0") (auto simp: i2cget_table_def arg_defs i2cget_args_of_def do_i2cget_cmd_def)
  have set': "do_i2cset_cmd (i2cset_args_of p) s = do_i2cset_cmd (i2cset_args_of p') s"
    if "t = i2cset_table"
    using m [of "''chip_address''"] that a
    by (cases "pa_nerrors p = 0") (auto simp: i2cset_table_def arg_defs i2cset_args_of_def do_i2cset_cmd_def)
  have dump: "do_i2cdump_cmd E (i2cdump_args_of p) s = do_i2cdump_cmd E (i2cdump_args_of p') s"
    if "t = i2cdump_table"
    using m [of "''chip_address''"] that a
    by (cases "pa_nerrors p = 0") (auto simp: i2cdump_table_def arg_defs i2cdump_args_of_def do_i2cdump_cmd_def)
  show ?thesis
    using assms(1,2) cfg get set' dump
    by (auto simp: console_cmds_def cc_defs a set_args_of_def get_args_of_def namespace_args_of_def list_args_of_def
      bt_args_of_def lora_args_of_def deep_sleep_args_of_def light_sleep_args_of_def wifi_args_of_def
      ble_args_of_def nan_args_of_def gpio_args_of_def)
qed

text \<open>A parse of the words \<open>-c 60\<close>, the values that were not given being \<open>v\<close>.\<close>

definition chip_given :: "int \<Rightarrow> parsed" where
  "chip_given v = \<lparr>pa_nerrors = 0, pa_count = \<lambda>f. if f = ''chip_address'' then 1 else 0,
     pa_ival = \<lambda>f k. if f = ''chip_address'' then 60 else v, pa_sval = \<lambda>f k. [], pa_sptr = \<lambda>f. 0\<rparr>"

theorem commands_read_given_numbers_witness:
  "call_cmd (cc_func (i2c_cmds ! 2)) quiet (\<lambda>t argv. Inr (chip_given 7)) [''-c'', ''60''] boot =
   call_cmd (cc_func (i2c_cmds ! 2)) quiet (\<lambda>t argv. Inr (chip_given 0)) [''-c'', ''60''] boot"
proof -
  have "i2c_cmds ! 2 \<in> set console_cmds" by (simp add: console_cmds_def i2c_cmds_def)
  moreover have "lawful i2cget_table (chip_given 7)"
    by (simp add: lawful_def i2cget_table_def arg_defs chip_given_def)
  moreover have "agrees (chip_given 7) (chip_given 0)" by (simp add: agrees_def chip_given_def)
  moreover obtain f where f: "cc_func (i2c_cmds ! 2) = Parsing i2cget_table f" by (simp add: i2c_cmd_defs)
  ultimately have "f quiet (chip_given 7) boot = f quiet (chip_given 0) boot"
    by (intro commands_read_given_numbers [where t = i2cget_table])
  then show ?thesis by (simp add: f)
qed

end
