(* ===== verification/NanExchange.thy ===== *)
theory NanExchange
  imports NanRecv
begin

text \<open>
  What the parser does on frames built from attributes: an attribute of another type is
  skipped, a service descriptor is handed to \<open>daf_descriptor\<close>, and the loop ends at the
  frame check sequence that the radio leaves behind the body.  From these three rules follow
  the exchanges between two nodes that both run this firmware.
\<close>

section \<open>Rules of the attribute loop\<close>

lemma next_less:
  fixes len :: u32
  assumes "0 \<le> n" "n < 2 ^ 31" "4 \<le> uint len"
  shows "(word_of_int n :: u32) < len - 4 \<longleftrightarrow> n + 4 < uint len"
proof -
  have "uint (len - 4) = uint len - 4"
    using assms(3) by (simp add: uint_sub_if')
  moreover have "uint (word_of_int n :: u32) = n"
    using assms(1,2) by (simp add: uint_word_of_int)
  ultimately show ?thesis unfolding word_less_def by arith
qed

lemma past_frame:
  fixes len :: u32
  assumes "0 \<le> n" "n < 2 ^ 31"
  shows "len < (word_of_int n :: u32) \<longleftrightarrow> uint len < n"
  using assms by (simp add: word_less_def uint_word_of_int)

text \<open>The frame as received: \<open>len\<close> bytes, far below the limit of an \<open>int\<close>.\<close>

definition rx_frame :: "u32 \<Rightarrow> u8 list \<Rightarrow> bool" where
  "rx_frame len frame \<longleftrightarrow> uint len = int (length frame) \<and> 30 \<le> length frame \<and> length frame < 2 ^ 16"

lemma daf_loop_end:
  "rx_frame len frame \<Longrightarrow> 0 \<le> n \<Longrightarrow> n \<le> int (length frame) \<Longrightarrow> int (length frame) \<le> n + 4 \<Longrightarrow>
   daf_loop E p len n frame s = Inr (frame, s)"
  by (subst daf_loop.simps) (simp add: next_less rx_frame_def)

definition is_attr :: "u8 \<Rightarrow> u8 list \<Rightarrow> u8 list \<Rightarrow> bool" where
  "is_attr tag body a \<longleftrightarrow>
     (\<exists>lo hi. a = [tag, lo, hi] @ body \<and> 256 * i_of hi + i_of lo = int (length body)) \<and> body \<noteq> []"

lemma daf_attr_at:
  assumes "frame = pre @ a @ post" "is_attr tag body a" "rx_frame len frame" "n = int (length pre)"
  shows "daf_attr E p len n frame s =
    (if tag = 3 then bindE (daf_descriptor E p (n + 3) frame s)
        (\<lambda>(frame, s). Inr (Some (n + int (length a)), frame, s))
     else Inr (Some (n + int (length a)), frame, s))"
proof -
  from assms(2) obtain lo hi where a: "a = [tag, lo, hi] @ body"
    and tl: "256 * i_of hi + i_of lo = int (length body)" and ne: "body \<noteq> []"
    by (auto simp: is_attr_def)
  have r: "rd frame n = Inr tag" "rd frame (n + 1) = Inr lo" "rd frame (n + 2) = Inr hi"
    by (simp_all add: rd_def assms(1,4) a nth_append nat_add_distrib)
  have l: "\<not> len < (word_of_int (n + 3 + int (length body)) :: u32)"
    using assms(1,3,4) a by (subst past_frame) (auto simp: rx_frame_def)
  have c: "(int (length body) = 0 \<or> len < (word_of_int (n + 3 + int (length body)) :: u32)) = False"
    using ne l by (auto simp del: of_int_add)
  show ?thesis
    by (simp only: daf_attr_def r bindE_Inr Let_def tl c if_False) (simp add: a add.assoc)
qed

lemma daf_loop_attr:
  assumes "frame = pre @ a @ post" "is_attr tag body a" "rx_frame len frame" "n = int (length pre)"
    "4 \<le> length post"
  shows "daf_loop E p len n frame s =
    (if tag = 3 then bindE (daf_descriptor E p (n + 3) frame s)
        (\<lambda>(frame, s). daf_loop E p len (n + int (length a)) frame s)
     else daf_loop E p len (n + int (length a)) frame s)"
proof -
  have "3 < length a" using assms(2) by (auto simp: is_attr_def)
  then have "(word_of_int n :: u32) < len - 4"
    using assms(1,3,4,5) by (subst next_less) (auto simp: rx_frame_def)
  then show ?thesis
    by (subst daf_loop.simps)
      (auto simp: daf_attr_at [OF assms(1-4)] bindE_def split: sum.splits)
qed

lemmas daf_loop_skip = daf_loop_attr [THEN trans, OF _ _ _ _ _ if_not_P]
lemmas daf_loop_sda = daf_loop_attr [where tag = 3, simplified]

section \<open>The attributes of the firmware's own frames\<close>

lemma is_attr_caps: "is_attr 0x0F [0, 1, 0, 0x04, 1, 0, 0, 0x14, 0] nanDeviceCapabilities"
  by (simp add: is_attr_def nanDeviceCapabilities_def)

lemma is_attr_avail: "is_attr 0x12 (drop 3 nanAvailability) nanAvailability"
  by (simp add: is_attr_def nanAvailability_def)

lemma is_attr_ext: "is_attr 0x0e [NAN_ID, 0x00, 0x02, 0x02] nanServiceExtension"
  by (simp add: is_attr_def nanServiceExtension_def)

lemma is_attr_desc: "is_attr 3 (drop 3 nanServiceDescriptor) nanServiceDescriptor"
  by (simp add: is_attr_def nanServiceDescriptor_def)

lemma uint_b_of: "0 \<le> x \<Longrightarrow> x < 256 \<Longrightarrow> uint (b_of x) = x"
  by (simp add: uint_word_of_int)

lemma is_attr_followup:
  assumes "length d \<le> 255"
  shows "is_attr 3 (drop 3 (followup_attr inst d)) (followup_attr inst d)"
proof -
  let ?n = "int (length d) + 10"
  have "uint (b_of (?n mod 256)) = ?n mod 256" "uint (b_of (?n div 256)) = ?n div 256"
    using assms by (auto intro!: uint_b_of)
  then have "256 * uint (b_of (?n div 256)) + uint (b_of (?n mod 256)) = ?n"
    by simp
  then show ?thesis by (simp add: is_attr_def followup_attr_def)
qed

section \<open>What a send leaves behind\<close>

text \<open>The frames handed to the radio so far.\<close>

definition txs :: "dev \<Rightarrow> u8 list list" where
  "txs s = concat (map (\<lambda>c. case c of WifiTx f \<Rightarrow> [f] | _ \<Rightarrow> []) (hist s))"

lemma txs_emit [simp]:
  "txs (emit (WifiTx f) s) = txs s @ [f]" "txs (emit GetTime s) = txs s"
  by (simp_all add: txs_def)

lemma txs_upd [simp]: "txs (upd_nan f s) = txs s" "txs (upd_aware g s) = txs s"
  "txs (upd_peer p h s) = txs s"
  by (simp_all add: txs_def upd_peer_def)

lemma nan_wf_upd [simp]:
  "nan_wf (emit c s) = nan_wf s"
  "nan_wf (upd_nan (\<lambda>v. v\<lparr>maxPostSync := m\<rparr>) s) = nan_wf s"
  by (simp_all add: nan_wf_def)

text \<open>\<open>sends s fs s'\<close>: from \<open>s\<close> to \<open>s'\<close> the frames \<open>fs\<close> went out and the driver's record is as it was.\<close>

definition sends :: "dev \<Rightarrow> u8 list list \<Rightarrow> dev \<Rightarrow> bool" where
  "sends s fs s' \<longleftrightarrow> nan_wf s' \<and> txs s' = txs s @ fs \<and> aware (nan s') = aware (nan s) \<and>
     resBuf (nan s') = resBuf (nan s) \<and> lo s' = lo s \<and> ble s' = ble s \<and> bt s' = bt s \<and>
     (\<exists>cs. hist s' = hist s @ cs)"

lemma sends_trans: "sends s fs s' \<Longrightarrow> sends s' gs s'' \<Longrightarrow> sends s (fs @ gs) s''"
  by (auto simp: sends_def)

lemma nanSendPublish_sends:
  assumes "nan_wf s"
  obtains s' where "nanSendPublish E s = Inr s'"
    "sends s [publish_frame (mymac (aware (nan s))) (nanNet (aware (nan s)))] s'"
proof -
  from nanSendPublish_eq [OF assms, of E] obtain m where
    m: "nanSendPublish E s = Inr (upd_nan (\<lambda>v. v\<lparr>maxPostSync := m\<rparr>)
      (emit GetTime (emit (WifiTx (publish_frame (mymac (aware (nan s))) (nanNet (aware (nan s)))))
        (emit GetTime (upd_nan (\<lambda>v. v\<lparr>sendBuffer :=
           publish_frame (mymac (aware (nan s))) (nanNet (aware (nan s))) @
             drop 108 (sendBuffer (nan s)), sendBufferOff := 108\<rparr>) s)))))"
    by blast
  have l: "length (publish_frame (mymac (aware (nan s))) (nanNet (aware (nan s)))) = 108"
    using assms by (simp add: publish_frame_def nan_wf_def)
  show ?thesis
    by (rule that [OF m]) (use assms l in \<open>auto simp: sends_def nan_wf_def\<close>)
qed

lemma nanSendNow_sends:
  fixes inst :: u8
  assumes "nan_wf s" "length dst = 6" "0 \<le> len" "min len 255 \<le> int (length data)"
  obtains s' where "nanSendNow E dst inst data len s = Inr s'"
    "sends s [followup_frame dst (mymac (aware (nan s))) (nanNet (aware (nan s))) inst
       (take (nat (min len 255)) data)] s'"
proof -
  let ?f = "followup_frame dst (mymac (aware (nan s))) (nanNet (aware (nan s))) inst
       (take (nat (min len 255)) data)"
  have l: "length ?f \<le> 512"
    using assms(1,2) by (simp add: followup_frame_def followup_attr_def nan_wf_def)
  show ?thesis
    by (rule that [OF nanSendNow_eq [OF assms]]) (use assms l in \<open>auto simp: sends_def nan_wf_def\<close>)
qed

lemma nan_wf_upd_aware:
  "nan_wf s \<Longrightarrow> mymac (g (aware (nan s))) = mymac (aware (nan s)) \<Longrightarrow>
   peers (g (aware (nan s))) = peers (aware (nan s)) \<Longrightarrow>
   length (nanNet (g (aware (nan s)))) = 2 \<Longrightarrow> nan_wf (upd_aware g s)"
  by (simp add: nan_wf_def)

lemma nan_wf_counters [simp]:
  "nan_wf (upd_aware (\<lambda>a. a\<lparr>pubReceived := f1 a\<rparr>) s) = nan_wf s"
  "nan_wf (upd_aware (\<lambda>a. a\<lparr>subReceived := f2 a\<rparr>) s) = nan_wf s"
  "nan_wf (upd_aware (\<lambda>a. a\<lparr>nanMessagesIn := f3 a\<rparr>) s) = nan_wf s"
  "nan_wf (upd_aware (\<lambda>a. a\<lparr>nanPacketsOthers := f4 a\<rparr>) s) = nan_wf s"
  "nan_wf (upd_aware (\<lambda>a. a\<lparr>nanPackets := f5 a\<rparr>) s) = nan_wf s"
  "nan_wf (upd_aware (\<lambda>a. a\<lparr>capPackets := f6 a\<rparr>) s) = nan_wf s"
  "nan_wf (upd_aware (\<lambda>a. a\<lparr>capturedSinceLast := f7 a\<rparr>) s) = nan_wf s"
  "nan_wf (upd_aware (\<lambda>a. a\<lparr>nanSBeacon := f8 a\<rparr>) s) = nan_wf s"
  "nan_wf (upd_aware (\<lambda>a. a\<lparr>nanDBeacon := f9 a\<rparr>) s) = nan_wf s"
  "nan_wf (upd_aware (\<lambda>a. a\<lparr>lastSBeacon := f10 a\<rparr>) s) = nan_wf s"
  "nan_wf (upd_aware (\<lambda>a. a\<lparr>lastDBeacon := f11 a\<rparr>) s) = nan_wf s"
  "nan_wf (upd_aware (\<lambda>a. a\<lparr>lastSentSBeacon := f12 a\<rparr>) s) = nan_wf s"
  by (simp_all add: nan_wf_def)

definition peer_wf :: "NanPeer \<Rightarrow> bool" where
  "peer_wf p \<longleftrightarrow> length (peer_mac p) = 6 \<and> length (peer_nanNet p) = 2 \<and>
     length (outQueue p) = OUT_QUEUE_SIZE \<and> 0 \<le> outQueueLen p \<and> outQueueLen p \<le> int OUT_QUEUE_SIZE"

lemma nan_wf_peer: "nan_wf s \<Longrightarrow> i < NAN_MAX_PEERS \<Longrightarrow> peer_wf (peer_of s i)"
  by (simp add: nan_wf_def peer_wf_def peer_of_def)

lemma nan_wf_upd_peer:
  assumes "nan_wf s" "i < NAN_MAX_PEERS" "peer_wf (h (peer_of s i))"
  shows "nan_wf (upd_peer i h s)"
proof -
  have "set ((peers (aware (nan s)))[i := h (peers (aware (nan s)) ! i)]) \<subseteq>
      insert (h (peer_of s i)) (set (peers (aware (nan s))))"
    unfolding peer_of_def by (rule set_update_subset_insert)
  then show ?thesis
    using assms by (auto simp: nan_wf_def upd_peer_def peer_wf_def)
qed

lemma peer_of_upd [simp]:
  "nan_wf s \<Longrightarrow> i < NAN_MAX_PEERS \<Longrightarrow> peer_of (upd_peer i h s) i = h (peer_of s i)"
  "peer_of (emit c s) i = peer_of s i"
  by (simp_all add: peer_of_def upd_peer_def nan_wf_def)

lemma aware_upd_peer [simp]:
  "aware (nan (upd_peer i h s)) =
     (aware (nan s))\<lparr>peers := (peers (aware (nan s)))[i := h (peer_of s i)]\<rparr>"
  "resBuf (nan (upd_peer i h s)) = resBuf (nan s)" "hist (upd_peer i h s) = hist s"
  by (simp_all add: upd_peer_def peer_of_def)

lemma peers_pos [simp]: "0 < NAN_MAX_PEERS"
  by (simp add: NAN_MAX_PEERS_def)

lemma boot_simps [simp]:
  "nan_wf boot" "txs boot = []" "peer_of boot 0 = boot_peer"
  "mymac (aware (nan boot)) = [0, 0, 0, 0, 0, 0]" "nanNet (aware (nan boot)) = [0, 0]"
  by (simp_all add: nan_wf_def boot_def boot_aware_def boot_peer_def txs_def peer_of_def
      NAN_MAX_PEERS_def OUT_QUEUE_SIZE_def numeral_eq_Suc)

section \<open>From the radio to the attribute loop\<close>

lemma nan_head_access:
  assumes "length dst = 6" "length src = 6" "length net = 2"
  shows "rd (nan_head dst src net @ b) 0 = Inr 0xD0"
    "rdn (nan_head dst src net @ b) 4 6 = Inr dst"
    "rdn (nan_head dst src net @ b) 10 6 = Inr src"
    "rdn (nan_head dst src net @ b) 20 2 = Inr net"
    "rd (nan_head dst src net @ b) 29 = Inr 0x13"
    "differs (nan_head dst src net @ b) [(16, 0x50), (17, 0x6f), (18, 0x9a)] = Inr False"
    "differs (nan_head dst src net @ b) [(24, 4), (25, 9), (26, 0x50), (27, 0x6f), (28, 0x9a)] =
       Inr False"
  using assms by (simp_all add: nan_head_def rd_def rdn_def nth_append)

text \<open>The counters of every captured packet, and the state once an action frame's header is read.\<close>

definition rx_counted :: "env \<Rightarrow> u32 \<Rightarrow> dev \<Rightarrow> dev" where
  "rx_counted E len s = upd_aware (\<lambda>a. a\<lparr>capPackets := capPackets a + 1\<rparr>)
     (upd_aware (\<lambda>a. a\<lparr>capturedSinceLast := capturedSinceLast a + uint len\<rparr>) (emit GetTime s))"

definition rx_action :: "env \<Rightarrow> u32 \<Rightarrow> u8 list \<Rightarrow> dev \<Rightarrow> dev" where
  "rx_action E len net s =
     upd_peer 0 (\<lambda>p. p\<lparr>peer_nanNet := net\<rparr>) (upd_aware (\<lambda>a. a\<lparr>nanNet := net\<rparr>)
         (upd_aware (\<lambda>a. a\<lparr>nanPackets := nanPackets a + 1\<rparr>) (rx_counted E len s)))"

lemma sniffer_action:
  assumes "length dst = 6" "length src = 6" "length net = 2"
  shows "sniffer_cb1 E WIFI_PKT_MGMT len (nan_head dst src net @ b) s =
     daf_loop E 0 len 30 (nan_head dst src net @ b) (rx_action E len net s)"
  using nan_head_access [OF assms, of b]
  by (simp add: sniffer_cb1_def handleDAF_def currentTimeMicro_def Let_def rx_counted_def
      rx_action_def del: differs.simps)

lemma rx_action_wf [simp]:
  assumes "nan_wf s" "length net = 2"
  shows "nan_wf (rx_action E len net s)"
proof -
  let ?s = "upd_aware (\<lambda>a. a\<lparr>nanNet := net\<rparr>)
         (upd_aware (\<lambda>a. a\<lparr>nanPackets := nanPackets a + 1\<rparr>) (rx_counted E len s))"
  have "nan_wf ?s"
    using assms by (auto simp: rx_counted_def nan_wf_def)
  then show ?thesis
    unfolding rx_action_def using assms(2) nan_wf_peer [of ?s 0]
    by (intro nan_wf_upd_peer) (simp_all add: peer_wf_def)
qed

lemma rx_action_simps [simp]:
  "txs (rx_action E len net s) = txs s"
  "nanNet (aware (nan (rx_action E len net s))) = net"
  "mymac (aware (nan (rx_action E len net s))) = mymac (aware (nan s))"
  "nanPackets (aware (nan (rx_action E len net s))) = nanPackets (aware (nan s)) + 1"
  "pubReceived (aware (nan (rx_action E len net s))) = pubReceived (aware (nan s))"
  "subReceived (aware (nan (rx_action E len net s))) = subReceived (aware (nan s))"
  "nanMessagesIn (aware (nan (rx_action E len net s))) = nanMessagesIn (aware (nan s))"
  "nanPacketsOthers (aware (nan (rx_action E len net s))) = nanPacketsOthers (aware (nan s))"
  "resBuf (nan (rx_action E len net s)) = resBuf (nan s)"
  by (simp_all add: rx_action_def rx_counted_def txs_def)

section \<open>A service descriptor, branch by branch\<close>

text \<open>The peer's record once the descriptor's header is read.\<close>

definition rx_peer :: "u8 \<Rightarrow> u8 list \<Rightarrow> dev \<Rightarrow> dev" where
  "rx_peer inst src s = upd_peer 0 (\<lambda>p. p\<lparr>peer_mac := src\<rparr>)
     (upd_peer 0 (\<lambda>p. p\<lparr>peer_instanceId := inst\<rparr>) s)"

lemma rx_peer_wf [simp]:
  assumes "nan_wf s" "length src = 6"
  shows "nan_wf (rx_peer inst src s)"
proof -
  have w: "nan_wf (upd_peer 0 (\<lambda>p. p\<lparr>peer_instanceId := inst\<rparr>) s)"
    using assms nan_wf_peer [of s 0] by (intro nan_wf_upd_peer) (simp_all add: peer_wf_def)
  then show ?thesis
    unfolding rx_peer_def using assms nan_wf_peer [OF w, of 0]
    by (intro nan_wf_upd_peer) (simp_all add: peer_wf_def)
qed

lemma rx_peer_peer [simp]:
  assumes "nan_wf s" "length src = 6"
  shows "peer_of (rx_peer inst src s) 0 = (peer_of s 0)\<lparr>peer_mac := src, peer_instanceId := inst\<rparr>"
  using assms by (simp add: rx_peer_def peer_of_def upd_peer_def nan_wf_def)

lemma rx_peer_simps [simp]:
  "txs (rx_peer inst src s) = txs s"
  "nanNet (aware (nan (rx_peer inst src s))) = nanNet (aware (nan s))"
  "mymac (aware (nan (rx_peer inst src s))) = mymac (aware (nan s))"
  "nanPackets (aware (nan (rx_peer inst src s))) = nanPackets (aware (nan s))"
  "pubReceived (aware (nan (rx_peer inst src s))) = pubReceived (aware (nan s))"
  "subReceived (aware (nan (rx_peer inst src s))) = subReceived (aware (nan s))"
  "nanMessagesIn (aware (nan (rx_peer inst src s))) = nanMessagesIn (aware (nan s))"
  "nanPacketsOthers (aware (nan (rx_peer inst src s))) = nanPacketsOthers (aware (nan s))"
  "resBuf (nan (rx_peer inst src s)) = resBuf (nan s)"
  by (simp_all add: rx_peer_def)

text \<open>The descriptor's header at \<open>i\<close>, as the parser reads it.\<close>

definition sda_at :: "u8 list \<Rightarrow> int \<Rightarrow> u8 list \<Rightarrow> u8 \<Rightarrow> u8 \<Rightarrow> u8 \<Rightarrow> bool" where
  "sda_at frame i src inst ctl tlen \<longleftrightarrow>
     rd frame (i + 6) = Inr inst \<and> (\<exists>rq. rd frame (i + 7) = Inr rq) \<and>
     rd frame (i + 8) = Inr ctl \<and> rd frame (i + 9) = Inr tlen \<and>
     rdn frame 10 6 = Inr src \<and> length src = 6"

lemma daf_descriptor_at:
  assumes "sda_at frame i src inst ctl tlen"
  shows "daf_descriptor E 0 i frame s =
    (let s = rx_peer inst src s in
     if ctl = 0x11 then
       bindE (nanSendPublish E s) (\<lambda>s.
       Inr (frame, upd_aware (\<lambda>a. a\<lparr>subReceived := subReceived a + 1\<rparr>) s))
     else if ctl = 0x10 then
       bindE (nanSendNow E src (peer_instanceId (peer_of s 0)) PINGp 5 s) (\<lambda>s.
       bindE (nanSendPublish E s) (\<lambda>s.
       Inr (frame, upd_aware (\<lambda>a. a\<lparr>pubReceived := pubReceived a + 1\<rparr>) s)))
     else daf_message E 0 (i + 10) tlen frame s)"
  using assms by (auto simp: sda_at_def daf_descriptor_def rx_peer_def Let_def add.assoc)

lemma daf_publish:
  assumes "sda_at frame i src inst 0x10 tlen" "nan_wf s"
  obtains s' where "daf_descriptor E 0 i frame s = Inr (frame, s')" "nan_wf s'"
    "txs s' = txs s @ [followup_frame src (mymac (aware (nan s))) (nanNet (aware (nan s))) inst PINGp,
                       publish_frame (mymac (aware (nan s))) (nanNet (aware (nan s)))]"
    "aware (nan s') = (aware (nan (rx_peer inst src s)))\<lparr>pubReceived := pubReceived (aware (nan s)) + 1\<rparr>"
proof -
  let ?s = "rx_peer inst src s"
  have src: "length src = 6" using assms(1) by (simp add: sda_at_def)
  have w: "nan_wf ?s" using assms(2) src by simp
  have "min 5 255 \<le> int (length PINGp)" by (simp add: PINGp_def)
  from nanSendNow_sends [OF w src _ this, of E inst] obtain s1 where
    s1: "nanSendNow E src inst PINGp 5 ?s = Inr s1"
      "sends ?s [followup_frame src (mymac (aware (nan ?s))) (nanNet (aware (nan ?s))) inst
         (take (nat (min 5 255)) PINGp)] s1"
    by auto
  then have w1: "nan_wf s1" and a1: "aware (nan s1) = aware (nan ?s)" by (auto simp: sends_def)
  from nanSendPublish_sends [OF w1, of E] obtain s2 where
    s2: "nanSendPublish E s1 = Inr s2"
      "sends s1 [publish_frame (mymac (aware (nan s1))) (nanNet (aware (nan s1)))] s2"
    by blast
  show ?thesis
  proof (rule that [of "upd_aware (\<lambda>a. a\<lparr>pubReceived := pubReceived a + 1\<rparr>) s2"])
    show "daf_descriptor E 0 i frame s =
        Inr (frame, upd_aware (\<lambda>a. a\<lparr>pubReceived := pubReceived a + 1\<rparr>) s2)"
      using s1 s2 assms(2) src by (simp add: daf_descriptor_at [OF assms(1)] Let_def)
    show "nan_wf (upd_aware (\<lambda>a. a\<lparr>pubReceived := pubReceived a + 1\<rparr>) s2)"
      using s2 by (simp add: sends_def)
  qed (use s1 s2 a1 in \<open>simp_all add: sends_def PINGp_def\<close>)
qed

lemma daf_message_plain:
  assumes "rdn frame i 4 = Inr m" "m \<noteq> PING" "rdn frame 4 6 = Inr dst"
    "0 \<le> i" "i + i_of tlen < int (length frame)" "nan_wf s"
  shows "daf_message E 0 i tlen frame s =
    Inr (frame[nat (i + i_of tlen) := 0],
      emit GetTime (upd_aware (\<lambda>a. a\<lparr>nanMessagesIn := nanMessagesIn a + 1,
         nanPacketsOthers := nanPacketsOthers a + (if dst \<noteq> mymac (aware (nan s)) then 1 else 0)\<rparr>) s))"
  using assms by (simp add: daf_message_def Let_def currentTimeMicro_def wr_in nan_wf_def upd_aware_def upd_nan_def)

lemma length_PONG [simp]: "length PONG = 4"
  by (simp add: PONG_def)

lemma daf_message_ping:
  assumes "rdn frame i 4 = Inr PING" "rdn frame 4 6 = Inr dst" "rdn frame 10 6 = Inr src"
    "length src = 6" "0 \<le> i" "i + 4 + i_of tlen \<le> int (length frame)" "i_of tlen \<le> 60" "nan_wf s"
  obtains s' where
    "daf_message E 0 i tlen frame s = Inr (frame[nat (i + i_of tlen) := 0], s')" "nan_wf s'"
    "txs s' = txs s @ [followup_frame src (mymac (aware (nan s))) (nanNet (aware (nan s)))
       (peer_instanceId (peer_of s 0)) (PONG @ take (nat (i_of tlen)) (drop (nat (i + 4)) frame))]"
    "aware (nan s') = (aware (nan s))\<lparr>nanMessagesIn := nanMessagesIn (aware (nan s)) + 1,
       nanPacketsOthers := nanPacketsOthers (aware (nan s)) +
         (if dst \<noteq> mymac (aware (nan s)) then 1 else 0)\<rparr>"
proof -
  let ?t = "take (nat (i_of tlen)) (drop (nat (i + 4)) frame)"
  let ?s = "upd_aware (\<lambda>a. a\<lparr>nanMessagesIn := nanMessagesIn a + 1\<rparr>) s"
  define R where "R = PONG @ ?t @ drop (4 + nat (i_of tlen)) (resBuf (nan s))"
  have lr: "length (resBuf (nan s)) = 64" using assms(8) by (simp add: nan_wf_def)
  have k: "nat (i + 4) + unat tlen \<le> length frame"
    using assms(5,6) uint_nat [of tlen] by arith
  have u: "unat tlen \<le> 60" using assms(7) uint_nat [of tlen] by arith
  have lt: "length ?t = nat (i_of tlen)" using k by simp
  have r1: "wrn (resBuf (nan s)) 0 PONG = Inr (PONG @ drop 4 (resBuf (nan s)))"
    using lr by (simp add: wrn_def)
  have r2: "memcpy (PONG @ drop 4 (resBuf (nan s))) 4 frame (i + 4) (i_of tlen) = Inr R"
    using lr lt k u assms(5,6) by (simp add: memcpy_def rdn_def wrn_def R_def add.commute)
  have lR: "length R = 64" using lr lt u by (simp add: R_def)
  have w: "nan_wf (upd_nan (\<lambda>v. v\<lparr>resBuf := R\<rparr>) ?s)" (is "nan_wf ?sr")
    using assms(8) lR by (simp add: nan_wf_def)
  have n: "0 \<le> i_of tlen + 4" "min (i_of tlen + 4) 255 \<le> int (length R)"
    "min (i_of tlen + 4) 255 = i_of tlen + 4"
    using assms(7) lR by auto
  have tk: "take (nat (i_of tlen + 4)) R = PONG @ ?t"
    using lt by (simp add: R_def nat_add_distrib)
  from nanSendNow_sends [OF w assms(4) n(1,2), of E "peer_instanceId (peer_of s 0)"] obtain s1 where
    s1: "nanSendNow E src (peer_instanceId (peer_of s 0)) R (i_of tlen + 4) ?sr = Inr s1"
      "sends ?sr [followup_frame src (mymac (aware (nan s))) (nanNet (aware (nan s)))
         (peer_instanceId (peer_of s 0)) (PONG @ ?t)] s1"
    by (auto simp: n(3) tk)
  have p: "peer_of ?sr 0 = peer_of s 0" by (simp add: peer_of_def)
  have my: "take 6 (mymac (aware (nan s))) = mymac (aware (nan s))"
    using assms(8) by (simp add: nan_wf_def)
  have fr: "i + i_of tlen < int (length frame)" "0 \<le> i + i_of tlen"
    using assms(5,6) by auto
  show ?thesis
    by (rule that [of "emit GetTime (if dst \<noteq> mymac (aware (nan s))
          then upd_aware (\<lambda>a. a\<lparr>nanPacketsOthers := nanPacketsOthers a + 1\<rparr>) s1 else s1)"])
      (use assms(1-3) s1 p my fr in
        \<open>auto simp: daf_message_def Let_def currentTimeMicro_def r1 r2 wr_in sends_def\<close>)
qed

lemma daf_message_ping_overflow:
  assumes "rdn frame i 4 = Inr PING" "0 \<le> i" "i + 4 + i_of tlen \<le> int (length frame)"
    "60 < i_of tlen" "nan_wf s"
  shows "daf_message E 0 i tlen frame s = Inl WriteOOB"
proof -
  have "nat (i + 4) + unat tlen \<le> length frame" "60 < unat tlen"
    using assms(2,3,4) uint_nat [of tlen] by arith+
  moreover have "length (resBuf (nan s)) = 64" using assms(5) by (simp add: nan_wf_def)
  ultimately show ?thesis
    using assms by (simp add: daf_message_def Let_def wrn_def memcpy_def rdn_def)
qed

end
