(* ===== verification/NanNodes.thy ===== *)
theory NanNodes
  imports NanExchange
begin

text \<open>
  Exchanges between two nodes: what a node does with the frames another node sends
  (\<open>nanSendPublish\<close>, \<open>nanSendNow\<close>, \<open>nanSendSync\<close>), from the promiscuous callback on.
\<close>

section \<open>Exchanges between two nodes\<close>

lemma i_of_length: "length d \<le> 255 \<Longrightarrow> i_of (b_of (int (length d))) = int (length d)"
  by (rule uint_b_of) auto

lemma followup_split:
  fixes inst x :: u8 and post :: "u8 list"
  assumes "length dst = 6" "length src = 6" "length net = 2" "length d \<le> 255"
  defines "frame \<equiv> nan_head dst src net @ followup_attr inst d @ post"
  shows "sda_at frame 33 src NAN_ID 0x12 (b_of (int (length d)))"
    "rdn frame 4 6 = Inr dst"
    "drop 43 frame = d @ post" "length frame = 43 + length d + length post"
    "frame[43 + length d := x] = nan_head dst src net @ followup_attr inst d @ post[0 := x]"
proof -
  have l: "length (nan_head dst src net) = 30" using assms by simp
  show "sda_at frame 33 src NAN_ID 0x12 (b_of (int (length d)))"
    using nan_head_access(3) [OF assms(1-3)] l assms(2)
    by (simp add: sda_at_def frame_def followup_attr_def rd_def nth_append SVC_ID_def)
  show "rdn frame 4 6 = Inr dst"
    unfolding frame_def by (rule nan_head_access(2) [OF assms(1-3)])
  show "drop 43 frame = d @ post" "length frame = 43 + length d + length post"
    using l by (simp_all add: frame_def followup_attr_def)
  show "frame[43 + length d := x] = nan_head dst src net @ followup_attr inst d @ post[0 := x]"
    using l by (simp add: frame_def followup_attr_def list_update_append)
qed

lemma length_followup_attr [simp]: "length (followup_attr inst d) = 13 + length d"
  by (simp add: followup_attr_def)

lemma publish_split:
  assumes "length src = 6" "length net = 2"
  shows "sda_at (publish_frame src net @ post) 82 src NAN_ID 0x10 0x10"
proof -
  have l: "length (nan_head broadcast src net) = 30" using assms by simp
  then show ?thesis
    using nan_head_access(3) [of broadcast src net] assms
    by (simp add: sda_at_def publish_frame_def publish_attrs_def rd_def nth_append
        nanServiceDescriptor_def NAN_ID_def)
qed

lemma publish_loop:
  assumes "length src = 6" "length net = 2" "length fcs = 4"
    "rx_frame len (publish_frame src net @ fcs)"
  shows "daf_loop E 0 len 30 (publish_frame src net @ fcs) s =
    bindE (daf_descriptor E 0 82 (publish_frame src net @ fcs) s)
      (\<lambda>(frame, s). daf_loop E 0 len 108 frame s)"
proof -
  let ?h = "nan_head broadcast src net" and ?f = "publish_frame src net @ fcs"
  have l: "length ?h = 30" using assms(1,2) by simp
  have 1: "daf_loop E 0 len 30 ?f s = daf_loop E 0 len 42 ?f s"
    using daf_loop_attr [OF _ is_attr_caps assms(4), where pre = ?h and E = E and p = 0 and s = s
        and post = "nanAvailability @ nanServiceExtension @ nanServiceDescriptor @ fcs"] l
    by (simp add: publish_frame_def publish_attrs_def)
  have 2: "daf_loop E 0 len 42 ?f s = daf_loop E 0 len 72 ?f s"
    using daf_loop_attr [OF _ is_attr_avail assms(4), where pre = "?h @ nanDeviceCapabilities"
        and E = E and p = 0 and s = s and post = "nanServiceExtension @ nanServiceDescriptor @ fcs"] l
    by (simp add: publish_frame_def publish_attrs_def)
  have 3: "daf_loop E 0 len 72 ?f s = daf_loop E 0 len 79 ?f s"
    using daf_loop_attr [OF _ is_attr_ext assms(4), where E = E and p = 0 and s = s
        and pre = "?h @ nanDeviceCapabilities @ nanAvailability"
        and post = "nanServiceDescriptor @ fcs"] l
    by (simp add: publish_frame_def publish_attrs_def)
  have 4: "daf_loop E 0 len 79 ?f s = bindE (daf_descriptor E 0 82 ?f s)
      (\<lambda>(frame, s). daf_loop E 0 len 108 frame s)"
    using daf_loop_attr [OF _ is_attr_desc assms(4), where E = E and p = 0 and s = s and post = fcs
        and pre = "?h @ nanDeviceCapabilities @ nanAvailability @ nanServiceExtension"] l assms(3)
    by (simp add: publish_frame_def publish_attrs_def)
  show ?thesis by (simp only: 1 2 3 4)
qed

lemma publish_run:
  assumes "nan_wf s" "length src = 6" "length net = 2" "length fcs = 4"
    "rx_frame len (publish_frame src net @ fcs)"
  obtains s' where
    "daf_loop E 0 len 30 (publish_frame src net @ fcs) s = Inr (publish_frame src net @ fcs, s')"
    "nan_wf s'"
    "txs s' = txs s @ [followup_frame src (mymac (aware (nan s))) (nanNet (aware (nan s))) NAN_ID PINGp,
                       publish_frame (mymac (aware (nan s))) (nanNet (aware (nan s)))]"
    "aware (nan s') = (aware (nan (rx_peer NAN_ID src s)))
       \<lparr>pubReceived := pubReceived (aware (nan s)) + 1\<rparr>"
proof -
  let ?f = "publish_frame src net @ fcs"
  obtain s' where
    s': "daf_descriptor E 0 82 ?f s = Inr (?f, s')" "nan_wf s'"
      "txs s' = txs s @ [followup_frame src (mymac (aware (nan s))) (nanNet (aware (nan s))) NAN_ID PINGp,
                       publish_frame (mymac (aware (nan s))) (nanNet (aware (nan s)))]"
      "aware (nan s') = (aware (nan (rx_peer NAN_ID src s)))
         \<lparr>pubReceived := pubReceived (aware (nan s)) + 1\<rparr>"
    using daf_publish [OF publish_split [OF assms(2,3)] assms(1), of E fcs] by blast
  have "daf_loop E 0 len 30 ?f s = daf_loop E 0 len 108 ?f s'"
    using publish_loop [OF assms(2-5)] s'(1) by simp
  also have "\<dots> = Inr (?f, s')"
    using assms by (intro daf_loop_end) (auto simp: publish_frame_def)
  finally show ?thesis using s' by (intro that) auto
qed

text \<open>
  C1: A node that hears the publish frame of another node answers it: a follow-up with the
  text PINGp goes to the sender, then the node's own publish frame, both in the network of
  the sender; the sender and its instance become the current peer, and nothing faults.
\<close>

theorem publish_is_answered:
  assumes "nan_wf s" "length src = 6" "length net = 2" "length fcs = 4"
    "rx_frame len (publish_frame src net @ fcs)"
  shows "\<exists>s'. sniffer_cb1 E WIFI_PKT_MGMT len (publish_frame src net @ fcs) s =
      Inr (publish_frame src net @ fcs, s') \<and> nan_wf s' \<and>
    txs s' = txs s @ [followup_frame src (mymac (aware (nan s))) net NAN_ID PINGp,
                      publish_frame (mymac (aware (nan s))) net] \<and>
    pubReceived (aware (nan s')) = pubReceived (aware (nan s)) + 1 \<and>
    nanNet (aware (nan s')) = net \<and>
    peer_mac (peer_of s' 0) = src \<and> peer_instanceId (peer_of s' 0) = NAN_ID"
proof -
  let ?f = "publish_frame src net @ fcs" and ?s = "rx_action E len net s"
  have w: "nan_wf ?s" using assms by simp
  obtain s' where s': "daf_loop E 0 len 30 ?f ?s = Inr (?f, s')" "nan_wf s'"
    "txs s' = txs s @ [followup_frame src (mymac (aware (nan s))) net NAN_ID PINGp,
                       publish_frame (mymac (aware (nan s))) net]"
    "aware (nan s') = (aware (nan (rx_peer NAN_ID src ?s)))
       \<lparr>pubReceived := pubReceived (aware (nan s)) + 1\<rparr>"
    by (rule publish_run [OF w assms(2-5), of E]) simp
  have "sniffer_cb1 E WIFI_PKT_MGMT len ?f s = daf_loop E 0 len 30 ?f ?s"
    using sniffer_action [of broadcast src net E len "publish_attrs @ fcs" s] assms
    by (simp add: publish_frame_def)
  moreover have "peer_of s' 0 = peer_of (rx_peer NAN_ID src ?s) 0"
    using s'(4) by (simp add: peer_of_def)
  ultimately show ?thesis
    using s' w assms(2) by (intro exI [of _ s']) simp
qed

theorem publish_is_answered_witness:
  "\<exists>s'. sniffer_cb1 quiet WIFI_PKT_MGMT 112
      (publish_frame [2, 0, 0, 0, 0, 1] [5, 1] @ [1, 2, 3, 4]) boot =
        Inr (publish_frame [2, 0, 0, 0, 0, 1] [5, 1] @ [1, 2, 3, 4], s') \<and>
    txs s' = [followup_frame [2, 0, 0, 0, 0, 1] [0, 0, 0, 0, 0, 0] [5, 1] NAN_ID PINGp,
              publish_frame [0, 0, 0, 0, 0, 0] [5, 1]]"
  using publish_is_answered [of boot "[2, 0, 0, 0, 0, 1]" "[5, 1]" "[1, 2, 3, 4]" 112 quiet]
  by (auto simp: rx_frame_def publish_frame_def)

lemma followup_loop:
  assumes "length dst = 6" "length src = 6" "length net = 2" "length d \<le> 255" "4 \<le> length post"
    "rx_frame len (nan_head dst src net @ followup_attr inst d @ post)"
  shows "daf_loop E 0 len 30 (nan_head dst src net @ followup_attr inst d @ post) s =
    bindE (daf_message E 0 43 (b_of (int (length d))) (nan_head dst src net @ followup_attr inst d @ post)
            (rx_peer NAN_ID src s))
      (\<lambda>(frame, s). daf_loop E 0 len (43 + int (length d)) frame s)"
proof -
  let ?f = "nan_head dst src net @ followup_attr inst d @ post"
  have "length (nan_head dst src net) = 30" using assms(1-3) by simp
  then have "daf_loop E 0 len 30 ?f s = bindE (daf_descriptor E 0 33 ?f s)
      (\<lambda>(frame, s). daf_loop E 0 len (43 + int (length d)) frame s)"
    using daf_loop_attr [OF _ is_attr_followup [OF assms(4)] assms(6), where E = E and p = 0 and s = s
        and pre = "nan_head dst src net" and post = post] assms(5)
    by (simp add: add.assoc)
  also have "daf_descriptor E 0 33 ?f s =
      daf_message E 0 43 (b_of (int (length d))) ?f (rx_peer NAN_ID src s)"
    by (simp add: daf_descriptor_at [OF followup_split(1) [OF assms(1-4)]] Let_def)
  finally show ?thesis .
qed

text \<open>
  A follow-up that is no ping: what the parser does with it, whatever follows it in the frame.
  The byte behind the message is overwritten with 0.
\<close>

definition message_in :: "u8 list \<Rightarrow> dev \<Rightarrow> dev" where
  "message_in dst s = emit GetTime (upd_aware (\<lambda>a. a\<lparr>nanMessagesIn := nanMessagesIn a + 1,
     nanPacketsOthers := nanPacketsOthers a + (if dst \<noteq> mymac (aware (nan s)) then 1 else 0)\<rparr>) s)"

lemma message_in_simps [simp]:
  "nan_wf (message_in dst s) = nan_wf s"
  "txs (message_in dst s) = txs s"
  "peer_of (message_in dst s) i = peer_of s i"
  "mymac (aware (nan (message_in dst s))) = mymac (aware (nan s))"
  "nanNet (aware (nan (message_in dst s))) = nanNet (aware (nan s))"
  "nanMessagesIn (aware (nan (message_in dst s))) = nanMessagesIn (aware (nan s)) + 1"
  "nanPacketsOthers (aware (nan (message_in dst s))) =
     nanPacketsOthers (aware (nan s)) + (if dst \<noteq> mymac (aware (nan s)) then 1 else 0)"
  by (simp_all add: message_in_def nan_wf_def peer_of_def)

lemma followup_plain_loop:
  assumes "length dst = 6" "length src = 6" "length net = 2" "length d \<le> 255" "4 \<le> length post"
    "rx_frame len (nan_head dst src net @ followup_attr inst d @ post)"
    "nan_wf s" "take 4 (d @ post) \<noteq> PING"
  shows "daf_loop E 0 len 30 (nan_head dst src net @ followup_attr inst d @ post) s =
    daf_loop E 0 len (43 + int (length d)) (nan_head dst src net @ followup_attr inst d @ post[0 := 0])
      (message_in dst (rx_peer NAN_ID src s))"
proof -
  let ?f = "nan_head dst src net @ followup_attr inst d @ post"
  note fs = followup_split [OF assms(1-4), where post = post and inst = inst]
  have m: "rdn ?f 43 4 = Inr (take 4 (d @ post))"
    using assms(5) fs(3,4) by (simp add: rdn_def)
  have e: "i_of (b_of (int (length d))) = int (length d)"
    by (rule i_of_length [OF assms(4)])
  have n: "nat (43 + int (length d)) = 43 + length d" by simp
  have w: "nan_wf (rx_peer NAN_ID src s)" using assms(2,7) by simp
  have i: "(0::int) \<le> 43" "43 + i_of (b_of (int (length d))) < int (length ?f)"
    unfolding e fs(4) using assms(5) by (simp, arith)
  have "daf_message E 0 43 (b_of (int (length d))) ?f (rx_peer NAN_ID src s) =
      Inr (?f[43 + length d := 0], message_in dst (rx_peer NAN_ID src s))"
    unfolding daf_message_plain [OF m assms(8) fs(2) i w] e n message_in_def
    by (simp split del: if_split)
  then show ?thesis
    unfolding followup_loop [OF assms(1-6)] fs(5) by simp
qed

lemma followup_plain_run:
  assumes "length dst = 6" "length src = 6" "length net = 2" "length d \<le> 255" "length fcs = 4"
    "rx_frame len (followup_frame dst src net inst d @ fcs)" "nan_wf s" "take 4 (d @ fcs) \<noteq> PING"
  shows "daf_loop E 0 len 30 (followup_frame dst src net inst d @ fcs) s =
    Inr (followup_frame dst src net inst d @ fcs[0 := 0], message_in dst (rx_peer NAN_ID src s))"
proof -
  have fr: "rx_frame len (nan_head dst src net @ followup_attr inst d @ fcs)"
    using assms(6) by (simp add: followup_frame_def)
  have "daf_loop E 0 len (43 + int (length d)) (nan_head dst src net @ followup_attr inst d @ fcs[0 := 0]) s' =
      Inr (nan_head dst src net @ followup_attr inst d @ fcs[0 := 0], s')" for s'
    using fr assms(1-5) by (intro daf_loop_end) (auto simp: rx_frame_def)
  then show ?thesis
    using followup_plain_loop [OF assms(1-4) _ fr assms(7,8)] assms(5)
    by (simp add: followup_frame_def)
qed

lemma followup_ping_run:
  assumes "length dst = 6" "length src = 6" "length net = 2" "length d \<le> 60" "length fcs = 4"
    "rx_frame len (followup_frame dst src net inst d @ fcs)" "nan_wf s" "take 4 (d @ fcs) = PING"
  obtains s' where
    "daf_loop E 0 len 30 (followup_frame dst src net inst d @ fcs) s =
      Inr (followup_frame dst src net inst d @ fcs[0 := 0], s')"
    "nan_wf s'"
    "txs s' = txs s @ [followup_frame src (mymac (aware (nan s))) (nanNet (aware (nan s))) NAN_ID
       (PONG @ take (length d) (drop 4 (d @ fcs)))]"
    "nanMessagesIn (aware (nan s')) = nanMessagesIn (aware (nan s)) + 1"
    "peers (aware (nan s')) = peers (aware (nan (rx_peer NAN_ID src s)))"
proof -
  let ?s = "rx_peer NAN_ID src s"
  let ?f = "nan_head dst src net @ followup_attr inst d @ fcs"
  have w: "nan_wf ?s" using assms(2,7) by simp
  have ld: "length d \<le> 255" using assms(4) by simp
  have fr: "rx_frame len ?f"
    using assms(6) by (simp add: followup_frame_def)
  note fs = followup_split [OF assms(1-3) ld, where post = fcs and inst = inst]
  have m: "rdn ?f 43 4 = Inr PING"
    using assms(5,8) fs(3,4) by (simp add: rdn_def)
  have src: "rdn ?f 10 6 = Inr src"
    using nan_head_access(3) [OF assms(1-3)] by simp
  let ?t = "b_of (int (length d))"
  have e: "i_of ?t = int (length d)" by (rule i_of_length [OF ld])
  have b: "43 + 4 + i_of ?t \<le> int (length ?f)" "i_of ?t \<le> 60" "(0::int) \<le> 43"
    unfolding e fs(4) using assms(4,5) by simp_all
  have "drop 47 ?f = drop 4 (drop 43 ?f)" by (simp only: drop_drop) simp
  then have "drop 47 ?f = drop 4 (d @ fcs)" unfolding fs(3) .
  then have echo: "take (nat (i_of ?t)) (drop (nat (43 + 4)) ?f) = take (length d) (drop 4 (d @ fcs))"
    unfolding e by simp
  have idx: "nat (43 + i_of ?t) = 43 + length d" unfolding e by simp
  obtain s' where
    s0: "daf_message E 0 43 ?t ?f ?s = Inr (?f[nat (43 + i_of ?t) := 0], s')" "nan_wf s'"
      "txs s' = txs ?s @ [followup_frame src (mymac (aware (nan ?s))) (nanNet (aware (nan ?s)))
         (peer_instanceId (peer_of ?s 0)) (PONG @ take (nat (i_of ?t)) (drop (nat (43 + 4)) ?f))]"
      "aware (nan s') = (aware (nan ?s))\<lparr>nanMessagesIn := nanMessagesIn (aware (nan ?s)) + 1,
         nanPacketsOthers := nanPacketsOthers (aware (nan ?s)) +
           (if dst \<noteq> mymac (aware (nan ?s)) then 1 else 0)\<rparr>"
    by (rule daf_message_ping [OF m fs(2) src assms(2) b(3,1,2) w])
  note s' = s0(1-3) [unfolded echo idx]
  have mi: "nanMessagesIn (aware (nan s')) = nanMessagesIn (aware (nan s)) + 1"
    "peers (aware (nan s')) = peers (aware (nan ?s))"
    unfolding s0(4) by simp_all
  let ?g = "nan_head dst src net @ followup_attr inst d @ fcs[0 := 0]"
  have "daf_loop E 0 len 30 ?f s = daf_loop E 0 len (43 + int (length d)) ?g s'"
    using followup_loop [OF assms(1-3) ld _ fr] assms(5) s'(1) fs(5) by simp
  also have "\<dots> = Inr (?g, s')"
    using fr assms(1-5) by (intro daf_loop_end) (auto simp: rx_frame_def)
  finally show ?thesis
    using s' mi assms(2,7) by (intro that [of s']) (simp_all add: followup_frame_def)
qed

lemma rx_frame_fcs:
  assumes "30 \<le> length f" "length fcs = 4" "length f < 60000"
  shows "rx_frame (word_of_int (int (length f) + 4)) (f @ fcs)"
proof -
  have "uint (word_of_int (int (length f) + 4) :: u32) = int (length f) + 4"
    using assms(3) by (intro uint_word_of_int_eq [THEN trans]) (simp add: take_bit_int_eq_self)
  then show ?thesis using assms by (simp only: rx_frame_def) simp
qed

text \<open>A follow-up that does not start with PING, at the receiver.\<close>

lemma followup_is_counted:
  assumes "nan_wf s" "length dst = 6" "length src = 6" "length net = 2" "length fcs = 4"
    "length d \<le> 255" "take 4 (d @ fcs) \<noteq> PING"
    "rx_frame len (followup_frame dst src net inst d @ fcs)"
  shows "\<exists>s'. sniffer_cb1 E WIFI_PKT_MGMT len (followup_frame dst src net inst d @ fcs) s =
      Inr (followup_frame dst src net inst d @ fcs[0 := 0], s') \<and> nan_wf s' \<and>
    txs s' = txs s \<and>
    nanMessagesIn (aware (nan s')) = nanMessagesIn (aware (nan s)) + 1 \<and>
    nanPacketsOthers (aware (nan s')) =
      nanPacketsOthers (aware (nan s)) + (if dst = mymac (aware (nan s)) then 0 else 1) \<and>
    nanNet (aware (nan s')) = net \<and>
    peer_mac (peer_of s' 0) = src \<and> peer_instanceId (peer_of s' 0) = NAN_ID"
proof -
  let ?s' = "message_in dst (rx_peer NAN_ID src (rx_action E len net s))"
  have w: "nan_wf (rx_action E len net s)" using assms(1,4) by simp
  show ?thesis
    using w assms(3) sniffer_action [OF assms(2-4)]
      followup_plain_run [OF assms(2-4,6,5,8) w assms(7)]
    by (intro exI [of _ ?s']) (simp add: followup_frame_def)
qed

text \<open>
  C2: What \<open>nanSendNow\<close> transmits is delivered.  Called with \<open>n\<close> bytes of a message (cut to 255)
  it puts exactly one frame on the air, whose payload from byte 43 on is the message; a node
  that receives the frame with its frame check sequence takes it as one message, unless the
  payload (with the check sequence behind it, where it has less than four bytes) starts with
  PING: it counts it once, and as one for others when the destination is
  not its own address, adopts the sender's network, records the sender's address and instance,
  transmits nothing and does not fault.  The terminating 0 lands in the frame check sequence.
\<close>

theorem followup_is_delivered:
  fixes inst :: u8
  assumes "nan_wf a" "nan_wf s" "length dst = 6" "length fcs = 4"
    "0 \<le> n" "min n 255 \<le> int (length data)" "take 4 (take (nat (min n 255)) data @ fcs) \<noteq> PING"
  shows "\<exists>a' f s'. nanSendNow A dst inst data n a = Inr a' \<and> txs a' = txs a @ [f] \<and>
    drop 43 f = take (nat (min n 255)) data \<and>
    sniffer_cb1 E WIFI_PKT_MGMT (word_of_int (int (length f) + 4)) (f @ fcs) s =
      Inr (f @ fcs[0 := 0], s') \<and> nan_wf s' \<and> txs s' = txs s \<and>
    nanMessagesIn (aware (nan s')) = nanMessagesIn (aware (nan s)) + 1 \<and>
    nanPacketsOthers (aware (nan s')) =
      nanPacketsOthers (aware (nan s)) + (if dst = mymac (aware (nan s)) then 0 else 1) \<and>
    nanNet (aware (nan s')) = nanNet (aware (nan a)) \<and>
    peer_mac (peer_of s' 0) = mymac (aware (nan a)) \<and> peer_instanceId (peer_of s' 0) = NAN_ID"
proof -
  let ?d = "take (nat (min n 255)) data"
  let ?f = "followup_frame dst (mymac (aware (nan a))) (nanNet (aware (nan a))) inst ?d"
  have l: "length (mymac (aware (nan a))) = 6" "length (nanNet (aware (nan a))) = 2"
    "length ?d \<le> 255"
    using assms(1) by (simp_all add: nan_wf_def)
  have f: "length ?f = 43 + length ?d" "drop 43 ?f = ?d"
    using l(1,2) assms(3) by (simp_all add: followup_frame_def followup_attr_def)
  have rx: "rx_frame (word_of_int (int (length ?f) + 4)) (?f @ fcs)"
    using f(1) l(3) by (intro rx_frame_fcs [OF _ assms(4)]) simp_all
  obtain a' where a': "nanSendNow A dst inst data n a = Inr a'" "txs a' = txs a @ [?f]"
    by (rule nanSendNow_sends [OF assms(1,3,5,6), of A inst]) (auto simp: sends_def)
  from followup_is_counted [OF assms(2,3) l(1,2) assms(4) l(3) assms(7) rx, of E] a' f(2)
  show ?thesis by blast
qed

theorem followup_is_delivered_witness:
  "\<exists>a' f s'. nanSendNow quiet [0, 0, 0, 0, 0, 0] 1 [0x68, 0x69] 2 boot = Inr a' \<and>
    txs a' = txs boot @ [f] \<and> drop 43 f = [0x68, 0x69] \<and>
    sniffer_cb1 quiet WIFI_PKT_MGMT (word_of_int (int (length f) + 4)) (f @ [1, 2, 3, 4]) boot =
      Inr (f @ [0, 2, 3, 4], s') \<and>
    txs s' = txs boot \<and> nanMessagesIn (aware (nan s')) = nanMessagesIn (aware (nan boot)) + 1"
  using followup_is_delivered [of boot boot "[0, 0, 0, 0, 0, 0]" "[1, 2, 3, 4]" 2 "[0x68, 0x69]"
      quiet 1 quiet]
  by (auto simp: PING_def)

text \<open>
  C3: A ping of up to 60 bytes is answered with a pong to the sender.  The pong repeats the
  whole data length behind the text PONG instead of the data behind PING, so its last four
  bytes are the frame check sequence of the ping.
\<close>

theorem ping_is_echoed:
  assumes "nan_wf s" "length dst = 6" "length src = 6" "length net = 2" "length fcs = 4"
    "length d \<le> 56" "rx_frame len (followup_frame dst src net inst (PING @ d) @ fcs)"
  shows "\<exists>s'. sniffer_cb1 E WIFI_PKT_MGMT len (followup_frame dst src net inst (PING @ d) @ fcs) s =
      Inr (followup_frame dst src net inst (PING @ d) @ fcs[0 := 0], s') \<and> nan_wf s' \<and>
    txs s' = txs s @ [followup_frame src (mymac (aware (nan s))) net NAN_ID (PONG @ d @ fcs)] \<and>
    nanMessagesIn (aware (nan s')) = nanMessagesIn (aware (nan s)) + 1"
proof -
  let ?d = "PING @ d" and ?s = "rx_action E len net s"
  have lp: "length PING = 4" by (simp add: PING_def)
  have w: "nan_wf ?s" using assms(1,4) by simp
  have ld: "length ?d \<le> 60" "take 4 (?d @ fcs) = PING"
    "take (length ?d) (drop 4 (?d @ fcs)) = d @ fcs"
    using assms(5,6) lp by simp_all
  obtain s' where
    s': "daf_loop E 0 len 30 (followup_frame dst src net inst ?d @ fcs) ?s =
      Inr (followup_frame dst src net inst ?d @ fcs[0 := 0], s')"
    "nan_wf s'"
    "txs s' = txs s @ [followup_frame src (mymac (aware (nan s))) net NAN_ID (PONG @ d @ fcs)]"
    "nanMessagesIn (aware (nan s')) = nanMessagesIn (aware (nan s)) + 1"
    by (rule followup_ping_run [OF assms(2-4) ld(1) assms(5,7) w ld(2), of E])
      (simp only: ld(3) rx_action_simps)
  show ?thesis
    using s' sniffer_action [OF assms(2-4)]
    by (intro exI [of _ s']) (simp add: followup_frame_def)
qed

theorem ping_is_echoed_witness:
  "\<exists>s'. sniffer_cb1 quiet WIFI_PKT_MGMT 52
      (followup_frame [0, 0, 0, 0, 0, 0] [2, 0, 0, 0, 0, 1] [5, 1] 1 (PING @ [0x70]) @ [1, 2, 3, 4]) boot =
        Inr (followup_frame [0, 0, 0, 0, 0, 0] [2, 0, 0, 0, 0, 1] [5, 1] 1 (PING @ [0x70]) @ [0, 2, 3, 4], s') \<and>
    txs s' = [followup_frame [2, 0, 0, 0, 0, 1] [0, 0, 0, 0, 0, 0] [5, 1] NAN_ID
                (PONG @ [0x70, 1, 2, 3, 4])]"
  using ping_is_echoed [of boot "[0, 0, 0, 0, 0, 0]" "[2, 0, 0, 0, 0, 1]" "[5, 1]" "[1, 2, 3, 4]"
      "[0x70]" 52 1 quiet]
  by (auto simp: rx_frame_def followup_frame_def PING_def)

text \<open>
  C4: A ping of more than 60 bytes makes the receiver write behind its 64-byte reply buffer.
\<close>

theorem long_ping_overflows:
  assumes "nan_wf s" "length dst = 6" "length src = 6" "length net = 2" "length fcs = 4"
    "56 < length d" "length d \<le> 251"
    "rx_frame len (followup_frame dst src net inst (PING @ d) @ fcs)"
  shows "sniffer_cb1 E WIFI_PKT_MGMT len (followup_frame dst src net inst (PING @ d) @ fcs) s =
    Inl WriteOOB"
proof -
  let ?s = "rx_peer NAN_ID src (rx_action E len net s)" and ?d = "PING @ d"
  let ?f = "nan_head dst src net @ followup_attr inst ?d @ fcs"
  have lp: "length PING = 4" by (simp add: PING_def)
  have w: "nan_wf ?s" using assms(1,3,4) by simp
  have ld: "length ?d \<le> 255" using assms(7) lp by simp
  have fr: "rx_frame len ?f" using assms(8) by (simp add: followup_frame_def)
  note fs = followup_split [OF assms(2-4) ld, where post = fcs and inst = inst]
  have m: "rdn ?f 43 4 = Inr PING"
    using assms(5) fs(3,4) lp by (simp add: rdn_def)
  have e: "i_of (b_of (int (length ?d))) = int (length ?d)" by (rule i_of_length [OF ld])
  have b: "(0::int) \<le> 43" "43 + 4 + i_of (b_of (int (length ?d))) \<le> int (length ?f)"
    "60 < i_of (b_of (int (length ?d)))"
    unfolding e fs(4) using assms(5,6) lp by simp_all
  have "daf_message E 0 43 (b_of (int (length ?d))) ?f ?s = Inl WriteOOB"
    by (rule daf_message_ping_overflow [OF m b w])
  then show ?thesis
    using sniffer_action [OF assms(2-4)] followup_loop [OF assms(2-4) ld _ fr] assms(5)
    by (simp add: followup_frame_def)
qed

theorem long_ping_overflows_witness:
  "sniffer_cb1 quiet WIFI_PKT_MGMT 108
      (followup_frame [0, 0, 0, 0, 0, 0] [2, 0, 0, 0, 0, 1] [5, 1] 1 (PING @ replicate 57 0x70) @
       [1, 2, 3, 4]) boot = Inl WriteOOB"
  using long_ping_overflows [of boot "[0, 0, 0, 0, 0, 0]" "[2, 0, 0, 0, 0, 1]" "[5, 1]" "[1, 2, 3, 4]"
      "replicate 57 0x70" 108 1 quiet]
  by (simp add: rx_frame_def followup_frame_def PING_def)

lemma not_ping_append:
  assumes "take 4 d \<noteq> PING" "x \<notin> set PING"
  shows "take 4 (d @ x # r) \<noteq> PING"
proof (cases "4 \<le> length d")
  case True
  then show ?thesis using assms(1) by simp
next
  case False
  then have "x \<in> set (take 4 (d @ x # r))" by (cases "4 - length d") auto
  then show ?thesis using assms(2) by metis
qed

text \<open>Attributes other than service descriptors.\<close>

lemma daf_loop_skips:
  assumes "\<forall>a \<in> set as. \<exists>tag body. is_attr tag body a \<and> tag \<noteq> 3"
    "frame = pre @ concat as @ post" "rx_frame len frame" "4 \<le> length post" "n = int (length pre)"
  shows "daf_loop E p len n frame s = daf_loop E p len (n + int (length (concat as))) frame s"
  using assms
proof (induction as arbitrary: pre n)
  case (Cons a as)
  then obtain tag body where a: "is_attr tag body a" "tag \<noteq> 3" by auto
  have "daf_loop E p len n frame s = daf_loop E p len (n + int (length a)) frame s"
    using daf_loop_attr [where pre = pre and post = "concat as @ post", OF _ a(1) Cons.prems(3,5)]
      Cons.prems(2,4) a(2) by simp
  also have "\<dots> = daf_loop E p len (n + int (length a) + int (length (concat as))) frame s"
    using Cons.prems by (intro Cons.IH [where pre = "pre @ a"]) auto
  finally show ?case by (simp add: add.assoc)
qed simp

text \<open>
  Attributes that are no service descriptors are skipped, however many there are: the frame
  is counted, its network adopted, nothing is sent and nothing faults.
\<close>

lemma foreign_attributes_are_skipped:
  assumes "\<forall>a \<in> set as. \<exists>tag body. is_attr tag body a \<and> tag \<noteq> 3"
    "length dst = 6" "length src = 6" "length net = 2" "length fcs = 4" "nan_wf s"
    "rx_frame len (nan_head dst src net @ concat as @ fcs)"
  shows "\<exists>s'. sniffer_cb1 E WIFI_PKT_MGMT len (nan_head dst src net @ concat as @ fcs) s =
      Inr (nan_head dst src net @ concat as @ fcs, s') \<and> nan_wf s' \<and> txs s' = txs s \<and>
    nanPackets (aware (nan s')) = nanPackets (aware (nan s)) + 1 \<and>
    nanMessagesIn (aware (nan s')) = nanMessagesIn (aware (nan s)) \<and>
    nanNet (aware (nan s')) = net"
proof -
  let ?f = "nan_head dst src net @ concat as @ fcs" and ?s = "rx_action E len net s"
  have "sniffer_cb1 E WIFI_PKT_MGMT len ?f s = daf_loop E 0 len 30 ?f ?s"
    using sniffer_action [OF assms(2-4)] by simp
  also have "\<dots> = daf_loop E 0 len (30 + int (length (concat as))) ?f ?s"
    using assms by (intro daf_loop_skips [where pre = "nan_head dst src net"]) auto
  also have "\<dots> = Inr (?f, ?s)"
    using assms by (intro daf_loop_end) auto
  finally show ?thesis
    using assms by (intro exI [of _ ?s]) simp
qed

text \<open>
  C5: Of two follow-ups in one frame the second is lost: the 0 that ends the first one's text
  overwrites the second one's attribute type, so even a ping in it is neither counted nor
  answered.
\<close>

theorem second_followup_is_lost:
  assumes "nan_wf s" "length dst = 6" "length src = 6" "length net = 2" "length fcs = 4"
    "length d1 \<le> 255" "length d2 \<le> 255" "take 4 d1 \<noteq> PING"
    "rx_frame len (followup_frame dst src net i1 d1 @ followup_attr i2 d2 @ fcs)"
  shows "\<exists>f' s'. sniffer_cb1 E WIFI_PKT_MGMT len
        (followup_frame dst src net i1 d1 @ followup_attr i2 d2 @ fcs) s = Inr (f', s') \<and>
    nan_wf s' \<and> txs s' = txs s \<and>
    nanMessagesIn (aware (nan s')) = nanMessagesIn (aware (nan s)) + 1"
proof -
  let ?s = "rx_action E len net s"
  let ?s' = "message_in dst (rx_peer NAN_ID src ?s)"
  let ?a2 = "followup_attr i2 d2"
  let ?g = "nan_head dst src net @ followup_attr i1 d1 @ (?a2 @ fcs)[0 := 0]"
  have w: "nan_wf ?s" using assms(1,4) by simp
  have fr: "rx_frame len (nan_head dst src net @ followup_attr i1 d1 @ (?a2 @ fcs))"
    using assms(9) by (simp add: followup_frame_def)
  have hd: "(?a2 @ fcs)[0 := 0] = (?a2[0 := 0]) @ fcs"
    by (simp add: followup_attr_def)
  obtain lo hi where a2: "?a2 = [3, lo, hi] @ drop 3 ?a2"
      "256 * i_of hi + i_of lo = int (length (drop 3 ?a2))" "drop 3 ?a2 \<noteq> []"
    using is_attr_followup [OF assms(7), of i2] by (auto simp: is_attr_def)
  then have a0: "is_attr 0 (drop 3 ?a2) (?a2[0 := 0])"
    unfolding is_attr_def by (metis append_Cons append_Nil list_update_code(2))
  have np: "take 4 (d1 @ ?a2 @ fcs) \<noteq> PING"
    unfolding followup_attr_def append_Cons append_assoc
    by (rule not_ping_append [OF assms(8)]) (simp add: PING_def)
  have "sniffer_cb1 E WIFI_PKT_MGMT len (followup_frame dst src net i1 d1 @ ?a2 @ fcs) s =
      daf_loop E 0 len 30 (nan_head dst src net @ followup_attr i1 d1 @ (?a2 @ fcs)) ?s"
    using sniffer_action [OF assms(2-4)] by (simp add: followup_frame_def)
  also have "\<dots> = daf_loop E 0 len (43 + int (length d1)) ?g ?s'"
    using followup_plain_loop [OF assms(2-4,6) _ fr w np] by simp
  also have "\<dots> = daf_loop E 0 len (43 + int (length d1) + int (length ?a2)) ?g ?s'"
    using fr assms(2-5)
    by (subst daf_loop_attr [where pre = "nan_head dst src net @ followup_attr i1 d1", OF _ a0])
      (auto simp: rx_frame_def hd)
  also have "\<dots> = Inr (?g, ?s')"
    using fr assms(2-5) by (intro daf_loop_end) (auto simp: rx_frame_def)
  finally show ?thesis
    using w assms(3) by (intro exI [of _ ?g] exI [of _ ?s']) simp
qed

theorem second_followup_is_lost_witness:
  "\<exists>f' s'. sniffer_cb1 quiet WIFI_PKT_MGMT 66
      (followup_frame [0, 0, 0, 0, 0, 0] [2, 0, 0, 0, 0, 1] [5, 1] 1 [0x68, 0x69] @
        followup_attr 1 PING @ [1, 2, 3, 4]) boot = Inr (f', s') \<and>
    txs s' = [] \<and> nanMessagesIn (aware (nan s')) = nanMessagesIn (aware (nan boot)) + 1"
  using second_followup_is_lost [of boot "[0, 0, 0, 0, 0, 0]" "[2, 0, 0, 0, 0, 1]" "[5, 1]" "[1, 2, 3, 4]"
      "[0x68, 0x69]" PING 66 1 1 quiet]
  by (auto simp: rx_frame_def followup_frame_def PING_def)

end
