(* ===== verification/NanBeacons.thy ===== *)
theory NanBeacons
  imports NanExchange
begin

text \<open>
  Beacons between two nodes: what \<open>nanSendSync\<close> sends, how \<open>handleBeacon\<close> classifies it,
  and how a sync beacon drains the queue of the peer.
\<close>

section \<open>The beacon in closed form\<close>

definition beacon_tail :: "u8 list \<Rightarrow> u8 \<Rightarrow> u8 \<Rightarrow> u8 list" where
  "beacon_tail mac pref rand =
     [0x20, 0x04, 0xdd, 34, 0x50, 0x6F, 0x9A, 0x13, 0, 2, 0, pref, rand, 1, 0x0d, 0] @ mac @
     [rand, pref, 0, 0, 0, 0, 0, 2, 6, 0] @ SVC_ID"

definition beacon_frame :: "u8 list \<Rightarrow> u8 list \<Rightarrow> int \<Rightarrow> u8 \<Rightarrow> u8 \<Rightarrow> u8 list" where
  "beacon_frame mac net interval pref rand =
     [0x80, 0, 0, 0] @ broadcast @ mac @ [0x50, 0x6F, 0x9A, 0x01] @ net @
     [0, 0, 0xcc, 0, 0xc0, 0xb3, 1, 2, 3, 4, b_of interval, b_of (interval div 256)] @
     beacon_tail mac pref rand"

lemma list_split2:
  assumes "length xs = 2"
  obtains a b where "xs = [a, b]"
  using assms by (auto simp: numeral_eq_Suc length_Suc_conv)

lemma b_of_low: "b_of (n AND 255) = b_of n"
proof -
  have "n AND 255 = n mod 256"
    using take_bit_eq_mask [of 8 n] by (simp add: take_bit_eq_mod mask_eq_exp_minus_1)
  then show ?thesis by (simp add: word_of_int_eq_iff take_bit_eq_mod)
qed

lemma nanSendSync_eq:
  assumes "nan_wf s"
  shows "nanSendSync E n s = Inr (emit (WifiTx (beacon_frame (mymac (aware (nan s)))
    (nanNet (aware (nan s))) n (masterPref (aware (nan s))) (masterRandom (aware (nan s))))) s)"
proof -
  obtain a b c d e f where m: "mymac (aware (nan s)) = [a, b, c, d, e, f]"
    using assms by (auto simp: nan_wf_def elim: list_split6)
  obtain g h where n: "nanNet (aware (nan s)) = [g, h]"
    using assms by (auto simp: nan_wf_def elim: list_split2)
  show ?thesis
    unfolding nanSendSync_def Let_def m n beaconHead_def b_of_low
    by (simp add: memcpy_def rdn_def wrn_def wr_def beacon_frame_def beacon_tail_def broadcast_def
        SVC_ID_def drop_bit_eq_div numeral_eq_Suc del: list_update.simps add: list_update_code) 
qed


lemma b_of_eq: "b_of x = b_of y \<longleftrightarrow> x mod 256 = y mod 256"
  by (simp add: word_of_int_eq_iff take_bit_eq_mod)

lemma sync_interval:
  "(b_of n = 0 \<and> b_of (n div 256) = 2) \<longleftrightarrow> n mod 65536 = 512"
proof -
  have "(b_of n = 0 \<and> b_of (n div 256) = 2) \<longleftrightarrow> n mod 256 = 0 \<and> n div 256 mod 256 = 2"
    using b_of_eq [of n 0] b_of_eq [of "n div 256" 2] by simp
  also have "\<dots> \<longleftrightarrow> 256 * (n div 256 mod 256) + n mod 256 = 512"
  proof -
    have "(a = 0 \<and> b = 2) \<longleftrightarrow> 256 * b + a = 512" if "0 \<le> a" "a < 256" for a b :: int
    proof
      assume e: "256 * b + a = 512"
      then have "b = 2" using that by linarith
      then show "a = 0 \<and> b = 2" using e by simp
    qed simp
    from this [of "n mod 256" "n div 256 mod 256"] show ?thesis
      by (simp only: pos_mod_sign pos_mod_bound zero_less_numeral)
  qed
  also have "256 * (n div 256 mod 256) + n mod 256 = n mod 65536"
    using zmod_zmult2_eq [of 256 n 256] by simp
  finally show ?thesis .
qed

section \<open>Classification\<close>

lemma beacon_access:
  assumes "length mac = 6" "length net = 2"
  shows "rd (beacon_frame mac net n pref rand @ b) 0 = Inr 0x80"
    "rdn (beacon_frame mac net n pref rand @ b) 20 2 = Inr net"
    "rd (beacon_frame mac net n pref rand @ b) 32 = Inr (b_of n)"
    "rd (beacon_frame mac net n pref rand @ b) 33 = Inr (b_of (n div 256))"
    "differs (beacon_frame mac net n pref rand @ b) [(16, 0x50), (17, 0x6f), (18, 0x9a)] = Inr False"
  using assms by (simp_all add: beacon_frame_def rd_def rdn_def nth_append)

text \<open>The state when the interval is examined: the network is adopted, the peer seen.\<close>

definition rx_beacon :: "env \<Rightarrow> u32 \<Rightarrow> u8 list \<Rightarrow> dev \<Rightarrow> u32 \<times> dev" where
  "rx_beacon E len net s =
     (let (now, s) = currentTimeMicro E (rx_counted E len s) in
      (now, upd_peer 0 (\<lambda>p. p\<lparr>peer_nanNet := net\<rparr>) (upd_aware (\<lambda>a. a\<lparr>nanNet := net\<rparr>)
        (upd_peer 0 (\<lambda>p. p\<lparr>lastSeen := now\<rparr>) s))))"

lemma rx_beacon_facts:
  assumes "nan_wf s" "length net = 2" "rx_beacon E len net s = (now, s1)"
  shows "nan_wf s1" "txs s1 = txs s" "nanNet (aware (nan s1)) = net"
    "mymac (aware (nan s1)) = mymac (aware (nan s))"
    "nanSBeacon (aware (nan s1)) = nanSBeacon (aware (nan s))"
    "nanDBeacon (aware (nan s1)) = nanDBeacon (aware (nan s))"
    "peer_of s1 0 = (peer_of s 0)\<lparr>lastSeen := now, peer_nanNet := net\<rparr>"
proof -
  let ?s0 = "emit GetTime (rx_counted E len s)"
  have w0: "nan_wf ?s0" using assms(1) by (simp add: rx_counted_def)
  let ?s2 = "upd_peer 0 (\<lambda>p. p\<lparr>lastSeen := now\<rparr>) ?s0"
  have w2: "nan_wf ?s2"
    using w0 nan_wf_peer [OF w0, of 0] by (intro nan_wf_upd_peer) (simp_all add: peer_wf_def)
  let ?s3 = "upd_aware (\<lambda>a. a\<lparr>nanNet := net\<rparr>) ?s2"
  have w3: "nan_wf ?s3" using w2 assms(2) by (auto simp: nan_wf_def)
  have s1: "s1 = upd_peer 0 (\<lambda>p. p\<lparr>peer_nanNet := net\<rparr>) ?s3"
    using assms(3) by (auto simp: rx_beacon_def currentTimeMicro_def)
  have pl: "0 < length (peers (aware (nan s)))"
    using assms(1) by (simp add: nan_wf_def NAN_MAX_PEERS_def)
  have p3: "peer_of ?s3 0 = peer_of ?s2 0" by (simp add: peer_of_def)
  show "nan_wf s1"
    unfolding s1 using w3 nan_wf_peer [OF w3, of 0] assms(2)
    by (intro nan_wf_upd_peer) (simp_all add: peer_wf_def)
  show "peer_of s1 0 = (peer_of s 0)\<lparr>lastSeen := now, peer_nanNet := net\<rparr>"
    unfolding s1 using w3 w0 p3 pl by (simp add: rx_counted_def peer_of_def)
  show "txs s1 = txs s" "nanNet (aware (nan s1)) = net"
    "mymac (aware (nan s1)) = mymac (aware (nan s))"
    "nanSBeacon (aware (nan s1)) = nanSBeacon (aware (nan s))"
    "nanDBeacon (aware (nan s1)) = nanDBeacon (aware (nan s))"
    unfolding s1 by (simp_all add: rx_counted_def)
qed

lemma sniffer_beacon:
  fixes n :: int
  assumes "length mac = 6" "length net = 2" "rx_beacon E len net s = (now, s1)"
  defines "f \<equiv> beacon_frame mac net n"
  shows "sniffer_cb1 E WIFI_PKT_MGMT len (f pref rand @ b) s =
    (if n mod 65536 = 512 then bindE (beacon_sync E 0 now s1) (\<lambda>s. Inr (f pref rand @ b, s))
     else Inr (f pref rand @ b, upd_peer 0 (\<lambda>p. p\<lparr>discoveryBeacons := discoveryBeacons p + 1\<rparr>)
       (upd_aware (\<lambda>a. a\<lparr>lastDBeacon := now\<rparr>)
         (upd_aware (\<lambda>a. a\<lparr>nanDBeacon := nanDBeacon a + 1\<rparr>) s1))))"
proof -
  have h: "handleBeacon E 0 (f pref rand @ b) (rx_counted E len s) =
    (if n mod 65536 = 512 then beacon_sync E 0 now s1
     else Inr (upd_peer 0 (\<lambda>p. p\<lparr>discoveryBeacons := discoveryBeacons p + 1\<rparr>)
       (upd_aware (\<lambda>a. a\<lparr>lastDBeacon := now\<rparr>)
         (upd_aware (\<lambda>a. a\<lparr>nanDBeacon := nanDBeacon a + 1\<rparr>) s1))))"
    using assms(3) beacon_access [OF assms(1,2), of n pref rand b] sync_interval [of n]
    by (auto simp: handleBeacon_def f_def rx_beacon_def currentTimeMicro_def Let_def)
  show ?thesis
    using h beacon_access [OF assms(1,2), of n pref rand b]
    by (simp add: sniffer_cb1_def f_def currentTimeMicro_def Let_def rx_counted_def
        del: differs.simps)
qed

section \<open>Draining the queue\<close>

text \<open>A queued message whose memory stays as it is and holds at least what is sent of it.\<close>

definition readable :: "env \<Rightarrow> NanMessage \<Rightarrow> bool" where
  "readable E m \<longleftrightarrow> 0 \<le> msg_len m \<and>
     (\<exists>d. (\<forall>h. mem E h (msg_data m) = d) \<and> min (msg_len m) 255 \<le> int (length d))"

definition sync_counted :: "u32 \<Rightarrow> dev \<Rightarrow> dev" where
  "sync_counted now s = upd_aware (\<lambda>a. a\<lparr>lastSBeacon := now\<rparr>)
     (upd_peer 0 (\<lambda>p. p\<lparr>syncBeacons := syncBeacons p + 1\<rparr>)
       (upd_aware (\<lambda>a. a\<lparr>nanSBeacon := nanSBeacon a + 1\<rparr>) s))"

lemma sync_counted_facts:
  assumes "nan_wf s"
  shows "nan_wf (sync_counted now s)" "txs (sync_counted now s) = txs s"
    "peer_of (sync_counted now s) 0 = (peer_of s 0)\<lparr>syncBeacons := syncBeacons (peer_of s 0) + 1\<rparr>"
    "nanSBeacon (aware (nan (sync_counted now s))) = nanSBeacon (aware (nan s)) + 1"
    "nanDBeacon (aware (nan (sync_counted now s))) = nanDBeacon (aware (nan s))"
    "nanNet (aware (nan (sync_counted now s))) = nanNet (aware (nan s))"
    "mymac (aware (nan (sync_counted now s))) = mymac (aware (nan s))"
proof -
  let ?s = "upd_aware (\<lambda>a. a\<lparr>nanSBeacon := nanSBeacon a + 1\<rparr>) s"
  have w: "nan_wf ?s" using assms by simp
  have "nan_wf (upd_peer 0 (\<lambda>p. p\<lparr>syncBeacons := syncBeacons p + 1\<rparr>) ?s)"
    using w nan_wf_peer [OF w, of 0] by (intro nan_wf_upd_peer) (simp_all add: peer_wf_def)
  then show "nan_wf (sync_counted now s)" by (simp add: sync_counted_def)
  show "peer_of (sync_counted now s) 0 = (peer_of s 0)\<lparr>syncBeacons := syncBeacons (peer_of s 0) + 1\<rparr>"
    using assms by (simp add: sync_counted_def peer_of_def upd_peer_def nan_wf_def)
qed (simp_all add: sync_counted_def)

lemma beacon_sync_empty:
  assumes "nan_wf s" "outQueueLen (peer_of s 0) = 0"
  obtains s' where "beacon_sync E 0 now s = Inr s'" "nan_wf s'"
    "txs s' = txs s @ [publish_frame (mymac (aware (nan s))) (nanNet (aware (nan s)))]"
    "aware (nan s') = aware (nan (sync_counted now s))"
proof -
  note f = sync_counted_facts [OF assms(1), of now]
  from nanSendPublish_sends [OF f(1), of E] obtain s' where
    s': "nanSendPublish E (sync_counted now s) = Inr s'"
      "sends (sync_counted now s) [publish_frame (mymac (aware (nan s))) (nanNet (aware (nan s)))] s'"
    by (auto simp: f)
  have "peer_of s' 0 = peer_of (sync_counted now s) 0" using s'(2) by (simp add: sends_def peer_of_def)
  then have "beacon_sync E 0 now s = Inr s'"
    using s'(1) assms(2) f(3) by (simp add: beacon_sync_def Let_def flip: sync_counted_def)
  then show ?thesis using s'(2) f(2) by (intro that [of s']) (auto simp: sends_def)
qed

lemma beacon_sync_drain:
  assumes "nan_wf s" "0 < outQueueLen (peer_of s 0)" "readable E m" "outQueue (peer_of s 0) ! 0 = m"
    "\<forall>h. mem E h (msg_data m) = d"
  obtains s' where "beacon_sync E 0 now s = Inr s'" "nan_wf s'"
    "txs s' = txs s @ [publish_frame (mymac (aware (nan s))) (nanNet (aware (nan s))),
       followup_frame (peer_mac (peer_of s 0)) (mymac (aware (nan s))) (nanNet (aware (nan s)))
         (peer_instanceId (peer_of s 0)) (take (nat (min (msg_len m) 255)) d)]"
    "peer_of s' 0 = (peer_of s 0)\<lparr>syncBeacons := syncBeacons (peer_of s 0) + 1,
       outQueueLen := outQueueLen (peer_of s 0) - 1\<rparr>"
    "nanSBeacon (aware (nan s')) = nanSBeacon (aware (nan s)) + 1"
    "mymac (aware (nan s')) = mymac (aware (nan s))"
proof -
  let ?p = "peer_of s 0"
  note f = sync_counted_facts [OF assms(1), of now]
  from nanSendPublish_sends [OF f(1), of E] obtain s1 where
    s1: "nanSendPublish E (sync_counted now s) = Inr s1"
      "sends (sync_counted now s) [publish_frame (mymac (aware (nan s))) (nanNet (aware (nan s)))] s1"
    by (auto simp: f)
  have p1: "peer_of s1 0 = peer_of (sync_counted now s) 0" and w1: "nan_wf s1"
    and a1: "aware (nan s1) = aware (nan (sync_counted now s))"
    using s1(2) by (simp_all add: sends_def peer_of_def)
  have l: "length (peer_mac ?p) = 6" using nan_wf_peer [OF assms(1), of 0] by (simp add: peer_wf_def)
  have n: "0 \<le> msg_len m" "min (msg_len m) 255 \<le> int (length d)"
    using assms(3,5) by (auto simp: readable_def)
  from nanSendNow_sends [OF w1 l n, of E "peer_instanceId ?p"] obtain s2 where
    s2: "nanSendNow E (peer_mac ?p) (peer_instanceId ?p) d (msg_len m) s1 = Inr s2"
      "sends s1 [followup_frame (peer_mac ?p) (mymac (aware (nan s))) (nanNet (aware (nan s)))
         (peer_instanceId ?p) (take (nat (min (msg_len m) 255)) d)] s2"
    by (auto simp: a1 f)
  have p2: "peer_of s2 0 = peer_of s1 0" and w2: "nan_wf s2" and a2: "aware (nan s2) = aware (nan s1)"
    using s2(2) by (simp_all add: sends_def peer_of_def)
  let ?s' = "upd_peer 0 (\<lambda>p. p\<lparr>outQueueLen := outQueueLen p - 1\<rparr>) s2"
  have "beacon_sync E 0 now s = Inr ?s'"
    using s1(1) s2(1) assms(2,4,5) p1 f(3)
    by (simp add: beacon_sync_def Let_def flip: sync_counted_def)
  moreover have "nan_wf ?s'"
    using w2 nan_wf_peer [OF w2, of 0] assms(2) p2 p1 f(3)
    by (intro nan_wf_upd_peer) (simp_all add: peer_wf_def)
  moreover have "txs s2 = txs s @ [publish_frame (mymac (aware (nan s))) (nanNet (aware (nan s))),
       followup_frame (peer_mac ?p) (mymac (aware (nan s))) (nanNet (aware (nan s)))
         (peer_instanceId ?p) (take (nat (min (msg_len m) 255)) d)]"
    using s1(2) s2(2) f(2) by (simp add: sends_def)
  ultimately show ?thesis
    using w2 p2 p1 f a2 a1 by (intro that [of ?s']) simp_all
qed

section \<open>Properties\<close>

text \<open>
  C6: What \<open>nanSendSync\<close> sends is what \<open>handleBeacon\<close> recognises: a beacon counts as a sync
  beacon, and is answered with a publish frame, exactly if its interval is 512 (modulo the 16
  bits it has in the frame); any other is a discovery beacon.  The receiver joins the sender's
  network either way.
\<close>

theorem beacons_are_recognised:
  assumes "nan_wf t" "nan_wf s" "outQueueLen (peer_of s 0) = 0"
  shows "\<exists>t' f s'. nanSendSync E' n t = Inr t' \<and> txs t' = txs t @ [f] \<and>
    sniffer_cb1 E WIFI_PKT_MGMT len (f @ fcs) s = Inr (f @ fcs, s') \<and> nan_wf s' \<and>
    nanSBeacon (aware (nan s')) = nanSBeacon (aware (nan s)) + (if n mod 65536 = 512 then 1 else 0) \<and>
    nanDBeacon (aware (nan s')) = nanDBeacon (aware (nan s)) + (if n mod 65536 = 512 then 0 else 1) \<and>
    nanNet (aware (nan s')) = nanNet (aware (nan t)) \<and>
    txs s' = txs s @ (if n mod 65536 = 512
      then [publish_frame (mymac (aware (nan s))) (nanNet (aware (nan t)))] else [])"
proof -
  let ?a = "aware (nan t)"
  let ?f = "beacon_frame (mymac ?a) (nanNet ?a) n (masterPref ?a) (masterRandom ?a)"
  have l: "length (mymac ?a) = 6" "length (nanNet ?a) = 2" using assms(1) by (simp_all add: nan_wf_def)
  obtain now s1 where r: "rx_beacon E len (nanNet ?a) s = (now, s1)" by fastforce
  note f = rx_beacon_facts [OF assms(2) l(2) r]
  note sn = sniffer_beacon [OF l r, of n "masterPref ?a" "masterRandom ?a" fcs]
  have "\<exists>s'. sniffer_cb1 E WIFI_PKT_MGMT len (?f @ fcs) s = Inr (?f @ fcs, s') \<and> nan_wf s' \<and>
    nanSBeacon (aware (nan s')) = nanSBeacon (aware (nan s)) + (if n mod 65536 = 512 then 1 else 0) \<and>
    nanDBeacon (aware (nan s')) = nanDBeacon (aware (nan s)) + (if n mod 65536 = 512 then 0 else 1) \<and>
    nanNet (aware (nan s')) = nanNet ?a \<and>
    txs s' = txs s @ (if n mod 65536 = 512
      then [publish_frame (mymac (aware (nan s))) (nanNet ?a)] else [])"
  proof (cases "n mod 65536 = 512")
    case True
    from beacon_sync_empty [OF f(1), of E now] assms(3) f(7) obtain s' where
      s': "beacon_sync E 0 now s1 = Inr s'" "nan_wf s'"
        "txs s' = txs s1 @ [publish_frame (mymac (aware (nan s1))) (nanNet (aware (nan s1)))]"
        "aware (nan s') = aware (nan (sync_counted now s1))"
      by auto
    then show ?thesis
      using sn True f sync_counted_facts [OF f(1), of now] by (intro exI [of _ s']) simp
  next
    case False
    let ?s2 = "upd_aware (\<lambda>a. a\<lparr>lastDBeacon := now\<rparr>)
         (upd_aware (\<lambda>a. a\<lparr>nanDBeacon := nanDBeacon a + 1\<rparr>) s1)"
    let ?s' = "upd_peer 0 (\<lambda>p. p\<lparr>discoveryBeacons := discoveryBeacons p + 1\<rparr>) ?s2"
    have w: "nan_wf ?s2" using f(1) by simp
    have "nan_wf ?s'"
      using w nan_wf_peer [OF w, of 0] by (intro nan_wf_upd_peer) (simp_all add: peer_wf_def)
    then show ?thesis
      using sn False f by (intro exI [of _ ?s']) simp
  qed
  moreover have "nanSendSync E' n t = Inr (emit (WifiTx ?f) t)"
    by (rule nanSendSync_eq [OF assms(1)])
  ultimately show ?thesis
    by (metis txs_emit(1))
qed

theorem beacons_are_recognised_witness:
  "\<exists>t' f s'. nanSendSync quiet 512 boot = Inr t' \<and> txs t' = [f] \<and>
    sniffer_cb1 quiet WIFI_PKT_MGMT 76 (f @ [1, 2, 3, 4]) boot = Inr (f @ [1, 2, 3, 4], s') \<and>
    nanSBeacon (aware (nan s')) = nanSBeacon (aware (nan boot)) + 1 \<and>
    txs s' = [publish_frame [0, 0, 0, 0, 0, 0] [0, 0]]"
  using beacons_are_recognised [of boot boot quiet 512 quiet 76 "[1, 2, 3, 4]"]
  by (auto simp: boot_peer_def)

lemma sync_beacon_drains:
  assumes "nan_wf s" "length mac = 6" "length net = 2" "n mod 65536 = 512"
    "0 < outQueueLen (peer_of s 0)" "readable E m" "outQueue (peer_of s 0) ! 0 = m"
    "\<forall>h. mem E h (msg_data m) = d"
  obtains s' where
    "sniffer_cb1 E WIFI_PKT_MGMT len (beacon_frame mac net n pref rand @ fcs) s =
      Inr (beacon_frame mac net n pref rand @ fcs, s')" "nan_wf s'"
    "txs s' = txs s @ [publish_frame (mymac (aware (nan s))) net,
       followup_frame (peer_mac (peer_of s 0)) (mymac (aware (nan s))) net
         (peer_instanceId (peer_of s 0)) (take (nat (min (msg_len m) 255)) d)]"
    "outQueueLen (peer_of s' 0) = outQueueLen (peer_of s 0) - 1"
    "outQueue (peer_of s' 0) = outQueue (peer_of s 0)"
    "peer_mac (peer_of s' 0) = peer_mac (peer_of s 0)"
    "peer_instanceId (peer_of s' 0) = peer_instanceId (peer_of s 0)"
    "mymac (aware (nan s')) = mymac (aware (nan s))"
proof -
  obtain now s1 where r: "rx_beacon E len net s = (now, s1)" by fastforce
  note f = rx_beacon_facts [OF assms(1,3) r]
  have q: "0 < outQueueLen (peer_of s1 0)" "outQueue (peer_of s1 0) ! 0 = m"
    using assms(5,7) f(7) by simp_all
  from beacon_sync_drain [OF f(1) q(1) assms(6) q(2) assms(8), of now] obtain s' where
    s': "beacon_sync E 0 now s1 = Inr s'" "nan_wf s'"
      "txs s' = txs s1 @ [publish_frame (mymac (aware (nan s1))) (nanNet (aware (nan s1))),
       followup_frame (peer_mac (peer_of s1 0)) (mymac (aware (nan s1))) (nanNet (aware (nan s1)))
         (peer_instanceId (peer_of s1 0)) (take (nat (min (msg_len m) 255)) d)]"
      "peer_of s' 0 = (peer_of s1 0)\<lparr>syncBeacons := syncBeacons (peer_of s1 0) + 1,
         outQueueLen := outQueueLen (peer_of s1 0) - 1\<rparr>"
      "mymac (aware (nan s')) = mymac (aware (nan s1))"
    by blast
  show ?thesis
    by (rule that [of s']) (use s' f sniffer_beacon [OF assms(2,3) r] assms(4) in simp_all)
qed

lemma nanQueue_facts:
  assumes "nan_wf s" "i < NAN_MAX_PEERS" "outQueueLen (peer_of s i) < int OUT_QUEUE_SIZE"
  shows "nan_wf (nanQueue i a l s)" "txs (nanQueue i a l s) = txs s"
    "mymac (aware (nan (nanQueue i a l s))) = mymac (aware (nan s))"
    "peer_of (nanQueue i a l s) i = (peer_of s i)\<lparr>
       outQueue := (outQueue (peer_of s i))[nat (outQueueLen (peer_of s i)) := \<lparr>msg_data = a, msg_len = l\<rparr>],
       outQueueLen := outQueueLen (peer_of s i) + 1\<rparr>"
  using assms nan_wf_peer [OF assms(1,2)]
  by (auto simp: nanQueue_def Let_def peer_wf_def intro!: nan_wf_upd_peer)

text \<open>
  C7: Of two messages queued for a peer the second never leaves: each sync beacon sends slot 0
  and only the length is decremented, so two sync beacons send the first message twice and
  empty the queue.
\<close>

theorem second_queued_message_is_lost:
  fixes fcs :: "u8 list"
  assumes "nan_wf s" "outQueueLen (peer_of s 0) = 0" "length mac = 6" "length net = 2"
    "0 \<le> la" "la \<le> int (length d)" "la \<le> 255" "\<forall>h. mem E h a = d"
  defines "f \<equiv> beacon_frame mac net 512 0 0 @ fcs"
  shows "\<exists>s1 s2. sniffer_cb1 E WIFI_PKT_MGMT len f (nanQueue 0 b lb (nanQueue 0 a la s)) = Inr (f, s1) \<and>
    sniffer_cb1 E WIFI_PKT_MGMT len f s1 = Inr (f, s2) \<and>
    outQueueLen (peer_of s2 0) = 0 \<and>
    (let pub = publish_frame (mymac (aware (nan s))) net;
         msg = followup_frame (peer_mac (peer_of s 0)) (mymac (aware (nan s))) net
                 (peer_instanceId (peer_of s 0)) (take (nat la) d)
     in txs s2 = txs s @ [pub, msg, pub, msg])"
proof -
  let ?m = "\<lparr>msg_data = a, msg_len = la\<rparr>"
  let ?q1 = "nanQueue 0 a la s" and ?q2 = "nanQueue 0 b lb (nanQueue 0 a la s)"
  have z: "0 < NAN_MAX_PEERS" "outQueueLen (peer_of s 0) < int OUT_QUEUE_SIZE"
    using assms(2) by (simp_all add: OUT_QUEUE_SIZE_def)
  note f1 = nanQueue_facts [OF assms(1) z, of a la]
  have l: "length (outQueue (peer_of s 0)) = 5"
    using nan_wf_peer [OF assms(1), of 0] by (simp add: peer_wf_def OUT_QUEUE_SIZE_def)
  have z2: "outQueueLen (peer_of ?q1 0) < int OUT_QUEUE_SIZE"
    using f1(4) assms(2) by (simp add: OUT_QUEUE_SIZE_def)
  note f2 = nanQueue_facts [OF f1(1) z(1) z2, of b lb]
  have q: "outQueueLen (peer_of ?q2 0) = 2" "outQueue (peer_of ?q2 0) ! 0 = ?m"
    "peer_mac (peer_of ?q2 0) = peer_mac (peer_of s 0)"
    "peer_instanceId (peer_of ?q2 0) = peer_instanceId (peer_of s 0)"
    "txs ?q2 = txs s" "mymac (aware (nan ?q2)) = mymac (aware (nan s))"
    using f1 f2 l assms(2) by simp_all
  have r: "readable E ?m" using assms(5,6,8) by (auto simp: readable_def)
  have k: "nat (min la 255) = nat la" using assms(7) by simp
  have d: "\<forall>h. mem E h (msg_data ?m) = d" and i: "(512::int) mod 65536 = 512"
    using assms(8) by simp_all
  have p2: "0 < outQueueLen (peer_of ?q2 0)" using q(1) by simp
  let ?pub = "publish_frame (mymac (aware (nan s))) net"
  let ?msg = "followup_frame (peer_mac (peer_of s 0)) (mymac (aware (nan s))) net
                (peer_instanceId (peer_of s 0)) (take (nat la) d)"
  obtain s1 where
    s1: "sniffer_cb1 E WIFI_PKT_MGMT len f ?q2 = Inr (f, s1)" "nan_wf s1" "txs s1 = txs s @ [?pub, ?msg]"
      "outQueueLen (peer_of s1 0) = 1" "outQueue (peer_of s1 0) ! 0 = ?m"
      "peer_mac (peer_of s1 0) = peer_mac (peer_of s 0)"
      "peer_instanceId (peer_of s1 0) = peer_instanceId (peer_of s 0)"
      "mymac (aware (nan s1)) = mymac (aware (nan s))"
    by (rule sync_beacon_drains [OF f2(1) assms(3,4) i p2 r q(2) d, of len 0 0 fcs])
      (simp add: q k f_def)
  have p1: "0 < outQueueLen (peer_of s1 0)" using s1(4) by simp
  obtain s2 where
    s2: "sniffer_cb1 E WIFI_PKT_MGMT len f s1 = Inr (f, s2)" "txs s2 = txs s1 @ [?pub, ?msg]"
      "outQueueLen (peer_of s2 0) = 0"
    by (rule sync_beacon_drains [OF s1(2) assms(3,4) i p1 r s1(5) d, of len 0 0 fcs])
      (simp add: s1 k f_def)
  show ?thesis
    using s1 s2 by (intro exI [of _ s1] exI [of _ s2]) (simp add: Let_def)
qed

theorem second_queued_message_is_lost_witness:
  "\<exists>s1 s2. sniffer_cb1 (quiet\<lparr>mem := \<lambda>h p. [0x68, 0x69]\<rparr>) WIFI_PKT_MGMT 76
      (beacon_frame [2, 0, 0, 0, 0, 1] [5, 1] 512 0 0 @ [1, 2, 3, 4])
      (nanQueue 0 200 2 (nanQueue 0 100 2 boot)) =
        Inr (beacon_frame [2, 0, 0, 0, 0, 1] [5, 1] 512 0 0 @ [1, 2, 3, 4], s1) \<and>
    sniffer_cb1 (quiet\<lparr>mem := \<lambda>h p. [0x68, 0x69]\<rparr>) WIFI_PKT_MGMT 76
      (beacon_frame [2, 0, 0, 0, 0, 1] [5, 1] 512 0 0 @ [1, 2, 3, 4]) s1 =
        Inr (beacon_frame [2, 0, 0, 0, 0, 1] [5, 1] 512 0 0 @ [1, 2, 3, 4], s2) \<and>
    outQueueLen (peer_of s2 0) = 0"
  using second_queued_message_is_lost [of boot "[2, 0, 0, 0, 0, 1]" "[5, 1]" 2 "[0x68, 0x69]"
      "quiet\<lparr>mem := \<lambda>h p. [0x68, 0x69]\<rparr>" 100 76 "[1, 2, 3, 4]" 200 2]
  by (auto simp: boot_peer_def Let_def)

end
