(* ===== verification/NanMachine.thy ===== *)
theory NanMachine
  imports NanNodes NanBeacons NanTimer Parts
begin

text \<open>
  The NAN driver as a machine: captured frames, timer expiries, WiFi events and console
  commands in any order.  Every handler keeps the driver's data well formed, whatever the
  frame, and nothing a node of this firmware sends makes another node fault, except pings
  of more than 60 bytes.
\<close>

section \<open>Handlers keep the data well formed\<close>

definition nan_keeps :: "dev \<Rightarrow> dev \<Rightarrow> bool" where
  "nan_keeps s s' \<longleftrightarrow> (nan_wf s \<longrightarrow> nan_wf s') \<and> only {P_nan} s s'"

lemma nk_refl: "nan_keeps s s"
  by (simp add: nan_keeps_def only_refl)

lemma nk_trans: "nan_keeps s s' \<Longrightarrow> nan_keeps s' s'' \<Longrightarrow> nan_keeps s s''"
  by (auto simp: nan_keeps_def intro: only_trans)

lemma nk_emit: "nan_keeps s s' \<Longrightarrow> plain_call c \<Longrightarrow> nan_keeps s (emit c s')"
  by (simp add: nan_keeps_def only_emit)

lemma only_nan:
  "only P s t \<Longrightarrow> P_nan \<in> P \<Longrightarrow> only P s (upd_nan f t)"
  "only P s t \<Longrightarrow> P_nan \<in> P \<Longrightarrow> only P s (upd_aware g t)"
  "only P s t \<Longrightarrow> P_nan \<in> P \<Longrightarrow> only P s (upd_peer p h t)"
  by (simp_all add: upd_peer_def upd_aware_def upd_nan_def only_set)

lemma nk_check: "check E c s' = Inr s'' \<Longrightarrow> nan_keeps s s' \<Longrightarrow> plain_call c \<Longrightarrow> nan_keeps s s''"
  by (auto simp: check_eq_Inr nk_emit)

lemma nk_aware:
  assumes "nan_keeps s s'" "\<And>a. peers (g a) = peers a"
    "\<And>a. length (mymac a) = 6 \<Longrightarrow> length (mymac (g a)) = 6"
    "\<And>a. length (nanNet a) = 2 \<Longrightarrow> length (nanNet (g a)) = 2"
  shows "nan_keeps s (upd_aware g s')"
proof -
  have "nan_wf (upd_aware g s')" if "nan_wf s'"
    using that assms(2-4) by (simp add: nan_wf_def)
  then show ?thesis using assms(1) by (simp add: nan_keeps_def only_nan)
qed

lemma nk_nan:
  assumes "nan_keeps s s'" "aware (f (nan s')) = aware (nan s')"
    "length (sendBuffer (f (nan s'))) = length (sendBuffer (nan s'))"
    "length (resBuf (f (nan s'))) = length (resBuf (nan s'))"
  shows "nan_keeps s (upd_nan f s')"
proof -
  have "nan_wf (upd_nan f s')" if "nan_wf s'"
    using that assms(2-4) by (simp add: nan_wf_def)
  then show ?thesis using assms(1) by (simp add: nan_keeps_def only_nan)
qed

lemma nk_peer:
  assumes "nan_keeps s s'" "\<And>p. peer_wf p \<Longrightarrow> peer_wf (h p)"
  shows "nan_keeps s (upd_peer 0 h s')"
proof -
  have "nan_wf (upd_peer 0 h s')" if w: "nan_wf s'"
    by (rule nan_wf_upd_peer) (use w assms(2) nan_wf_peer [OF w peers_pos] in simp_all)
  then show ?thesis using assms(1) by (simp add: nan_keeps_def only_nan)
qed

lemma nk_publish:
  assumes "nanSendPublish E s' = Inr s''" "nan_keeps s s'"
  shows "nan_keeps s s''"
proof -
  have "nan_wf s''" if "nan_wf s'"
    using nanSendPublish_sends [OF that, of E] assms(1) by (auto simp: sends_def)
  moreover have "only {P_nan} s' s''"
    using assms(1) by (auto simp: nanSendPublish_def Let_def bindE_eq_Inr currentTimeMicro_def
        intro!: only_intros only_nan split: prod.splits)
  ultimately show ?thesis using assms(2) by (auto simp: nan_keeps_def intro: only_trans)
qed

lemma nanSendNow_keeps: "wp (nanSendNow E dst inst data len s) (nan_keeps s)"
  unfolding nanSendNow_def Let_def currentTimeMicro_def bindE_assoc
  apply (intro wp_intros)
  apply (clarsimp split del: if_split)
  apply (intro wp_intros)
  apply (auto intro!: nk_emit nk_nan nk_refl dest!: wrn_length memcpy_length wr_length)
  done

lemma nk_send: "nanSendNow E dst inst data len s' = Inr s'' \<Longrightarrow> nan_keeps s s' \<Longrightarrow> nan_keeps s s''"
  using wpD [OF nanSendNow_keeps] nk_trans by blast

lemmas nk_intros = nk_refl nk_emit nk_aware nk_nan nk_peer
lemmas nk_elims = nk_check nk_publish nk_send

lemma peer_wf_simps [simp]:
  "peer_wf (p\<lparr>peer_instanceId := i\<rparr>) = peer_wf p"
  "peer_wf (p\<lparr>lastSeen := w\<rparr>) = peer_wf p"
  "peer_wf (p\<lparr>syncBeacons := n\<rparr>) = peer_wf p"
  "peer_wf (p\<lparr>discoveryBeacons := n\<rparr>) = peer_wf p"
  by (simp_all add: peer_wf_def)

lemma peer_wf_mac: "peer_wf p \<Longrightarrow> length m = 6 \<Longrightarrow> peer_wf (p\<lparr>peer_mac := m\<rparr>)"
  by (simp add: peer_wf_def)

lemma peer_wf_net: "peer_wf p \<Longrightarrow> length n = 2 \<Longrightarrow> peer_wf (p\<lparr>peer_nanNet := n\<rparr>)"
  by (simp add: peer_wf_def)

lemma daf_message_keeps: "wp (daf_message E 0 i tlen frame s) (\<lambda>(frame', s'). nan_keeps s s')"
  unfolding daf_message_def Let_def currentTimeMicro_def bindE_if bindE_assoc prod.case bindE_Inr
  apply (intro wp_intros)
  apply (auto intro!: nk_intros elim!: nk_elims dest!: wrn_length memcpy_length)
  done

lemma nk_message:
  "daf_message E 0 i tlen frame s' = Inr (frame', s'') \<Longrightarrow> nan_keeps s s' \<Longrightarrow> nan_keeps s s''"
  using wpD [OF daf_message_keeps] nk_trans by fastforce

lemma daf_descriptor_keeps:
  "wp (daf_descriptor E 0 i frame s) (\<lambda>(frame', s'). nan_keeps s s')"
  unfolding daf_descriptor_def Let_def
  apply (intro wp_intros)
    apply (auto intro!: nk_intros peer_wf_mac elim!: nk_elims dest!: rdn_length)
  apply (auto intro!: wpI nk_intros peer_wf_mac elim!: nk_message dest!: rdn_length)
  done

lemma nk_descriptor:
  "daf_descriptor E 0 i frame s' = Inr (frame', s'') \<Longrightarrow> nan_keeps s s' \<Longrightarrow> nan_keeps s s''"
  using wpD [OF daf_descriptor_keeps] nk_trans by fastforce

lemma daf_attr_keeps:
  "daf_attr E 0 len n frame s = Inr (r, frame', s') \<Longrightarrow> nan_keeps s s'"
  by (auto simp: daf_attr_def Let_def bindE_eq_Inr nk_refl split: if_splits elim: nk_descriptor)

lemma daf_loop_keeps:
  "daf_loop E 0 len n frame s = Inr (frame', s') \<Longrightarrow> nan_keeps s s'"
proof (induction E "0::nat" len n frame s rule: daf_loop.induct)
  case (1 E len n frame s)
  show ?case
  proof (cases "(word_of_int n :: u32) < len - 4")
    case True
    then obtain r f1 s1 where a: "daf_attr E 0 len n frame s = Inr (r, f1, s1)"
      using 1(2) by (auto simp: daf_loop.simps [of E 0 len n frame s] split: sum.splits)
    note k = daf_attr_keeps [OF a]
    show ?thesis
    proof (cases r)
      case None
      then show ?thesis using True 1(2) a k by (simp add: daf_loop.simps [of E 0 len n frame s])
    next
      case (Some n')
      then have l: "daf_loop E 0 len n' f1 s1 = Inr (frame', s')"
        using True 1(2) a by (simp add: daf_loop.simps [of E 0 len n frame s])
      show ?thesis
        by (rule nk_trans [OF k 1(1) [OF True a refl Some refl l]])
    qed
  next
    case False
    then show ?thesis using 1(2) by (simp add: daf_loop.simps [of E 0 len n frame s] nk_refl)
  qed
qed

lemma handleDAF_keeps: "wp (handleDAF E 0 frame len s) (\<lambda>(frame', s'). nan_keeps s s')"
proof -
  have h: "nan_keeps s (upd_peer 0 (\<lambda>p. p\<lparr>peer_nanNet := m\<rparr>) (upd_aware (\<lambda>a. a\<lparr>nanNet := n\<rparr>) s))"
    if "length m = 2" "length n = 2" for m n
    using that by (auto intro!: nk_intros peer_wf_net)
  show ?thesis
    unfolding handleDAF_def Let_def
    by (intro wp_intros wpI) (auto dest!: rdn_length daf_loop_keeps intro: nk_trans [OF h])
qed

lemma beacon_sync_keeps: "wp (beacon_sync E 0 now s) (nan_keeps s)"
proof -
  have d: "nan_keeps s (upd_peer 0 (\<lambda>p. p\<lparr>outQueueLen := outQueueLen p - 1\<rparr>) s')"
    if "nan_keeps s s'" "0 < outQueueLen (peer_of s' 0)" for s'
  proof -
    have "nan_wf (upd_peer 0 (\<lambda>p. p\<lparr>outQueueLen := outQueueLen p - 1\<rparr>) s')" if w: "nan_wf s'"
      using w nan_wf_peer [OF w peers_pos] \<open>0 < outQueueLen (peer_of s' 0)\<close>
      by (intro nan_wf_upd_peer) (simp_all add: peer_wf_def)
    then show ?thesis using that(1) by (simp add: nan_keeps_def only_nan)
  qed
  have a: "peer_of s'' 0 = peer_of s' 0" if "nanSendNow E dst i da l s' = Inr s''" for s' s'' dst i da l
    using that
    by (auto simp: nanSendNow_def Let_def bindE_eq_Inr currentTimeMicro_def peer_of_def)
  show ?thesis
    unfolding beacon_sync_def Let_def
    by (intro wp_intros) (auto simp: a intro!: nk_intros d elim!: nk_elims)
qed

lemma nk_beacon: "beacon_sync E 0 now s' = Inr s'' \<Longrightarrow> nan_keeps s s' \<Longrightarrow> nan_keeps s s''"
  using wpD [OF beacon_sync_keeps] nk_trans by blast

lemma handleBeacon_keeps: "wp (handleBeacon E 0 frame s) (nan_keeps s)"
  unfolding handleBeacon_def Let_def currentTimeMicro_def prod.case bindE_if bindE_assoc bindE_Inr
  apply (intro wp_intros wpI)
  apply (auto simp: bindE_eq_Inr split: if_splits intro!: nk_intros peer_wf_net elim!: nk_beacon
      dest!: rdn_length)
  done

lemma nk_handleBeacon: "handleBeacon E 0 frame s' = Inr s'' \<Longrightarrow> nan_keeps s s' \<Longrightarrow> nan_keeps s s''"
  using wpD [OF handleBeacon_keeps] nk_trans by blast

lemma nk_handleDAF:
  "handleDAF E 0 frame len s' = Inr (frame', s'') \<Longrightarrow> nan_keeps s s' \<Longrightarrow> nan_keeps s s''"
  using wpD [OF handleDAF_keeps] nk_trans by fastforce

lemma sniffer_keeps: "wp (sniffer_cb1 E type len frame s) (\<lambda>(frame', s'). nan_keeps s s')"
  unfolding sniffer_cb1_def Let_def currentTimeMicro_def prod.case
  apply (intro wp_intros wpI)
  apply (auto intro!: nk_intros elim!: nk_handleBeacon nk_handleDAF)
  done

lemma nanSendSync_keeps: "nanSendSync E n s = Inr s' \<Longrightarrow> nan_keeps s s'"
  by (auto simp: nanSendSync_def Let_def bindE_eq_Inr intro: nk_emit nk_refl)

lemma nk_sync: "nanSendSync E n s' = Inr s'' \<Longrightarrow> nan_keeps s s' \<Longrightarrow> nan_keeps s s''"
  using nanSendSync_keeps nk_trans by blast

lemma timerCB_keeps: "wp (timerCB E s) (nan_keeps s)"
  unfolding timerCB_def Let_def currentTimeMicro_def prod.case
  apply (intro wp_intros)
   apply (auto intro!: nk_intros elim!: nk_sync split: if_splits)
  done

lemma nanTimer_keeps: "wp (nanTimer E s) (nan_keeps s)"
  unfolding nanTimer_def Let_def currentTimeMicro_def prod.case
  by (intro wp_intros) (auto intro!: nk_intros elim!: nk_elims)

lemma nk_nanTimer: "nanTimer E s' = Inr s'' \<Longrightarrow> nan_keeps s s' \<Longrightarrow> nan_keeps s s''"
  using wpD [OF nanTimer_keeps] nk_trans by blast

lemma nanStartSniffing_keeps: "wp (nanStartSniffing E s) (nan_keeps s)"
  unfolding nanStartSniffing_def Let_def
  by (intro wp_intros wpI) (auto intro!: nk_intros elim!: nk_nanTimer nk_elims)

lemma nk_startSniffing: "nanStartSniffing E s' = Inr s'' \<Longrightarrow> nan_keeps s s' \<Longrightarrow> nan_keeps s s''"
  using wpD [OF nanStartSniffing_keeps] nk_trans by blast

lemma nanStart_keeps: "wp (nanStart E s) (nan_keeps s)"
  unfolding nanStart_def Let_def bindE_if bindE_Inl bindE_Inr
  by (intro wp_intros wpI) (auto intro!: nk_intros elim!: nk_startSniffing nk_elims)

lemma nanStop_keeps: "wp (nanStop E s) (nan_keeps s)"
  unfolding nanStop_def
  by (intro wp_intros) (auto intro!: nk_intros elim!: nk_elims)

lemma nanQueue_keeps: "nan_keeps s (nanQueue 0 a l s)"
proof (cases "outQueueLen (peer_of s 0) < int OUT_QUEUE_SIZE")
  case True
  then show ?thesis using nanQueue_facts(1) [of s 0 a l] by (simp add: nan_keeps_def)
      (simp add: nanQueue_def Let_def only_intros only_nan)
qed (simp add: nanQueue_def Let_def nk_refl)

lemma cmd_nan_keeps: "wp (cmd_nan E a s) (\<lambda>(r, s'). nan_keeps s s')"
  unfolding cmd_nan_def
  by (intro wp_intros)
    (auto intro!: nk_intros nanQueue_keeps wp_intros split: option.splits
      dest: wpD [OF nanStop_keeps] wpD [OF nanStart_keeps])

section \<open>The machine\<close>

datatype nan_event =
    Captured int u32 "u8 list"
  | TimerFired
  | WifiStarted
  | Command nan_args

fun nan_step :: "env \<Rightarrow> nan_event \<Rightarrow> dev \<Rightarrow> fault + dev" where
  "nan_step E (Captured type len frame) s =
     bindE (sniffer_cb1 E type len frame s) (\<lambda>(frame, s). Inr s)"
| "nan_step E TimerFired s = timerCB E s"
| "nan_step E WifiStarted s = Inr (event_handler s)"
| "nan_step E (Command a) s = bindE (cmd_nan E a s) (\<lambda>(r, s). Inr s)"

lemma nan_step_keeps: "nan_step E e s = Inr s' \<Longrightarrow> nan_keeps s s'"
  by (cases e)
    (auto simp: bindE_eq_Inr event_handler_def intro: nk_emit nk_refl
      dest: wpD [OF timerCB_keeps] wpD [OF sniffer_keeps] wpD [OF cmd_nan_keeps])

text \<open>What another node of this firmware sends, and what a command line queues, in a benign environment.\<close>

definition from_peer :: "u32 \<Rightarrow> u8 list \<Rightarrow> bool" where
  "from_peer len frame \<longleftrightarrow> (\<exists>src net fcs.
     length src = 6 \<and> length net = 2 \<and> length fcs = 4 \<and> rx_frame len frame \<and>
     (frame = publish_frame src net @ fcs \<or>
      (\<exists>n pref rand. frame = beacon_frame src net n pref rand @ fcs) \<or>
      (\<exists>dst inst d. frame = followup_frame dst src net inst d @ fcs \<and> length dst = 6 \<and>
         (length d \<le> 60 \<or> length d \<le> 255 \<and> take 4 (d @ fcs) \<noteq> PING))))"

definition benign :: "env \<Rightarrow> nan_event \<Rightarrow> bool" where
  "benign E e \<longleftrightarrow>
     (case e of
        Captured type len frame \<Rightarrow> from_peer len frame
      | Command a \<Rightarrow> na_stop a = 0 \<and> na_mon a = 0 \<and>
          (\<forall>p. na_send a = Some p \<longrightarrow> (\<exists>d. \<forall>h. mem E h p = d))
      | _ \<Rightarrow> True)"

definition nan_safe :: "env \<Rightarrow> dev \<Rightarrow> bool" where
  "nan_safe E s \<longleftrightarrow> nan_wf s \<and>
     (\<forall>i < nat (outQueueLen (peer_of s 0)). readable E (outQueue (peer_of s 0) ! i))"

lemma nan_safe_cong:
  assumes "nan_safe E s" "nan_wf s'" "outQueue (peer_of s' 0) = outQueue (peer_of s 0)"
    "outQueueLen (peer_of s' 0) \<le> outQueueLen (peer_of s 0)"
  shows "nan_safe E s'"
  using assms by (auto simp: nan_safe_def)

lemma nan_safe_same_peers:
  "nan_safe E s \<Longrightarrow> nan_wf s' \<Longrightarrow> peers (aware (nan s')) = peers (aware (nan s)) \<Longrightarrow> nan_safe E s'"
  by (erule nan_safe_cong) (simp_all add: peer_of_def)

lemma rx_peer_queue:
  "nan_wf s \<Longrightarrow> length src = 6 \<Longrightarrow>
   outQueue (peer_of (rx_peer inst src s) 0) = outQueue (peer_of s 0) \<and>
   outQueueLen (peer_of (rx_peer inst src s) 0) = outQueueLen (peer_of s 0)"
  by simp

lemma rx_action_queue:
  assumes "nan_wf s" "length net = 2"
  shows "outQueue (peer_of (rx_action E len net s) 0) = outQueue (peer_of s 0)"
    "outQueueLen (peer_of (rx_action E len net s) 0) = outQueueLen (peer_of s 0)"
proof -
  have "0 < length (peers (aware (nan s)))" using assms by (simp add: nan_wf_def NAN_MAX_PEERS_def)
  then show "outQueue (peer_of (rx_action E len net s) 0) = outQueue (peer_of s 0)"
    "outQueueLen (peer_of (rx_action E len net s) 0) = outQueueLen (peer_of s 0)"
    by (simp_all add: rx_action_def rx_counted_def peer_of_def)
qed

lemma rx_action_safe:
  "nan_safe E s \<Longrightarrow> length net = 2 \<Longrightarrow> nan_safe E (rx_action E len net s)"
  by (rule nan_safe_cong) (auto simp: rx_action_queue nan_safe_def)

lemma rx_peer_safe: "nan_safe E s \<Longrightarrow> length src = 6 \<Longrightarrow> nan_safe E (rx_peer inst src s)"
  by (rule nan_safe_cong) (auto simp: nan_safe_def)

lemma safe_publish:
  assumes "nan_safe E s" "length src = 6" "length net = 2" "length fcs = 4"
    "rx_frame len (publish_frame src net @ fcs)"
  shows "\<exists>f' s'. sniffer_cb1 E WIFI_PKT_MGMT len (publish_frame src net @ fcs) s = Inr (f', s') \<and>
    nan_safe E s'"
proof -
  let ?f = "publish_frame src net @ fcs" and ?s = "rx_action E len net s"
  have sf: "nan_safe E ?s" by (rule rx_action_safe [OF assms(1,3)])
  then have w: "nan_wf ?s" by (simp add: nan_safe_def)
  obtain s' where s': "daf_loop E 0 len 30 ?f ?s = Inr (?f, s')" "nan_wf s'"
    "aware (nan s') = (aware (nan (rx_peer NAN_ID src ?s)))
       \<lparr>pubReceived := pubReceived (aware (nan ?s)) + 1\<rparr>"
    by (rule publish_run [OF w assms(2-5), of E]) blast
  have "sniffer_cb1 E WIFI_PKT_MGMT len ?f s = daf_loop E 0 len 30 ?f ?s"
    using sniffer_action [of broadcast src net E len "publish_attrs @ fcs" s] assms
    by (simp add: publish_frame_def)
  moreover have "nan_safe E s'"
    by (rule nan_safe_same_peers [OF rx_peer_safe [OF sf assms(2)] s'(2)]) (simp add: s'(3))
  ultimately show ?thesis using s'(1) by auto
qed

lemma safe_followup:
  assumes "nan_safe E s" "length dst = 6" "length src = 6" "length net = 2" "length fcs = 4"
    "rx_frame len (followup_frame dst src net inst d @ fcs)"
    "length d \<le> 60 \<or> length d \<le> 255 \<and> take 4 (d @ fcs) \<noteq> PING"
  shows "\<exists>f' s'. sniffer_cb1 E WIFI_PKT_MGMT len (followup_frame dst src net inst d @ fcs) s =
      Inr (f', s') \<and> nan_safe E s'"
proof -
  let ?f = "followup_frame dst src net inst d @ fcs" and ?s = "rx_action E len net s"
  have sf: "nan_safe E ?s" by (rule rx_action_safe [OF assms(1,4)])
  then have w: "nan_wf ?s" by (simp add: nan_safe_def)
  have sn: "sniffer_cb1 E WIFI_PKT_MGMT len ?f s = daf_loop E 0 len 30 ?f ?s"
    using sniffer_action [OF assms(2-4)] by (simp add: followup_frame_def)
  have sp: "nan_safe E (rx_peer NAN_ID src ?s)" by (rule rx_peer_safe [OF sf assms(3)])
  show ?thesis
  proof (cases "take 4 (d @ fcs) = PING")
    case True
    then have ld: "length d \<le> 60" using assms(7) by simp
    obtain s' where s': "daf_loop E 0 len 30 ?f ?s =
        Inr (followup_frame dst src net inst d @ fcs[0 := 0], s')" "nan_wf s'"
      "peers (aware (nan s')) = peers (aware (nan (rx_peer NAN_ID src ?s)))"
      by (rule followup_ping_run [OF assms(2-4) ld assms(5,6) w True, of E])
    show ?thesis
      using sn s'(1) nan_safe_same_peers [OF sp s'(2,3)] by simp
  next
    case False
    then have ld: "length d \<le> 255" using assms(7) by auto
    let ?s' = "message_in dst (rx_peer NAN_ID src ?s)"
    have "nan_safe E ?s'"
      by (rule nan_safe_cong [OF sp]) (use sp in \<open>simp_all add: nan_safe_def\<close>)
    then show ?thesis
      using sn followup_plain_run [OF assms(2-4) ld assms(5,6) w False] by simp
  qed
qed

lemma safe_beacon:
  assumes "nan_safe E s" "length mac = 6" "length net = 2"
  shows "\<exists>f' s'. sniffer_cb1 E WIFI_PKT_MGMT len (beacon_frame mac net n pref rand @ fcs) s =
      Inr (f', s') \<and> nan_safe E s'"
proof -
  obtain now s1 where r: "rx_beacon E len net s = (now, s1)" by fastforce
  have w: "nan_wf s" using assms(1) by (simp add: nan_safe_def)
  note f = rx_beacon_facts [OF w assms(3) r]
  note sn = sniffer_beacon [OF assms(2,3) r, of n pref rand fcs]
  have s1: "nan_safe E s1" by (rule nan_safe_cong [OF assms(1) f(1)]) (simp_all add: f(7))
  show ?thesis
  proof (cases "n mod 65536 = 512")
    case False
    let ?s2 = "upd_aware (\<lambda>a. a\<lparr>lastDBeacon := now\<rparr>)
         (upd_aware (\<lambda>a. a\<lparr>nanDBeacon := nanDBeacon a + 1\<rparr>) s1)"
    let ?s' = "upd_peer 0 (\<lambda>p. p\<lparr>discoveryBeacons := discoveryBeacons p + 1\<rparr>) ?s2"
    have w2: "nan_wf ?s2" using f(1) by simp
    have "nan_wf ?s'"
      using w2 nan_wf_peer [OF w2, of 0] by (intro nan_wf_upd_peer) simp_all
    moreover have "peer_of ?s2 0 = peer_of s1 0" by (simp add: peer_of_def)
    ultimately have "nan_safe E ?s'"
      using w2 by (intro nan_safe_cong [OF s1]) simp_all
    then show ?thesis using sn False by simp
  next
    case sync: True
    let ?m = "outQueue (peer_of s1 0) ! 0"
    show ?thesis
    proof (cases "0 < outQueueLen (peer_of s1 0)")
      case True
      then have m: "readable E ?m" using s1 by (auto simp: nan_safe_def)
      then obtain d where d: "\<forall>h. mem E h (msg_data ?m) = d" by (auto simp: readable_def)
      obtain s' where s': "beacon_sync E 0 now s1 = Inr s'" "nan_wf s'"
        "peer_of s' 0 = (peer_of s1 0)\<lparr>syncBeacons := syncBeacons (peer_of s1 0) + 1,
           outQueueLen := outQueueLen (peer_of s1 0) - 1\<rparr>"
        by (rule beacon_sync_drain [OF f(1) True m refl d, of now])
      then have "nan_safe E s'" by (intro nan_safe_cong [OF s1]) simp_all
      then show ?thesis using sn sync s'(1) by simp
    next
      case False
      then have z: "outQueueLen (peer_of s1 0) = 0"
        using nan_wf_peer [OF f(1), of 0] by (simp add: peer_wf_def)
      obtain s' where s': "beacon_sync E 0 now s1 = Inr s'" "nan_wf s'"
        "aware (nan s') = aware (nan (sync_counted now s1))"
        by (rule beacon_sync_empty [OF f(1) z, of E now])
      have "peer_of s' 0 = peer_of (sync_counted now s1) 0" using s'(3) by (simp add: peer_of_def)
      then have "nan_safe E s'"
        using s'(2) sync_counted_facts [OF f(1), of now] by (intro nan_safe_cong [OF s1]) simp_all
      then show ?thesis using sn sync s'(1) by simp
    qed
  qed
qed

lemma safe_other_packet:
  assumes "nan_safe E s" "type \<noteq> WIFI_PKT_MGMT"
  shows "\<exists>f' s'. sniffer_cb1 E type len frame s = Inr (f', s') \<and> nan_safe E s'"
proof -
  have "sniffer_cb1 E type len frame s = Inr (frame, rx_counted E len s)"
    using assms(2) by (simp add: sniffer_cb1_def currentTimeMicro_def Let_def rx_counted_def)
  moreover have "nan_safe E (rx_counted E len s)"
    by (rule nan_safe_same_peers [OF assms(1)]) (use assms(1) in \<open>simp_all add: rx_counted_def nan_safe_def\<close>)
  ultimately show ?thesis by simp
qed

lemma safe_captured:
  assumes "nan_safe E s" "from_peer len frame"
  shows "\<exists>f' s'. sniffer_cb1 E type len frame s = Inr (f', s') \<and> nan_safe E s'"
proof (cases "type = WIFI_PKT_MGMT")
  case True
  then show ?thesis
    using assms(2) safe_publish [OF assms(1)] safe_followup [OF assms(1)] safe_beacon [OF assms(1)]
    unfolding from_peer_def by blast
next
  case False
  then show ?thesis by (rule safe_other_packet [OF assms(1)])
qed

lemma safe_timer:
  assumes "nan_safe E s"
  shows "\<exists>s'. timerCB E s = Inr s' \<and> nan_safe E s'"
proof -
  have w: "nan_wf s" using assms by (simp add: nan_safe_def)
  have "\<exists>s'. timerCB E s = Inr s' \<and> peers (aware (nan s')) = peers (aware (nan s))"
    using nanSendSync_eq [of "upd_aware (\<lambda>a. a\<lparr>lastSentSBeacon := n\<rparr>) (emit GetTime s)" E 512 for n] w
    by (simp add: timerCB_def Let_def currentTimeMicro_def)
  then show ?thesis
    using wpD [OF timerCB_keeps, of E s] w nan_safe_same_peers [OF assms]
    unfolding nan_keeps_def by blast
qed

lemma safe_queue:
  assumes "nan_safe E s" "readable E \<lparr>msg_data = a, msg_len = l\<rparr>"
  shows "nan_safe E (nanQueue 0 a l s)"
proof (cases "outQueueLen (peer_of s 0) < int OUT_QUEUE_SIZE")
  case True
  have w: "nan_wf s" using assms(1) by (simp add: nan_safe_def)
  note f = nanQueue_facts [OF w peers_pos True, of a l]
  have q: "0 \<le> outQueueLen (peer_of s 0)" "length (outQueue (peer_of s 0)) = OUT_QUEUE_SIZE"
    using nan_wf_peer [OF w, of 0] by (simp_all add: peer_wf_def)
  then show ?thesis
    using assms f(1,4) True by (auto simp: nan_safe_def nth_list_update less_Suc_eq nat_add_distrib)
next
  case False
  then show ?thesis using assms(1) by (simp add: nanQueue_def Let_def)
qed

lemma safe_command:
  assumes "nan_safe E s" "benign E (Command a)"
  shows "\<exists>r s'. cmd_nan E a s = Inr (r, s') \<and> nan_safe E s'"
proof (cases "na_send a")
  case None
  then show ?thesis using assms nan_safe_same_peers [OF assms(1), of "emit c s" for c]
    by (auto simp: cmd_nan_def benign_def nan_safe_def)
next
  case (Some p)
  then obtain d where d: "\<forall>h. mem E h p = d" using assms(2) by (auto simp: benign_def)
  have "length (takeWhile (\<lambda>b. b \<noteq> 0) d) \<le> length d" by (rule length_takeWhile_le)
  then have "readable E \<lparr>msg_data = p, msg_len = strlen E p s\<rparr>"
    using d by (auto simp: readable_def strlen_def)
  then show ?thesis
    using assms Some safe_queue nan_safe_same_peers [OF assms(1), of "emit c s" for c]
    by (auto simp: cmd_nan_def benign_def nan_safe_def)
qed

interpretation nan: safe_machine "nan_step E" nan_wf "nan_safe E" "benign E" for E
proof
  show "nan_wf s \<Longrightarrow> nan_step E e s = Inr s' \<Longrightarrow> nan_wf s'" for e s s'
    using nan_step_keeps by (auto simp: nan_keeps_def)
  show "nan_safe E s \<Longrightarrow> nan_wf s" for s
    by (simp add: nan_safe_def)
  show "\<exists>s'. nan_step E e s = Inr s' \<and> nan_safe E s'" if a: "nan_safe E s" "benign E e" for e s
  proof (cases e)
    case (Captured type len frame)
    then have "from_peer len frame" using a(2) by (simp add: benign_def)
    then obtain f' s' where "sniffer_cb1 E type len frame s = Inr (f', s')" "nan_safe E s'"
      using safe_captured [OF a(1)] by blast
    then show ?thesis using Captured by simp
  next
    case TimerFired
    then show ?thesis using safe_timer [OF a(1)] by simp
  next
    case WifiStarted
    then show ?thesis using nan_safe_same_peers [OF a(1)] a(1) by (simp add: event_handler_def nan_safe_def)
  next
    case (Command c)
    then show ?thesis using safe_command [OF a(1)] a(2) by fastforce
  qed
qed

section \<open>Properties\<close>

text \<open>
  C8: Whatever other nodes of this firmware send (publish frames, beacons, follow-ups, pings
  of up to 60 bytes) in whatever order, mixed with timer expiries, WiFi events and messages
  queued from the console, no handler faults and the driver's data stays well formed.
\<close>

theorem node_survives_its_peers:
  assumes "nan_safe E s" "\<forall>e \<in> set es. benign E e"
  shows "\<exists>s'. run_all (nan_step E) es s = Inr s' \<and> nan_wf s'"
  using nan.run_safe [OF assms] by blast

lemma boot_safe: "nan_safe E boot"
  by (simp add: nan_safe_def boot_peer_def)

theorem node_survives_its_peers_witness:
  "\<exists>s'. run_all (nan_step quiet)
     [Captured WIFI_PKT_MGMT 112 (publish_frame [2, 0, 0, 0, 0, 1] [5, 1] @ [1, 2, 3, 4]),
      TimerFired, Command \<lparr>na_nerrors = 0, na_mon = 0, na_stop = 0, na_send = Some 100\<rparr>] boot = Inr s' \<and>
     nan_wf s'"
proof (rule node_survives_its_peers [OF boot_safe])
  have "from_peer 112 (publish_frame [2, 0, 0, 0, 0, 1] [5, 1] @ [1, 2, 3, 4])"
    unfolding from_peer_def
    by (rule exI [of _ "[2, 0, 0, 0, 0, 1]"], rule exI [of _ "[5, 1]"], rule exI [of _ "[1, 2, 3, 4]"])
      (simp add: rx_frame_def publish_frame_def)
  then show "\<forall>e \<in> set [Captured WIFI_PKT_MGMT 112
        (publish_frame [2, 0, 0, 0, 0, 1] [5, 1] @ [1, 2, 3, 4]), TimerFired,
      Command \<lparr>na_nerrors = 0, na_mon = 0, na_stop = 0, na_send = Some 100\<rparr>]. benign quiet e"
    by (simp add: benign_def quiet_def)
qed

text \<open>
  No sequence of events can break the driver's data: whatever frames are captured and
  whatever commands are typed, every handler that returns leaves buffers, peers and queue
  within their bounds.
\<close>

lemma driver_data_stays_well_formed:
  assumes "nan_wf s" "run_all (nan_step E) es s = Inr s'"
  shows "nan_wf s'"
  using nan.run_inv [OF assms] .

end
