(* ===== verification/Frames.thy ===== *)
theory Frames
  imports LoraFrames Boot
begin

text \<open>
  What the other components leave alone: each operation changes the variables of its own translation
  unit only, and none but the transports puts anything on a serial link.
\<close>

section \<open>Updates and loops\<close>

lemma only_upd_parts [only_intros]:
  "only P s t \<Longrightarrow> P_ble \<in> P \<Longrightarrow> only P s (upd_ble f1 t)"
  "only P s t \<Longrightarrow> P_bt \<in> P \<Longrightarrow> only P s (upd_bt f2 t)"
  "only P s t \<Longrightarrow> P_hci \<in> P \<Longrightarrow> only P s (upd_hci f3 t)"
  "only P s t \<Longrightarrow> P_i2c \<in> P \<Longrightarrow> only P s (upd_i2c f4 t)"
  "only P s t \<Longrightarrow> P_wifi \<in> P \<Longrightarrow> only P s (upd_wifi f7 t)"
  "only P s t \<Longrightarrow> P_main \<in> P \<Longrightarrow> only P s (upd_main f8 t)"
  by (simp_all add: upd_ble_def upd_bt_def upd_hci_def upd_i2c_def upd_wifi_def
      upd_main_def only_set)

lemma only_upd_con [only_intros]:
  "only P s t \<Longrightarrow> P_lock \<in> P \<or> lock_held (f (con t)) = lock_held (con t) \<Longrightarrow>
   P_ns \<in> P \<or> current_namespace (f (con t)) = current_namespace (con t) \<Longrightarrow>
   P_err \<in> P \<or> erange (f (con t)) = erange (con t) \<Longrightarrow> only P s (upd_con f t)"
  by (simp add: upd_con_def only_set_con)

lemma only_upd_ui [only_intros]:
  "only P s t \<Longrightarrow> P_line \<in> P \<or> ui_line (f (ui t)) = ui_line (ui t) \<Longrightarrow>
   P_rst \<in> P \<or> oled_rst (f (ui t)) = oled_rst (ui t) \<Longrightarrow> only P s (upd_ui f t)"
  by (simp add: upd_ui_def only_set_ui)

lemma only_printf [only_intros]: "only P s t \<Longrightarrow> only P s (printf x t)"
  by (simp add: printf_def only_emit)

lemma wp_prod: "(\<And>a b. m = (a, b) \<Longrightarrow> wp (f a b) Q) \<Longrightarrow> wp (case m of (a, b) \<Rightarrow> f a b) Q"
  by (cases m) simp

lemmas wp_all = wp_prod wp_intros

lemma only_fold [only_intros]:
  "only P s t \<Longrightarrow> (\<And>x u. only P s u \<Longrightarrow> only P s (f x u)) \<Longrightarrow> only P s (fold f xs t)"
  by (induction xs arbitrary: t) auto

lemma only_time [only_elims]: "currentTimeMicro E t = (now, t') \<Longrightarrow> only P s t \<Longrightarrow> only P s t'"
  by (auto simp: currentTimeMicro_def Let_def intro!: only_intros)

lemma only_checks [only_elims]:
  "checks E cs t = Inr t' \<Longrightarrow> only P s t \<Longrightarrow> list_all plain_call cs \<Longrightarrow> only P s t'"
proof (induction cs arbitrary: t)
  case (Cons c cs)
  then show ?case by (auto simp: check_eq_Inr bindE_eq_Inr intro!: only_intros)
qed simp

lemma only_register_cmds [only_elims]:
  "register_cmds E names t = Inr t' \<Longrightarrow> only P s t \<Longrightarrow> only P s t'"
proof (induction names arbitrary: t' rule: rev_induct)
  case (snoc n names)
  then show ?case by (auto simp: register_cmds_def bindE_eq_Inr elim!: only_check)
qed (simp add: register_cmds_def)

lemma only_try_calls:
  "only P s t \<Longrightarrow> list_all plain_call cs \<Longrightarrow> (\<And>u. only P s u \<Longrightarrow> only P s (k u)) \<Longrightarrow>
   only P s (try_calls E cs k t)"
  by (induction cs arbitrary: t) (auto intro: only_intros)

section \<open>BLE and Bluetooth\<close>

lemma only_ble_start [only_intros]:
  assumes "only P s t"
  shows "only P s (init_ble_svc E t)" "only P s (start_ble_server E t)" "only P s (init_bt E t)"
proof -
  have i: "only P s (init_ble_svc E u)" if "only P s u" for u
    using that by (auto simp: init_ble_svc_def Let_def intro!: only_intros)
  then show "only P s (init_ble_svc E t)" using assms .
  show "only P s (start_ble_server E t)" "only P s (init_bt E t)"
    using assms by (auto simp: start_ble_server_def init_bt_def stack_calls_def simp del: try_calls.simps
        intro!: only_try_calls i only_intros)
qed

lemma only_register_ble [only_elims]:
  "register_spp_ble E t = Inr t' \<Longrightarrow> only P s t \<Longrightarrow> only P s t'"
proof -
  assume a: "register_spp_ble E t = Inr t'" "only P s t"
  have "wp (register_spp_ble E t) (only P s)"
    unfolding register_spp_ble_def Let_def
    by (intro wp_all) (use a(2) in \<open>auto intro!: only_intros elim!: only_elims\<close>)
  then show ?thesis using a(1) by (rule wpD)
qed

lemma only_gap [only_intros]: "only P s t \<Longrightarrow> only P s (gap_event_handler e t)"
  by (cases e) (auto intro!: only_intros)

lemma only_bt_gap [only_intros]: "only P s t \<Longrightarrow> only P s (esp_bt_gap_cb e t)"
  by (cases e) (auto intro!: only_intros)

text \<open>The callback of a BLE write is never set.\<close>

lemma only_gatts:
  "gatts_event_handler cb e i t = Inr t' \<Longrightarrow> \<not> ble_onMessage (ble t) \<Longrightarrow> only P s t \<Longrightarrow> P_ble \<in> P \<Longrightarrow> only P s t'"
  by (cases e) (auto simp: Let_def split: if_splits intro!: only_intros)

section \<open>Raw advertising\<close>

lemma only_hci_send [only_elims]: "hci_send mk t = Inr t' \<Longrightarrow> only P s t \<Longrightarrow> P_hci \<in> P \<Longrightarrow> only P s t'"
  by (auto simp: hci_send_def Let_def bindE_eq_Inr intro!: only_intros)

lemma only_adv_turn:
  assumes "bleAdvtTask E i t = Inr t'" "only P s t" "P_hci \<in> P"
  shows "only P s t'"
proof -
  have h: "only P s (adv_loop_head i u)" if "only P s u" for u
    using that assms(3) by (auto simp: adv_loop_head_def intro!: only_intros)
  have c: "only P s u'" if "adv_command n u = Inr (n', u')" "only P s u" for n n' u u'
    using that assms(3)
    by (auto simp: adv_command_def bindE_eq_Inr hci_cmd_send_reset_def hci_cmd_send_ble_set_adv_param_def
        hci_cmd_send_ble_set_adv_data_def hci_cmd_send_ble_adv_start_def Let_def
        split: if_splits elim!: only_elims)
  show ?thesis
    using assms unfolding bleAdvtTask_def Let_def
    by (auto simp: bindE_eq_Inr split: option.splits if_splits intro!: h only_intros elim!: c)
qed

lemma only_host_rcv: "host_rcv_pkt d n t = Inr (r, t') \<Longrightarrow> only P s t \<Longrightarrow> only P s t'"
  by (auto simp: host_rcv_pkt_def bindE_eq_Inr intro!: only_intros)

section \<open>Display\<close>

lemma only_oled [only_intros]:
  "only P s t \<Longrightarrow> only P s (sendCommand x t)"
  "only P s t \<Longrightarrow> only P s (gpio_reset t)"
  by (simp_all add: sendCommand_def oled_link_def gpio_reset_def only_intros)

lemma only_setline [only_intros]: "only P s t \<Longrightarrow> only P s (snd (ui_setline n t))"
  by (simp add: ui_setline_def oled_link_def Let_def only_intros)

lemma only_writeChar: "writeChar c t = Inr t' \<Longrightarrow> only P s t \<Longrightarrow> only P s t'"
  by (auto simp: writeChar_def oled_link_def Let_def split: if_splits intro!: only_intros)

lemma only_writeChars [only_elims]: "writeChars cs t = Inr t' \<Longrightarrow> only P s t \<Longrightarrow> only P s t'"
proof (induction cs arbitrary: t)
  case (Cons c cs)
  then show ?case by (auto simp: bindE_eq_Inr dest: only_writeChar)
qed simp

lemma only_println [only_elims]:
  "ui_println x t = Inr t' \<Longrightarrow> only P s t \<Longrightarrow> P_line \<in> P \<Longrightarrow> only P s t'"
  unfolding ui_println_def Let_def by (auto simp: bindE_eq_Inr intro!: only_intros elim!: only_writeChars)

lemma only_ui_lines [only_elims]:
  "ui_lines fs t = Inr t' \<Longrightarrow> only P s t \<Longrightarrow> P_line \<in> P \<Longrightarrow> only P s t'"
proof (induction fs arbitrary: t)
  case (Cons f fs)
  then show ?case by (auto simp: bindE_eq_Inr dest: only_println)
qed simp

lemma only_task_ui:
  assumes "only P s t" "P_line \<in> P"
  shows "wp (task_ui E t) (only P s)"
proof -
  have l: "only P s u'" if "ui_setline 0 u = (n, u')" "only P s u" for u u' n
    using only_setline [OF that(2), of 0] that(1) by simp
  show ?thesis
    unfolding task_ui_def Let_def
    by (intro wp_all) (use assms in \<open>auto simp del: ui_lines.simps intro!: only_intros elim!: only_ui_lines l split: if_splits\<close>)
qed

section \<open>Bus tools\<close>

lemma only_bus [only_intros]:
  "only P s t \<Longrightarrow> only P s (i2c_open t)" "only P s t \<Longrightarrow> only P s (i2c_close t)"
  "only P s t \<Longrightarrow> only P s (emit (begin_link ops u) t)"
  by (simp_all add: i2c_open_def i2c_close_def i2c_master_driver_initialize_def begin_link_def only_intros)

lemma only_bus_init [only_elims]: "i2c_master_init E t = (err, t') \<Longrightarrow> only P s t \<Longrightarrow> only P s t'"
  by (auto simp: i2c_master_init_def Let_def split: prod.splits if_splits intro!: only_intros elim!: only_elims)

lemma only_i2cconfig:
  "do_i2cconfig_cmd a t = (r, t') \<Longrightarrow> only P s t \<Longrightarrow> P_i2c \<in> P \<Longrightarrow> only P s t'"
  by (auto simp: do_i2cconfig_cmd_def Let_def split: prod.splits if_splits option.splits intro!: only_intros)

lemma only_i2cdetect: "do_i2cdetect_cmd E t = (r, t') \<Longrightarrow> only P s t \<Longrightarrow> only P s t'"
  by (auto simp: do_i2cdetect_cmd_def detect_row_def detect_cell_def detect_link_def Let_def
      intro!: only_intros)

lemma only_i2cget: "do_i2cget_cmd E a t = Inr (r, t') \<Longrightarrow> only P s t \<Longrightarrow> only P s t'"
  by (auto simp: do_i2cget_cmd_def get_link_def Let_def split: if_splits intro!: only_intros)

lemma only_i2cset: "do_i2cset_cmd a t = (r, t') \<Longrightarrow> only P s t \<Longrightarrow> only P s t'"
  by (auto simp: do_i2cset_cmd_def set_link_def Let_def split: if_splits intro!: only_intros)

lemma only_dump_row [only_intros]:
  assumes "only P s t"
  shows "only P s (dump_row E ca n i t)"
proof -
  have r: "only P s (snd (dump_read E ca n k (b, u)))" if "only P s u" for k b u
    using that by (auto simp: dump_read_def dump_link_def Let_def intro!: only_intros)
  have f: "only P s (snd (fold (\<lambda>j. dump_read E ca n (i + n * j)) ks (b, u)))" if "only P s u" for ks b u
    using that
  proof (induction ks arbitrary: b u)
    case (Cons k ks)
    then show ?case using r [of u "i + n * k" b] by (cases "dump_read E ca n (i + n * k) (b, u)") simp
  qed simp
  show ?thesis
    using f [of "printf (hex2 (of_nat i) @ '': '') t" _ "[]"] assms
    by (auto simp: dump_row_def Let_def split: prod.splits intro!: only_intros)
      (metis only_printf snd_conv)
qed

lemma only_i2cdump: "do_i2cdump_cmd E a t = (r, t') \<Longrightarrow> only P s t \<Longrightarrow> only P s t'"
  by (auto simp: do_i2cdump_cmd_def Let_def split: if_splits option.splits intro!: only_intros)

section \<open>WiFi\<close>

lemma only_group [only_elims]: "group_call f as t = Inr t' \<Longrightarrow> only P s t \<Longrightarrow> only P s t'"
  by (auto simp: group_call_def split: if_splits intro!: only_intros)

lemma only_wifi_event:
  "wifi_event_handler b i t = Inr t' \<Longrightarrow> only P s t \<Longrightarrow> only P s t'"
  unfolding wifi_event_handler_def
  by (auto simp: bindE_eq_Inr split: if_splits intro!: only_intros elim!: only_elims)

lemma only_netif [only_elims]:
  "create_netif E f st t = Inr t' \<Longrightarrow> only P s t \<Longrightarrow> P_wifi \<in> P \<Longrightarrow> only P s t'"
  by (auto simp: create_netif_def Let_def split: if_splits intro!: only_intros)

lemma only_wifi_stop:
  assumes "only P s t" "P_wifi \<in> P"
  shows "wp (wifi_stop E t) (only P s)"
  unfolding wifi_stop_def Let_def
  by (intro wp_all)
    (use assms in \<open>auto simp del: checks.simps split: if_splits intro!: only_intros elim!: only_elims\<close>)

lemma only_wifi_sta:
  assumes "only P s t" "P_wifi \<in> P"
  shows "wp (wifi_sta E ssid pass t) (only P s)"
  unfolding wifi_sta_def initialise_wifi_def Let_def bindE_if bindE_assoc bindE_Inr
  by (intro wp_all wpI)
    (use assms in \<open>auto simp del: checks.simps split: if_splits intro!: only_intros elim!: only_elims\<close>)

lemma only_wifi_step: "wifi_step E e t = Inr t' \<Longrightarrow> only P s t \<Longrightarrow> P_wifi \<in> P \<Longrightarrow> only P s t'"
proof -
  have sta: "only P s u'" if "wifi_sta E x p u = Inr u'" "only P s u" "P_wifi \<in> P" for x p u u'
    using wpD [OF only_wifi_sta] that by blast
  have stop: "only P s u'" if "wifi_stop E u = Inr u'" "only P s u" "P_wifi \<in> P" for u u'
    using wpD [OF only_wifi_stop] that by blast
  have join: "only P s u'" if "wifi_join E x p n u = Inr (b, u')" "only P s u" "P_wifi \<in> P" for x p n b u u'
    using that by (auto simp: wifi_join_def Let_def bindE_eq_Inr elim!: only_elims dest!: sta)
  show "wifi_step E e t = Inr t' \<Longrightarrow> only P s t \<Longrightarrow> P_wifi \<in> P \<Longrightarrow> only P s t'"
  proof (cases e)
    case (InitWifi m x p)
    then show "wifi_step E e t = Inr t' \<Longrightarrow> only P s t \<Longrightarrow> P_wifi \<in> P \<Longrightarrow> only P s t'"
      by (auto simp: init_wifi_def Let_def bindE_eq_Inr split: option.splits if_splits
          intro!: only_intros elim!: sta)
  next
    case (WifiCmd a)
    then show "wifi_step E e t = Inr t' \<Longrightarrow> only P s t \<Longrightarrow> P_wifi \<in> P \<Longrightarrow> only P s t'"
      by (auto simp: cmd_wifi_def syncTime_def Let_def bindE_eq_Inr split: option.splits if_splits
          intro!: only_intros elim!: stop join)
  qed (auto elim: only_wifi_event)
qed

section \<open>Settings\<close>

lemma only_converted [only_elims]:
  "converted x t = (v, t') \<Longrightarrow> only P s t \<Longrightarrow> P_err \<in> P \<Longrightarrow> only P s t'"
  by (auto simp: converted_def split: if_splits intro!: only_intros)

lemma only_settings_calls [only_elims]:
  "nvs_put E fn key bs t = (err, t') \<Longrightarrow> only P s t \<Longrightarrow> only P s t'"
  "nvs_commit E t = (err, t') \<Longrightarrow> only P s t \<Longrightarrow> only P s t'"
  "nvs_open E mode t = (err, t') \<Longrightarrow> only P s t \<Longrightarrow> only P s t'"
  "get_number E fn key n x t = (err, t') \<Longrightarrow> only P s t \<Longrightarrow> only P s t'"
  by (auto simp: nvs_put_def nvs_commit_def nvs_open_def get_number_def Let_def intro!: only_intros)

lemma only_nvs_close [only_intros]: "only P s t \<Longrightarrow> only P s (nvs_close t)"
  by (simp add: nvs_close_def only_intros)

lemma only_store_blob [only_elims]: "store_blob E key x t = (err, t') \<Longrightarrow> only P s t \<Longrightarrow> only P s t'"
  by (auto simp: store_blob_def Let_def split: prod.splits if_splits option.splits
      intro!: only_intros elim!: only_elims)

lemma only_store_value [only_elims]:
  assumes "store_value E type key x t = (err, r, t')" "only P s t" "P_err \<in> P"
  shows "only P s t'"
proof -
  define Q where "Q = (\<lambda>r :: int \<times> bool \<times> dev. only P s (snd (snd r)))"
  have i: "Q (if c then a else b)" if "Q a" "Q b" for c a b using that by simp
  have z: "Q (e, b, t)" for e b using assms(2) by (simp add: Q_def)
  have n: "Q (let (v, u) = converted y t in if b v u then (e, q, u)
      else let (err, u) = nvs_put E fn key (bs v) u in (err, q', u))" for y b e q q' fn bs
    using assms(2,3) unfolding Q_def
    by (auto simp: Let_def split: prod.split elim!: only_elims)
  have p: "Q (let (err, u) = nvs_put E fn key bs t in (err, q, u))" for fn bs q
    using assms(2) unfolding Q_def by (auto simp: Let_def split: prod.split elim!: only_elims)
  have b: "Q (let (err, u) = store_blob E key x t in (err, q, u))" for q
    using assms(2) unfolding Q_def by (auto simp: Let_def split: prod.split elim!: only_elims)
  have "Q (store_value E type key x t)"
    unfolding store_value_def by (intro i z n p b)
  then show ?thesis by (simp add: assms(1) Q_def)
qed

lemma only_set_value: "set_value E a t = (r, t') \<Longrightarrow> only P s t \<Longrightarrow> P_err \<in> P \<Longrightarrow> only P s t'"
  by (auto simp: set_value_def set_value_in_nvs_def Let_def split: prod.splits if_splits
      intro!: only_intros elim!: only_elims)

lemma only_load_value [only_elims]:
  assumes "load_value E type key t = Inr (err, t')" "only P s t"
  shows "only P s t'"
proof -
  have i: "wp (if c then a else b) (\<lambda>(r, u). only P s u)"
    if "wp a (\<lambda>(r, u). only P s u)" "wp b (\<lambda>(r, u). only P s u)" for c and a b :: "fault + int \<times> dev"
    using that by simp
  have n: "wp (Inr (get_number E fn key n x t)) (\<lambda>(r, u). only P s u)" for fn n x
    using assms(2) by (auto simp: wp_def elim: only_elims)
  have b: "wp (get_bytes E fn key k t) (\<lambda>(r, u). only P s u)"
    if "\<And>null bs u u'. k null bs u = Inr u' \<Longrightarrow> only P s u \<Longrightarrow> only P s u'" for fn k
    unfolding get_bytes_def Let_def
    by (intro wp_all wpI) (use assms(2) in \<open>auto intro!: only_intros elim!: that split: if_splits\<close>)
  have k: "print_str null bs u = Inr u' \<Longrightarrow> only P s u \<Longrightarrow> only P s u'"
    "print_blob_at null bs u = Inr u' \<Longrightarrow> only P s u \<Longrightarrow> only P s u'" for null bs u u'
    by (auto simp: print_str_def print_blob_at_def print_blob_def split: if_splits intro!: only_intros)
  have "wp (load_value E type key t) (\<lambda>(r, u). only P s u)"
    unfolding load_value_def by (intro i n b [OF k(1)] b [OF k(2)]; (simp add: wp_def assms(2))?)
  then show ?thesis using assms(1) by (auto simp: wp_def)
qed

lemma only_get_value: "get_value E a t = Inr (r, t') \<Longrightarrow> only P s t \<Longrightarrow> only P s t'"
  by (auto simp: get_value_def get_value_from_nvs_def Let_def bindE_eq_Inr split: prod.splits if_splits
      intro!: only_intros elim!: only_elims)

lemma only_list_loop: "list_loop E i t = Some t' \<Longrightarrow> only P s t \<Longrightarrow> only P s t'"
proof (induction rule: list_loop.raw_induct [rotated, consumes 1, case_names step])
  case (step f E i t t')
  have k: "only P s (printf x (emit (Api ''nvs_entry_next'' [i]) (emit (Api ''nvs_entry_info'' [i]) t)))" for x
    using step.prems by (simp add: only_intros)
  show ?case
    using step k by (auto simp: Let_def split: if_splits)
qed

lemma only_list_entries: "list_entries E a t = Inr (r, t') \<Longrightarrow> only P s t \<Longrightarrow> only P s t'"
  by (auto simp: list_entries_def list_nvs_def Let_def bindE_eq_Inr returning_eq_Inr split: if_splits
      intro!: only_intros elim!: only_list_loop)

lemma only_set_namespace: "set_namespace a t = (r, t') \<Longrightarrow> only P s t \<Longrightarrow> P_ns \<in> P \<Longrightarrow> only P s t'"
  by (auto simp: set_namespace_def split: if_splits intro!: only_intros)

section \<open>System and pins\<close>

lemma only_restart [only_intros]: "only P s t \<Longrightarrow> only P s (restart t)"
  by (simp add: restart_def only_intros)

lemma only_info:
  "get_version E t = (r, t') \<Longrightarrow> only P s t \<Longrightarrow> only P s t'"
  "free_mem E t = (r, t') \<Longrightarrow> only P s t \<Longrightarrow> only P s t'"
  "heap_size t = (r, t') \<Longrightarrow> only P s t \<Longrightarrow> only P s t'"
  "tasks_info E t = Inr (r, t') \<Longrightarrow> only P s t \<Longrightarrow> only P s t'"
  "gpio_cmd g t = (r, t') \<Longrightarrow> only P s t \<Longrightarrow> only P s t'"
proof -
  show "get_version E t = (r, t') \<Longrightarrow> only P s t \<Longrightarrow> only P s t'"
    unfolding get_version_def Let_def by (elim Pair_inject, hypsubst, intro only_intros) simp_all
qed (auto simp: free_mem_def heap_size_def tasks_info_def gpio_cmd_def Let_def
    split: if_splits option.splits intro!: only_intros)

lemma only_deep_sleep: "deep_sleep E a t = Inr (r, t') \<Longrightarrow> only P s t \<Longrightarrow> only P s t'"
proof -
  have d: "only P s u'" if "dmesh_enter_deep_sleep E n u = Inr (b, u')" "only P s u" for n b u u'
    using that unfolding dmesh_enter_deep_sleep_def Let_def
    by (auto simp: bindE_eq_Inr split: if_splits intro!: only_intros elim!: only_elims)
  have i: "only P s u'" if "deep_sleep_io E a u = Inr (b, u')" "only P s u" for b u u'
    using that unfolding deep_sleep_io_def Let_def
    by (auto simp: bindE_eq_Inr split: if_splits option.splits intro!: only_intros elim!: only_elims)
  show "deep_sleep E a t = Inr (r, t') \<Longrightarrow> only P s t \<Longrightarrow> only P s t'"
    unfolding deep_sleep_def
    by (auto simp: bindE_eq_Inr split: if_splits option.splits intro!: only_intros elim!: only_check i d)
qed

lemma only_uart_wakeup [only_elims]: "uart_wakeup E t = Inr t' \<Longrightarrow> only P s t \<Longrightarrow> only P s t'"
  by (auto simp: uart_wakeup_def bindE_eq_Inr elim!: only_elims)

lemma only_configure [only_elims]: "configure_light_sleep E n t = Inr t' \<Longrightarrow> only P s t \<Longrightarrow> only P s t'"
  by (auto simp: configure_light_sleep_def elim!: only_elims)

lemma only_wakeup_pins [only_elims]: "wakeup_pins E ps t = Inr (b, t') \<Longrightarrow> only P s t \<Longrightarrow> only P s t'"
proof (induction ps arbitrary: t)
  case (Cons p ps)
  then have "only P s (emit (Api ''gpio_wakeup_enable'' as) t)" for as by (simp add: only_intros)
  then show ?case using Cons by (cases p) (auto simp: check_eq_Inr bindE_eq_Inr split: if_splits)
qed simp

lemma only_light_sleep:
  assumes "only P s t"
  shows "wp (light_sleep E a t) (\<lambda>(r, t'). only P s t')"
  unfolding light_sleep_def Let_def
  by (intro wp_all wpI)
    (use assms in \<open>auto simp del: wakeup_pins.simps split: if_splits option.splits
      intro!: only_intros elim!: only_elims\<close>)

section \<open>Console\<close>

lemma only_getlock: "only P s t \<Longrightarrow> P_lock \<in> P \<Longrightarrow> P_pm \<in> P \<Longrightarrow> only P s (getlock t)"
  by (simp add: getlock_def only_lock_emit only_intros)

lemma only_report [only_intros]: "only P s t \<Longrightarrow> only P s (console_report E err r t)"
  by (auto simp: console_report_def error_name_def Let_def split: if_splits intro!: only_intros)

section \<open>Start\<close>

lemma only_initialize_console [only_elims]:
  "initialize_console E t = Inr t' \<Longrightarrow> only P s t \<Longrightarrow> only P s t'"
  unfolding initialize_console_def Let_def
  by (auto simp: bindE_eq_Inr intro!: only_intros elim!: only_elims)

lemma only_registrations [only_elims]:
  "register_lora_cmd E t = Inr t' \<Longrightarrow> only P s t \<Longrightarrow> only P s t'"
  "register_bt_cmd E t = Inr t' \<Longrightarrow> only P s t \<Longrightarrow> only P s t'"
  "register_wifi E t = Inr t' \<Longrightarrow> only P s t \<Longrightarrow> only P s t'"
  "console_register_nan E t = Inr t' \<Longrightarrow> only P s t \<Longrightarrow> only P s t'"
  "register_dmesh E t = Inr t' \<Longrightarrow> only P s t \<Longrightarrow> only P s t'"
  "register_dmesh_nvs E t = Inr t' \<Longrightarrow> only P s t \<Longrightarrow> only P s t'"
  "register_dmesh_system E t = Inr t' \<Longrightarrow> only P s t \<Longrightarrow> only P s t'"
  "register_gpio E t = Inr t' \<Longrightarrow> only P s t \<Longrightarrow> only P s t'"
  "register_i2ctools E t = Inr t' \<Longrightarrow> only P s t \<Longrightarrow> only P s t'"
  by (auto simp: register_lora_cmd_def register_bt_cmd_def register_wifi_def console_register_nan_def
      register_dmesh_def register_dmesh_nvs_def register_dmesh_system_def register_gpio_def
      register_i2ctools_def bindE_eq_Inr intro!: only_intros elim!: only_elims)

lemma only_register_ui [only_intros]:
  assumes "only P s t" "P_rst \<in> P"
  shows "only P s (register_ui E t)"
  using assms unfolding register_ui_def ssd1306_init_def oled_link_def Let_def
  by (auto split: prod.splits if_splits intro!: only_intros elim!: only_elims)

lemma only_register_console:
  assumes "only P s t" "P_rst \<in> P"
  shows "wp (register_console E t) (only P s)"
  unfolding register_console_def Let_def
  by (intro wp_all) (use assms in \<open>auto intro!: only_intros elim!: only_elims\<close>)

lemma only_power_setup: "power_setup E t = Inr t' \<Longrightarrow> only P s t \<Longrightarrow> only P s t'"
proof -
  assume a: "power_setup E t = Inr t'" "only P s t"
  have "wp (power_setup E t) (only P s)"
    unfolding power_setup_def Let_def
    by (intro wp_all wpI) (use a(2) in \<open>auto intro!: only_intros elim!: only_elims\<close>)
  then show ?thesis using a(1) by (rule wpD)
qed

lemma only_read_text: "read_text E key n t = Inr (x, t') \<Longrightarrow> only P s t \<Longrightarrow> only P s t'"
  by (auto simp: read_text_def Let_def split: if_splits intro!: only_intros)

lemma only_initialize_nvs: "initialize_nvs E t = Inr t' \<Longrightarrow> only P s t \<Longrightarrow> only P s t'"
  by (auto simp: initialize_nvs_def Let_def bindE_eq_Inr split: if_splits intro!: only_intros elim!: only_elims)

end
