(* ===== verification/Device.thy ===== *)
theory Device
  imports NanMachine Transports Frames Commands
begin

text \<open>
  The whole device as one machine: power-on, the callbacks of the radio stacks, the timers, the tasks
  and the console, in any order.  A step is one callback or one round of a task; the tasks of the
  firmware are not interleaved inside it.
\<close>

section \<open>Steps\<close>

datatype dev_event =
    PowerOn u32
  | NanFrame int u32 "u8 list"
  | NanTimer
  | NanStarted
  | Lora lora_event
  | LoraInterrupt int
  | Gatts gatts_event u8
  | Gap gap_event
  | Gattc int
  | Spp spp_event
  | BtGap bt_gap_event
  | WifiEv event_base int
  | AdvTurn nat
  | UiStart
  | UiRound
  | MeshTimer
  | Console console_event

text \<open>
  Reset clears all variables but \<open>firstBoot\<close>, which lies in memory that a deep sleep may preserve.  The
  history goes on.  After \<open>esp_restart\<close> or the start of deep sleep nothing runs but power-on.  An event
  whose handler faults has no step: after a failed check or \<open>assert\<close> the platform restarts the firmware,
  which is a power-on, and after an access out of bounds nothing can be said.
\<close>

definition reset :: "u32 \<Rightarrow> dev \<Rightarrow> dev" where
  "reset fb s = boot\<lparr>hist := hist s, main := \<lparr>firstBoot = fb, resetTime = 0\<rparr>\<rparr>"

definition halted :: "dev \<Rightarrow> bool" where
  "halted s \<longleftrightarrow> hist s \<noteq> [] \<and> last (hist s) \<in> {Api ''esp_restart'' [], Api ''esp_deep_sleep_start'' []}"

text \<open>
  The callback of received messages is \<open>onMessage\<close> wherever one is called.  A task that advertises
  exists where the list of such tasks has its entry.
\<close>

inductive dev_step :: "env \<Rightarrow> shell \<Rightarrow> dev_event \<Rightarrow> dev \<Rightarrow> dev \<Rightarrow> bool" for E :: env and sh :: shell where
  power_on: "app_main E (reset fb s) = Inr s' \<Longrightarrow> dev_step E sh (PowerOn fb) s s'"
| nan_frame: "\<not> halted s \<Longrightarrow> nan_step E (Captured type len frame) s = Inr s' \<Longrightarrow>
    dev_step E sh (NanFrame type len frame) s s'"
| nan_timer: "\<not> halted s \<Longrightarrow> nan_step E TimerFired s = Inr s' \<Longrightarrow> dev_step E sh NanTimer s s'"
| nan_started: "\<not> halted s \<Longrightarrow> nan_step E WifiStarted s = Inr s' \<Longrightarrow> dev_step E sh NanStarted s s'"
| lora_task: "\<not> halted s \<Longrightarrow> lora_step E (onMessage E) l s = Inr s' \<Longrightarrow> dev_step E sh (Lora l) s s'"
| lora_interrupt: "\<not> halted s \<Longrightarrow> dev_step E sh (LoraInterrupt n) s (lora_isr_handler n s)"
| gatts: "\<not> halted s \<Longrightarrow> gatts_event_handler (onMessage E) g i s = Inr s' \<Longrightarrow> dev_step E sh (Gatts g i) s s'"
| gap: "\<not> halted s \<Longrightarrow> dev_step E sh (Gap ge) s (gap_event_handler ge s)"
| gattc: "\<not> halted s \<Longrightarrow> dev_step E sh (Gattc n) s (esp_gattc_cb n s)"
| spp: "\<not> halted s \<Longrightarrow> esp_spp_cb (onMessage E) p s = Inr s' \<Longrightarrow> dev_step E sh (Spp p) s s'"
| bt_gap: "\<not> halted s \<Longrightarrow> dev_step E sh (BtGap be) s (esp_bt_gap_cb be s)"
| wifi: "\<not> halted s \<Longrightarrow> wifi_event_handler b n s = Inr s' \<Longrightarrow> dev_step E sh (WifiEv b n) s s'"
| adv: "\<not> halted s \<Longrightarrow> i < length (adv_tasks (hci s)) \<Longrightarrow> bleAdvtTask E i s = Inr s' \<Longrightarrow>
    dev_step E sh (AdvTurn i) s s'"
| ui_start: "\<not> halted s \<Longrightarrow> task_ui_start E s = Inr s' \<Longrightarrow> dev_step E sh UiStart s s'"
| ui: "\<not> halted s \<Longrightarrow> task_ui E s = Inr s' \<Longrightarrow> dev_step E sh UiRound s s'"
| mesh_timer: "\<not> halted s \<Longrightarrow> dev_step E sh MeshTimer s (dmesh_timerCB s)"
| console: "\<not> halted s \<Longrightarrow> console_task E (run_line E sh) c s = Inr s' \<Longrightarrow> dev_step E sh (Console c) s s'"

inductive_cases dev_step_sppE: "dev_step E sh (Spp p) s s'"
inductive_cases dev_step_consoleE: "dev_step E sh (Console c) s s'"

inductive dev_run :: "env \<Rightarrow> shell \<Rightarrow> dev_event list \<Rightarrow> dev \<Rightarrow> dev \<Rightarrow> bool" for E :: env and sh :: shell where
  start: "dev_run E sh [] s s"
| more: "dev_run E sh es s t \<Longrightarrow> dev_step E sh e t u \<Longrightarrow> dev_run E sh (es @ [e]) s u"

section \<open>Well-formed parts\<close>

text \<open>The raw advertising driver is never started: the firmware does not register its command.\<close>

primrec part_wf :: "part \<Rightarrow> dev \<Rightarrow> bool" where
  "part_wf P_nan s \<longleftrightarrow> nan_wf s"
| "part_wf P_lo s \<longleftrightarrow> lora_wf s"
| "part_wf P_ble s \<longleftrightarrow> \<not> ble_onMessage (ble s) \<and> length (spp_remote_bda (ble s)) = 6 \<and>
     length (spp_handle_table (ble s)) = SPP_IDX_NB"
| "part_wf P_bt s \<longleftrightarrow> True"
| "part_wf P_hci s \<longleftrightarrow> hci s = hci boot"
| "part_wf P_i2c s \<longleftrightarrow> i2c_port (i2c s) = 0 \<or> i2c_port (i2c s) = 1"
| "part_wf P_line s \<longleftrightarrow> 0 \<le> ui_line (ui s) \<and> ui_line (ui s) \<le> 8"
| "part_wf P_rst s \<longleftrightarrow> True"
| "part_wf P_lock s \<longleftrightarrow> True"
| "part_wf P_ns s \<longleftrightarrow> length (current_namespace (con s)) \<le> 15"
| "part_wf P_err s \<longleftrightarrow> True"
| "part_wf P_wifi s \<longleftrightarrow> wifi_ok s"
| "part_wf P_main s \<longleftrightarrow> True"
| "part_wf P_msgs s \<longleftrightarrow> True"
| "part_wf P_pm s \<longleftrightarrow> True"

definition dev_wf :: "dev \<Rightarrow> bool" where
  "dev_wf s \<longleftrightarrow> (\<forall>p. part_wf p s)"

lemma dev_wfD: "dev_wf s \<Longrightarrow> part_wf p s"
  by (simp add: dev_wf_def)

lemma same_wf: "same p s t \<Longrightarrow> part_wf p s \<Longrightarrow> part_wf p t"
  by (cases p) (simp_all add: nan_wf_def lora_wf_def wifi_ok_def)

lemma dev_wf_boot: "dev_wf (reset fb s)"
proof -
  have "part_wf p boot" for p
    using boot_simps(1) lora_wf_boot
    by (cases p) (simp_all add: boot_def wifi_ok_def SPP_IDX_NB_def)
  moreover have "part_wf p (reset fb s) = part_wf p boot" for p
    by (cases p) (simp_all add: reset_def nan_wf_def lora_wf_def wifi_ok_def)
  ultimately show ?thesis by (simp add: dev_wf_def)
qed

text \<open>
  A step is fine if it keeps the parts well formed, puts nothing on a serial link and leaves the power
  lock alone.
\<close>

definition fine :: "dev \<Rightarrow> dev \<Rightarrow> bool" where
  "fine s t \<longleftrightarrow> same P_msgs s t \<and> same P_pm s t \<and> same P_lock s t \<and> (dev_wf s \<longrightarrow> dev_wf t)"

abbreviation own_parts :: "part set" where
  "own_parts \<equiv> - {P_msgs, P_pm, P_lock}"

lemma only_wf: "only P s t \<Longrightarrow> dev_wf s \<Longrightarrow> (\<And>p. p \<in> P \<Longrightarrow> part_wf p t) \<Longrightarrow> dev_wf t"
  unfolding dev_wf_def only_def using same_wf by blast

lemma fineI: "only P s t \<Longrightarrow> P \<subseteq> own_parts \<Longrightarrow> (\<And>p. dev_wf s \<Longrightarrow> p \<in> P \<Longrightarrow> part_wf p t) \<Longrightarrow> fine s t"
  unfolding fine_def using only_wf onlyD by blast

lemma fine_one: "only {p} s t \<Longrightarrow> p \<in> own_parts \<Longrightarrow> (dev_wf s \<Longrightarrow> part_wf p t) \<Longrightarrow> fine s t"
  by (rule fineI) auto

lemma fine_nothing: "only {} s t \<Longrightarrow> fine s t"
  by (rule fineI) auto

lemma fine_refl: "fine s s"
  by (rule fine_nothing) (rule only_refl)

lemma fine_trans: "fine s t \<Longrightarrow> fine t u \<Longrightarrow> fine s u"
  unfolding fine_def by (blast intro: same_trans)

section \<open>Commands are fine\<close>

lemma returns_eq: "returns m = Inr (r, t) \<longleftrightarrow> (\<exists>v. m = Inr (v, t) \<and> r = Some v)"
  by (auto simp: returns_def bindE_eq_Inr)

lemma fine_nan: "nan_step E e s = Inr t \<Longrightarrow> fine s t"
  by (drule nan_step_keeps, rule fine_one [where p = P_nan])
    (auto simp: nan_keeps_def dest: dev_wfD [where p = P_nan])

lemma fine_lora: "lora_keeps {P_lo} s t \<Longrightarrow> fine s t"
  by (rule fine_one [where p = P_lo]) (auto simp: lora_keeps_def lora_wf_def dest: dev_wfD [where p = P_lo])

lemma fine_wifi: "wifi_step E e s = Inr t \<Longrightarrow> fine s t"
proof (rule fine_one [where p = P_wifi])
  assume a: "wifi_step E e s = Inr t"
  show "only {P_wifi} s t" using only_wifi_step [OF a only_refl] by simp
  show "part_wf P_wifi t" if "dev_wf s"
    using wifi_step_ok [OF _ a] dev_wfD [OF that, of P_wifi] by simp
qed simp

lemma fine_cmd_lora: "cmd_lora E a s = Inr (r, t) \<Longrightarrow> fine s t"
  unfolding cmd_lora_def
  by (auto simp: bindE_eq_Inr split: if_splits option.splits intro!: fine_lora lk_intros
      dest: lk_beacon [OF _ lk_refl])

lemma fine_nvs: "c \<in> set nvs_cmds \<Longrightarrow> call_cmd (cc_func c) E ap argv s = Inr (r, t) \<Longrightarrow> fine s t"
proof -
  have set_v: "set_value E a s = (v, t) \<Longrightarrow> fine s t" for a v t
    by (rule fine_one [where p = P_err, OF only_set_value [OF _ only_refl]]) simp_all
  have get_v: "get_value E a s = Inr (v, t) \<Longrightarrow> fine s t" for a v t
    by (rule fine_nothing) (rule only_get_value [OF _ only_refl])
  have ns: "set_namespace a s = (v, t) \<Longrightarrow> fine s t" for a v t
  proof -
    assume a: "set_namespace a s = (v, t)"
    then have "t = s \<or> length (current_namespace (con t)) \<le> 15"
      by (auto simp: set_namespace_def upd_con_def split: if_splits)
    then show "fine s t"
      by (intro fine_one [where p = P_ns, OF only_set_namespace [OF a only_refl]]) (auto dest: dev_wfD [where p = P_ns])
  qed
  have ls: "list_entries E a s = Inr (v, t) \<Longrightarrow> fine s t" for a v t
    by (rule fine_nothing) (rule only_list_entries [OF _ only_refl])
  show "c \<in> set nvs_cmds \<Longrightarrow> call_cmd (cc_func c) E ap argv s = Inr (r, t) \<Longrightarrow> fine s t"
    by (auto simp: nvs_cmd_defs bindE_eq_Inr returns_eq dest: set_v get_v ns ls)
qed

lemma fine_system:
  "c \<in> set system_cmds \<Longrightarrow> call_cmd (cc_func c) E ap argv s = Inr (r, t) \<Longrightarrow> fine s t"
  by (rule fine_nothing)
    (auto simp: system_cmd_defs bindE_eq_Inr returns_eq intro!: only_intros
      dest: only_info [OF _ only_refl] only_deep_sleep [OF _ only_refl] wpD [OF only_light_sleep [OF only_refl]])

lemma fine_i2c: "c \<in> set i2c_cmds \<Longrightarrow> call_cmd (cc_func c) E ap argv s = Inr (r, t) \<Longrightarrow> fine s t"
proof -
  have cfg: "do_i2cconfig_cmd a s = (v, t) \<Longrightarrow> fine s t" for a v t
  proof -
    assume a: "do_i2cconfig_cmd a s = (v, t)"
    then have "t = s \<or> i2c_port (i2c t) = 0 \<or> i2c_port (i2c t) = 1 \<or> i2c_port (i2c t) = i2c_port (i2c s)"
      by (auto simp: do_i2cconfig_cmd_def i2c_get_port_def upd_i2c_def Let_def split: if_splits option.splits prod.splits)
    then show "fine s t"
      by (intro fine_one [where p = P_i2c, OF only_i2cconfig [OF a only_refl]]) (auto dest: dev_wfD [where p = P_i2c])
  qed
  show "c \<in> set i2c_cmds \<Longrightarrow> call_cmd (cc_func c) E ap argv s = Inr (r, t) \<Longrightarrow> fine s t"
    by (auto simp: i2c_cmd_defs bindE_eq_Inr returns_eq dest: cfg fine_nothing [OF only_i2cdetect [OF _ only_refl]]
        fine_nothing [OF only_i2cget [OF _ only_refl]] fine_nothing [OF only_i2cset [OF _ only_refl]]
        fine_nothing [OF only_i2cdump [OF _ only_refl]])
qed

lemma fine_others:
  assumes "c \<in> {lora_cc, wifi_cc, ble_cc, bt_cc, nan_cc, gpio_cc}"
    "call_cmd (cc_func c) E ap argv s = Inr (r, t)"
  shows "fine s t"
proof -
  have nan: "cmd_nan E a s = Inr (v, t) \<Longrightarrow> fine s t" for a v t
    using fine_nan [of E "Command a" s t] by simp
  have wifi: "cmd_wifi E a s = Inr (v, t) \<Longrightarrow> fine s t" for a v t
    using fine_wifi [of E "WifiCmd a" s t] by simp
  have ble: "ble_cmd E a s = (v, t) \<Longrightarrow> fine s t" for a v t
    by (rule fine_nothing) (auto simp: ble_cmd_def split: if_splits intro!: only_intros)
  have bt: "cmd_bt E a s = (v, t) \<Longrightarrow> fine s t" for a v t
    by (rule fine_nothing) (auto simp: cmd_bt_def split: if_splits intro!: only_intros)
  have gpio: "gpio_cmd a s = (v, t) \<Longrightarrow> fine s t" for a v t
    by (rule fine_nothing) (rule only_info(5) [OF _ only_refl])
  show ?thesis
    using assms by (auto simp: lora_cc_def wifi_cc_def ble_cc_def bt_cc_def nan_cc_def gpio_cc_def bindE_eq_Inr
      returns_eq dest: nan wifi ble bt gpio fine_cmd_lora)
qed

lemma fine_run_line: "run_line E sh line s = Inr (r, t) \<Longrightarrow> fine s t"
proof -
  assume a: "run_line E sh line s = Inr (r, t)"
  have f: "fine s t" if "c \<in> set console_cmds" "call_cmd (cc_func c) E (sh_parse sh) argv s = Inr (v, t)" for c argv v t
    using that(1) fine_nvs [OF _ that(2)] fine_system [OF _ that(2)] fine_i2c [OF _ that(2)] fine_others [OF _ that(2)]
    by (auto simp: console_cmds_def simp del: call_cmd.simps)
  show "fine s t"
    using a fine_refl unfolding run_line_def
    by (auto simp: bindE_eq_Inr split: lookup.splits if_splits dest: f [OF nth_mem] simp del: call_cmd.simps)
qed

section \<open>Steps are fine\<close>

text \<open>Display rounds.\<close>

lemma println_line: "ui_println x t = Inr t' \<Longrightarrow> ui_line (ui t') = ui_line (ui t) + 1"
proof -
  have w: "ui_line (ui u') = ui_line (ui u)" if "writeChars cs u = Inr u'" for cs u u'
    using onlyD [OF only_writeChars [OF that only_refl], of P_line "{}"] by simp
  show "ui_println x t = Inr t' \<Longrightarrow> ui_line (ui t') = ui_line (ui t) + 1"
    unfolding ui_println_def ui_setline_def upd_ui_def Let_def by (auto simp: bindE_eq_Inr dest!: w)
qed

lemma lines_line: "ui_lines fs t = Inr t' \<Longrightarrow> ui_line (ui t') = ui_line (ui t) + int (length fs)"
  by (induction fs arbitrary: t) (auto simp: bindE_eq_Inr dest: println_line)

lemma round_line: "task_ui E s = Inr t \<Longrightarrow> ui_line (ui t) = 8"
  unfolding task_ui_def Let_def ui_setline_def
  by (auto simp: bindE_eq_Inr upd_ui_def simp del: ui_lines.simps dest!: lines_line split: if_splits)

text \<open>Routing a message touches the LoRa driver and the links.\<close>

lemma only_ble_loop:
  "ble_loop f mtu data sz n c buf t = Inr t' \<Longrightarrow> only P s t \<Longrightarrow> P_msgs \<in> P \<Longrightarrow> only P s t'"
proof (induction f arbitrary: c buf t)
  case (Suc f)
  have "only P s (emit (TaskDelay m) (emit (Notify x y z v) t))" for m x y z v
    using Suc.prems by (simp add: only_emit only_messages)
  then show ?case
    using Suc by (auto simp: Let_def bindE_eq_Inr indicate_def split: if_splits)
qed simp

lemma only_bleSend: "bleSend E k c n t = Inr t' \<Longrightarrow> only P s t \<Longrightarrow> P_msgs \<in> P \<Longrightarrow> only P s t'"
  unfolding bleSend_def Let_def
  by (auto simp: bindE_eq_Inr indicate_def simp del: ble_loop.simps split: if_splits
      intro!: only_intros only_messages elim!: only_ble_loop)

lemma only_onMessage:
  assumes "onMessage E c n k s = Inr t"
  shows "only {P_lo, P_msgs} s t"
proof -
  have l: "only {P_lo, P_msgs} u u'" if "loraSend E 0 c n u = Inr u'" for u u'
    using loraSend_only [OF that] by (rule only_mono) simp
  have b: "only {P_lo, P_msgs} u u'" if "bleSend E 0 c n u = Inr u'" for u u'
    using only_bleSend [OF that only_refl] by simp
  have w: "only {P_lo, P_msgs} u u'" if "btSend 0 c n u = Inr u'" for u u'
    using that by (auto simp: btSend_def bindE_eq_Inr split: if_splits intro!: only_refl only_messages)
  show ?thesis
    using assms by (auto simp: onMessage_def bindE_eq_Inr split: if_splits dest!: l b w intro: only_trans)
qed

lemma onMessage_wf: "onMessage E c n k s = Inr t \<Longrightarrow> dev_wf s \<Longrightarrow> dev_wf t"
proof -
  assume a: "onMessage E c n k s = Inr t" "dev_wf s"
  have lo: "lo u' = lo u" if "only {P_msgs} u u'" for u u' using onlyD [OF that, of P_lo] by simp
  have b: "lo u' = lo u" if "bleSend E 0 c n u = Inr u'" for u u'
    by (rule lo) (use only_bleSend [OF that only_refl] in simp)
  have w: "lo u' = lo u" if "btSend 0 c n u = Inr u'" for u u'
    by (rule lo) (use that in \<open>auto simp: btSend_def bindE_eq_Inr split: if_splits intro!: only_refl only_messages\<close>)
  have "lora_wf t"
    using a dev_wfD [OF a(2), of P_lo]
    by (auto simp: onMessage_def bindE_eq_Inr lora_wf_def split: if_splits dest!: b w loraSend_lo)
  then show "dev_wf t" by (intro only_wf [OF only_onMessage [OF a(1)] a(2)]) auto
qed

text \<open>The start: the operations of which it consists extend any fine step.\<close>

lemma fine_main: "fine s u \<Longrightarrow> fine s (upd_main f u)"
  by (rule fine_trans, assumption, rule fine_one [where p = P_main]) (auto intro!: only_intros)

lemma fine_emit: "fine s u \<Longrightarrow> plain_call c \<Longrightarrow> fine s (emit c u)"
  "fine s u \<Longrightarrow> list_all plain_call cs \<Longrightarrow> fine s (emits cs u)"
  by (rule fine_trans, assumption, rule fine_nothing, simp add: only_intros)+

lemma fine_ops:
  assumes "fine s u"
  shows "wp (initialize_nvs E u) (fine s)" "wp (power_setup E u) (fine s)"
    "wp (read_text E key k u) (\<lambda>p. fine s (snd p))" "wp (register_console E u) (fine s)"
    "wp (nanStart E u) (fine s)" "wp (init_wifi E md y z u) (\<lambda>p. fine s (snd p))" "wp (register_lora E u) (fine s)"
    "fine s (snd (currentTimeMicro E u))" "fine s (snd (snd (nvs_get_i32 E key d u)))"
    "plain_call ch \<Longrightarrow> wp (check E ch u) (fine s)" "list_all plain_call cs \<Longrightarrow> wp (checks E cs u) (fine s)"
proof -
  note x = fine_trans [OF assms fine_nothing]
  have "nan_keeps u u' \<Longrightarrow> fine s u'" for u'
    using fine_trans [OF assms fine_one [where p = P_nan]] dev_wfD [where p = P_nan] by (auto simp: nan_keeps_def)
  then show "wp (nanStart E u) (fine s)" using nanStart_keeps by (rule wp_mono [rotated])
  show "wp (init_wifi E md y z u) (\<lambda>p. fine s (snd p))"
    using fine_trans [OF assms fine_wifi [of E "InitWifi md y z" u]] by (auto simp: wp_def)
  show "wp (register_lora E u) (fine s)"
    using wpD [OF lk_register_lora [OF lk_refl, of "{P_lo}" E]] fine_trans [OF assms fine_lora]
    by (auto simp: wp_def)
  show "wp (register_console E u) (fine s)"
    using wpD [OF only_register_console [OF only_refl, of "{P_rst}" E u]]
      fine_trans [OF assms fine_one [where p = P_rst]] by (auto simp: wp_def)
  show "wp (initialize_nvs E u) (fine s)" "wp (power_setup E u) (fine s)"
    "wp (read_text E key k u) (\<lambda>p. fine s (snd p))"
    "fine s (snd (currentTimeMicro E u))" "fine s (snd (snd (nvs_get_i32 E key d u)))"
    "plain_call ch \<Longrightarrow> wp (check E ch u) (fine s)" "list_all plain_call cs \<Longrightarrow> wp (checks E cs u) (fine s)"
    using x [OF only_initialize_nvs [OF _ only_refl]] x [OF only_power_setup [OF _ only_refl]]
      x [OF only_read_text [OF _ only_refl]] x [OF only_check [OF _ only_refl]]
      x [OF only_checks [OF _ only_refl]] fine_emit(1) [OF assms]
    by (auto simp: wp_def currentTimeMicro_def nvs_get_i32_def Let_def)
qed

lemmas fine_intros = fine_ops fine_emit fine_main

lemma fine_begin: "wp (app_begin E s) (fine s)"
  using fine_refl unfolding app_begin_def Let_def split_def
  by (intro wp_seq [where Q = "fine s"] wp_Inr) (auto simp: split_def simp del: checks.simps intro!: fine_intros)

lemma fine_rest: "wp (app_rest E s) (fine s)"
  using fine_refl unfolding app_rest_def Let_def split_def
  by (intro wp_seq [where Q = "fine s"] wp_seq [where Q = "\<lambda>p. fine s (snd p)"] wp_Inr)
    (auto simp: split_def intro!: fine_intros wp_Inr wp_seq [where Q = "\<lambda>p. fine s (snd p)"])

text \<open>After the start the power lock exists and nobody holds it.\<close>

lemma start_wf:
  assumes "app_main E s = Inr t" "dev_wf s"
  shows "dev_wf t \<and> same P_msgs s t \<and> same P_lock s t \<and> pm_count (hist t) = 0"
proof -
  obtain u where u: "app_begin E s = Inr u" "app_rest E (emit (ApiS ''esp_pm_lock_create'' [''dmsh'']) u) = Inr t"
    using assms(1) by (auto simp: app_main_def check_eq_Inr bindE_eq_Inr)
  let ?u = "emit (ApiS ''esp_pm_lock_create'' [''dmsh'']) u"
  have c: "only {P_pm} u ?u" by (rule only_lock_emit [OF only_refl]) simp_all
  have "dev_wf ?u \<and> same P_msgs s ?u \<and> same P_lock s ?u"
    using wpD [OF fine_begin u(1)] assms(2) only_wf [OF c] by (auto simp: fine_def)
  moreover have "pm_count (hist ?u) = 0" by (simp add: pm_count_append)
  ultimately show ?thesis
    using wpD [OF fine_rest u(2)] by (auto simp: fine_def)
qed

section \<open>Every step\<close>

text \<open>Between the start and the next reset the console holds the lock once or not at all.\<close>

definition lock_ok :: "dev \<Rightarrow> bool" where
  "lock_ok s \<longleftrightarrow> pm_count (hist s) = (if lock_held (con s) then 1 else 0)"

text \<open>What arrives on the serial connections.\<close>

fun serial_data :: "dev_event list \<Rightarrow> u8 list list" where
  "serial_data [] = []"
| "serial_data (Spp (SppDataInd h v w) # es) = v # serial_data es"
| "serial_data (e # es) = serial_data es"

lemma serial_data_append: "serial_data (es @ es') = serial_data es @ serial_data es'"
  by (induction es rule: serial_data.induct) auto

definition step_ok :: "dev_event \<Rightarrow> dev \<Rightarrow> dev \<Rightarrow> bool" where
  "step_ok e s t \<longleftrightarrow> dev_wf t \<and> (serial_data [e] = [] \<longrightarrow> same P_msgs s t) \<and>
     (lock_ok s \<or> (\<exists>fb. e = PowerOn fb) \<longrightarrow> lock_ok t)"

lemma lock_ok_same: "same P_pm s t \<Longrightarrow> same P_lock s t \<Longrightarrow> lock_ok s \<Longrightarrow> lock_ok t"
  by (simp add: lock_ok_def)

lemma fine_ok: "fine s t \<Longrightarrow> dev_wf s \<Longrightarrow> \<forall>fb. e \<noteq> PowerOn fb \<Longrightarrow> step_ok e s t"
  unfolding step_ok_def fine_def using lock_ok_same by blast

lemma only_ok:
  assumes "only P s t" "dev_wf s" "\<And>p. p \<in> P \<Longrightarrow> part_wf p t" "P \<subseteq> own_parts \<union> {P_msgs}"
    "P_msgs \<in> P \<longrightarrow> serial_data [e] \<noteq> []" "\<forall>fb. e \<noteq> PowerOn fb"
  shows "step_ok e s t"
  using only_wf [OF assms(1-3)] onlyD [OF assms(1)] assms(4-6) lock_ok_same unfolding step_ok_def by blast

lemma gatts_ok:
  assumes "gatts_event_handler cb g i s = Inr t" "dev_wf s"
  shows "step_ok (Gatts g i) s t"
proof -
  have b: "part_wf P_ble s" using assms(2) by (rule dev_wfD)
  have o: "only {P_ble} s t" using only_gatts [OF assms(1) _ only_refl, of "{P_ble}"] b by simp
  have "part_wf P_ble t"
    using assms(1) b by (cases g) (auto simp: upd_ble_def Let_def split: if_splits)
  then show ?thesis using only_ok [OF o assms(2)] by auto
qed

lemma spp_ok:
  assumes "esp_spp_cb (onMessage E) p s = Inr t" "dev_wf s"
  shows "step_ok (Spp p) s t"
proof (cases "\<exists>h v w. p = SppDataInd h v w")
  case True
  then obtain h v w where p: "p = SppDataInd h v w" by blast
  have o: "onMessage E v (int (length v)) (sint w) s = Inr t" using assms(1) p by simp
  show ?thesis
    by (rule only_ok [OF only_onMessage [OF o] assms(2)]) (use onMessage_wf [OF o assms(2)] dev_wfD p in auto)
next
  case False
  then have o: "only {P_bt} s t"
    using assms(1) by (cases p) (auto intro!: only_intros)
  show ?thesis by (rule only_ok [OF o assms(2)]) auto
qed

lemma console_ok:
  assumes "console_task E (run_line E sh) c s = Inr t" "dev_wf s"
  shows "step_ok (Console c) s t"
proof (cases c)
  case FirstChar
  have o: "only {P_lock, P_pm} s t" using assms(1) FirstChar only_getlock [OF only_refl] by auto
  have "lock_ok s \<longrightarrow> lock_ok t" using assms(1) FirstChar by (auto simp: getlock_def lock_ok_def upd_con_def pm_count_append)
  moreover have "dev_wf t" by (rule only_wf [OF o assms(2)]) auto
  ultimately show ?thesis using onlyD [OF o, of P_msgs] FirstChar by (simp add: step_ok_def)
next
  case NoLine
  then show ?thesis using assms fine_ok [OF fine_refl] by auto
next
  case (Line line)
  let ?h = "emit (ApiS ''linenoiseHistoryAdd'' [line]) s"
  obtain r u where u: "run_line E sh line ?h = Inr (r, u)"
    using assms(1) Line by (auto simp: Let_def bindE_eq_Inr)
  have f: "fine s u" by (rule fine_trans [OF fine_emit(1) [OF fine_refl] fine_run_line [OF u]]) simp
  show ?thesis
  proof (cases r)
    case None
    then show ?thesis using assms Line u fine_ok [OF f] by (simp add: Let_def)
  next
    case (Some p)
    define v where "v = emit (Api ''linenoiseFree'' []) (console_report E (fst p) (snd p) u)"
    have v: "fine s v"
      unfolding v_def by (rule fine_trans [OF f fine_nothing]) (auto intro!: only_intros)
    have t: "t = upd_con (\<lambda>v. v\<lparr>lock_held := False\<rparr>) (emit (ApiS ''esp_pm_lock_release'' [''dmsh'']) v)"
      using assms(1) Line u Some by (simp add: Let_def v_def split_def emits_def emit_def)
    have o: "only {P_lock, P_pm} v t" unfolding t by (intro only_upd_con only_lock_emit only_refl) simp_all
    have "dev_wf v" using v assms(2) by (simp add: fine_def)
    then have "dev_wf t" by (rule only_wf [OF o]) auto
    moreover have "lock_ok s \<longrightarrow> lock_ok t"
      using v by (auto simp: fine_def t lock_ok_def upd_con_def pm_count_append split: if_splits)
    ultimately show ?thesis
      using onlyD [OF o, of P_msgs] v Line by (simp add: step_ok_def fine_def)
  qed
qed

lemma step_is_ok:
  assumes "dev_step E sh e s t" "dev_wf s"
  shows "step_ok e s t"
  using assms
proof (cases rule: dev_step.cases)
  case (power_on fb)
  have "same P_msgs s (reset fb s)" "\<not> lock_held (con (reset fb s))" by (simp_all add: reset_def boot_def)
  then show ?thesis
    using start_wf [OF power_on(2) dev_wf_boot] same_trans by (auto simp: step_ok_def lock_ok_def)
next
  case (lora_task l)
  have l: "lora_wf s" using dev_wfD [OF assms(2), of P_lo] by simp
  have o: "only {P_lo} s t" by (rule lora_step_only [OF lora_task(3) l])
  show ?thesis
    unfolding lora_task(1) by (rule only_ok [OF o assms(2)]) (use lora_step_wf [OF l lora_task(3)] in auto)
next
  case (lora_interrupt n)
  have "only {} s t" unfolding lora_interrupt by (simp add: lora_isr_handler_def only_intros)
  then show ?thesis unfolding lora_interrupt(1) by (rule only_ok [OF _ assms(2)]) auto
next
  case ui_start
  have "check E (ApiS ''esp_pm_lock_create'' [''ui'']) s = Inr t" using ui_start by (simp add: task_ui_start_def)
  then have "fine s t" by (intro fine_nothing) (rule only_check [OF _ only_refl], assumption, simp)
  then show ?thesis using fine_ok assms(2) ui_start(1) by simp
next
  case ui
  have "only {P_line} s t" by (rule wpD [OF only_task_ui [OF only_refl] ui(3)]) simp
  then show ?thesis unfolding ui(1) by (rule only_ok [OF _ assms(2)]) (use round_line [OF ui(3)] in auto)
next
  case (adv i)
  then show ?thesis using dev_wfD [OF assms(2), of P_hci] by (simp add: boot_def)
next
  case (wifi b n)
  have "fine s t" using fine_nothing [OF only_wifi_event [OF wifi(3) only_refl]] .
  then show ?thesis using fine_ok assms(2) wifi(1) by simp
next
  case (gap ge)
  have "fine s t" unfolding gap by (intro fine_nothing only_intros)
  then show ?thesis using fine_ok assms(2) gap(1) by simp
next
  case (bt_gap be)
  have "fine s t" unfolding bt_gap by (intro fine_nothing only_intros)
  then show ?thesis using fine_ok assms(2) bt_gap(1) by simp
next
  case (gattc n)
  then show ?thesis using fine_ok [OF fine_refl assms(2)] by (simp add: esp_gattc_cb_def)
next
  case mesh_timer
  then show ?thesis using fine_ok [OF fine_refl assms(2)] by (simp add: dmesh_timerCB_def)
next
  case (gatts g i)
  then show ?thesis using gatts_ok assms(2) by simp
next
  case (spp p)
  then show ?thesis using spp_ok assms(2) by simp
next
  case (console c)
  then show ?thesis using console_ok assms(2) by simp
next
  case (nan_frame type len frame)
  then show ?thesis using fine_ok [OF fine_nan [OF nan_frame(3)]] assms(2) by simp
next
  case nan_timer
  then show ?thesis using fine_ok [OF fine_nan [OF nan_timer(3)]] assms(2) by simp
next
  case nan_started
  then show ?thesis using fine_ok [OF fine_nan [OF nan_started(3)]] assms(2) by simp
qed

end
