(* ===== verification/NanLife.thy ===== *)
theory NanLife
  imports NanMachine
begin

text \<open>
  The life cycle of the NAN driver: what a timer expiry does, what a start reaches, and what a
  stop leaves running.
\<close>

definition timers :: "dev \<Rightarrow> int list" where
  "timers s = concat (map (\<lambda>c. case c of TimerOnce d \<Rightarrow> [d] | _ \<Rightarrow> []) (hist s))"

lemma timers_emit [simp]:
  "timers (emit (TimerOnce d) s) = timers s @ [d]" "timers (emit GetTime s) = timers s"
  "timers (emit (WifiTx f) s) = timers s" "timers (emit (Api n xs) s) = timers s"
  "timers (emit (ApiS n ys) s) = timers s"
  by (simp_all add: timers_def)

lemma timers_upd [simp]: "timers (upd_nan f s) = timers s" "timers (upd_aware g s) = timers s"
  by (simp_all add: timers_def)

lemma txs_other [simp]:
  "txs (emit (TimerOnce d) s) = txs s" "txs (emit (Api n xs) s) = txs s"
  "txs (emit (ApiS n ys) s) = txs s"
  by (simp_all add: txs_def)

text \<open>The clock as it reads after the history \<open>h\<close>.\<close>

definition clock :: "env \<Rightarrow> call list \<Rightarrow> u32" where
  "clock E h = ucast (word_of_int (rc E h GetTime) :: u64)"

lemma currentTimeMicro_clock: "currentTimeMicro E s = (clock E (hist s), emit GetTime s)"
  by (simp add: currentTimeMicro_def clock_def ret_def)

text \<open>
  C12: An expiry of the timer always arms it again, with a delay of at least a millisecond and
  below 2^31 microseconds, and sends a sync beacon exactly if more than 490 microseconds have
  passed since the last one.
\<close>

theorem timer_rearms:
  assumes "nan_wf s" "nan_running (aware (nan s))"
  defines "a \<equiv> aware (nan s)"
  shows "\<exists>s' d. timerCB E s = Inr s' \<and> nan_wf s' \<and> nan_running (aware (nan s')) \<and>
    timers s' = timers s @ [d] \<and> 1000 \<le> d \<and> d < 2 ^ 31 \<and>
    txs s' = txs s @ (if clock E (hist s) - lastSentSBeacon a > 490
      then [beacon_frame (mymac a) (nanNet a) 512 (masterPref a) (masterRandom a)] else [])"
proof -
  let ?now = "clock E (hist s)"
  define sync where "sync \<longleftrightarrow> ?now - lastSentSBeacon a > 490"
  let ?f = "beacon_frame (mymac a) (nanNet a) 512 (masterPref a) (masterRandom a)"
  define s1 where "s1 = (if sync
     then emit (WifiTx ?f) (upd_aware (\<lambda>a. a\<lparr>lastSentSBeacon := ?now\<rparr>) (emit GetTime s))
     else emit GetTime s)"
  define s2 where "s2 = (if sint (?now - lastStats (nan s1)) > 10 * 1000 * 1000
     then upd_aware (\<lambda>a. a\<lparr>capturedSinceLast := 0\<rparr>) (upd_nan (\<lambda>v. v\<lparr>lastStats := ?now\<rparr>) s1)
     else s1)"
  define d0 where "d0 = sint (?now + 512 * 1024 - clock E (hist s2))"
  define d where "d = (if d0 < 1000 then 100 * 1000 else d0)"
  have w: "nan_wf (upd_aware (\<lambda>a. a\<lparr>lastSentSBeacon := ?now\<rparr>) (emit GetTime s))"
    using assms(1) by simp
  have t: "timerCB E s = Inr (emit (TimerOnce d) (emit GetTime s2))"
    using assms(2) nanSendSync_eq [OF w, of E 512]
    by (simp add: timerCB_def Let_def currentTimeMicro_clock s2_def s1_def d_def d0_def sync_def a_def)
  have "d0 < 2 ^ 31"
    using sint_lt [of "?now + 512 * 1024 - clock E (hist s2)"] by (simp add: d0_def)
  then have d: "1000 \<le> d" "d < 2 ^ 31" by (auto simp: d_def)
  have r: "nan_running (aware (nan s2))" "timers s2 = timers s"
    "txs s2 = txs s @ (if sync then [?f] else [])"
    using assms(2) by (simp_all add: s2_def s1_def)
  have "nan_wf (emit (TimerOnce d) (emit GetTime s2))"
    using wpD [OF timerCB_keeps t] assms(1) by (simp add: nan_keeps_def)
  then show ?thesis using t d r by (auto simp: sync_def)
qed

theorem timer_rearms_witness:
  "\<exists>s' d. timerCB quiet (upd_aware (\<lambda>a. a\<lparr>nan_running := True\<rparr>) boot) = Inr s' \<and>
     timers s' = [d] \<and> 1000 \<le> d \<and> txs s' = []"
proof -
  have "nan_wf (upd_aware (\<lambda>a. a\<lparr>nan_running := True\<rparr>) boot)"
    using boot_simps(1) by (simp add: nan_wf_def)
  from timer_rearms [OF this, of quiet] show ?thesis
    by (auto simp: clock_def quiet_def boot_def boot_aware_def timers_def txs_def)
qed

text \<open>
  A platform on which starting succeeds: the functions that return an error code return 0, those that
  create an object return a pointer to it, and \<open>xTaskCreate\<close> returns 1 (\<open>pdPASS\<close>).  Nothing is assumed of
  other calls.
\<close>

fun status_call :: "call \<Rightarrow> bool" where
  "status_call (Api f as) \<longleftrightarrow> f \<in> {''nvs_flash_init'', ''esp_event_loop_create_default'', ''uart_driver_install'',
     ''uart_param_config'', ''esp_console_init'', ''esp_timer_create'', ''esp_sleep_enable_gpio_wakeup'',
     ''uart_set_wakeup_threshold'', ''esp_sleep_enable_uart_wakeup'', ''esp_pm_configure'', ''spi_bus_initialize'',
     ''spi_bus_add_device'', ''esp_event_handler_register'', ''esp_wifi_init'', ''esp_wifi_set_storage'',
     ''esp_wifi_set_mode'', ''esp_wifi_set_promiscuous_filter'', ''esp_wifi_start'', ''esp_wifi_set_promiscuous'',
     ''esp_wifi_set_channel''}"
| "status_call (ApiS f as) \<longleftrightarrow> f \<in> {''nvs_open'', ''esp_pm_lock_create'', ''esp_console_cmd_register'',
     ''esp_timer_create'', ''esp_wifi_set_promiscuous_rx_cb''}"
| "status_call c \<longleftrightarrow> False"

fun creating_call :: "call \<Rightarrow> bool" where
  "creating_call (Api f as) \<longleftrightarrow> f \<in> {''esp_netif_create_default_wifi_sta'', ''xEventGroupCreate'', ''xQueueCreate'',
     ''malloc''}"
| "creating_call c \<longleftrightarrow> False"

definition starts_ok :: "env \<Rightarrow> bool" where
  "starts_ok E \<longleftrightarrow> (\<forall>h c. status_call c \<longrightarrow> rc E h c = ESP_OK) \<and> (\<forall>h c. creating_call c \<longrightarrow> rc E h c \<noteq> 0) \<and>
     (\<forall>h as. rc E h (ApiS ''xTaskCreate'' as) = 1)"

lemma nanStart_completes:
  assumes "starts_ok E" "nan_wf s"
  shows "\<exists>s' h. nanStart E s = Inr s' \<and> nan_wf s' \<and> nan_running (aware (nan s')) \<and>
    masterPref (aware (nan s')) = 129 \<and> nan_init (nan s') \<and> nan_netif (nan s') \<and>
    mymac (aware (nan s')) = fit 6 (rb E h (Api ''esp_read_mac'' [ESP_MAC_WIFI_STA])) \<and>
    timers s' = timers s @ [5000000] \<and> Api ''esp_wifi_set_channel'' [6, 0] \<in> set (hist s') \<and>
    grows s s' \<and> lo s' = lo s \<and> wifi s' = wifi s"
proof -
  have c: "check E c s = Inr (emit c s)"
    if "status_call c" for c s
    using assms(1) that by (simp add: check_def ret_def starts_ok_def)
  have n: "ret E (Api ''esp_netif_create_default_wifi_sta'' []) s \<noteq> 0" for s
    using assms(1) by (simp add: ret_def starts_ok_def)
  obtain s' where s': "nanStart E s = Inr s'" "nan_running (aware (nan s'))"
    "masterPref (aware (nan s')) = 129" "nan_init (nan s')" "nan_netif (nan s')"
    "\<exists>h. mymac (aware (nan s')) = fit 6 (rb E h (Api ''esp_read_mac'' [ESP_MAC_WIFI_STA]))"
    "timers s' = timers s @ [5000000]" "Api ''esp_wifi_set_channel'' [6, 0] \<in> set (hist s')"
    "grows s s'" "lo s' = lo s" "wifi s' = wifi s"
    using n
    by (cases "nan_init (nan s)")
      (auto simp: nanStart_def nanStartSniffing_def nanTimer_def c Let_def currentTimeMicro_clock
        fill_def got_def grows_def)
  moreover have "nan_wf s'"
    using wpD [OF nanStart_keeps s'(1)] assms(2) by (simp add: nan_keeps_def)
  ultimately show ?thesis by blast
qed

text \<open>
  Where the platform's calls succeed, \<open>nanStart\<close> completes: the driver runs with the
  station's MAC address and master preference 129, the last WiFi call fixed channel 6, and the
  timer is armed once, for five seconds.
\<close>

lemma start_brings_driver_up:
  assumes "starts_ok E" "nan_wf s"
  shows "\<exists>s' h. nanStart E s = Inr s' \<and> nan_wf s' \<and> nan_running (aware (nan s')) \<and>
    masterPref (aware (nan s')) = 129 \<and> nan_init (nan s') \<and> nan_netif (nan s') \<and>
    mymac (aware (nan s')) = fit 6 (rb E h (Api ''esp_read_mac'' [ESP_MAC_WIFI_STA])) \<and>
    timers s' = timers s @ [5000000] \<and> Api ''esp_wifi_set_channel'' [6, 0] \<in> set (hist s')"
  using nanStart_completes [OF assms] by blast

text \<open>
  \<open>nanStop\<close> does not stop the timer: it leaves \<open>running\<close> set and disarms nothing, so an
  expiry after a successful stop arms the timer again.
\<close>

lemma stop_leaves_timer_running:
  assumes "nan_wf s" "nan_running (aware (nan s))" "nanStop E s = Inr s1"
  shows "\<exists>s2 d. timers s1 = timers s \<and> Api ''esp_timer_stop'' [] \<notin> set (drop (length (hist s)) (hist s1)) \<and>
    timerCB E' s1 = Inr s2 \<and> timers s2 = timers s1 @ [d] \<and> nan_running (aware (nan s2))"
proof -
  have k: "nan_running (aware (nan s1))" "timers s1 = timers s"
    "Api ''esp_timer_stop'' [] \<notin> set (drop (length (hist s)) (hist s1))"
    using assms(2,3) by (auto simp: nanStop_def bindE_eq_Inr check_eq_Inr split: if_splits)
  have "nan_wf s1"
    using wpD [OF nanStop_keeps assms(3)] assms(1) by (simp add: nan_keeps_def)
  then have "\<exists>s2 d. timerCB E' s1 = Inr s2 \<and> timers s2 = timers s1 @ [d] \<and> nan_running (aware (nan s2))"
    using k(1) nanSendSync_eq [of "upd_aware (\<lambda>a. a\<lparr>lastSentSBeacon := n\<rparr>) (emit GetTime s1)" E' 512 for n]
    by (simp add: timerCB_def Let_def currentTimeMicro_clock)
  then show ?thesis using k by blast
qed

end
