(* ===== verification/BootProps.thy ===== *)
theory BootProps
  imports Frames NanLife
begin

text \<open>
  The device comes up: on a platform whose calls succeed, the start in NAN mode completes with all
  parts running.  Every part leaves what it does not own alone.
\<close>

section \<open>What the parts leave alone\<close>

definition keeps :: "dev \<Rightarrow> dev \<Rightarrow> bool" where
  "keeps s t \<longleftrightarrow> lora_keeps (- {P_nan, P_wifi}) s t"

lemma keepsD:
  assumes "keeps s t"
  shows "nan t = nan s" "wifi t = wifi s" "grows s t" "beaconBand (lora (lo t)) = beaconBand (lora (lo s))"
  using assms onlyD [of "- {P_nan, P_wifi}" s t P_nan] onlyD [of "- {P_nan, P_wifi}" s t P_wifi] only_grows
  by (auto simp: keeps_def lora_keeps_def)

lemma keeps_refl: "keeps s s"
  by (simp add: keeps_def lk_refl)

lemma keeps_trans: "keeps s t \<Longrightarrow> keeps t u \<Longrightarrow> keeps s u"
  by (auto simp: keeps_def intro: lk_trans)

lemma keeps_upd: "keeps s t \<Longrightarrow> keeps s (upd_main h t)"
  using only_upd_parts(6) [of "- {P_nan, P_wifi}" s t] by (simp add: keeps_def lora_keeps_def upd_main_def)

lemma keeps_lock: "keeps s t \<Longrightarrow> keeps s (emit (ApiS f as) t)"
  by (simp add: keeps_def lora_keeps_def only_lock_emit)

lemmas keeps_intros = lk_intros [where P = "- {P_nan, P_wifi}", folded keeps_def, simplified] keeps_upd
lemmas keeps_nvs = lk_nvs [where P = "- {P_nan, P_wifi}", folded keeps_def]
lemmas keeps_read = lk_read [where P = "- {P_nan, P_wifi}", folded keeps_def]
lemmas keeps_version_loop = lk_version_loop [where P = "- {P_nan, P_wifi}", folded keeps_def]
lemmas keeps_receive = lk_upstream [where P = "- {P_nan, P_wifi}", folded keeps_def, simplified]

text \<open>What leaves the LoRa driver alone as well.\<close>

lemma only_keeps:
  assumes "only P s t" "P_nan \<notin> P" "P_wifi \<notin> P" "P_lo \<notin> P"
  shows "keeps s t"
proof -
  have "only (- {P_nan, P_wifi}) s t" using assms by (intro only_mono [OF assms(1)]) blast
  moreover have "lo t = lo s" using onlyD [OF assms(1,4)] by simp
  ultimately show ?thesis by (simp add: keeps_def lora_keeps_def)
qed

lemma receive_beacon_completes:
  assumes "keeps s t" "0 \<le> beaconBand (lora (lo s))" "beaconBand (lora (lo s)) < 8"
  shows "\<exists>t'. lora_receive_beacon E n t = Inr t' \<and> keeps s t'"
proof -
  have "0 \<le> beaconBand (lora (lo t))" "beaconBand (lora (lo t)) \<le> 7"
    using assms keepsD(4) by simp_all
  then obtain t' where t': "lora_receive_beacon E n t = Inr t'"
    by (rule lora_receive_beacon_eq)
  then have "keeps s t'" using assms(1) unfolding keeps_def by (rule lk_beacon) simp
  then show ?thesis using t' by blast
qed

section \<open>A platform whose calls succeed\<close>

lemma check_succeeds: "starts_ok E \<Longrightarrow> status_call c \<Longrightarrow> check E c s = Inr (emit c s)"
  by (simp add: check_def ret_def starts_ok_def)

lemma checks_succeed: "starts_ok E \<Longrightarrow> list_all status_call cs \<Longrightarrow> checks E cs s = Inr (emits cs s)"
  by (induction cs arbitrary: s) (auto simp: check_succeeds emits_def emit_def)

lemma register_cmds_succeed:
  "starts_ok E \<Longrightarrow> register_cmds E names s = Inr (emits (map (\<lambda>n. ApiS ''esp_console_cmd_register'' [n]) names) s)"
proof (induction names rule: rev_induct)
  case (snoc n names)
  then show ?case
    by (simp add: register_cmds_def check_succeeds emits_def emit_def)
qed (simp add: register_cmds_def)

lemma register_spp_ble_completes:
  assumes "starts_ok E"
  shows "\<exists>t. register_spp_ble E s = Inr t \<and> keeps s t"
proof -
  have "\<exists>t. register_spp_ble E s = Inr t"
    using assms by (auto simp: register_spp_ble_def check_succeeds Let_def split: prod.split)
  then show ?thesis using only_keeps [OF only_register_ble [OF _ only_refl], of E s _ "{}"] by auto
qed

lemma register_dmesh_completes:
  assumes "starts_ok E"
  shows "\<exists>t. register_dmesh E s = Inr t \<and> keeps s t"
proof -
  have "\<exists>t. register_dmesh E s = Inr t" using assms by (auto simp: register_dmesh_def check_succeeds)
  then show ?thesis using only_keeps [OF only_registrations(5) [OF _ only_refl], of E s _ "{}"] by auto
qed

lemma register_ui_keeps: "keeps s (register_ui E s)"
  by (rule only_keeps [OF only_register_ui [OF only_refl], of "{P_rst}"]) simp_all

lemma lora_init_completes:
  assumes "starts_ok E" "keeps s t"
  shows "\<exists>err t'. lora_init E t = Inr (err, t') \<and> keeps s t'"
proof -
  have v: "keeps s u'" if "version_loop E 0 u = (i, u')" "keeps s u" for i u u'
    using keeps_version_loop that by blast
  have r: "keeps s u'" if "lora_read_reg E r u = (i, u')" "keeps s u" for r i u u'
    using keeps_read that by blast
  show ?thesis
    unfolding lora_init_def Let_def
    using assms by (auto simp: check_succeeds split: prod.split intro!: keeps_intros dest!: v r)
qed

lemma register_lora_completes:
  assumes "starts_ok E" "0 \<le> beaconBand (lora (lo s))" "beaconBand (lora (lo s)) < 8"
  shows "\<exists>t. register_lora E s = Inr t \<and> keeps s t"
proof -
  have "keeps s (emit (Api ''xQueueCreate'' [10, 4]) (lora_reset s))" by (simp add: keeps_intros keeps_refl)
  from lora_init_completes [OF assms(1) this] obtain err t where
    t: "lora_init E (emit (Api ''xQueueCreate'' [10, 4]) (lora_reset s)) = Inr (err, t)" "keeps s t" by blast
  let ?t = "lora_disable_crc E (lora_set_bandwidth E 500000 (lora_set_preamble_length 8
      (lora_set_sync_word 0x34 (emit (ApiS ''xTaskCreate'' [''task_lora_read'']) t))))"
  have "keeps s ?t" using t(2) by (simp add: keeps_intros)
  obtain e v u where u: "nvs_get_i32 E ''lora'' 0 ?t = (e, v, u)" by (metis prod_cases3)
  have k: "keeps s u" using keeps_nvs [OF u \<open>keeps s ?t\<close>] .
  let ?x = "if v > 2 then emit (ApiS ''xTaskCreate'' [''lora_task'']) u else u"
  have x: "keeps s ?x" using k by (simp add: keeps_intros)
  obtain w where w: "(if v = 1 then lora_receive_beacon E BEACON_SIZE ?x else Inr ?x) = Inr w" "keeps s w"
    using receive_beacon_completes [OF x assms(2,3)] x by (cases "v = 1") force+
  have "register_lora E s = Inr t \<or> register_lora E s = Inr u \<or>
      register_lora E s = Inr w \<or> register_lora E s = Inr (lora_receive_upstream E w)"
    unfolding register_lora_def Let_def t(1) bindE_Inr prod.case u w(1) by simp
  then show ?thesis using t(2) k w(2) keeps_receive [OF w(2)] by blast
qed

lemma completes_bind:
  "\<exists>x. m = Inr x \<Longrightarrow> (\<And>x. \<exists>y. f x = Inr y) \<Longrightarrow> \<exists>y. bindE m f = Inr y"
  by (auto simp: bindE_eq_Inr)

lemma register_console_completes:
  assumes "starts_ok E"
  shows "\<exists>t. register_console E s = Inr t \<and> keeps s t \<and> ApiS ''xTaskCreate'' [''console_task''] \<in> set (hist t)"
proof -
  note ok = check_succeeds [OF assms] register_cmds_succeed [OF assms]
  have c: "\<exists>t. register_lora_cmd E u = Inr t" "\<exists>t. register_dmesh_nvs E u = Inr t"
    "\<exists>t. register_dmesh_system E u = Inr t" "\<exists>t. register_wifi E u = Inr t" "\<exists>t. register_bt_cmd E u = Inr t"
    "\<exists>t. console_register_nan E u = Inr t" "\<exists>t. register_gpio E u = Inr t" "\<exists>t. register_i2ctools E u = Inr t"
    "\<exists>t. initialize_console E u = Inr t" for u
    by (simp_all add: initialize_console_def register_lora_cmd_def register_dmesh_nvs_def
        register_dmesh_system_def register_wifi_def register_bt_cmd_def console_register_nan_def
        register_gpio_def register_i2ctools_def ok Let_def)
  have "\<exists>t. register_spp_ble E u = Inr t" "\<exists>t. register_dmesh E u = Inr t" for u
    using register_spp_ble_completes [OF assms] register_dmesh_completes [OF assms] by blast+
  then have "\<exists>t. register_console E s = Inr t"
    unfolding register_console_def Let_def using c by (intro completes_bind) blast+
  then obtain t where t: "register_console E s = Inr t" by blast
  have "keeps s t"
    by (rule only_keeps [OF wpD [OF only_register_console [OF only_refl] t], of "{P_rst}"]) simp_all
  moreover have "ApiS ''xTaskCreate'' [''console_task''] \<in> set (hist t)"
    using t by (auto simp: register_console_def Let_def bindE_eq_Inr)
  ultimately show ?thesis using t by blast
qed

lemma power_setup_completes:
  assumes "starts_ok E"
  shows "\<exists>t. power_setup E s = Inr t \<and> keeps s t"
proof -
  have "\<exists>t. power_setup E s = Inr t"
    unfolding power_setup_def uart_wakeup_def configure_light_sleep_def Let_def
    by (auto simp: check_succeeds [OF assms] split: prod.split)
  then show ?thesis using only_keeps [OF only_power_setup [OF _ only_refl], of E s _ "{}"] by auto
qed

text \<open>What the store answers for a text: not found, or found with its bytes.\<close>

definition stored_text :: "env \<Rightarrow> string \<Rightarrow> u8 list option \<Rightarrow> bool" where
  "stored_text E key v \<longleftrightarrow> (\<forall>h. case v of
     None \<Rightarrow> rc E h (Nvs ''nvs_get_str'' key) = ESP_ERR_NVS_NOT_FOUND
   | Some bs \<Rightarrow> rc E h (Nvs ''nvs_get_str'' key) = ESP_OK \<and> rb E h (Nvs ''nvs_get_str'' key) = bs)"

definition fits :: "u8 list option \<Rightarrow> nat \<Rightarrow> bool" where
  "fits v n \<longleftrightarrow> (case v of None \<Rightarrow> True | Some bs \<Rightarrow> length bs \<le> n)"

lemma read_text_completes:
  assumes "stored_text E key v" "fits v n"
  shows "\<exists>x t. read_text E key n s = Inr (x, t) \<and> keeps s t"
proof -
  have "\<exists>x t. read_text E key n s = Inr (x, t)"
  proof (cases v)
    case None
    then have "ret E (Nvs ''nvs_get_str'' key) u \<noteq> ESP_OK" for u
      using assms(1) by (simp add: stored_text_def ret_def esp_err_defs)
    then show ?thesis by (simp add: read_text_def Let_def)
  next
    case (Some bs)
    then show ?thesis using assms by (auto simp: stored_text_def fits_def read_text_def got_def Let_def)
  qed
  then show ?thesis using only_keeps [OF only_read_text [OF _ only_refl], of E key n s _ _ "{}"] by auto
qed

lemma read_text_overflows:
  assumes "stored_text E key v" "\<not> fits v n"
  shows "read_text E key n s = Inl WriteOOB"
proof -
  obtain bs where v: "v = Some bs" "n < length bs" using assms(2) by (auto simp: fits_def split: option.splits)
  then have "ret E (Nvs ''nvs_get_str'' key) u = ESP_OK" "got E (Nvs ''nvs_get_str'' key) u = bs" for u
    using assms(1) by (simp_all add: stored_text_def ret_def got_def)
  then show ?thesis using v(2) by (simp add: read_text_def Let_def)
qed

section \<open>The start\<close>

text \<open>The start up to the wireless mode, and from there on.\<close>

lemma app_main_begins:
  assumes "starts_ok E"
    "\<forall>h. rc E h (Nvs ''nvs_get_i32'' ''wifi'') = ESP_OK \<and> rb E h (Nvs ''nvs_get_i32'' ''wifi'') = [4, 0, 0, 0]"
  shows "\<exists>s6. keeps s s6 \<and> ApiS ''xTaskCreate'' [''console_task''] \<in> set (hist s6) \<and>
    app_main E s = bindE (read_text E ''ssid'' 32 s6) (\<lambda>(ssid, s).
     bindE (read_text E ''psk'' 16 s) (\<lambda>(psk, s).
     bindE (nanStart E s) (\<lambda>s.
     let s = emits [ApiS ''setenv'' [''TZ'', ''UTC-8''], Api ''tzset'' [], Api ''time'' []] s in
     bindE (register_lora E s) (\<lambda>s.
     Inr (snd (currentTimeMicro E (snd (currentTimeMicro E s))))))))"
proof -
  define s1 where "s1 = (let (now, s) = currentTimeMicro E s;
         s = upd_main (\<lambda>v. v\<lparr>resetTime := now\<rparr>) s;
         s = (if firstBoot (main s) = 0 then
                let (now, s) = currentTimeMicro E s in upd_main (\<lambda>v. v\<lparr>firstBoot := now\<rparr>) s
              else s) in
         emit (Api ''esp_sleep_get_wakeup_cause'' []) s)"
  have k1: "keeps s s1"
    by (auto simp: s1_def currentTimeMicro_def Let_def intro!: keeps_intros)
  have "\<exists>t. initialize_nvs E s1 = Inr t"
    using assms(1) by (auto simp: initialize_nvs_def check_succeeds Let_def starts_ok_def ret_def esp_err_defs
        ESP_ERR_NVS_NO_FREE_PAGES_def ESP_ERR_NVS_NEW_VERSION_FOUND_def)
  then obtain s2 where s2: "initialize_nvs E s1 = Inr s2" by blast
  have k2: "keeps s s2"
    by (rule keeps_trans [OF k1 only_keeps [OF only_initialize_nvs [OF s2 only_refl], of "{}"]]) simp_all
  define s3 where "s3 = emit (ApiS ''esp_pm_lock_create'' [''dmsh''])
    (emits [ApiS ''esp_sleep_pd_config'' [''ESP_PD_DOMAIN_RTC_PERIPH'', ''ESP_PD_OPTION_ON''],
       ApiS ''esp_sleep_pd_config'' [''ESP_PD_DOMAIN_RTC_SLOW_MEM'', ''ESP_PD_OPTION_OFF''],
       ApiS ''esp_sleep_pd_config'' [''ESP_PD_DOMAIN_RTC_FAST_MEM'', ''ESP_PD_OPTION_OFF'']]
     (emits [ApiS ''nvs_open'' [''storage'', ''NVS_READWRITE''],
       ApiS ''nvs_open'' [''nvs.net80211'', ''NVS_READWRITE''], Api ''esp_event_loop_create_default'' []] s2))"
  have k3: "keeps s s3" unfolding s3_def using k2 by (intro keeps_lock) (simp add: keeps_intros)
  obtain s4 where s4: "register_console E s3 = Inr s4" "keeps s3 s4"
    "ApiS ''xTaskCreate'' [''console_task''] \<in> set (hist s4)"
    using register_console_completes [OF assms(1)] by blast
  obtain s5 where s5: "power_setup E s4 = Inr s5" "keeps s4 s5"
    using power_setup_completes [OF assms(1)] by blast
  define s6 where "s6 = emit (Nvs ''nvs_get_i32'' ''wifi'') s5"
  have m: "nvs_get_i32 E ''wifi'' 0 s5 = (ESP_OK, 4, s6)"
    using assms by (simp add: nvs_get_i32_def ret_def starts_ok_def fill_def got_def fit_def le32_def s6_def Let_def)
  have k6: "keeps s4 s6" using s5(2) unfolding s6_def by (simp add: keeps_intros)
  have "keeps s s6" using keeps_trans k3 s4(2) k6 by blast
  moreover have "ApiS ''xTaskCreate'' [''console_task''] \<in> set (hist s6)"
    using grows_in keepsD(3) [OF k6] s4(3) by blast
  ultimately show ?thesis
    using s2 s4(1) s5(1) m checks_succeed [OF assms(1)] check_succeeds [OF assms(1)]
    by (intro exI [of _ s6]) (simp add: app_main_def app_begin_def app_rest_def Let_def s1_def s3_def split_def del: checks.simps)
qed

lemma nan_mode_ends:
  assumes "starts_ok E" "nan_wf s" "0 \<le> beaconBand (lora (lo s))" "beaconBand (lora (lo s)) < 8"
  shows "\<exists>s'. bindE (nanStart E s) (\<lambda>s.
     let s = emits [ApiS ''setenv'' [''TZ'', ''UTC-8''], Api ''tzset'' [], Api ''time'' []] s in
     bindE (register_lora E s) (\<lambda>s.
     Inr (snd (currentTimeMicro E (snd (currentTimeMicro E s)))))) = Inr s' \<and>
    nan_wf s' \<and> nan_running (aware (nan s')) \<and> Api ''esp_wifi_set_channel'' [6, 0] \<in> set (hist s') \<and>
    grows s s' \<and> wifi s' = wifi s"
proof -
  from nanStart_completes [OF assms(1,2)] obtain s1 where
    s1: "nanStart E s = Inr s1" "nan_wf s1" "nan_running (aware (nan s1))"
      "Api ''esp_wifi_set_channel'' [6, 0] \<in> set (hist s1)" "grows s s1" "lo s1 = lo s" "wifi s1 = wifi s"
    by blast
  let ?e = "emits [ApiS ''setenv'' [''TZ'', ''UTC-8''], Api ''tzset'' [], Api ''time'' []] s1"
  have b: "0 \<le> beaconBand (lora (lo ?e))" "beaconBand (lora (lo ?e)) < 8"
    using assms(3,4) s1(6) by simp_all
  obtain s2 where s2: "register_lora E ?e = Inr s2" "keeps ?e s2"
    using register_lora_completes [OF assms(1) b] by blast
  let ?s = "snd (currentTimeMicro E (snd (currentTimeMicro E s2)))"
  have "keeps s1 ?s"
    using keeps_trans [OF _ s2(2), of s1] by (simp add: currentTimeMicro_def keeps_intros keeps_refl)
  note f = keepsD [OF this]
  have "Api ''esp_wifi_set_channel'' [6, 0] \<in> set (hist ?s)" using grows_in f(3) s1(4) by blast
  moreover have "nan_wf ?s" "nan_running (aware (nan ?s))" using s1(2,3) f(1) by (simp_all add: nan_wf_def)
  moreover have "grows s ?s" using grows_trans s1(5) f(3) by blast
  ultimately show ?thesis using s1(1,7) s2(1) f(2) by (intro exI [of _ ?s]) simp
qed

text \<open>
  C40: In NAN mode on a platform whose calls succeed, \<open>app_main\<close> completes exactly if the network name
  fits 32 bytes and the password 16, where they are stored, and writes past an array otherwise.  After it
  the NAN driver runs on channel 6 with well-formed data and the console task has been created; and a
  \<open>wifi\<close> command that joins a network aborts.
\<close>

theorem nan_mode_comes_up:
  assumes "starts_ok E"
    and "\<forall>h. rc E h (Nvs ''nvs_get_i32'' ''wifi'') = ESP_OK \<and> rb E h (Nvs ''nvs_get_i32'' ''wifi'') = [4, 0, 0, 0]"
    and "stored_text E ''ssid'' name" "stored_text E ''psk'' pw"
    and "nan_wf s" "\<not> wifi_group (wifi s)" "wifi_ok s"
    and "0 \<le> beaconBand (lora (lo s))" "beaconBand (lora (lo s)) < 8"
  shows "if fits name 32 \<and> fits pw 16 then
      \<exists>s'. app_main E s = Inr s' \<and> nan_wf s' \<and> nan_running (aware (nan s')) \<and>
        Api ''esp_wifi_set_channel'' [6, 0] \<in> set (hist s') \<and>
        ApiS ''xTaskCreate'' [''console_task''] \<in> set (hist s') \<and>
        (\<forall>a. joins a \<longrightarrow> cmd_wifi E a s' = Inl Abort)
    else app_main E s = Inl WriteOOB"
proof -
  obtain s6 where s6: "keeps s s6" "ApiS ''xTaskCreate'' [''console_task''] \<in> set (hist s6)"
    and main: "app_main E s = bindE (read_text E ''ssid'' 32 s6) (\<lambda>(ssid, s).
     bindE (read_text E ''psk'' 16 s) (\<lambda>(psk, s).
     bindE (nanStart E s) (\<lambda>s.
     let s = emits [ApiS ''setenv'' [''TZ'', ''UTC-8''], Api ''tzset'' [], Api ''time'' []] s in
     bindE (register_lora E s) (\<lambda>s.
     Inr (snd (currentTimeMicro E (snd (currentTimeMicro E s))))))))"
    using app_main_begins [OF assms(1,2), of s] by blast
  show ?thesis
  proof (cases "fits name 32")
    case False
    then show ?thesis using main read_text_overflows [OF assms(3)] by simp
  next
    case n: True
    then obtain x s7 where s7: "read_text E ''ssid'' 32 s6 = Inr (x, s7)" "keeps s6 s7"
      using read_text_completes [OF assms(3)] by metis
    show ?thesis
    proof (cases "fits pw 16")
      case False
      then show ?thesis using main s7(1) read_text_overflows [OF assms(4)] by simp
    next
      case p: True
      then obtain y s8 where s8: "read_text E ''psk'' 16 s7 = Inr (y, s8)" "keeps s7 s8"
        using read_text_completes [OF assms(4)] by metis
      have k: "keeps s6 s8" using keeps_trans s7(2) s8(2) by blast
      note d = keepsD [OF keeps_trans [OF s6(1) k]]
      have "nan_wf s8" using assms(5) d(1) by (simp add: nan_wf_def)
      then obtain s' where s': "app_main E s = Inr s'" "nan_wf s'" "nan_running (aware (nan s'))"
        "Api ''esp_wifi_set_channel'' [6, 0] \<in> set (hist s')" "grows s8 s'" "wifi s' = wifi s8"
        using nan_mode_ends [OF assms(1), of s8] assms(8,9) d(4) by (auto simp: main s7(1) s8(1))
      moreover have "ApiS ''xTaskCreate'' [''console_task''] \<in> set (hist s')"
        using grows_in s6(2) keepsD(3) [OF k] s'(5) by blast
      moreover have "\<forall>a. joins a \<longrightarrow> cmd_wifi E a s' = Inl Abort"
        using join_without_group assms(6,7) s'(6) d(2) by (simp add: wifi_ok_def)
      ultimately show ?thesis using n p by auto
    qed
  qed
qed

text \<open>A platform in NAN mode with a name stored and no password; and one whose name is too long.\<close>

definition nan_platform :: "u8 list \<Rightarrow> env" where
  "nan_platform name = quiet\<lparr>
     rc := \<lambda>h c. if creating_call c \<or> (\<exists>as. c = ApiS ''xTaskCreate'' as) then 1
       else if c = Nvs ''nvs_get_str'' ''psk'' then ESP_ERR_NVS_NOT_FOUND else 0,
     rb := \<lambda>h c. if c = Nvs ''nvs_get_i32'' ''wifi'' then [4, 0, 0, 0]
       else if c = Nvs ''nvs_get_str'' ''ssid'' then name else []\<rparr>"

theorem nan_mode_comes_up_witness:
  "(\<exists>s'. app_main (nan_platform [0x6E, 0]) boot = Inr s' \<and> nan_running (aware (nan s'))) \<and>
   app_main (nan_platform (replicate 33 0x6E)) boot = Inl WriteOOB"
proof -
  have c: "\<not> creating_call c" if "status_call c" for c
    using that by (cases c) auto
  have "starts_ok (nan_platform n)" for n
    using c by (auto simp: starts_ok_def nan_platform_def esp_err_defs)
  moreover have "\<forall>h. rc (nan_platform n) h (Nvs ''nvs_get_i32'' ''wifi'') = ESP_OK \<and>
      rb (nan_platform n) h (Nvs ''nvs_get_i32'' ''wifi'') = [4, 0, 0, 0]" for n
    by (simp add: nan_platform_def esp_err_defs)
  moreover have "stored_text (nan_platform n) ''ssid'' (Some n)" "stored_text (nan_platform n) ''psk'' None" for n
    by (simp_all add: stored_text_def nan_platform_def esp_err_defs)
  moreover have "wifi_ok boot" "\<not> wifi_group (wifi boot)" "beaconBand (lora (lo boot)) = 0"
    by (simp_all add: wifi_ok_def boot_def boot_lora_def)
  ultimately have "if fits (Some n) 32 \<and> fits None 16 then
      \<exists>s'. app_main (nan_platform n) boot = Inr s' \<and> nan_running (aware (nan s'))
    else app_main (nan_platform n) boot = Inl WriteOOB" for n
    using nan_mode_comes_up [of "nan_platform n" "Some n" None boot] boot_simps(1) by (auto split: if_splits)
  from this [of "[0x6E, 0]"] this [of "replicate 33 0x6E"] show ?thesis by (simp add: fits_def)
qed

end
