(* ===== verification/DeviceProps.thy ===== *)
theory DeviceProps
  imports Device BootProps OledProps "HOL-Library.Sublist"
begin

text \<open>
  The device as a whole: whatever benign events happen to it in any order, it never gets stuck and its
  data stay well formed; the console holds its power lock once or not at all; and what leaves over the
  serial links came in over classic Bluetooth.
\<close>

section \<open>Runs\<close>

lemma run_wf: "dev_run E sh es s s' \<Longrightarrow> dev_wf s \<Longrightarrow> dev_wf s'"
  by (induction rule: dev_run.induct) (auto dest: step_is_ok simp: step_ok_def)

text \<open>The state at reset, and one with both serial links up, are well formed.\<close>

lemma boot_wf: "dev_wf boot" "lock_ok boot" "\<not> halted boot"
  using dev_wf_boot [of 0 boot] by (simp_all add: reset_def boot_def lock_ok_def pm_count_def halted_def)

lemma linked1_wf: "dev_wf linked1" "\<not> halted linked1"
proof -
  have "only {P_ble, P_bt} boot linked1"
    unfolding linked1_def linked0_def by (intro only_intros) simp_all
  then show "dev_wf linked1"
    by (rule only_wf [OF _ boot_wf(1)])
      (auto simp: linked1_def linked0_def upd_ble_def upd_bt_def boot_def SPP_IDX_NB_def)
  show "\<not> halted linked1" by (simp add: halted_def)
qed

section \<open>Progress\<close>

text \<open>
  What the handlers and tasks rely on, beyond well-formed data: the messages queued for NAN can be read,
  and the BLE MTU is at least 23, the smallest that the Bluetooth specification allows.
\<close>

definition live :: "env \<Rightarrow> dev \<Rightarrow> bool" where
  "live E s \<longleftrightarrow> dev_wf s \<and> nan_safe E s \<and> 23 \<le> unat (spp_mtu_size (ble s))"

text \<open>
  Benign events: NAN frames as other nodes of this firmware send them; a radio that ends its
  transmissions, whatever else it delivers; BLE events with a legal MTU and a complete table of handles;
  serial messages of 1 to 20 bytes, which fit every MTU, and those that begin with \<open>l\<close> only with a LoRa
  chip; WiFi events if there is an event group \<open>g\<close>; a clock that prints ASCII; on the console, anything
  that is not one of the commands.  All other callbacks are benign as they are.
\<close>

fun benign_event :: "env \<Rightarrow> shell \<Rightarrow> bool \<Rightarrow> dev_event \<Rightarrow> bool" where
  "benign_event E sh g (PowerOn fb) \<longleftrightarrow> False"
| "benign_event E sh g (NanFrame type len frame) \<longleftrightarrow> from_peer len frame"
| "benign_event E sh g (Lora l) \<longleftrightarrow> sends_end E"
| "benign_event E sh g (Gatts (GattsMtu mtu) i) \<longleftrightarrow> 23 \<le> unat mtu"
| "benign_event E sh g (Gatts (GattsCreatAttrTab status n handles) i) \<longleftrightarrow> SPP_IDX_NB \<le> length handles"
| "benign_event E sh g (Spp (SppDataInd h c w)) \<longleftrightarrow> c \<noteq> [] \<and> length c \<le> 20 \<and>
     (hd c = 0x6C \<longrightarrow> (\<exists>R0. chip E R0) \<and> sends_end E)"
| "benign_event E sh g (WifiEv b n) \<longleftrightarrow> g"
| "benign_event E sh g (AdvTurn i) \<longleftrightarrow> False"
| "benign_event E sh g UiStart \<longleftrightarrow> (\<forall>h. rc E h (ApiS ''esp_pm_lock_create'' [''ui'']) = ESP_OK)"
| "benign_event E sh g UiRound \<longleftrightarrow> (\<forall>h. \<forall>b \<in> set (rb E h (ApiS ''strftime'' [''%T''])). b < 128)"
| "benign_event E sh g (Console (Line line)) \<longleftrightarrow>
     (case sh_lookup sh line of NotRun err \<Rightarrow> True | Calls i argv \<Rightarrow> length console_cmds \<le> i)"
| "benign_event E sh g e \<longleftrightarrow> True"

text \<open>Drawing runs on ASCII.\<close>

lemma writeChars_runs: "\<forall>c \<in> set cs. c < 128 \<Longrightarrow> \<exists>s'. writeChars cs s = Inr s'"
proof (induction cs arbitrary: s)
  case (Cons c cs)
  then have "c < 128" by simp
  then have "\<not> c > 128" "unat c < 128" by (simp_all add: word_less_nat_alt)
  then have "\<exists>t. writeChar c s = Inr t" by (simp add: writeChar_def font_length Let_def)
  then show ?case using Cons by auto
qed simp

lemma println_runs: "ascii x \<Longrightarrow> \<exists>s'. ui_println x s = Inr s'"
proof -
  assume a: "ascii x"
  have "\<forall>c \<in> set (map byte_of (take n x)). c < 128" for n
    using a by (auto simp: ascii_def word_less_nat_alt dest!: in_set_takeD)
  moreover have "\<forall>c \<in> set (replicate n (0x20 :: u8)). c < 128" for n by simp
  ultimately show ?thesis
    unfolding ui_println_def Let_def by (intro completes_bind writeChars_runs) auto
qed

lemma lines_run: "(\<And>f s. f \<in> set fs \<Longrightarrow> ascii (f s)) \<Longrightarrow> \<exists>s'. ui_lines fs s = Inr s'"
proof (induction fs arbitrary: s)
  case (Cons f fs)
  have "ascii (f s)" by (rule Cons.prems) simp
  then obtain t where t: "ui_println (f s) s = Inr t" using println_runs by blast
  have "\<exists>s'. ui_lines fs t = Inr s'" by (rule Cons.IH) (simp add: Cons.prems)
  then show ?case using t by simp
qed simp

lemma task_ui_runs:
  assumes "\<forall>h. \<forall>b \<in> set (rb E h (ApiS ''strftime'' [''%T''])). b < 128"
  shows "\<exists>s'. task_ui E s = Inr s'"
proof -
  have l: "ascii (snprintf20 (lora_line s))" "ascii (snprintf20 (nan_line s))"
    "ascii (snprintf20 (replicate 16 (CHR '' '')))" for s
    unfolding snprintf20_def
    by (rule ascii_take, simp add: lora_line_def nan_line_def Let_def ascii_dec,
        rule ascii_take, simp add: lora_line_def nan_line_def Let_def ascii_dec,
        rule ascii_take, simp add: ascii_def)
  have n: "ascii (map char_of_byte (got E (ApiS ''strftime'' [''%T'']) u))" for u
  proof -
    have "unat b < 128" if "b \<in> set (rb E (hist u) (ApiS ''strftime'' [''%T'']))" for b
      using assms that by (auto simp: word_less_nat_alt)
    then show ?thesis
      by (auto simp: ascii_def got_def char_of_byte_def intro: le_less_trans [OF mod_less_eq_dividend])
  qed
  show ?thesis
    unfolding task_ui_def Let_def split_def
    by (intro completes_bind lines_run) (auto simp: l n)
qed

text \<open>The parts that the invariant speaks of.\<close>

lemma nan_safe_same: "nan_safe E s \<Longrightarrow> nan t = nan s \<Longrightarrow> nan_safe E t"
  by (simp add: nan_safe_def nan_wf_def peer_of_def)

lemma live_only:
  assumes "only P s t" "P_nan \<notin> P" "P_ble \<notin> P" "P_wifi \<notin> P" "dev_wf t" "live E s"
  shows "live E t \<and> wifi t = wifi s"
  using onlyD [OF assms(1,2)] onlyD [OF assms(1,3)] onlyD [OF assms(1,4)] assms(5,6) nan_safe_same
  by (auto simp: live_def)

lemma live_nan:
  assumes "nan_step E e s = Inr t" "benign E e" "dev_wf t" "live E s"
  shows "live E t \<and> wifi t = wifi s"
proof -
  have o: "only {P_nan} s t" using nan_step_keeps [OF assms(1)] by (simp add: nan_keeps_def)
  have "nan_safe E t"
    using nan.step_safe [of E s e] assms(1,2,4) by (auto simp: live_def)
  then show ?thesis
    using onlyD [OF o, of P_ble] onlyD [OF o, of P_wifi] assms(3,4) by (simp add: live_def)
qed

lemma live_gatts:
  assumes "gatts_event_handler cb g i s = Inr t" "benign_event E sh b (Gatts g i)" "dev_wf t" "live E s"
  shows "live E t \<and> wifi t = wifi s"
proof -
  have w: "part_wf P_ble s" using assms(4) unfolding live_def by (intro dev_wfD) simp
  have o: "only {P_ble} s t" using only_gatts [OF assms(1) _ only_refl, of "{P_ble}"] w by simp
  have "23 \<le> unat (spp_mtu_size (ble t))"
    using assms(1,2,4) w by (cases g) (auto simp: live_def upd_ble_def Let_def split: if_splits)
  then show ?thesis
    using onlyD [OF o, of P_nan] onlyD [OF o, of P_wifi] assms(3,4) nan_safe_same [of E s t] by (simp add: live_def)
qed

lemma live_console:
  assumes "console_task E (run_line E sh) c s = Inr t" "benign_event E sh b (Console c)"
  shows "only {P_lock, P_pm} s t"
proof (cases c)
  case FirstChar
  then show ?thesis using assms(1) only_getlock [OF only_refl] by auto
next
  case NoLine
  then show ?thesis using assms(1) by (simp add: only_refl)
next
  case (Line line)
  obtain err where r: "run_line E sh line u = Inr (Some (err, 0), u)" for u
    using assms(2) Line by (auto simp: run_line_def split: lookup.splits)
  let ?u = "emit (Api ''linenoiseFree'' []) (console_report E err 0 (emit (ApiS ''linenoiseHistoryAdd'' [line]) s))"
  have "t = upd_con (\<lambda>v. v\<lparr>lock_held := False\<rparr>) (emit (ApiS ''esp_pm_lock_release'' [''dmsh'']) ?u)"
    using assms(1) Line by (simp add: Let_def r emits_def emit_def)
  then show ?thesis
    by (simp only:) (intro only_upd_con only_lock_emit only_emit only_report only_refl; simp)
qed

text \<open>A benign event keeps the invariant, and it has a step.\<close>

lemma benign_keeps:
  assumes "dev_step E sh e s t" "live E s" "benign_event E sh (wifi_group (wifi s)) e"
  shows "live E t \<and> wifi t = wifi s"
proof -
  have w: "dev_wf s" using assms(2) by (simp add: live_def)
  have t: "dev_wf t" using step_is_ok [OF assms(1) w] by (simp add: step_ok_def)
  note only = live_only [OF _ _ _ _ t assms(2)]
  from assms(1) show ?thesis
  proof (cases rule: dev_step.cases)
    case (nan_frame type len frame)
    show ?thesis
      by (rule live_nan [OF nan_frame(3) _ t assms(2)]) (use assms(3) nan_frame(1) in \<open>simp add: benign_def\<close>)
  next
    case nan_timer
    show ?thesis by (rule live_nan [OF nan_timer(3) _ t assms(2)]) (simp add: benign_def)
  next
    case nan_started
    show ?thesis by (rule live_nan [OF nan_started(3) _ t assms(2)]) (simp add: benign_def)
  next
    case (lora_task l)
    show ?thesis
      by (rule only [OF lora_step_only [OF lora_task(3)]]) (use dev_wfD [OF w, of P_lo] in simp_all)
  next
    case (gatts g i)
    show ?thesis by (rule live_gatts [OF gatts(3) _ t assms(2)]) (use assms(3) gatts(1) in simp)
  next
    case (spp p)
    show ?thesis
    proof (cases "\<exists>h v w. p = SppDataInd h v w")
      case True
      then obtain h v w where "p = SppDataInd h v w" by blast
      then have "onMessage E v (int (length v)) (sint w) s = Inr t" using spp(3) by simp
      from only [OF only_onMessage [OF this]] show ?thesis by simp
    next
      case False
      then have "only {P_bt} s t" using spp(3) by (cases p) (auto intro!: only_intros)
      from only [OF this] show ?thesis by simp
    qed
  next
    case (wifi b n)
    show ?thesis by (rule only [OF only_wifi_event [OF wifi(3) only_refl], of "{}"]) simp_all
  next
    case ui_start
    then have "check E (ApiS ''esp_pm_lock_create'' [''ui'']) s = Inr t" by (simp add: task_ui_start_def)
    from only [OF only_check [OF this only_refl], of "{}"] show ?thesis by simp
  next
    case ui
    have "only {P_line} s t" by (rule wpD [OF only_task_ui [OF only_refl] ui(3)]) simp
    from only [OF this] show ?thesis by simp
  next
    case (console c)
    have "only {P_lock, P_pm} s t" using live_console [OF console(3)] assms(3) console(1) by simp
    from only [OF this] show ?thesis by simp
  next
    case (lora_interrupt n)
    have "only {} s t" unfolding lora_interrupt by (simp add: lora_isr_handler_def only_intros)
    from only [OF this] show ?thesis by simp
  next
    case (gap ge)
    have "only {} s t" unfolding gap by (intro only_intros)
    from only [OF this] show ?thesis by simp
  next
    case (bt_gap be)
    have "only {} s t" unfolding bt_gap by (intro only_intros)
    from only [OF this] show ?thesis by simp
  qed (use assms(2,3) in \<open>simp_all add: esp_gattc_cb_def dmesh_timerCB_def\<close>)
qed

lemma serial_event_runs:
  assumes "live E s" "benign_event E sh g (Spp p)"
  shows "\<exists>t. esp_spp_cb (onMessage E) p s = Inr t"
proof (cases "\<exists>h v w. p = SppDataInd h v w")
  case True
  then obtain h c w where p: "p = SppDataInd h c w" by blast
  then have "routable E c s" using assms by (auto simp: routable_def live_def)
  from onMessage_serial [OF this] show ?thesis using p by auto
next
  case False
  then show ?thesis by (cases p) auto
qed

lemma benign_runs:
  assumes "live E s" "benign_event E sh (wifi_group (wifi s)) e" "\<not> halted s"
  shows "\<exists>t. dev_step E sh e s t"
proof -
  have wf: "part_wf p s" for p using assms(1) by (auto simp: live_def intro: dev_wfD)
  have nan: "\<exists>t. nan_step E n s = Inr t" if "benign E n" for n
    using nan.step_safe [of E s n] assms(1) that by (auto simp: live_def)
  show ?thesis
  proof (cases e)
    case (NanFrame type len frame)
    then have "benign E (Captured type len frame)" using assms(2) by (simp add: benign_def)
    from nan [OF this] obtain t where "nan_step E (Captured type len frame) s = Inr t" by blast
    from dev_step.nan_frame [OF assms(3) this] show ?thesis using NanFrame by blast
  next
    case NanTimer
    have "benign E TimerFired" by (simp add: benign_def)
    from nan [OF this] obtain t where "nan_step E TimerFired s = Inr t" by blast
    from dev_step.nan_timer [OF assms(3) this] show ?thesis using NanTimer by blast
  next
    case NanStarted
    have "benign E WifiStarted" by (simp add: benign_def)
    from nan [OF this] obtain t where "nan_step E WifiStarted s = Inr t" by blast
    from dev_step.nan_started [OF assms(3) this] show ?thesis using NanStarted by blast
  next
    case (Lora l)
    have "sends_end E" "lora_wf s" using assms(2) Lora wf [of P_lo] by simp_all
    then have "\<exists>t. lora_step E (onMessage E) l s = Inr t"
      using lora_read_event_runs lora_task_runs by (cases l) fastforce+
    then show ?thesis using Lora assms(3) by (auto intro: dev_step.lora_task)
  next
    case (Gatts g i)
    then have "\<exists>t. gatts_event_handler (onMessage E) g i s = Inr t"
      using assms(2) wf [of P_ble] by (cases g) (auto simp: Let_def)
    then show ?thesis using Gatts assms(3) by (auto intro: dev_step.gatts)
  next
    case (Spp p)
    then obtain t where "esp_spp_cb (onMessage E) p s = Inr t"
      using serial_event_runs [OF assms(1)] assms(2) by blast
    from dev_step.spp [OF assms(3) this] show ?thesis using Spp by blast
  next
    case (WifiEv b n)
    then have "\<exists>t. wifi_event_handler b n s = Inr t"
      using assms(2) by (simp add: wifi_event_handler_def group_call_def)
    then show ?thesis using WifiEv assms(3) by (auto intro: dev_step.wifi)
  next
    case UiStart
    then have "\<exists>t. task_ui_start E s = Inr t" using assms(2) by (simp add: task_ui_start_def check_def ret_def)
    then show ?thesis using UiStart assms(3) by (auto intro: dev_step.ui_start)
  next
    case UiRound
    then show ?thesis using task_ui_runs [of E s] assms(2,3) by (auto intro: dev_step.ui)
  next
    case (Console c)
    have "\<exists>t. console_task E (run_line E sh) c s = Inr t"
      using assms(2) Console by (cases c) (auto simp: run_line_def Let_def split: lookup.splits)
    then show ?thesis using Console assms(3) by (auto intro: dev_step.console)
  next
    case (Gap ge)
    then show ?thesis using assms(3) by (auto intro: dev_step.gap)
  next
    case (BtGap be)
    then show ?thesis using assms(3) by (auto intro: dev_step.bt_gap)
  next
    case (Gattc n)
    then show ?thesis using assms(3) by (auto intro: dev_step.gattc)
  next
    case (LoraInterrupt n)
    then show ?thesis using assms(3) by (auto intro: dev_step.lora_interrupt)
  next
    case MeshTimer
    then show ?thesis using assms(3) by (auto intro: dev_step.mesh_timer)
  qed (use assms(2) in simp_all)
qed

lemma benign_run_live:
  "dev_run E sh es s t \<Longrightarrow> live E s \<Longrightarrow> \<forall>e \<in> set es. benign_event E sh (wifi_group (wifi s)) e \<Longrightarrow>
   live E t \<and> wifi t = wifi s"
proof (induction rule: dev_run.induct)
  case (more es s t e u)
  then have "live E t \<and> wifi t = wifi s" by simp
  then show ?case using benign_keeps [OF more(2)] more.prems(2) by simp
qed simp

text \<open>
  C9: From a state in which the invariant holds, as after reset, and through any sequence of benign
  events, in which NAN frames, LoRa packets, BLE and serial callbacks, timers, task rounds and console
  lines follow each other in any order, the device never gets stuck: no handler and no task round
  reads or writes out of bounds, aborts or hangs, so that whatever benign event comes next has its step,
  until the device is told to restart or sleep.  Every part stays well formed on the way.
\<close>

theorem device_never_gets_stuck:
  assumes "dev_run E sh es s t" "live E s"
    and "\<forall>e' \<in> set (es @ [e]). benign_event E sh (wifi_group (wifi s)) e'" "\<not> halted t"
  shows "dev_wf t \<and> (\<exists>u. dev_step E sh e t u)"
proof -
  have l: "live E t" "wifi t = wifi s" using benign_run_live [OF assms(1,2)] assms(3) by auto
  then show ?thesis using benign_runs [OF l(1) _ assms(4), of sh e] assms(3) by (simp add: live_def)
qed

lemma live_boot: "live E boot"
proof -
  have "spp_mtu_size (ble boot) = 23" by (simp add: boot_def)
  then show ?thesis using boot_wf(1) boot_safe [of E] by (simp add: live_def)
qed

text \<open>A client connects over BLE and another over classic Bluetooth, then a message arrives.\<close>

theorem device_never_gets_stuck_witness:
  "\<exists>t u. dev_run quiet undefined [Gatts (GattsMtu 100) 3, Spp (SppSrvOpen 5)] boot t \<and>
     dev_step quiet undefined (Spp (SppDataInd 5 [1, 2] 0)) t u"
proof -
  let ?s1 = "upd_ble (\<lambda>v. v\<lparr>spp_mtu_size := 100\<rparr>) boot" and ?s2 = "\<lambda>s. upd_bt (\<lambda>v. v\<lparr>spp_handle := 5\<rparr>) s"
  have h: "\<not> halted ?s1" "\<not> halted (?s2 ?s1)"
    by (simp_all add: halted_def upd_ble_def upd_bt_def boot_def)
  have r: "dev_run quiet undefined (([] @ [Gatts (GattsMtu 100) 3]) @ [Spp (SppSrvOpen 5)]) boot (?s2 ?s1)"
    by (rule dev_run.more [OF dev_run.more [OF dev_run.start dev_step.gatts] dev_step.spp])
      (simp_all add: h boot_wf)
  then have "\<exists>u. dev_step quiet undefined (Spp (SppDataInd 5 [1, 2] 0)) (?s2 ?s1) u"
    using device_never_gets_stuck [OF r live_boot, of "Spp (SppDataInd 5 [1, 2] 0)"] h(2) by simp
  then show ?thesis using r by auto
qed

section \<open>The power lock\<close>

lemma run_lock:
  "dev_run E sh es s s' \<Longrightarrow> dev_wf s \<Longrightarrow> lock_ok s \<or> (\<exists>fb. PowerOn fb \<in> set es) \<Longrightarrow> lock_ok s'"
proof (induction rule: dev_run.induct)
  case (more es s t e u)
  then show ?case using step_is_ok [OF more(2)] run_wf [OF more(1)] by (auto simp: step_ok_def)
qed simp

lemma getlock_count: "lock_ok s \<Longrightarrow> pm_count (hist (getlock s)) = 1"
  by (simp add: getlock_def lock_ok_def pm_count_append upd_con_def)

lemma getlock_runs: "\<not> halted s \<Longrightarrow> \<not> halted (getlock s)"
  by (simp add: getlock_def halted_def upd_con_def)

text \<open>
  C11: After a power-on that completes, the console holds the lock that keeps the chip awake once or
  not at all, as its flag says, whatever else runs; the first character of a line takes it, and an
  empty line does not give it back.
\<close>

theorem power_lock_is_balanced:
  assumes "dev_run E sh es s s'" "dev_wf s" "lock_ok s \<or> (\<exists>fb. PowerOn fb \<in> set es)" "\<not> halted s'"
  shows "pm_count (hist s') = (if lock_held (con s') then 1 else 0) \<and>
    dev_run E sh (es @ [Console FirstChar, Console NoLine]) s (getlock s') \<and> pm_count (hist (getlock s')) = 1"
proof -
  have l: "lock_ok s'" by (rule run_lock [OF assms(1-3)])
  have "dev_run E sh ((es @ [Console FirstChar]) @ [Console NoLine]) s (getlock s')"
    by (rule dev_run.more [OF dev_run.more [OF assms(1) dev_step.console] dev_step.console])
      (simp_all add: assms(4) getlock_runs)
  then show ?thesis using l getlock_count [OF l] by (simp add: lock_ok_def)
qed

theorem power_lock_is_balanced_witness:
  "\<exists>s'. dev_run quiet undefined [Console FirstChar, Console NoLine] boot s' \<and> pm_count (hist s') = 1"
  using power_lock_is_balanced [OF dev_run.start, of boot quiet undefined] boot_wf by auto

section \<open>What leaves over the serial links\<close>

lemma ble_loop_bt: "ble_loop f mtu data sz t c buf s = Inr s' \<Longrightarrow> bt s' = bt s"
  by (induction f arbitrary: c buf s)
    (fastforce simp: bindE_eq_Inr Let_def indicate_emit split: if_split_asm)+

lemma bleSend_bt: "bleSend E k c n s = Inr s' \<Longrightarrow> bt s' = bt s"
  unfolding bleSend_def Let_def
  by (fastforce simp: bindE_eq_Inr indicate_emit simp del: ble_loop.simps dest: ble_loop_bt split: if_split_asm)

lemma ble_loop_written:
  "ble_loop f mtu data sz n c buf s = Inr s' \<Longrightarrow> written (hist s') = written (hist s)"
  by (induction f arbitrary: c buf s)
    (fastforce simp: bindE_eq_Inr Let_def indicate_emit notify_def split: if_split_asm)+

lemma bleSend_written: "bleSend E k c n s = Inr s' \<Longrightarrow> written (hist s') = written (hist s)"
  unfolding bleSend_def Let_def
  by (fastforce simp: bindE_eq_Inr indicate_emit notify_def simp del: ble_loop.simps
      dest: ble_loop_written split: if_split_asm)

lemma onMessage_written:
  assumes "onMessage E c (int (length c)) k s = Inr t"
  shows "written (hist t) = written (hist s) @
    (if bt_target s \<noteq> 0 then [(uint (bt_target s), c)] else [])"
proof -
  obtain u v where u: "u = s \<or> loraSend E 0 c (int (length c)) s = Inr u"
    and v: "bleSend E 0 c (int (length c)) u = Inr v" and t: "btSend 0 c (int (length c)) v = Inr t"
    using assms by (auto simp: onMessage_def bindE_eq_Inr split: if_splits)
  have "bt v = bt s" "written (hist v) = written (hist s)"
    using u loraSend_serial [of E 0 c "int (length c)" s u] bleSend_bt [OF v] bleSend_written [OF v] by auto
  then show ?thesis using t by (auto simp: btSend_eq bt_target_def split: if_splits)
qed

lemma step_written:
  assumes "dev_step E sh e s t" "dev_wf s"
  shows "\<exists>outs. written (hist t) = written (hist s) @ outs \<and> subseq (map snd outs) (serial_data [e])"
proof (cases "serial_data [e] = []")
  case True
  then have "written (hist t) = written (hist s)" using step_is_ok [OF assms] by (simp add: step_ok_def)
  then show ?thesis by (intro exI [of _ "[]"]) simp
next
  case False
  then obtain h v w where e: "e = Spp (SppDataInd h v w)"
    by (cases "[e]" rule: serial_data.cases) auto
  then have "onMessage E v (int (length v)) (sint w) s = Inr t" using assms(1) by (auto elim: dev_step_sppE)
  from onMessage_written [OF this] show ?thesis using e by auto
qed

text \<open>
  C10: What the device writes on serial connections are messages that arrived on one, unchanged, in
  order and at most once each; without such a message it sends no BLE notification either, whatever
  LoRa packets and BLE writes it receives.
\<close>

theorem only_serial_messages_are_routed:
  assumes "dev_run E sh es s s'" "dev_wf s"
  shows "\<exists>outs. written (hist s') = written (hist s) @ outs \<and> subseq (map snd outs) (serial_data es) \<and>
    (serial_data es = [] \<longrightarrow> notified (hist s') = notified (hist s))"
  using assms
proof (induction rule: dev_run.induct)
  case (more es s t e u)
  then obtain outs where o: "written (hist t) = written (hist s) @ outs" "subseq (map snd outs) (serial_data es)"
    "serial_data es = [] \<Longrightarrow> notified (hist t) = notified (hist s)" by auto
  have t: "dev_wf t" using run_wf more by blast
  obtain outs' where o': "written (hist u) = written (hist t) @ outs'" "subseq (map snd outs') (serial_data [e])"
    using step_written [OF more(2) t] by blast
  have "serial_data [e] = [] \<Longrightarrow> notified (hist u) = notified (hist t)"
    using step_is_ok [OF more(2) t] by (simp add: step_ok_def)
  then show ?case
    using o o' by (intro exI [of _ "outs @ outs'"]) (auto simp: serial_data_append list_emb_append_mono)
qed (intro exI [of _ "[]"], simp)

theorem only_serial_messages_are_routed_witness:
  "\<exists>s'. dev_run quiet undefined [Gatts (GattsWrite [9]) 3, Spp (SppDataInd 7 [1, 2] 0)] linked1 s' \<and>
    subseq (map snd (written (hist s'))) [[1, 2]] \<and> written (hist s') = [(5, [1, 2])]"
proof -
  have "ble_ready [1, 2] linked1" by (simp add: ble_ready_def)
  from serial.both_out [OF this, of quiet] obtain s' where
    s': "onMessage quiet [1, 2] 2 0 linked1 = Inr s'" "written (hist s') = [(5, [1, 2])]"
    using onMessage_send [of "[1, 2]" quiet 0 linked1] by auto
  have a: "dev_step quiet undefined (Gatts (GattsWrite [9]) 3) linked1 linked1"
    using dev_wfD [OF linked1_wf(1), of P_ble] linked1_wf(2) by (auto intro!: dev_step.gatts)
  have b: "dev_step quiet undefined (Spp (SppDataInd 7 [1, 2] 0)) linked1 s'"
    using s'(1) linked1_wf(2) by (auto intro!: dev_step.spp)
  have r: "dev_run quiet undefined (([] @ [Gatts (GattsWrite [9]) 3]) @ [Spp (SppDataInd 7 [1, 2] 0)]) linked1 s'"
    by (rule dev_run.more [OF dev_run.more [OF dev_run.start a] b])
  from only_serial_messages_are_routed [OF r linked1_wf(1)] r s'(2) show ?thesis by auto
qed

end
