(* ===== verification/Spec2Isabelle.thy ===== *)
theory Spec2Isabelle
  imports BleGatt LoraLink SleepProps StationProps HciProps OledProps I2cProps NvsProps CommandProps DeviceProps
begin

text \<open>
  The dmesh-l2 firmware for the ESP32: a node that exchanges messages over WiFi NAN frames, LoRa,
  Bluetooth LE and classic Bluetooth, routes what it receives, shows its state on a display and is
  driven from a serial console.  This library models the C code under \<open>src/esp32/\<close> and proves what it
  does, including where it goes wrong.

  \<^bold>\<open>How the code is modelled.\<close>  Each translation unit has a record of its file-scope variables
  (theory \<open>Globals\<close>); the record \<open>dev\<close> holds them all beside \<open>hist\<close>, the calls into ESP-IDF,
  FreeRTOS and the chips made so far.  None of these is under \<open>src/\<close>, so they are an environment
  \<open>env\<close> that answers a call from the history before it (theory \<open>Platform\<close>); what a theorem needs of
  them it states as a hypothesis.  A C function becomes a function on \<open>dev\<close>; one that can run into
  undefined behaviour, a failed \<open>assert\<close> or \<open>ESP_ERROR_CHECK\<close>, or an endless loop returns
  \<open>fault + ...\<close> (theory \<open>Prelude\<close>), every access to a buffer being checked against its size.  Bytes
  and the times that wrap around are words (also the signed ones, whose overflow the standard leaves
  undefined); an \<open>int\<close> far from its limits is an \<open>int\<close>.  The reply buffer \<open>resBuf\<close> of the NAN driver is
  declared \<open>const\<close> and written to all the same, which is undefined; the model takes it to be writable.  Loops that may
  not end are \<open>partial_function\<close>s whose \<open>None\<close> is the fault \<open>Diverge\<close> (\<open>wait_tx_done\<close>,
  \<open>list_loop\<close>).  A task is a function for one round or for one turn between two waits, an interrupt or
  callback a function for one event, and interleavings are lists of events (\<open>run_all\<close>, with the
  locales \<open>invariant_machine\<close> and \<open>safe_machine\<close> for invariants and progress).  The theory \<open>Device\<close>
  has the whole: its inductive relation \<open>dev_step\<close> is one event anywhere on the device, \<open>dev_run\<close> any
  interleaving of them.  An event that faults has no step, so what is said of all runs is partial
  correctness; that benign events do have their steps is the progress theorem of \<open>DeviceProps\<close>.

  \<^bold>\<open>Parts, theories and sources.\<close>
  \<^item> NAN driver, \<open>components/esp-nan-aware/nan.c\<close>, \<open>nan.h\<close>, \<open>beacons.c\<close>: \<open>NanSend\<close> builds and sends
    frames and keeps the queue; \<open>NanRecv\<close> is the promiscuous callback (\<open>sniffer_cb1\<close>,
    \<open>handleBeacon\<close>, \<open>handleDAF\<close>); \<open>NanTimer\<close> the timer, start, stop and the command.
    \<open>NanExchange\<close>, \<open>NanBeacons\<close>, \<open>NanNodes\<close>, \<open>NanMachine\<close> and \<open>NanLife\<close> prove message exchange,
    beacon handling, attribute walking, the data invariant, freedom from faults and the life cycle.
  \<^item> LoRa, \<open>components/l2lora/lora_drv.c\<close>, \<open>lora.c\<close>, \<open>lora.h\<close>: \<open>LoraDrv\<close> is the SX1276 driver,
    \<open>LoraTask\<close> its tasks.  \<open>LoraChip\<close> models the chip's registers as what the SPI transfers in the
    history make of them, and \<open>LoraRadio\<close> proves what is put on air, received and stored.
    \<open>LoraLink\<close> joins two devices: the modulation both agree on, a packet held by the receiving chip
    (\<open>arrived\<close>), and what forwarding does to reception.
  \<^item> Bluetooth, \<open>components/l2-ble-bt/\<close>: \<open>BleSpp\<close> (\<open>ble_spp_server.c\<close>, messages cut into
    notifications; \<open>BleFrag\<close> proves that they can be put together; \<open>BleGatt\<close> has the attribute table
    and what a client discovers in it), \<open>BtSpp\<close> (\<open>bt_spp_server.c\<close>) and
    \<open>Hci\<close> (\<open>ble_hci.c\<close>, raw advertising commands; \<open>HciProps\<close>).
  \<^item> Routing, \<open>components/l3dmesh/dmesh.c\<close>: \<open>Dmesh\<close>.  \<open>onMessage\<close> is the callback of every transport
    and calls the send function of each; \<open>Transports\<close> states what a transport owes it as the locales
    \<open>l2_send\<close> and \<open>l2_pair\<close>, interprets them on the three send functions and proves forwarding.
  \<^item> Display, \<open>components/ssd1306/\<close> and \<open>main/ui.c\<close>: \<open>Font\<close> is the table, \<open>Oled\<close> the driver and task,
    \<open>OledProps\<close> rebuilds the display memory from the bus transactions and proves what is shown.
  \<^item> Console: \<open>Nvs\<close> and \<open>Console\<close> (\<open>main/console.c\<close>), \<open>I2cTools\<close> (\<open>components/i2c/i2ctools.c\<close>),
    \<open>System\<close> (\<open>components/l3dmesh/cmd_system.c\<close>, \<open>components/gpio/cmd_gpio.c\<close>) and \<open>Wifi\<close>
    (\<open>main/wifi_sta_ap.c\<close>).  \<open>Text\<close> has \<open>printf\<close>'s conversions and \<open>strtol\<close> with their round trips;
    \<open>I2cProps\<close> proves the tables the bus tools print, \<open>NvsProps\<close> what setting and getting promise on a
    store given as a map rebuilt from the history.  \<open>Commands\<close> has the option tables, what each
    handler takes from a parsed one and the list of the commands a line can call; \<open>CommandProps\<close>
    proves that list to be what is registered, and which commands may rely on their options.
    \<open>SleepProps\<close> keeps the armed wake-up sources as what the history makes of them and proves what the
    sleep commands leave armed; \<open>StationProps\<close> does so with the event group and the attempts to connect.
  \<^item> Start, \<open>main/main.c\<close>: \<open>Boot\<close>; \<open>BootProps\<close> proves that the device comes up.
  \<^item> The device: \<open>Parts\<close> divides the state and the history into parts, and \<open>only P s s'\<close> says that a
    function changed no part outside \<open>P\<close>; \<open>LoraFrames\<close> and \<open>Frames\<close> prove such a lemma for every
    operation.  \<open>Device\<close> composes the parts and shows that a step keeps each well formed;
    \<open>DeviceProps\<close> proves progress, from the invariant \<open>live\<close> and for the events \<open>benign_event\<close>, and states
    what holds in all runs.

  \<^bold>\<open>What the properties show.\<close>  Functional: frames, beacons, routing, display, scan, sleep, start.
  Invariants: connections and the WiFi driver stay consistent, the settings of the radio are independent,
  the power lock of the console is balanced in any interleaving.  Safety: the NAN driver, the LoRa tasks and
  the whole device get through any interleaving of benign events without a fault.  Error behaviour: which
  inputs overflow, fault or are lost.  Round
  trips: fragments, HCI packets, beacons, settings, a radio message from one device to another.  Refinement: sending against the radio's
  registers, drawing against the display memory.  Equivalence: the dump against the chip's registers
  whatever the size of its reads.  Termination and liveness: the wait for a transmission, the timer,
  the advertising task, the station that connects again.

  \<^bold>\<open>Bounds.\<close>  \<open>ble_loop\<close> has a counter of eight bits and returns to 0 after 256 rounds; its fuel of 257
  is therefore never used up before it ends or faults.  \<open>version_loop\<close> ends after 100 polls as in the
  code.  Every other recursion is structural or has a measure.

  \<^bold>\<open>Not modelled.\<close>  Log output (\<open>ESP_LOGI\<close> and its relatives).  The libraries argtable3, \<open>linenoise\<close>
  and \<open>esp_console\<close> are the record \<open>shell\<close>: how a line is looked up and what a parse leaves in a table
  are arguments, and a registration is the call with the name of the command.  The commands \<open>wifi\<close> and
  \<open>hci\<close> are modelled although no line reaches them: the first faults while it is parsed and the second
  is not registered.  Branches the build configuration excludes (ESP8266, \<open>NOTUSED\<close>).
  \<open>pkg/l2/nl80211/nl80211.h\<close> is a vendored kernel header without code, and the Go packages, the
  CC2540 sniffer and the scripts are not part of the firmware.
\<close>

end
